(* ===== verification/Prelude.thy ===== *)
theory Prelude
  imports Main "HOL-Library.Word" "HOL-Library.Code_Target_Numeral"
begin

text \<open>
  Shared vocabulary of the development: the type names of the Go side, Go error values
  (errno values, wrapped errors, panics), the simplification collections the component
  theories fill, and generic lemmas on option, sum and list values.

  A Go function that returns \<open>(T, error)\<close> is a function into \<open>goerr + T\<close>;
  one that also changes the machine it runs on takes the world and returns the new one.
\<close>

unbundle bit_operations_syntax

section \<open>Collections\<close>

named_theorems go_string_simps \<open>evaluation rules of the string and path routines\<close>
named_theorems world_simps \<open>what the operations of the operating system keep and change\<close>
named_theorems task_simps \<open>unfolding rules of the task modules\<close>
named_theorems var_simps \<open>lookup rules of variable stores\<close>

section \<open>Types\<close>

type_synonym bytes = string
type_synonym filemode = "32 word"
type_synonym u32 = "32 word"

text \<open>The \<^verbatim>\<open>syscall.Errno\<close> values the program distinguishes or passes on.\<close>

datatype errno =
    ENOENT | EEXIST | ENOTDIR | EISDIR | ENOTEMPTY | ELOOP | EINVAL | EPERM | EACCES
  | ENAMETOOLONG | EIO

text \<open>
  Go error values. \<open>Wrap m e\<close> is \<^verbatim>\<open>fmt.Errorf("m: %w", e)\<close>; \<open>Panic\<close> is a run-time
  panic (index out of range, nil dereference), which the program never recovers from;
  \<open>Diverge\<close> is the answer of a recursion whose fuel is used up.
\<close>

datatype goerr =
    OsErr errno
  | ErrMsg string
  | InvalidMode
  | ExitError int
  | Wrap string goerr
  | Panic string
  | Diverge

primrec unwrapped :: "goerr \<Rightarrow> goerr" where
  "unwrapped (OsErr e) = OsErr e"
| "unwrapped (ErrMsg m) = ErrMsg m"
| "unwrapped InvalidMode = InvalidMode"
| "unwrapped (ExitError c) = ExitError c"
| "unwrapped (Wrap m e) = unwrapped e"
| "unwrapped (Panic m) = Panic m"
| "unwrapped Diverge = Diverge"

text \<open>\<^verbatim>\<open>errors.Is(err, fs.ErrNotExist)\<close> and \<^verbatim>\<open>errors.Is(err, fs.ErrExist)\<close> on errno values.\<close>

definition is_not_exist :: "errno \<Rightarrow> bool" where
  "is_not_exist e \<longleftrightarrow> e = ENOENT"

definition is_exist :: "errno \<Rightarrow> bool" where
  "is_exist e \<longleftrightarrow> e = EEXIST \<or> e = ENOTEMPTY"

definition is_panic :: "goerr \<Rightarrow> bool" where
  "is_panic e \<longleftrightarrow> (\<exists>m. unwrapped e = Panic m)"

lemma is_not_exist_simps [simp]:
  "is_not_exist ENOENT" "e \<noteq> ENOENT \<Longrightarrow> \<not> is_not_exist e"
  by (simp_all add: is_not_exist_def)

lemma is_panic_simps [simp]:
  "is_panic (Panic m)" "\<not> is_panic (OsErr n)" "\<not> is_panic (ErrMsg m)" "\<not> is_panic InvalidMode"
  "\<not> is_panic (ExitError c)" "is_panic (Wrap m e) = is_panic e" "\<not> is_panic Diverge"
  by (simp_all add: is_panic_def)

section \<open>Sums and options\<close>

lemma sum_case_Inr_iff:
  "(case x of Inl e \<Rightarrow> Inl e | Inr y \<Rightarrow> f y) = Inr z \<longleftrightarrow> (\<exists>y. x = Inr y \<and> f y = Inr z)"
  by (cases x) auto

lemma option_case_None_iff:
  "(case x of None \<Rightarrow> None | Some y \<Rightarrow> f y) = Some z \<longleftrightarrow> (\<exists>y. x = Some y \<and> f y = Some z)"
  by (cases x) auto

lemma if_Inl_Inr_iff: "(if b then Inl e else Inr x) = Inr y \<longleftrightarrow> \<not> b \<and> x = y"
  by auto

text \<open>Go on with the value, or return the error: \<^verbatim>\<open>if err != nil { return err }\<close>.\<close>

definition and_then :: "'e + 'a \<Rightarrow> ('a \<Rightarrow> 'e + 'b) \<Rightarrow> 'e + 'b" where
  "and_then x f = (case x of Inl e \<Rightarrow> Inl e | Inr y \<Rightarrow> f y)"

lemma and_then_simps [simp]: "and_then (Inl e) f = Inl e" "and_then (Inr y) f = f y"
  by (simp_all add: and_then_def)

lemma and_then_Inr_iff: "and_then x f = Inr z \<longleftrightarrow> (\<exists>y. x = Inr y \<and> f y = Inr z)"
  by (cases x) simp_all

lemma and_then_cong [fundef_cong]: "x = y \<Longrightarrow> (\<And>z. y = Inr z \<Longrightarrow> f z = g z) \<Longrightarrow> and_then x f = and_then y g"
  by (cases y) simp_all

text \<open>A left-to-right pass over a list that stops at the first error.\<close>

fun fold_err :: "('s \<Rightarrow> 'a \<Rightarrow> 'e + 's) \<Rightarrow> 's \<Rightarrow> 'a list \<Rightarrow> 'e + 's" where
  "fold_err f s [] = Inr s"
| "fold_err f s (x # xs) = (case f s x of Inl e \<Rightarrow> Inl e | Inr s' \<Rightarrow> fold_err f s' xs)"

lemma fold_err_append:
  "fold_err f s (xs @ ys) = (case fold_err f s xs of Inl e \<Rightarrow> Inl e | Inr s' \<Rightarrow> fold_err f s' ys)"
  by (induction xs arbitrary: s) (auto split: sum.split)

lemma fold_err_invariant:
  assumes "fold_err f s xs = Inr t" and "P s"
    and "\<And>s x t. x \<in> set xs \<Longrightarrow> P s \<Longrightarrow> f s x = Inr t \<Longrightarrow> P t"
  shows "P t"
  using assms
proof (induction xs arbitrary: s)
  case Nil
  then show ?case by simp
next
  case (Cons x xs)
  from Cons.prems(1) obtain u where "f s x = Inr u" and "fold_err f u xs = Inr t"
    by (auto simp: sum_case_Inr_iff)
  with Cons show ?case by (metis list.set_intros(1,2))
qed

section \<open>Permission bits\<close>

text \<open>
  \<^verbatim>\<open>io/fs.FileMode\<close>: the low nine bits are the Unix permissions, the type bits are at
  the top of the word (\<^verbatim>\<open>ModeDir = 1<<31\<close>, \<^verbatim>\<open>ModeSymlink = 1<<27\<close>, ...).
\<close>

definition perm_mask :: filemode where "perm_mask = 0x1FF"
definition mode_dir :: filemode where "mode_dir = 0x80000000"
definition mode_symlink :: filemode where "mode_symlink = 0x8000000"
definition mode_type :: filemode where "mode_type = 0x8F280000"

definition perm :: "filemode \<Rightarrow> filemode" where
  "perm m = m AND perm_mask"

definition is_dir_mode :: "filemode \<Rightarrow> bool" where
  "is_dir_mode m \<longleftrightarrow> m AND mode_dir \<noteq> 0"

definition is_symlink_mode :: "filemode \<Rightarrow> bool" where
  "is_symlink_mode m \<longleftrightarrow> m AND mode_symlink \<noteq> 0"

definition is_regular_mode :: "filemode \<Rightarrow> bool" where
  "is_regular_mode m \<longleftrightarrow> m AND mode_type = 0"

lemma perm_idem [simp]: "perm (perm m) = perm m"
  by (simp add: perm_def and.assoc)

lemma bit_perm_mask: "bit perm_mask n \<longleftrightarrow> n < 9"
proof -
  have eq: "perm_mask = mask 9" by (simp add: perm_mask_def mask_eq_exp_minus_1)
  show ?thesis unfolding eq bit_mask_iff by (auto simp: possible_bit_def)
qed

lemma bit_perm: "bit (perm m) n \<longleftrightarrow> bit m n \<and> n < 9"
  by (auto simp: perm_def bit_and_iff bit_perm_mask)

lemma perm_eq_iff: "perm m = m \<longleftrightarrow> (\<forall>n. bit m n \<longrightarrow> n < 9)"
proof
  assume "perm m = m"
  then show "\<forall>n. bit m n \<longrightarrow> n < 9" by (metis bit_perm)
next
  assume "\<forall>n. bit m n \<longrightarrow> n < 9"
  then show "perm m = m" by (intro bit_eqI) (auto simp: bit_perm)
qed

end
