(* ===== verification/GoStrings.thy ===== *)
theory GoStrings
  imports Prelude
begin

text \<open>
  The parts of Go's \<^verbatim>\<open>strings\<close>, \<^verbatim>\<open>strconv\<close> and \<^verbatim>\<open>path/filepath\<close> packages (Unix
  build) that the program calls. Strings are byte strings; the white space of \<^verbatim>\<open>TrimSpace\<close>
  and \<^verbatim>\<open>Fields\<close> and the case mapping of \<^verbatim>\<open>ToLower\<close> are the ASCII ones.
\<close>

section \<open>Package strings\<close>

definition has_prefix :: "string \<Rightarrow> string \<Rightarrow> bool" where
  "has_prefix s p \<longleftrightarrow> take (length p) s = p"

definition has_suffix :: "string \<Rightarrow> string \<Rightarrow> bool" where
  "has_suffix s p \<longleftrightarrow> length p \<le> length s \<and> drop (length s - length p) s = p"

text \<open>\<^verbatim>\<open>strings.Index\<close>: \<open>None\<close> is -1.\<close>

fun str_index :: "string \<Rightarrow> string \<Rightarrow> nat option" where
  "str_index [] sub = (if sub = [] then Some 0 else None)"
| "str_index (c # s) sub =
     (if has_prefix (c # s) sub then Some 0 else map_option Suc (str_index s sub))"

definition contains :: "string \<Rightarrow> string \<Rightarrow> bool" where
  "contains s sub \<longleftrightarrow> str_index s sub \<noteq> None"

text \<open>\<^verbatim>\<open>strings.IndexAny\<close>.\<close>

fun index_any :: "string \<Rightarrow> string \<Rightarrow> nat option" where
  "index_any [] cs = None"
| "index_any (c # s) cs = (if c \<in> set cs then Some 0 else map_option Suc (index_any s cs))"

text \<open>\<^verbatim>\<open>strings.Split\<close> (and \<^verbatim>\<open>SplitSeq\<close>) for a one-byte separator.\<close>

fun split_on :: "char \<Rightarrow> string \<Rightarrow> string list" where
  "split_on d [] = [[]]"
| "split_on d (c # s) =
     (if c = d then [] # split_on d s
      else (case split_on d s of [] \<Rightarrow> [[c]] | t # ts \<Rightarrow> (c # t) # ts))"

fun join_with :: "string \<Rightarrow> string list \<Rightarrow> string" where
  "join_with sep [] = []"
| "join_with sep [s] = s"
| "join_with sep (s # t # ts) = s @ sep @ join_with sep (t # ts)"

definition is_space :: "char \<Rightarrow> bool" where
  "is_space c \<longleftrightarrow> c \<in> {CHR '' '', CHR 0x09, CHR 0x0A, CHR 0x0B, CHR 0x0C, CHR 0x0D}"

definition trim_left :: "(char \<Rightarrow> bool) \<Rightarrow> string \<Rightarrow> string" where
  "trim_left P s = dropWhile P s"

definition trim_right :: "(char \<Rightarrow> bool) \<Rightarrow> string \<Rightarrow> string" where
  "trim_right P s = rev (dropWhile P (rev s))"

definition trim_space :: "string \<Rightarrow> string" where
  "trim_space s = trim_right is_space (trim_left is_space s)"

text \<open>\<^verbatim>\<open>strings.Trim(s, cutset)\<close>.\<close>

definition trim_set :: "string \<Rightarrow> string \<Rightarrow> string" where
  "trim_set s cs = trim_right (\<lambda>c. c \<in> set cs) (trim_left (\<lambda>c. c \<in> set cs) s)"

text \<open>\<^verbatim>\<open>strings.Fields\<close>: the maximal runs of non-space bytes.\<close>

fun fields_acc :: "string \<Rightarrow> string \<Rightarrow> string list" where
  "fields_acc acc [] = (if acc = [] then [] else [rev acc])"
| "fields_acc acc (c # s) =
     (if is_space c then (if acc = [] then fields_acc [] s else rev acc # fields_acc [] s)
      else fields_acc (c # acc) s)"

definition fields :: "string \<Rightarrow> string list" where
  "fields s = fields_acc [] s"

definition lower_char :: "char \<Rightarrow> char" where
  "lower_char c = (let n = of_char c :: nat in if 65 \<le> n \<and> n \<le> 90 then char_of (n + 32) else c)"

definition to_lower :: "string \<Rightarrow> string" where
  "to_lower s = map lower_char s"

subsection \<open>Facts\<close>

lemma split_on_ne [simp]: "split_on d s \<noteq> []"
  by (induction s) (auto split: list.split)

lemma join_split [simp]: "join_with [d] (split_on d s) = s"
proof (induction s)
  case Nil
  then show ?case by simp
next
  case (Cons c s)
  obtain t ts where ts: "split_on d s = t # ts"
    by (meson neq_Nil_conv split_on_ne)
  with Cons show ?case by (cases ts) auto
qed

lemma split_on_no_sep: "t \<in> set (split_on d s) \<Longrightarrow> d \<notin> set t"
proof (induction s arbitrary: t)
  case Nil
  then show ?case by simp
next
  case (Cons c s)
  obtain u us where us: "split_on d s = u # us"
    by (meson neq_Nil_conv split_on_ne)
  show ?case
  proof (cases "c = d \<or> t \<in> set us")
    case True
    with Cons us show ?thesis by (fastforce split: if_splits)
  next
    case False
    with Cons.prems us have "t = c # u" by simp
    moreover have "d \<notin> set u" using Cons.IH us by simp
    ultimately show ?thesis using False by auto
  qed
qed

lemma split_on_single: "d \<notin> set s \<Longrightarrow> split_on d s = [s]"
  by (induction s) auto

definition token :: "string \<Rightarrow> bool" where
  "token t \<longleftrightarrow> t \<noteq> [] \<and> list_all (\<lambda>c. \<not> is_space c) t"

lemma fields_acc_tokens:
  "list_all (\<lambda>c. \<not> is_space c) acc \<Longrightarrow> list_all token (fields_acc acc s)"
proof (induction acc s rule: fields_acc.induct)
  case (1 acc)
  then show ?case by (simp add: token_def)
next
  case (2 acc c s)
  show ?case
  proof (cases "is_space c")
    case True
    show ?thesis
    proof (cases "acc = []")
      case acc: True
      with True "2.IH"(1) show ?thesis by simp
    next
      case acc: False
      with "2.prems" have "token (rev acc)" by (simp add: token_def)
      with acc True "2.IH"(2) show ?thesis by simp
    qed
  next
    case False
    with "2.IH"(3) "2.prems" show ?thesis by simp
  qed
qed

lemma fields_tokens: "t \<in> set (fields s) \<Longrightarrow> token t"
  using fields_acc_tokens [of "[]" s] by (simp add: fields_def list_all_iff)

lemma fields_acc_blank: "\<forall>c\<in>set s. is_space c \<Longrightarrow> fields_acc [] s = []"
  by (induction s) auto

lemma fields_acc_ne: "acc \<noteq> [] \<or> (\<exists>c\<in>set s. \<not> is_space c) \<Longrightarrow> fields_acc acc s \<noteq> []"
  by (induction acc s rule: fields_acc.induct) auto

lemma fields_Nil_iff: "fields s = [] \<longleftrightarrow> (\<forall>c\<in>set s. is_space c)"
  using fields_acc_blank fields_acc_ne [of "[]" s] by (auto simp: fields_def)

lemma contains_empty [simp]: "contains s []"
  by (cases s) (simp_all add: contains_def has_prefix_def)

lemma contains_char: "contains s [c] \<longleftrightarrow> c \<in> set s"
  by (induction s) (auto simp: contains_def has_prefix_def)

section \<open>Package strconv\<close>

definition digit_val :: "char \<Rightarrow> nat option" where
  "digit_val c = (let n = of_char c :: nat in if 48 \<le> n \<and> n \<le> 57 then Some (n - 48) else None)"

definition digit_char :: "nat \<Rightarrow> char" where
  "digit_char d = char_of (48 + d)"

text \<open>The digit loop of \<^verbatim>\<open>ParseUint\<close>: every byte a digit below the base.\<close>

fun digits_val :: "nat \<Rightarrow> nat \<Rightarrow> string \<Rightarrow> nat option" where
  "digits_val b acc [] = Some acc"
| "digits_val b acc (c # s) =
     (case digit_val c of
        None \<Rightarrow> None
      | Some d \<Rightarrow> if d < b then digits_val b (acc * b + d) s else None)"

text \<open>
  \<^verbatim>\<open>strconv.ParseUint(s, base, bits)\<close> for a base up to 10: \<open>None\<close> is any error, a syntax error or a
  value out of range; the callers only ask whether there was one.
\<close>

definition parse_uint :: "nat \<Rightarrow> nat \<Rightarrow> string \<Rightarrow> nat option" where
  "parse_uint b bits s =
     (if s = [] then None
      else case digits_val b 0 s of
             None \<Rightarrow> None
           | Some n \<Rightarrow> if n < 2 ^ bits then Some n else None)"

text \<open>\<^verbatim>\<open>strconv.Atoi\<close>: an optional sign, decimal digits, in the range of a 64-bit int.\<close>

definition atoi :: "string \<Rightarrow> int option" where
  "atoi s =
     (let neg = has_prefix s ''-'';
          ds = (if has_prefix s ''-'' \<or> has_prefix s ''+'' then tl s else s)
      in if ds = [] then None
         else case digits_val 10 0 ds of
                None \<Rightarrow> None
              | Some n \<Rightarrow>
                  (let v = (if neg then - int n else int n)
                   in if - (2 ^ 63) \<le> v \<and> v < 2 ^ 63 then Some v else None))"

fun format_uint :: "nat \<Rightarrow> nat \<Rightarrow> string" where
  "format_uint b n =
     (if b < 2 \<or> n < b then [digit_char n] else format_uint b (n div b) @ [digit_char (n mod b)])"

declare format_uint.simps [simp del]

text \<open>\<^verbatim>\<open>strconv.FormatInt\<close> and \<^verbatim>\<open>FormatUint\<close>, base 2 to 10.\<close>

definition format_int :: "nat \<Rightarrow> int \<Rightarrow> string" where
  "format_int b n = (if n < 0 then CHR ''-'' # format_uint b (nat (- n)) else format_uint b (nat n))"

definition itoa :: "int \<Rightarrow> string" where
  "itoa n = format_int 10 n"

subsection \<open>Parsing a printed number gives it back\<close>

lemma digit_val_char: "d < 10 \<Longrightarrow> digit_val (digit_char d) = Some d"
  by (simp add: digit_val_def digit_char_def)

lemma digits_val_append:
  "digits_val b acc (s @ t) = (case digits_val b acc s of None \<Rightarrow> None | Some n \<Rightarrow> digits_val b n t)"
  by (induction b acc s rule: digits_val.induct) (auto split: option.split)

lemma format_uint_ne [simp]: "format_uint b n \<noteq> []"
  by (subst format_uint.simps) simp

lemma digits_val_format:
  assumes "2 \<le> b" "b \<le> 10"
  shows "digits_val b 0 (format_uint b n) = Some n"
  using assms
proof (induction b n rule: format_uint.induct)
  case (1 b n)
  show ?case
  proof (cases "n < b")
    case True
    with "1.prems" show ?thesis by (simp add: format_uint.simps [of b n] digit_val_char)
  next
    case False
    with "1.prems" have d: "n mod b < 10" "n mod b < b" by (auto intro: less_le_trans [of _ b])
    from False 1 have "digits_val b 0 (format_uint b (n div b)) = Some (n div b)" by simp
    with False "1.prems" d digit_val_char [OF d(1)] show ?thesis
      by (simp add: format_uint.simps [of b n] digits_val_append)
  qed
qed

lemma parse_format_uint:
  assumes "2 \<le> b" "b \<le> 10" "n < 2 ^ bits"
  shows "parse_uint b bits (format_uint b n) = Some n"
  using assms by (simp add: parse_uint_def digits_val_format)

end
