(* ===== verification/GoPath.thy ===== *)
theory GoPath
  imports GoStrings
begin

text \<open>
  Package \<^verbatim>\<open>path/filepath\<close> on Unix (package \<^verbatim>\<open>path\<close> has the same functions there):
  \<^verbatim>\<open>Clean\<close>, \<^verbatim>\<open>Join\<close>, \<^verbatim>\<open>Base\<close>, \<^verbatim>\<open>Dir\<close>, \<^verbatim>\<open>IsAbs\<close>, \<^verbatim>\<open>Rel\<close> and \<^verbatim>\<open>fs.ValidPath\<close>, and the
  facts about them that the tasks rely on.
\<close>

section \<open>Clean\<close>

definition slash :: char where "slash = CHR ''/''"

definition comps :: "string \<Rightarrow> string list" where
  "comps p = filter (\<lambda>c. c \<noteq> [] \<and> c \<noteq> ''.'') (split_on slash p)"

definition is_abs :: "string \<Rightarrow> bool" where
  "is_abs p \<longleftrightarrow> has_prefix p ''/''"

text \<open>
  One component of the cleaning pass over the output so far: \<open>..\<close> removes the component before
  it, is dropped at a root and kept at the front of a relative path.
\<close>

definition clean_step :: "bool \<Rightarrow> string list \<Rightarrow> string \<Rightarrow> string list" where
  "clean_step rooted out c =
     (if c = ''..'' then
        (if out \<noteq> [] \<and> last out \<noteq> ''..'' then butlast out
         else if rooted then out else out @ [''..''])
      else out @ [c])"

definition clean_comps :: "bool \<Rightarrow> string list \<Rightarrow> string list" where
  "clean_comps rooted cs = foldl (clean_step rooted) [] cs"

definition render_path :: "bool \<Rightarrow> string list \<Rightarrow> string" where
  "render_path rooted cs =
     (if rooted then ''/'' @ join_with ''/'' cs
      else if cs = [] then ''.'' else join_with ''/'' cs)"

definition clean :: "string \<Rightarrow> string" where
  "clean p = render_path (is_abs p) (clean_comps (is_abs p) (comps p))"

section \<open>Join, Base, Dir\<close>

definition path_join :: "string list \<Rightarrow> string" where
  "path_join es =
     (let es' = dropWhile (\<lambda>e. e = []) es in if es' = [] then [] else clean (join_with ''/'' es'))"

definition path_base :: "string \<Rightarrow> string" where
  "path_base p =
     (if p = [] then ''.''
      else (let q = trim_right (\<lambda>c. c = slash) p in
            if q = [] then ''/'' else last (split_on slash q)))"

text \<open>What precedes the last slash, that slash included; cleaned.\<close>

definition path_dir :: "string \<Rightarrow> string" where
  "path_dir p = clean (rev (dropWhile (\<lambda>c. c \<noteq> slash) (rev p)))"

text \<open>\<^verbatim>\<open>fs.ValidPath\<close>: unrooted, without empty, dot or dot-dot elements; \<open>.\<close> is the root.\<close>

definition valid_path :: "string \<Rightarrow> bool" where
  "valid_path p \<longleftrightarrow> p = ''.'' \<or> list_all (\<lambda>c. c \<noteq> [] \<and> c \<noteq> ''.'' \<and> c \<noteq> ''..'') (split_on slash p)"

section \<open>Rel\<close>

fun drop_common :: "string list \<Rightarrow> string list \<Rightarrow> string list \<times> string list" where
  "drop_common (x # xs) (y # ys) = (if x = y then drop_common xs ys else (x # xs, y # ys))"
| "drop_common xs ys = (xs, ys)"

text \<open>
  \<^verbatim>\<open>filepath.Rel(base, targ)\<close>: \<open>None\<close> is the error that the target cannot be made relative (one of
  the two is absolute, or the base still holds a \<open>..\<close> the target does not share).
\<close>

definition path_rel :: "string \<Rightarrow> string \<Rightarrow> string option" where
  "path_rel base targ =
     (let b = clean_comps (is_abs base) (comps base);
          t = clean_comps (is_abs targ) (comps targ)
      in if is_abs base \<noteq> is_abs targ then None
         else (case drop_common b t of (b', t') \<Rightarrow>
                 if ''..'' \<in> set b' then None
                 else Some (render_path False (replicate (length b') ''..'' @ t'))))"

section \<open>Facts\<close>

text \<open>A component: a non-empty string without a slash, and not the dot.\<close>

definition comp_ok :: "string \<Rightarrow> bool" where
  "comp_ok c \<longleftrightarrow> c \<noteq> [] \<and> c \<noteq> ''.'' \<and> slash \<notin> set c"

lemma comps_ok: "list_all comp_ok (comps p)"
  by (auto simp: comps_def list_all_iff comp_ok_def dest: split_on_no_sep)

lemma clean_step_ok: "list_all comp_ok out \<Longrightarrow> comp_ok c \<Longrightarrow> list_all comp_ok (clean_step r out c)"
  by (auto simp: clean_step_def list_all_iff dest: in_set_butlastD)

lemma clean_comps_ok: "list_all comp_ok cs \<Longrightarrow> list_all comp_ok (clean_comps r cs)"
proof (induction cs rule: rev_induct)
  case Nil
  then show ?case by (simp add: clean_comps_def)
next
  case (snoc c cs)
  then show ?case by (simp add: clean_comps_def clean_step_ok)
qed

text \<open>A clean list of components: dot-dots only in front, and none under a root.\<close>

definition cleaned :: "bool \<Rightarrow> string list \<Rightarrow> bool" where
  "cleaned r cs \<longleftrightarrow>
     (\<exists>n ts. cs = replicate n ''..'' @ ts \<and> ''..'' \<notin> set ts \<and> (r \<longrightarrow> n = 0))"

lemma cleanedI:
  "cs = replicate n ''..'' @ ts \<Longrightarrow> ''..'' \<notin> set ts \<Longrightarrow> (r \<Longrightarrow> n = 0) \<Longrightarrow> cleaned r cs"
  unfolding cleaned_def by blast

lemma clean_step_cleaned:
  assumes "cleaned r out"
  shows "cleaned r (clean_step r out c)"
proof -
  from assms obtain n ts where out: "out = replicate n ''..'' @ ts"
    and ts: "''..'' \<notin> set ts" and r: "r \<longrightarrow> n = 0"
    by (auto simp: cleaned_def)
  consider (name) "c \<noteq> ''..''" | (pop) "c = ''..''" "ts \<noteq> []" | (up) "c = ''..''" "ts = []"
    by blast
  then show ?thesis
  proof cases
    case name
    then have "clean_step r out c = replicate n ''..'' @ (ts @ [c])"
      by (simp add: clean_step_def out)
    with name ts r show ?thesis by (intro cleanedI [where n = n and ts = "ts @ [c]"]) auto
  next
    case pop
    then have "last out \<noteq> ''..''" using ts out by (metis last_appendR last_in_set)
    with pop out have "clean_step r out c = replicate n ''..'' @ butlast ts"
      by (simp add: clean_step_def butlast_append)
    with ts r show ?thesis
      by (intro cleanedI [where n = n and ts = "butlast ts"]) (auto dest: in_set_butlastD)
  next
    case up
    show ?thesis
    proof (cases r)
      case True
      with r out up show ?thesis
        by (intro cleanedI [where n = 0 and ts = "[]"]) (simp_all add: clean_step_def)
    next
      case False
      have "out \<noteq> [] \<Longrightarrow> last out = ''..''" using out up by auto
      with False up have "clean_step r out c = out @ [''..'']" by (auto simp: clean_step_def)
      then have "clean_step r out c = replicate (Suc n) ''..'' @ []"
        using out up by (simp add: replicate_append_same)
      with False show ?thesis by (intro cleanedI [where n = "Suc n" and ts = "[]"]) simp_all
    qed
  qed
qed

lemma clean_comps_cleaned: "cleaned r (clean_comps r cs)"
proof (induction cs rule: rev_induct)
  case Nil
  show ?case by (intro cleanedI [where n = 0 and ts = "[]"]) (simp_all add: clean_comps_def)
next
  case (snoc c cs)
  then show ?case by (simp add: clean_comps_def clean_step_cleaned)
qed

lemma clean_comps_names:
  "''..'' \<notin> set cs \<Longrightarrow> foldl (clean_step r) out cs = out @ cs"
  by (induction cs arbitrary: out) (auto simp: clean_step_def)

lemma clean_comps_ups: "foldl (clean_step False) (replicate m ''..'') (replicate n ''..'') = replicate (m + n) ''..''"
proof (induction n arbitrary: m)
  case 0
  then show ?case by simp
next
  case (Suc n)
  have "clean_step False (replicate m ''..'') ''..'' = replicate (Suc m) ''..''"
    by (cases m) (auto simp: clean_step_def replicate_append_same)
  with Suc.IH [of "Suc m"] show ?case by simp
qed

lemma clean_comps_fixed:
  assumes "cleaned r cs"
  shows "clean_comps r cs = cs"
proof -
  from assms obtain n ts where cs: "cs = replicate n ''..'' @ ts"
    and ts: "''..'' \<notin> set ts" and r: "r \<longrightarrow> n = 0"
    by (auto simp: cleaned_def)
  show ?thesis
  proof (cases r)
    case True
    with cs ts r show ?thesis by (simp add: clean_comps_def clean_comps_names)
  next
    case False
    with cs ts clean_comps_ups [of 0 n] show ?thesis
      by (simp add: clean_comps_def clean_comps_names)
  qed
qed

lemma split_on_append:
  "d \<notin> set c \<Longrightarrow> split_on d (c @ d # s) = c # split_on d s"
  by (induction c) auto

lemma split_join:
  assumes "cs \<noteq> []" "list_all (\<lambda>c. slash \<notin> set c) cs"
  shows "split_on slash (join_with ''/'' cs) = cs"
  using assms
proof (induction cs rule: induct_list012)
  case 1
  then show ?case by simp
next
  case (2 c)
  then show ?case by (simp add: split_on_single)
next
  case (3 c d cs)
  then show ?case using split_on_append [of slash c] by (simp add: slash_def)
qed

lemma filter_ok: "list_all comp_ok cs \<Longrightarrow> filter (\<lambda>c. c \<noteq> [] \<and> c \<noteq> ''.'') cs = cs"
  by (induction cs) (auto simp: comp_ok_def)

lemma comps_join:
  assumes "list_all comp_ok cs"
  shows "comps (join_with ''/'' cs) = cs"
proof (cases "cs = []")
  case True
  then show ?thesis by (simp add: comps_def)
next
  case False
  from assms have "list_all (\<lambda>c. slash \<notin> set c) cs" by (simp add: list_all_iff comp_ok_def)
  with False assms show ?thesis by (simp add: comps_def split_join filter_ok)
qed

lemma comps_slash: "comps (CHR ''/'' # p) = comps p"
  by (simp add: comps_def slash_def)

lemma comps_dot: "comps ''.'' = []"
  by (simp add: comps_def slash_def)

lemma comps_render: "list_all comp_ok cs \<Longrightarrow> comps (render_path r cs) = cs"
  by (simp add: render_path_def comps_join comps_slash comps_dot)

lemma is_abs_Cons [simp]: "is_abs (c # s) \<longleftrightarrow> c = CHR ''/''" "\<not> is_abs []"
  by (simp_all add: is_abs_def has_prefix_def)

lemma is_abs_append: "c \<noteq> [] \<Longrightarrow> is_abs (c @ s) \<longleftrightarrow> is_abs c"
  by (cases c) auto

lemma comp_ok_not_abs: "comp_ok c \<Longrightarrow> \<not> is_abs c"
  by (cases c) (auto simp: comp_ok_def slash_def)

lemma is_abs_join: "list_all comp_ok cs \<Longrightarrow> \<not> is_abs (join_with ''/'' cs)"
  by (induction cs rule: induct_list012) (auto simp: comp_ok_not_abs is_abs_append comp_ok_def)

lemma is_abs_render: "list_all comp_ok cs \<Longrightarrow> is_abs (render_path r cs) = r"
  by (simp add: render_path_def is_abs_join)

text \<open>The result of \<^verbatim>\<open>Clean\<close> is clean.\<close>

lemma clean_idem: "clean (clean p) = clean p"
proof -
  have ok: "list_all comp_ok (clean_comps (is_abs p) (comps p))"
    by (intro clean_comps_ok comps_ok)
  then show ?thesis
    by (simp add: clean_def comps_render is_abs_render clean_comps_fixed clean_comps_cleaned)
qed

lemma path_join_clean: "path_join es \<noteq> [] \<Longrightarrow> clean (path_join es) = path_join es"
  by (auto simp: path_join_def Let_def clean_idem split: if_splits)

text \<open>
  Joining a rooted, clean directory and a name without dot-dots: the components of the name are
  appended, so the result lies below the directory.
\<close>

lemma split_append_sep: "split_on d (p @ d # q) = split_on d p @ split_on d q"
proof (induction p)
  case Nil
  then show ?case by simp
next
  case (Cons c p)
  obtain t ts where "split_on d p = t # ts" by (meson neq_Nil_conv split_on_ne)
  with Cons show ?case by simp
qed

lemma comps_append_slash: "comps (p @ CHR ''/'' # q) = comps p @ comps q"
  using split_append_sep [of slash p q] by (simp add: comps_def slash_def)

lemma join_below:
  assumes "is_abs dir" and "''..'' \<notin> set (comps name)" and "name \<noteq> []"
  shows "path_join [dir, name] = render_path True (clean_comps True (comps dir) @ comps name)"
proof -
  have "dir \<noteq> []" using assms(1) by auto
  moreover have "is_abs (dir @ ''/'' @ name)" using \<open>dir \<noteq> []\<close> assms(1) by (simp add: is_abs_append)
  ultimately show ?thesis using assms
    by (simp add: path_join_def clean_def comps_append_slash clean_comps_def clean_comps_names)
qed

end
