(* ===== verification/Os.thy ===== *)
theory Os
  imports GoPath
begin

text \<open>
  The operating system as the program sees it: the functions of package \<^verbatim>\<open>os\<close> it calls, as a
  record of operations over a world type \<open>'w\<close>, and the user database of \<^verbatim>\<open>os/user\<close>. The kernel is
  not part of the program, so every task takes this record as an argument; the locales
  below state the documented laws the tasks rely on, and \<open>MemFs\<close> provides an executable file
  system that satisfies them. \<open>walk_dir\<close> is \<^verbatim>\<open>filepath.WalkDir\<close>.
\<close>

section \<open>Operations\<close>

text \<open>\<^verbatim>\<open>fs.FileInfo\<close> with its \<^verbatim>\<open>syscall.Stat_t\<close>; times in nanoseconds.\<close>

record fileinfo =
  fi_mode :: filemode
  fi_uid :: u32
  fi_gid :: u32
  fi_nlink :: nat
  fi_size :: nat
  fi_mtime :: int

text \<open>
  A file opened for reading or created is named by a number; \<open>os_read\<close> reads its
  content when it is called, so a source that a later truncation empties reads as empty.
\<close>

record 'w os =
  os_lstat :: "string \<Rightarrow> 'w \<Rightarrow> errno + fileinfo"
  os_stat :: "string \<Rightarrow> 'w \<Rightarrow> errno + fileinfo"
  os_chmod :: "string \<Rightarrow> filemode \<Rightarrow> 'w \<Rightarrow> errno option \<times> 'w"
  os_chown :: "string \<Rightarrow> int \<Rightarrow> int \<Rightarrow> 'w \<Rightarrow> errno option \<times> 'w"
  os_lchown :: "string \<Rightarrow> int \<Rightarrow> int \<Rightarrow> 'w \<Rightarrow> errno option \<times> 'w"
  os_mkdir :: "string \<Rightarrow> filemode \<Rightarrow> 'w \<Rightarrow> errno option \<times> 'w"
  os_mkdirAll :: "string \<Rightarrow> filemode \<Rightarrow> 'w \<Rightarrow> errno option \<times> 'w"
  os_remove :: "string \<Rightarrow> 'w \<Rightarrow> errno option \<times> 'w"
  os_removeAll :: "string \<Rightarrow> 'w \<Rightarrow> errno option \<times> 'w"
  os_symlink :: "string \<Rightarrow> string \<Rightarrow> 'w \<Rightarrow> errno option \<times> 'w"
  os_readlink :: "string \<Rightarrow> 'w \<Rightarrow> errno + string"
  os_open :: "string \<Rightarrow> 'w \<Rightarrow> errno + nat"
  os_create :: "string \<Rightarrow> 'w \<Rightarrow> (errno + nat) \<times> 'w"
  os_read :: "nat \<Rightarrow> 'w \<Rightarrow> errno + bytes"
  os_write :: "nat \<Rightarrow> bytes \<Rightarrow> 'w \<Rightarrow> errno option \<times> 'w"
  os_readFile :: "string \<Rightarrow> 'w \<Rightarrow> errno + bytes"
  os_writeFile :: "string \<Rightarrow> bytes \<Rightarrow> filemode \<Rightarrow> 'w \<Rightarrow> errno option \<times> 'w"
  os_readDir :: "string \<Rightarrow> 'w \<Rightarrow> errno + (string \<times> fileinfo) list"
  os_now :: "'w \<Rightarrow> int"

record user_entry =
  u_uid :: string
  u_username :: string

record group_entry =
  g_gid :: string
  g_name :: string

record userdb =
  user_LookupId :: "string \<Rightarrow> goerr + user_entry"
  user_Lookup :: "string \<Rightarrow> goerr + user_entry"
  user_LookupGroupId :: "string \<Rightarrow> goerr + group_entry"
  user_LookupGroup :: "string \<Rightarrow> goerr + group_entry"

text \<open>\<^verbatim>\<open>fs.Stat(os.DirFS(dir), name)\<close>.\<close>

definition dirfs_path :: "string \<Rightarrow> string \<Rightarrow> string option" where
  "dirfs_path dir name =
     (if dir = [] \<or> \<not> valid_path name then None
      else if last dir = slash then Some (dir @ name) else Some (dir @ ''/'' @ name))"

definition dirfs_stat :: "'w os \<Rightarrow> string \<Rightarrow> string \<Rightarrow> 'w \<Rightarrow> errno + fileinfo" where
  "dirfs_stat os dir name w =
     (case dirfs_path dir name of None \<Rightarrow> Inl EINVAL | Some p \<Rightarrow> os_stat os p w)"

section \<open>filepath.WalkDir\<close>

text \<open>
  Every callback of the program returns an error it is handed, so a failing \<^verbatim>\<open>ReadDir\<close> ends
  the walk. The state \<open>'s\<close> is what the callback threads; \<open>get\<close> reads the world in it.
\<close>

fun seq_entries :: "('a \<Rightarrow> 's \<Rightarrow> goerr option \<times> 's) \<Rightarrow> 'a list \<Rightarrow> 's \<Rightarrow> goerr option \<times> 's" where
  "seq_entries f [] s = (None, s)"
| "seq_entries f (x # xs) s =
     (case f x s of (Some e, s') \<Rightarrow> (Some e, s') | (None, s') \<Rightarrow> seq_entries f xs s')"

primrec walk_dir_fuel ::
  "'w os \<Rightarrow> ('s \<Rightarrow> 'w) \<Rightarrow> (string \<Rightarrow> fileinfo \<Rightarrow> 's \<Rightarrow> goerr option \<times> 's) \<Rightarrow> nat \<Rightarrow>
   string \<Rightarrow> fileinfo \<Rightarrow> 's \<Rightarrow> goerr option \<times> 's" where
  "walk_dir_fuel os get fn 0 p fi s = (Some Diverge, s)"
| "walk_dir_fuel os get fn (Suc n) p fi s =
     (case fn p fi s of
        (Some e, s') \<Rightarrow> (Some e, s')
      | (None, s') \<Rightarrow>
          if \<not> is_dir_mode (fi_mode fi) then (None, s')
          else (case os_readDir os p (get s') of
                  Inl e \<Rightarrow> (Some (OsErr e), s')
                | Inr ents \<Rightarrow>
                    seq_entries (\<lambda>(name, fi1). walk_dir_fuel os get fn n (path_join [p, name]) fi1)
                      ents s'))"

text \<open>
  Paths of \<open>PATH_MAX\<close> bytes are refused by the kernel, which bounds the depth of a walk:
  \<open>walk_total\<close> below shows that this fuel is never used up.
\<close>

definition path_max :: nat where "path_max = 4096"
definition walk_fuel :: nat where "walk_fuel = path_max + 2"

definition walk_dir ::
  "'w os \<Rightarrow> ('s \<Rightarrow> 'w) \<Rightarrow> (string \<Rightarrow> fileinfo \<Rightarrow> 's \<Rightarrow> goerr option \<times> 's) \<Rightarrow>
   string \<Rightarrow> 's \<Rightarrow> goerr option \<times> 's" where
  "walk_dir os get fn root s =
     (case os_lstat os root (get s) of
        Inl e \<Rightarrow> (Some (OsErr e), s)
      | Inr fi \<Rightarrow> walk_dir_fuel os get fn walk_fuel root fi s)"

section \<open>Laws\<close>

text \<open>
  What is kept when a file changes its permissions or its owner: the type bits.
\<close>

definition same_type :: "fileinfo \<Rightarrow> fileinfo \<Rightarrow> bool" where
  "same_type fi fi' \<longleftrightarrow> fi_mode fi' AND mode_type = fi_mode fi AND mode_type"

definition is_link :: "fileinfo \<Rightarrow> bool" where
  "is_link fi \<longleftrightarrow> is_symlink_mode (fi_mode fi)"

definition is_dir :: "fileinfo \<Rightarrow> bool" where
  "is_dir fi \<longleftrightarrow> is_dir_mode (fi_mode fi)"

text \<open>\<^verbatim>\<open>chown(2)\<close>: an id of -1 (as a 32-bit id) leaves that id alone.\<close>

definition new_id :: "int \<Rightarrow> u32 \<Rightarrow> u32" where
  "new_id i old = (if word_of_int i = (-1 :: u32) then old else word_of_int i)"

lemma same_type_kind:
  assumes "same_type fi fi'"
  shows "is_dir fi' = is_dir fi" "is_link fi' = is_link fi"
proof -
  have "m AND mode_dir = (m AND mode_type) AND mode_dir"
    "m AND mode_symlink = (m AND mode_type) AND mode_symlink" for m :: filemode
    by (simp_all add: and.assoc mode_dir_def mode_symlink_def mode_type_def)
  with assms show "is_dir fi' = is_dir fi" "is_link fi' = is_link fi"
    unfolding is_dir_def is_link_def is_dir_mode_def is_symlink_mode_def same_type_def by metis+
qed

locale os_dirs =
  fixes os :: "'w os"
  assumes readDir_path_max: "path_max \<le> length p \<Longrightarrow> \<exists>e. os_readDir os p w = Inl e"
    and readDir_names:
      "os_readDir os p w = Inr ents \<Longrightarrow> list_all (\<lambda>(name, fi). comp_ok name \<and> name \<noteq> ''..'') ents"

locale posix_os = os_dirs +
  assumes chmod_ok:
      "os_lstat os p w = Inr fi \<Longrightarrow> \<not> is_link fi \<Longrightarrow> os_chmod os p m w = (None, w') \<Longrightarrow>
       \<exists>fi'. os_lstat os p w' = Inr fi' \<and> same_type fi fi' \<and> perm (fi_mode fi') = perm m \<and>
             fi_uid fi' = fi_uid fi \<and> fi_gid fi' = fi_gid fi"
    and chown_ok:
      "os_lstat os p w = Inr fi \<Longrightarrow> \<not> is_link fi \<Longrightarrow> os_chown os p u g w = (None, w') \<Longrightarrow>
       \<exists>fi'. os_lstat os p w' = Inr fi' \<and> same_type fi fi' \<and> perm (fi_mode fi') = perm (fi_mode fi) \<and>
             fi_uid fi' = new_id u (fi_uid fi) \<and> fi_gid fi' = new_id g (fi_gid fi)"
    and mkdirAll_new:
      "os_lstat os p w = Inl ENOENT \<Longrightarrow> os_mkdirAll os p m w = (None, w') \<Longrightarrow>
       \<exists>fi. os_lstat os p w' = Inr fi \<and> is_dir fi \<and> \<not> is_link fi"
    and mkdirAll_old:
      "os_lstat os p w = Inr fi \<Longrightarrow> os_mkdirAll os p m w = (None, w') \<Longrightarrow>
       w' = w \<and> (is_link fi \<or> is_dir fi)"
    and mkdirAll_dir:
      "os_lstat os p w = Inr fi \<Longrightarrow> is_dir fi \<Longrightarrow> os_mkdirAll os p m w = (None, w)"
    and create_new:
      "os_lstat os p w = Inl ENOENT \<Longrightarrow> os_create os p w = (Inr h, w') \<Longrightarrow>
       \<exists>fi. os_lstat os p w' = Inr fi \<and> \<not> is_link fi"
    and removeAll_gone:
      "p \<noteq> [] \<Longrightarrow> os_removeAll os p w = (None, w') \<Longrightarrow> os_lstat os p w' = Inl ENOENT"
    and symlink_new:
      "os_symlink os src p w = (None, w') \<Longrightarrow>
       (\<exists>fi. os_lstat os p w' = Inr fi \<and> is_link fi) \<and> os_readlink os p w' = Inr src"
    and lstat_stat:
      "os_lstat os p w = Inr fi \<Longrightarrow> \<not> is_link fi \<Longrightarrow> os_stat os p w = Inr fi"

section \<open>A walk never runs out of fuel\<close>

lemma seq_entries_never:
  assumes "\<And>x s. x \<in> set xs \<Longrightarrow> fst (f x s) \<noteq> Some e"
  shows "fst (seq_entries f xs s) \<noteq> Some e"
  using assms
proof (induction xs arbitrary: s)
  case Nil
  then show ?case by simp
next
  case (Cons x xs)
  show ?case
  proof (cases "f x s")
    case (Pair r s')
    have "fst (f x s) \<noteq> Some e" by (rule Cons.prems) simp
    moreover have "\<And>s. fst (seq_entries f xs s) \<noteq> Some e"
      by (rule Cons.IH, rule Cons.prems) simp
    ultimately show ?thesis using Pair by (cases r) auto
  qed
qed

text \<open>The depth of a path: its number of components once cleaned, at most its length.\<close>

definition depth :: "string \<Rightarrow> nat" where
  "depth p = length (clean_comps (is_abs p) (comps p))"

lemma length_comps: "length (comps p) \<le> length p"
proof -
  have "length (filter (\<lambda>c. c \<noteq> []) (split_on d s)) \<le> length s" for d s
  proof (induction s)
    case Nil
    then show ?case by simp
  next
    case (Cons c s)
    obtain t ts where "split_on d s = t # ts" by (meson neq_Nil_conv split_on_ne)
    with Cons show ?case by (auto split: if_splits)
  qed
  moreover have "length (comps p) \<le> length (filter (\<lambda>c. c \<noteq> []) (split_on slash p))"
    unfolding comps_def filter_filter [symmetric, where P = "\<lambda>c. c \<noteq> ''.''"]
    by (metis (no_types, lifting) filter_filter length_filter_le)
  ultimately show ?thesis by (meson le_trans)
qed

lemma length_clean_comps: "length (foldl (clean_step r) out cs) \<le> length out + length cs"
proof (induction cs arbitrary: out)
  case Nil
  then show ?case by simp
next
  case (Cons c cs)
  have "length (clean_step r out c) \<le> Suc (length out)" by (auto simp: clean_step_def)
  with Cons [of "clean_step r out c"] show ?case by simp
qed

lemma depth_le_length: "depth p \<le> length p"
  using length_clean_comps [of "is_abs p" "[]" "comps p"] length_comps [of p]
  by (simp add: depth_def clean_comps_def)

lemma depth_join_name:
  assumes "comp_ok name" "name \<noteq> ''..''"
  shows "depth (path_join [p, name]) = Suc (depth p)"
proof -
  have ne: "name \<noteq> []" using assms by (simp add: comp_ok_def)
  have cn: "comps name = [name]" using comps_join [of "[name]"] assms by simp
  let ?cs = "clean_comps (is_abs p) (comps p) @ [name]"
  have eq: "path_join [p, name] = render_path (is_abs p) ?cs"
  proof (cases "p = []")
    case True
    with ne assms cn show ?thesis
      by (simp add: path_join_def clean_def comp_ok_not_abs comps_def [of "[]"] clean_comps_def clean_step_def)
  next
    case False
    with ne assms cn show ?thesis
      by (simp add: path_join_def clean_def is_abs_append comps_append_slash clean_comps_def clean_step_def)
  qed
  have ok: "list_all comp_ok ?cs" using assms by (simp add: clean_comps_ok comps_ok)
  have "clean_comps (is_abs p) ?cs = ?cs"
    using clean_comps_fixed [OF clean_comps_cleaned, of "is_abs p" "comps p"] assms(2)
    by (simp add: clean_comps_def clean_step_def)
  with eq ok show ?thesis by (simp add: depth_def comps_render is_abs_render)
qed

context os_dirs
begin

lemma walk_dir_fuel_total:
  assumes fn: "\<And>p fi s. fst (fn p fi s) \<noteq> Some Diverge"
    and "depth p \<le> path_max" and "path_max < depth p + n"
  shows "fst (walk_dir_fuel os get fn n p fi s) \<noteq> Some Diverge"
  using assms(2,3)
proof (induction n arbitrary: p fi s)
  case 0
  then show ?case by simp
next
  case (Suc n)
  obtain r s' where r: "fn p fi s = (r, s')" by fastforce
  have r_ok: "r \<noteq> Some Diverge" using fn [of p fi s] r by simp
  show ?case
  proof (cases "os_readDir os p (get s')")
    case (Inl e)
    with r r_ok show ?thesis by (auto split: option.split)
  next
    case (Inr ents)
    have "\<not> path_max \<le> length p" using readDir_path_max [of p "get s'"] Inr by auto
    with depth_le_length [of p] have short: "Suc (depth p) \<le> path_max" by simp
    have step: "fst ((case x of (name, fi1) \<Rightarrow> walk_dir_fuel os get fn n (path_join [p, name]) fi1) t)
        \<noteq> Some Diverge" if "x \<in> set ents" for x t
    proof -
      obtain name fi1 where x: "x = (name, fi1)" by fastforce
      from readDir_names [OF Inr] that x have "comp_ok name" "name \<noteq> ''..''"
        by (auto simp: list_all_iff)
      with short Suc.prems have "depth (path_join [p, name]) \<le> path_max"
        "path_max < depth (path_join [p, name]) + n" by (simp_all add: depth_join_name)
      with x Suc.IH show ?thesis by simp
    qed
    have "fst (seq_entries (\<lambda>(name, fi1). walk_dir_fuel os get fn n (path_join [p, name]) fi1) ents s')
        \<noteq> Some Diverge"
      by (rule seq_entries_never) (rule step)
    with r r_ok Inr show ?thesis by (auto split: option.split)
  qed
qed

lemma walk_total:
  assumes fn: "\<And>p fi s. fst (fn p fi s) \<noteq> Some Diverge"
  shows "fst (walk_dir os get fn root s) \<noteq> Some Diverge"
proof (cases "os_lstat os root (get s)")
  case (Inl e)
  then show ?thesis by (simp add: walk_dir_def)
next
  case (Inr fi)
  have "fst (walk_dir_fuel os get fn walk_fuel root fi s) \<noteq> Some Diverge"
  proof (cases "path_max \<le> length root")
    case True
    have fuel: "walk_fuel = Suc (Suc path_max)" by (simp add: walk_fuel_def)
    obtain r s' where r: "fn root fi s = (r, s')" by fastforce
    have "r \<noteq> Some Diverge" using fn [of root fi s] r by simp
    moreover obtain e where "os_readDir os root (get s') = Inl e"
      using readDir_path_max [OF True] by blast
    ultimately show ?thesis using r by (auto simp: fuel split: option.split)
  next
    case False
    with depth_le_length [of root] show ?thesis
      by (intro walk_dir_fuel_total fn) (simp_all add: walk_fuel_def)
  qed
  with Inr show ?thesis by (simp add: walk_dir_def)
qed

end

end
