(* ===== verification/ModeUtil.thy ===== *)
theory ModeUtil
  imports Os
begin

text \<open>
  \<^verbatim>\<open>pkg/exec/util/mode.go\<close>, \<^verbatim>\<open>pkg/exec/util/util.go\<close> and \<^verbatim>\<open>pkg/proto/mode_yaml.go\<close>: symbolic and
  octal file modes, their decoding from YAML, and the resolution of owners and groups. The
  meaning of a symbolic clause is stated bit by bit in \<open>clause_bits\<close>.
\<close>

section \<open>Symbolic modes\<close>

definition userRead :: filemode where "userRead = 0x100"
definition userWrite :: filemode where "userWrite = 0x080"
definition userExec :: filemode where "userExec = 0x040"
definition groupRead :: filemode where "groupRead = 0x020"
definition groupWrite :: filemode where "groupWrite = 0x010"
definition groupExec :: filemode where "groupExec = 0x008"
definition otherRead :: filemode where "otherRead = 0x004"
definition otherWrite :: filemode where "otherWrite = 0x002"
definition otherExec :: filemode where "otherExec = 0x001"

text \<open>The three tests of one letter in the loop over \<^verbatim>\<open>perms\<close>.\<close>

definition add_class :: "string \<Rightarrow> string \<Rightarrow> filemode \<Rightarrow> filemode \<Rightarrow> filemode" where
  "add_class who c b msk = (if contains who c then msk OR b else msk)"

definition perm_letter :: "string \<Rightarrow> filemode \<Rightarrow> char \<Rightarrow> goerr + filemode" where
  "perm_letter who msk p =
     (if p = CHR ''r'' then
        Inr (add_class who ''o'' otherRead (add_class who ''g'' groupRead (add_class who ''u'' userRead msk)))
      else if p = CHR ''w'' then
        Inr (add_class who ''o'' otherWrite (add_class who ''g'' groupWrite (add_class who ''u'' userWrite msk)))
      else if p = CHR ''x'' then
        Inr (add_class who ''o'' otherExec (add_class who ''g'' groupExec (add_class who ''u'' userExec msk)))
      else Inl InvalidMode)"

definition set_class :: "string \<Rightarrow> string \<Rightarrow> filemode \<Rightarrow> filemode \<Rightarrow> filemode \<Rightarrow> filemode" where
  "set_class who c field msk mode =
     (if contains who c then (mode AND NOT field) OR (msk AND field) else mode)"

definition apply_op :: "char \<Rightarrow> string \<Rightarrow> filemode \<Rightarrow> filemode \<Rightarrow> goerr + filemode" where
  "apply_op c who msk mode =
     (if c = CHR ''+'' then Inr (mode OR msk)
      else if c = CHR ''-'' then Inr (mode AND NOT msk)
      else if c = CHR ''='' then
        Inr (set_class who ''o'' 0x007 msk (set_class who ''g'' 0x038 msk (set_class who ''u'' 0x1C0 msk mode)))
      else Inl InvalidMode)"

definition spec_clause :: "filemode \<Rightarrow> string \<Rightarrow> goerr + filemode" where
  "spec_clause mode part0 =
     (let part = trim_space part0 in
      if part = [] then Inr mode
      else case index_any part ''=+-'' of
             None \<Rightarrow> Inl InvalidMode
           | Some i \<Rightarrow>
               if i = length part - 1 then Inl InvalidMode
               else (let who0 = take i part;
                         who = (if contains who0 ''a'' then ''ugo'' else who0);
                         perms = drop (i + 1) part
                     in case fold_err (perm_letter who) 0 perms of
                          Inl e \<Rightarrow> Inl e
                        | Inr msk \<Rightarrow> apply_op (part ! i) who msk mode))"

definition spec_mode :: "filemode \<Rightarrow> string \<Rightarrow> goerr + filemode" where
  "spec_mode mode spec = fold_err spec_clause mode (split_on (CHR '','') spec)"

definition NewModeFromSpec :: "'w os \<Rightarrow> string \<Rightarrow> string \<Rightarrow> string \<Rightarrow> 'w \<Rightarrow> goerr + filemode" where
  "NewModeFromSpec os dir p spec w =
     (case dirfs_stat os dir (path_base p) w of
        Inl e \<Rightarrow> Inl (OsErr e)
      | Inr info \<Rightarrow> spec_mode (perm (fi_mode info)) spec)"

definition lift_err :: "errno option \<times> 'w \<Rightarrow> goerr option \<times> 'w" where
  "lift_err r = (map_option OsErr (fst r), snd r)"

lemma lift_err_None [simp]: "lift_err r = (None, w) \<longleftrightarrow> r = (None, w)"
  by (cases r) (auto simp: lift_err_def)

definition ChmodFromString :: "'w os \<Rightarrow> string \<Rightarrow> string \<Rightarrow> 'w \<Rightarrow> goerr option \<times> 'w" where
  "ChmodFromString os p spec w =
     (case NewModeFromSpec os (path_dir p) p spec w of
        Inl e \<Rightarrow> (Some e, w)
      | Inr mode \<Rightarrow> lift_err (os_chmod os p mode w))"

section \<open>Applying a mode and ids\<close>

text \<open>
  The dynamic types the \<^verbatim>\<open>mode any\<close> parameters are switched on. An untyped nil is \<open>MNil\<close>;
  the callers pass \<open>MString\<close> of the message's value, which is empty when no mode is given.
\<close>

datatype mode_any =
    MNil | MString string | MInt int | MInt64 int | MUint64 nat | MUint64Ptr "nat option" | MOther

text \<open>\<^verbatim>\<open>os.FileMode(v)\<close>: conversion to a 32-bit unsigned number.\<close>

definition mode_of_int :: "int \<Rightarrow> filemode" where "mode_of_int v = word_of_int v"
definition mode_of_nat :: "nat \<Rightarrow> filemode" where "mode_of_nat v = word_of_nat v"

definition apply_mode :: "'w os \<Rightarrow> string \<Rightarrow> mode_any \<Rightarrow> 'w \<Rightarrow> goerr option \<times> 'w" where
  "apply_mode os p mode w =
     (case mode of
        MNil \<Rightarrow> (None, w)
      | MString v \<Rightarrow>
          if v = [] then (None, w)
          else (case parse_uint 8 32 v of
                  Some n \<Rightarrow> lift_err (os_chmod os p (mode_of_nat n) w)
                | None \<Rightarrow> ChmodFromString os p v w)
      | MInt v \<Rightarrow> lift_err (os_chmod os p (mode_of_int v) w)
      | MInt64 v \<Rightarrow> lift_err (os_chmod os p (mode_of_int v) w)
      | MUint64 v \<Rightarrow> lift_err (os_chmod os p (mode_of_nat v) w)
      | MUint64Ptr None \<Rightarrow> (None, w)
      | MUint64Ptr (Some v) \<Rightarrow> lift_err (os_chmod os p (mode_of_nat v) w)
      | MOther \<Rightarrow> (Some (ErrMsg ''unsupported mode type''), w))"

definition ApplyModeAndIDs ::
  "'w os \<Rightarrow> string \<Rightarrow> mode_any \<Rightarrow> int \<Rightarrow> int \<Rightarrow> 'w \<Rightarrow> goerr option \<times> 'w" where
  "ApplyModeAndIDs os p mode uid gid w =
     (case apply_mode os p mode w of
        (Some e, w') \<Rightarrow> (Some e, w')
      | (None, w') \<Rightarrow> lift_err (os_chown os p uid gid w'))"

section \<open>Owners and groups\<close>

definition atoi_err :: "string \<Rightarrow> goerr + int" where
  "atoi_err s = (case atoi s of Some n \<Rightarrow> Inr n | None \<Rightarrow> Inl (ErrMsg ''invalid syntax''))"

text \<open>The id -1 leaves the owner or the group as it is.\<close>

definition GetUid :: "userdb \<Rightarrow> string \<Rightarrow> goerr + int" where
  "GetUid db s =
     (if s = [] then Inr (-1)
      else case user_LookupId db s of
             Inr u \<Rightarrow> atoi_err (u_uid u)
           | Inl _ \<Rightarrow> (case user_Lookup db s of
                         Inl e \<Rightarrow> Inl e
                       | Inr u \<Rightarrow> atoi_err (u_uid u)))"

definition GetGid :: "userdb \<Rightarrow> string \<Rightarrow> goerr + int" where
  "GetGid db s =
     (if s = [] then Inr (-1)
      else case user_LookupGroupId db s of
             Inr g \<Rightarrow> atoi_err (g_gid g)
           | Inl _ \<Rightarrow> (case user_LookupGroup db s of
                         Inl e \<Rightarrow> Inl e
                       | Inr g \<Rightarrow> atoi_err (g_gid g)))"

text \<open>\<^verbatim>\<open>GetStringSlice\<close>: what a dynamic value holds as a list of strings; nil for anything else.\<close>

datatype dyn = DNil | DString string | DStrings "string list" | DOther

fun GetStringSlice :: "dyn \<Rightarrow> string list option" where
  "GetStringSlice DNil = None"
| "GetStringSlice (DString s) = Some [s]"
| "GetStringSlice (DStrings ss) = Some ss"
| "GetStringSlice DOther = None"

section \<open>Modes in YAML\<close>

record Mode =
  Mode_Value :: string

text \<open>
  \<^verbatim>\<open>yaml.Unmarshal\<close> into a string, an int64 and a uint64 are parameters (\<open>None\<close> is an error).
\<close>

definition Mode_UnmarshalYAML ::
  "(bytes \<Rightarrow> string option) \<Rightarrow> (bytes \<Rightarrow> int option) \<Rightarrow> (bytes \<Rightarrow> nat option) \<Rightarrow> bytes \<Rightarrow> goerr + Mode" where
  "Mode_UnmarshalYAML y_string y_int64 y_uint64 b =
     (let quoted = (b \<noteq> [] \<and> (hd b = CHR 0x22 \<or> hd b = CHR 0x27));
          unquoted =
            (case y_int64 b of
               Some num \<Rightarrow> Inr \<lparr>Mode_Value = format_int 8 num\<rparr>
             | None \<Rightarrow>
                 (case y_uint64 b of
                    Some unum \<Rightarrow> Inr \<lparr>Mode_Value = format_uint 8 unum\<rparr>
                  | None \<Rightarrow>
                      (case y_string b of
                         Some str \<Rightarrow> Inr \<lparr>Mode_Value = str\<rparr>
                       | None \<Rightarrow> Inl (ErrMsg (''failed to unmarshal mode: '' @ b)))))
      in if quoted then
           (case y_string b of Some str \<Rightarrow> Inr \<lparr>Mode_Value = str\<rparr> | None \<Rightarrow> unquoted)
         else unquoted)"

text \<open>What \<^verbatim>\<open>MarshalYAML\<close> hands to \<^verbatim>\<open>yaml.Marshal\<close>: nil or a string.\<close>

definition Mode_MarshalYAML :: "Mode option \<Rightarrow> string option" where
  "Mode_MarshalYAML m =
     (case m of None \<Rightarrow> None | Some v \<Rightarrow> if Mode_Value v = [] then None else Some (Mode_Value v))"

text \<open>The generated getter: the empty string for a nil message.\<close>

definition Mode_GetValue :: "Mode option \<Rightarrow> string" where
  "Mode_GetValue m = (case m of None \<Rightarrow> [] | Some v \<Rightarrow> Mode_Value v)"

section \<open>What a clause means, bit by bit\<close>

lemma bit_pow: "m < 32 \<Longrightarrow> bit (2 ^ m :: filemode) n \<longleftrightarrow> n = m"
  by (auto simp: bit_exp_iff possible_bit_def)

lemma perm_const_bits:
  "bit userRead n \<longleftrightarrow> n = 8" "bit userWrite n \<longleftrightarrow> n = 7" "bit userExec n \<longleftrightarrow> n = 6"
  "bit groupRead n \<longleftrightarrow> n = 5" "bit groupWrite n \<longleftrightarrow> n = 4" "bit groupExec n \<longleftrightarrow> n = 3"
  "bit otherRead n \<longleftrightarrow> n = 2" "bit otherWrite n \<longleftrightarrow> n = 1" "bit otherExec n \<longleftrightarrow> n = 0"
  using bit_pow [of 8 n] bit_pow [of 7 n] bit_pow [of 6 n] bit_pow [of 5 n] bit_pow [of 4 n]
    bit_pow [of 3 n] bit_pow [of 2 n] bit_pow [of 1 n] bit_pow [of 0 n]
  by (simp_all add: userRead_def userWrite_def userExec_def groupRead_def groupWrite_def
      groupExec_def otherRead_def otherWrite_def otherExec_def)

lemma field_bits:
  "bit (0x007 :: filemode) n \<longleftrightarrow> n < 3"
  "bit (0x038 :: filemode) n \<longleftrightarrow> 3 \<le> n \<and> n < 6"
  "bit (0x1C0 :: filemode) n \<longleftrightarrow> 6 \<le> n \<and> n < 9"
proof -
  have "(0x007 :: filemode) = otherRead OR otherWrite OR otherExec"
    "(0x038 :: filemode) = groupRead OR groupWrite OR groupExec"
    "(0x1C0 :: filemode) = userRead OR userWrite OR userExec"
    by (simp_all add: userRead_def userWrite_def userExec_def groupRead_def groupWrite_def
        groupExec_def otherRead_def otherWrite_def otherExec_def)
  then show "bit (0x007 :: filemode) n \<longleftrightarrow> n < 3" "bit (0x038 :: filemode) n \<longleftrightarrow> 3 \<le> n \<and> n < 6"
    "bit (0x1C0 :: filemode) n \<longleftrightarrow> 6 \<le> n \<and> n < 9"
    by (simp_all only: bit_or_iff perm_const_bits; arith)+
qed

text \<open>The class and the permission letter a bit stands for.\<close>

definition class_of :: "nat \<Rightarrow> char" where
  "class_of n = (if n < 3 then CHR ''o'' else if n < 6 then CHR ''g'' else CHR ''u'')"

definition letter_of :: "nat \<Rightarrow> char" where
  "letter_of n = (if n mod 3 = 2 then CHR ''r'' else if n mod 3 = 1 then CHR ''w'' else CHR ''x'')"

definition selects :: "string \<Rightarrow> string \<Rightarrow> nat \<Rightarrow> bool" where
  "selects who perms n \<longleftrightarrow> n < 9 \<and> class_of n \<in> set who \<and> letter_of n \<in> set perms"

lemma bit_add_class: "bit (add_class who [c] b m) n \<longleftrightarrow> bit m n \<or> c \<in> set who \<and> bit b n"
  by (auto simp: add_class_def contains_char bit_or_iff)

lemma selects_letter:
  "selects who [CHR ''r''] n \<longleftrightarrow>
     n = 2 \<and> CHR ''o'' \<in> set who \<or> n = 5 \<and> CHR ''g'' \<in> set who \<or> n = 8 \<and> CHR ''u'' \<in> set who"
  "selects who [CHR ''w''] n \<longleftrightarrow>
     n = 1 \<and> CHR ''o'' \<in> set who \<or> n = 4 \<and> CHR ''g'' \<in> set who \<or> n = 7 \<and> CHR ''u'' \<in> set who"
  "selects who [CHR ''x''] n \<longleftrightarrow>
     n = 0 \<and> CHR ''o'' \<in> set who \<or> n = 3 \<and> CHR ''g'' \<in> set who \<or> n = 6 \<and> CHR ''u'' \<in> set who"
proof -
  have r: "n < 9 \<and> n mod 3 = 2 \<longleftrightarrow> n = 2 \<or> n = 5 \<or> n = 8"
    and w: "n < 9 \<and> n mod 3 = 1 \<longleftrightarrow> n = 1 \<or> n = 4 \<or> n = 7"
    and x: "n < 9 \<and> n mod 3 = 0 \<longleftrightarrow> n = 0 \<or> n = 3 \<or> n = 6" by presburger+
  have lr: "letter_of n = CHR ''r'' \<longleftrightarrow> n mod 3 = 2" and lw: "letter_of n = CHR ''w'' \<longleftrightarrow> n mod 3 = 1"
    and lx: "letter_of n = CHR ''x'' \<longleftrightarrow> n mod 3 = 0"
    by (auto simp: letter_of_def)
  have one: "selects who [c] n \<longleftrightarrow> (n < 9 \<and> letter_of n = c) \<and> class_of n \<in> set who" for c
    by (auto simp: selects_def)
  show "selects who [CHR ''r''] n \<longleftrightarrow>
     n = 2 \<and> CHR ''o'' \<in> set who \<or> n = 5 \<and> CHR ''g'' \<in> set who \<or> n = 8 \<and> CHR ''u'' \<in> set who"
    unfolding one lr r by (auto simp: class_of_def)
  show "selects who [CHR ''w''] n \<longleftrightarrow>
     n = 1 \<and> CHR ''o'' \<in> set who \<or> n = 4 \<and> CHR ''g'' \<in> set who \<or> n = 7 \<and> CHR ''u'' \<in> set who"
    unfolding one lw w by (auto simp: class_of_def)
  show "selects who [CHR ''x''] n \<longleftrightarrow>
     n = 0 \<and> CHR ''o'' \<in> set who \<or> n = 3 \<and> CHR ''g'' \<in> set who \<or> n = 6 \<and> CHR ''u'' \<in> set who"
    unfolding one lx x by (auto simp: class_of_def)
qed

lemma perm_letter_bits:
  assumes "perm_letter who m p = Inr m'"
  shows "bit m' n \<longleftrightarrow> bit m n \<or> selects who [p] n"
  using assms
  by (auto simp: perm_letter_def bit_add_class perm_const_bits selects_letter split: if_splits)

lemma clause_msk_bits:
  "fold_err (perm_letter who) m perms = Inr m' \<Longrightarrow> bit m' n \<longleftrightarrow> bit m n \<or> selects who perms n"
proof (induction perms arbitrary: m)
  case Nil
  then show ?case by (simp add: selects_def)
next
  case (Cons p perms)
  then obtain m1 where "perm_letter who m p = Inr m1" "fold_err (perm_letter who) m1 perms = Inr m'"
    by (auto simp: sum_case_Inr_iff)
  with perm_letter_bits [of who m p m1 n] Cons.IH [of m1] show ?case by (auto simp: selects_def)
qed

definition clause_bits :: "char \<Rightarrow> string \<Rightarrow> string \<Rightarrow> filemode \<Rightarrow> nat \<Rightarrow> bool" where
  "clause_bits c who perms m n =
     (if c = CHR ''+'' then bit m n \<or> selects who perms n
      else if c = CHR ''-'' then bit m n \<and> \<not> selects who perms n
      else if n < 9 \<and> class_of n \<in> set who then selects who perms n
      else bit m n)"

lemma bit_and_not: "bit (m AND NOT k :: filemode) n \<longleftrightarrow> bit m n \<and> \<not> bit k n"
  by (auto simp: bit_and_iff bit_not_iff dest: bit_imp_possible_bit)

lemma bit_set_class:
  "bit (set_class who [c] field msk m) n \<longleftrightarrow>
     (if c \<in> set who \<and> bit field n then bit msk n else bit m n)"
  by (simp add: set_class_def contains_char bit_or_iff bit_and_iff [of msk] bit_and_not)

lemma apply_op_bits:
  assumes op: "apply_op c who msk m = Inr m'" and sel: "\<And>n. bit msk n \<longleftrightarrow> selects who perms n"
  shows "bit m' n \<longleftrightarrow> clause_bits c who perms m n"
proof -
  consider "c = CHR ''+''" | "c = CHR ''-''" | "c = CHR ''=''"
    using op by (auto simp: apply_op_def split: if_splits)
  then show ?thesis
  proof cases
    case 1
    with op sel show ?thesis by (auto simp: apply_op_def clause_bits_def bit_or_iff)
  next
    case 2
    with op sel [of n] show ?thesis by (auto simp: apply_op_def clause_bits_def bit_and_not)
  next
    case 3
    with op have m': "m' = set_class who ''o'' 0x007 msk
        (set_class who ''g'' 0x038 msk (set_class who ''u'' 0x1C0 msk m))"
      by (simp add: apply_op_def)
    from 3 sel [of n] show ?thesis
      unfolding m' bit_set_class field_bits by (simp add: clause_bits_def class_of_def)
  qed
qed

text \<open>The four parts of a clause that is not blank.\<close>

definition clause_parts :: "string \<Rightarrow> (char \<times> string \<times> string) option" where
  "clause_parts part =
     (case index_any part ''=+-'' of
        None \<Rightarrow> None
      | Some i \<Rightarrow>
          if i = length part - 1 then None
          else Some (part ! i, (if CHR ''a'' \<in> set (take i part) then ''ugo'' else take i part),
                     drop (i + 1) part))"

lemma spec_clause_cases:
  assumes "spec_clause m part = Inr m'"
  obtains (blank) "trim_space part = []" "m' = m"
    | (clause) c who perms where "clause_parts (trim_space part) = Some (c, who, perms)"
        "\<And>n. bit m' n \<longleftrightarrow> clause_bits c who perms m n"
proof (cases "trim_space part = []")
  case True
  with assms blank show ?thesis by (simp add: spec_clause_def Let_def)
next
  case False
  let ?p = "trim_space part"
  from False assms obtain i where i: "index_any ?p ''=+-'' = Some i" "i \<noteq> length ?p - 1"
    by (auto simp: spec_clause_def Let_def split: option.splits if_splits)
  define who where "who = (if CHR ''a'' \<in> set (take i ?p) then ''ugo'' else take i ?p)"
  from False assms i obtain msk where msk: "fold_err (perm_letter who) 0 (drop (i + 1) ?p) = Inr msk"
    and op: "apply_op (?p ! i) who msk m = Inr m'"
    by (auto simp: spec_clause_def Let_def contains_char who_def sum_case_Inr_iff)
  have "bit m' n \<longleftrightarrow> clause_bits (?p ! i) who (drop (i + 1) ?p) m n" for n
    using op by (rule apply_op_bits) (simp add: clause_msk_bits [OF msk])
  with clause [of "?p ! i" who "drop (i + 1) ?p"] i show ?thesis
    by (simp add: clause_parts_def who_def)
qed

lemma spec_clause_parts:
  assumes "spec_clause m part = Inr m'" and "trim_space part \<noteq> []"
  obtains c who perms where "clause_parts (trim_space part) = Some (c, who, perms)"
    "\<And>n. bit m' n \<longleftrightarrow> clause_bits c who perms m n"
  using assms by (auto elim: spec_clause_cases)

lemma clause_bits_of:
  assumes "spec_clause m part = Inr m'" and "clause_parts (trim_space part) = Some (c, who, perms)"
  shows "bit m' n \<longleftrightarrow> clause_bits c who perms m n"
  using assms(1)
proof (cases rule: spec_clause_cases)
  case blank
  with assms(2) show ?thesis by (simp add: clause_parts_def)
next
  case (clause c' who' perms')
  with assms(2) show ?thesis by simp
qed

text \<open>
  C31. A symbolic clause means what its bits say: \<open>+\<close> adds the permissions it names for the classes
  it names (\<open>a\<close> for all three), \<open>-\<close> takes them away, \<open>=\<close> sets the named classes to exactly these
  permissions; every other bit of the mode is kept.
\<close>

theorem spec_clause_meaning:
  assumes "spec_clause m part = Inr m'" and "clause_parts (trim_space part) = Some (c, who, perms)"
  shows "bit m' n \<longleftrightarrow> clause_bits c who perms m n"
  using assms by (rule clause_bits_of)

theorem spec_clause_meaning_witness:
  "bit (0x1C8 :: filemode) 3 \<longleftrightarrow> clause_bits (CHR ''+'') ''ug'' ''x'' (0x180 :: filemode) 3"
proof -
  have "spec_clause (0x180 :: filemode) '' ug+x'' = Inr 0x1C8"
    and "clause_parts (trim_space '' ug+x'') = Some (CHR ''+'', ''ug'', ''x'')" by code_simp+
  then show ?thesis by (rule spec_clause_meaning)
qed

subsection \<open>A mode specification is a bitwise affine map\<close>

definition affine :: "(filemode \<Rightarrow> goerr + filemode) \<Rightarrow> (nat \<Rightarrow> bool) \<Rightarrow> (nat \<Rightarrow> bool) \<Rightarrow> bool" where
  "affine f A B \<longleftrightarrow> (\<forall>k. \<exists>k'. f k = Inr k' \<and> (\<forall>n. bit k' n \<longleftrightarrow> A n \<and> bit k n \<or> B n))"

definition low_affine :: "(filemode \<Rightarrow> goerr + filemode) \<Rightarrow> bool" where
  "low_affine f \<longleftrightarrow> (\<exists>A B. affine f A B \<and> (\<forall>n \<ge> 9. A n \<and> \<not> B n))"

lemma affine_comp:
  assumes "low_affine f" "low_affine g"
  shows "low_affine (\<lambda>m. case f m of Inl e \<Rightarrow> Inl e | Inr m' \<Rightarrow> g m')"
proof -
  from assms obtain A B A' B' where f: "affine f A B" "\<forall>n \<ge> 9. A n \<and> \<not> B n"
    and g: "affine g A' B'" "\<forall>n \<ge> 9. A' n \<and> \<not> B' n" by (auto simp: low_affine_def)
  have "affine (\<lambda>m. case f m of Inl e \<Rightarrow> Inl e | Inr m' \<Rightarrow> g m')
      (\<lambda>n. A n \<and> A' n) (\<lambda>n. A' n \<and> B n \<or> B' n)"
    unfolding affine_def
  proof
    fix k
    from f(1) obtain k1 where k1: "f k = Inr k1" "\<forall>n. bit k1 n \<longleftrightarrow> A n \<and> bit k n \<or> B n"
      unfolding affine_def by blast
    from g(1) obtain k2 where k2: "g k1 = Inr k2" "\<forall>n. bit k2 n \<longleftrightarrow> A' n \<and> bit k1 n \<or> B' n"
      unfolding affine_def by blast
    from k1 k2 show "\<exists>k'. (case f k of Inl e \<Rightarrow> Inl e | Inr m' \<Rightarrow> g m') = Inr k' \<and>
        (\<forall>n. bit k' n \<longleftrightarrow> (A n \<and> A' n) \<and> bit k n \<or> (A' n \<and> B n \<or> B' n))" by auto
  qed
  with f(2) g(2) show ?thesis unfolding low_affine_def by blast
qed

lemma affine_Inr: "low_affine Inr"
  unfolding low_affine_def affine_def by (rule exI [of _ "\<lambda>_. True"], rule exI [of _ "\<lambda>_. False"]) simp

lemma affineD: "affine f A B \<Longrightarrow> f m = Inr m' \<Longrightarrow> bit m' n \<longleftrightarrow> A n \<and> bit m n \<or> B n"
  unfolding affine_def by (drule spec [of _ m]) auto

text \<open>Whether a clause is accepted does not depend on the mode it is applied to.\<close>

lemma spec_clause_total:
  assumes "spec_clause m part = Inr m'"
  shows "\<exists>k'. spec_clause k part = Inr k'"
proof (cases "trim_space part = []")
  case True
  then show ?thesis by (simp add: spec_clause_def)
next
  case False
  let ?p = "trim_space part"
  from False assms obtain i where i: "index_any ?p ''=+-'' = Some i" "i \<noteq> length ?p - 1"
    by (auto simp: spec_clause_def Let_def split: option.splits if_splits)
  define who where "who = (if contains (take i ?p) ''a'' then ''ugo'' else take i ?p)"
  have eq: "spec_clause k part = (case fold_err (perm_letter who) 0 (drop (i + 1) ?p) of
      Inl e \<Rightarrow> Inl e | Inr msk \<Rightarrow> apply_op (?p ! i) who msk k)" for k
    unfolding spec_clause_def Let_def who_def using False i by simp
  from assms obtain msk where msk: "fold_err (perm_letter who) 0 (drop (i + 1) ?p) = Inr msk"
    and op: "apply_op (?p ! i) who msk m = Inr m'"
    unfolding eq [of m] by (auto simp: sum_case_Inr_iff)
  from op have "\<exists>k'. apply_op (?p ! i) who msk k = Inr k'" by (simp add: apply_op_def split: if_splits)
  then show ?thesis unfolding eq [of k] msk by simp
qed

lemma selects_low: "selects who perms n \<Longrightarrow> n < 9"
  by (simp add: selects_def)

lemma clause_bits_affine:
  assumes "\<And>k. \<exists>k'. f k = Inr k' \<and> (\<forall>n. bit k' n \<longleftrightarrow> clause_bits c who perms k n)"
  shows "low_affine f"
proof -
  consider "c = CHR ''+''" | "c = CHR ''-''" | "c \<noteq> CHR ''+''" "c \<noteq> CHR ''-''" by blast
  then obtain A B where clause: "\<And>k n. clause_bits c who perms k n \<longleftrightarrow> A n \<and> bit k n \<or> B n"
    and high: "\<And>n. 9 \<le> n \<Longrightarrow> A n \<and> \<not> B n"
  proof cases
    case 1
    show ?thesis
      by (rule that [of "\<lambda>_. True" "selects who perms"]) (use 1 selects_low in \<open>auto simp: clause_bits_def not_less [symmetric]\<close>)
  next
    case 2
    show ?thesis
      by (rule that [of "\<lambda>n. \<not> selects who perms n" "\<lambda>_. False"])
        (use 2 selects_low in \<open>auto simp: clause_bits_def not_less [symmetric]\<close>)
  next
    case 3
    show ?thesis
      by (rule that [of "\<lambda>n. \<not> (n < 9 \<and> class_of n \<in> set who)" "selects who perms"])
        (use 3 in \<open>auto simp: clause_bits_def selects_def\<close>)
  qed
  have "affine f A B" unfolding affine_def clause [symmetric] using assms by blast
  with high show ?thesis unfolding low_affine_def by blast
qed

lemma spec_clause_affine:
  assumes "spec_clause m part = Inr m'"
  shows "low_affine (\<lambda>k. spec_clause k part)"
proof (cases "trim_space part = []")
  case True
  then have "(\<lambda>k. spec_clause k part) = Inr" by (simp add: fun_eq_iff spec_clause_def)
  then show ?thesis using affine_Inr by simp
next
  case False
  obtain c who perms where parts: "clause_parts (trim_space part) = Some (c, who, perms)"
    by (rule spec_clause_parts [OF assms False])
  have bits: "\<exists>k'. spec_clause k part = Inr k' \<and> (\<forall>n. bit k' n \<longleftrightarrow> clause_bits c who perms k n)" for k
  proof -
    from spec_clause_total [OF assms, of k] obtain k' where k': "spec_clause k part = Inr k'" ..
    from clause_bits_of [OF k' parts] k' show ?thesis by blast
  qed
  show ?thesis
  proof (rule clause_bits_affine)
    fix k show "\<exists>k'. spec_clause k part = Inr k' \<and> (\<forall>n. bit k' n \<longleftrightarrow> clause_bits c who perms k n)"
      by (rule bits)
  qed
qed

lemma fold_clause_affine:
  "fold_err spec_clause m parts = Inr m' \<Longrightarrow> low_affine (\<lambda>k. fold_err spec_clause k parts)"
proof (induction parts arbitrary: m)
  case Nil
  then show ?case by (simp add: affine_Inr)
next
  case (Cons part parts)
  then obtain m1 where m1: "spec_clause m part = Inr m1" "fold_err spec_clause m1 parts = Inr m'"
    by (auto simp: sum_case_Inr_iff)
  from affine_comp [OF spec_clause_affine [OF m1(1)] Cons.IH [OF m1(2)]] show ?case by simp
qed

lemma spec_mode_affine: "spec_mode m spec = Inr m' \<Longrightarrow> low_affine (\<lambda>k. spec_mode k spec)"
  unfolding spec_mode_def by (rule fold_clause_affine)

lemma spec_mode_again:
  assumes "spec_mode m spec = Inr m'"
  shows "spec_mode m' spec = Inr m'"
proof -
  from spec_mode_affine [OF assms] obtain A B where aff: "affine (\<lambda>k. spec_mode k spec) A B"
    by (auto simp: low_affine_def)
  from affineD [OF this assms] have m': "\<forall>n. bit m' n \<longleftrightarrow> A n \<and> bit m n \<or> B n" by blast
  from aff obtain m2 where m2: "spec_mode m' spec = Inr m2" "\<forall>n. bit m2 n \<longleftrightarrow> A n \<and> bit m' n \<or> B n"
    unfolding affine_def by blast
  with m' have "m2 = m'" by (intro bit_eqI) auto
  with m2 show ?thesis by simp
qed

lemma spec_mode_low:
  assumes "spec_mode (perm m) spec = Inr m'"
  shows "perm m' = m'"
proof -
  from spec_mode_affine [OF assms] obtain A B where aff: "affine (\<lambda>k. spec_mode k spec) A B"
    and high: "\<forall>n \<ge> 9. A n \<and> \<not> B n" by (auto simp: low_affine_def)
  from affineD [OF aff assms] have m': "\<forall>n. bit m' n \<longleftrightarrow> A n \<and> bit (perm m) n \<or> B n" by blast
  show ?thesis unfolding perm_eq_iff
  proof (intro allI impI)
    fix n assume "bit m' n"
    with m' high show "n < 9" by (auto simp: bit_perm not_less)
  qed
qed

text \<open>
  Applying a symbolic mode to the permissions it produced changes nothing: whatever clauses it
  has, a second pass gives the same mode. A task with a symbolic mode can therefore settle.
\<close>

theorem spec_mode_idem:
  assumes "spec_mode m spec = Inr m'"
  shows "spec_mode m' spec = Inr m'"
  using assms by (rule spec_mode_again)

theorem spec_mode_idem_witness:
  "spec_mode (0x1A4 :: filemode) ''u=rwx, g-w,o+x'' = Inr 0x1E5 \<and>
   spec_mode (0x1E5 :: filemode) ''u=rwx, g-w,o+x'' = Inr 0x1E5"
proof -
  have first: "spec_mode (0x1A4 :: filemode) ''u=rwx, g-w,o+x'' = Inr 0x1E5" by code_simp
  show ?thesis using first spec_mode_idem [OF first] by simp
qed

text \<open>
  A symbolic mode is computed from permission bits and yields permission bits only: no clause
  can reach the setuid, setgid, sticky or type bits of the mode word.
\<close>

theorem spec_mode_perm:
  assumes "spec_mode (perm m) spec = Inr m'"
  shows "perm m' = m'"
  using assms by (rule spec_mode_low)

theorem spec_mode_perm_witness: "perm (0x1ED :: filemode) = 0x1ED"
proof -
  have "spec_mode (perm 0x81A4) ''a+x,u+w'' = Inr 0x1ED" by code_simp
  then show ?thesis by (rule spec_mode_perm)
qed

section \<open>Octal modes\<close>

text \<open>
  C32. An unquoted YAML number round trips: the decoder stores it in octal, and the parse that the
  tasks later apply to the stored string gives the number back, for every 32-bit mode.
\<close>

theorem unquoted_mode_roundtrip:
  assumes "b = [] \<or> hd b \<noteq> CHR 0x22 \<and> hd b \<noteq> CHR 0x27"
    and "y_int64 b = Some (int n)" and "n < 2 ^ 32"
  shows "\<exists>m. Mode_UnmarshalYAML y_string y_int64 y_uint64 b = Inr m \<and>
             parse_uint 8 32 (Mode_GetValue (Some m)) = Some n"
  using assms parse_format_uint [of 8 n 32]
  by (auto simp: Mode_UnmarshalYAML_def format_int_def Mode_GetValue_def)

theorem unquoted_mode_roundtrip_witness:
  "\<exists>m. Mode_UnmarshalYAML (\<lambda>b. Some b) (\<lambda>b. Some 420) (\<lambda>b. None) ''0644'' = Inr m \<and>
       parse_uint 8 32 (Mode_GetValue (Some m)) = Some 420"
  by (rule unquoted_mode_roundtrip) simp_all

end
