(* ===== verification/Result.thy ===== *)
theory Result
  imports Prelude
begin

text \<open>
  The results of tasks (\<^verbatim>\<open>CommonResult\<close>, \<^verbatim>\<open>LoopResult\<close> and the \<^verbatim>\<open>Result\<close> interface of
  \<^verbatim>\<open>pkg/exec/task.go\<close>). The result structs of the modules embed \<^verbatim>\<open>CommonResult\<close>; here they
  extend its record.
\<close>

record CommonResult =
  Changed :: bool
  Failed :: bool
  Msg :: string
  RC :: int
  Skipped :: bool
  Stderr :: string
  StderrLines :: "string list"
  Stdout :: string
  StdoutLines :: "string list"

definition CommonResult_zero :: CommonResult where
  "CommonResult_zero =
     \<lparr> Changed = False, Failed = False, Msg = [], RC = 0, Skipped = False,
       Stderr = [], StderrLines = [], Stdout = [], StdoutLines = [] \<rparr>"

definition TaskChanged :: "'a CommonResult_scheme \<Rightarrow> 'a CommonResult_scheme" where
  "TaskChanged c = c\<lparr>Changed := True\<rparr>"

definition TaskSkipped :: "'a CommonResult_scheme \<Rightarrow> 'a CommonResult_scheme" where
  "TaskSkipped c = c\<lparr>Skipped := True\<rparr>"

definition TaskFailed :: "'a CommonResult_scheme \<Rightarrow> 'a CommonResult_scheme" where
  "TaskFailed c = c\<lparr>Failed := True\<rparr>"

definition IsChanged :: "'a CommonResult_scheme \<Rightarrow> bool" where "IsChanged c = Changed c"
definition IsSkipped :: "'a CommonResult_scheme \<Rightarrow> bool" where "IsSkipped c = Skipped c"
definition IsFailed :: "'a CommonResult_scheme \<Rightarrow> bool" where "IsFailed c = Failed c"

lemmas result_defs = TaskChanged_def TaskSkipped_def TaskFailed_def IsChanged_def IsSkipped_def IsFailed_def

lemma result_flags [simp]:
  "Changed (TaskChanged c)" "Changed (TaskSkipped c) = Changed c" "Changed (TaskFailed c) = Changed c"
  "Skipped (TaskChanged c) = Skipped c" "Skipped (TaskSkipped c)" "Skipped (TaskFailed c) = Skipped c"
  "Failed (TaskChanged c) = Failed c" "Failed (TaskSkipped c) = Failed c" "Failed (TaskFailed c)"
  by (simp_all add: result_defs)

lemma result_keeps [simp]:
  "Stdout (TaskChanged c) = Stdout c" "Stderr (TaskChanged c) = Stderr c" "RC (TaskChanged c) = RC c"
  "Stdout (TaskSkipped c) = Stdout c" "Stderr (TaskSkipped c) = Stderr c" "RC (TaskSkipped c) = RC c"
  "Stdout (TaskFailed c) = Stdout c" "Stderr (TaskFailed c) = Stderr c" "RC (TaskFailed c) = RC c"
  by (simp_all add: result_defs)

lemma CommonResult_zero_flags [simp]:
  "\<not> Changed CommonResult_zero" "\<not> Failed CommonResult_zero" "\<not> Skipped CommonResult_zero"
  by (simp_all add: CommonResult_zero_def)

section \<open>What every module promises\<close>

text \<open>
  The contract between a module and the engine that runs it: the failed flag says whether there is
  an error, and a skipped task has neither failed, nor changed anything, nor touched the machine.
\<close>

locale task_module =
  fixes run :: "'w \<Rightarrow> 'r CommonResult_scheme \<times> goerr option \<times> 'w"
  assumes failed_iff: "run w = (r, err, w') \<Longrightarrow> Failed r \<longleftrightarrow> err \<noteq> None"
    and skipped_quiet: "run w = (r, err, w') \<Longrightarrow> Skipped r \<Longrightarrow> \<not> Changed r \<and> err = None \<and> w' = w"

text \<open>How a run is reported: the four kinds of outcome exclude each other.\<close>

datatype status = Ok | ChangedOk | SkippedOk | FailedErr

definition status_of :: "'a CommonResult_scheme \<Rightarrow> status" where
  "status_of r =
     (if IsFailed r then FailedErr else if IsSkipped r then SkippedOk
      else if IsChanged r then ChangedOk else Ok)"

context task_module
begin

lemma status_cases:
  assumes "run w = (r, err, w')"
  shows "(status_of r = FailedErr) = (err \<noteq> None)"
    "(status_of r = SkippedOk) = Skipped r"
    "status_of r = Ok \<Longrightarrow> \<not> Changed r \<and> \<not> Skipped r \<and> err = None"
  using failed_iff [OF assms] skipped_quiet [OF assms]
  by (auto simp: status_of_def result_defs split: if_splits)

lemma skipped_world: "run w = (r, err, w') \<Longrightarrow> status_of r = SkippedOk \<Longrightarrow> w' = w"
  using skipped_quiet status_cases(2) by blast

end

end
