(* ===== verification/FileModule.thy ===== *)
theory FileModule
  imports ModeUtil Result
begin

text \<open>
  The \<^verbatim>\<open>file\<close> module, \<^verbatim>\<open>pkg/exec/file.go\<close>, over the message \<^verbatim>\<open>proto.File\<close>. \<open>File_Apply\<close> is
  the whole handler: the state dispatch, the recursion over a directory, and the report.
\<close>

section \<open>Data\<close>

definition FileAbsent :: string where "FileAbsent = ''absent''"
definition FileDirectory :: string where "FileDirectory = ''directory''"
definition FileFile :: string where "FileFile = ''file''"
definition FileHard :: string where "FileHard = ''hard''"
definition FileLink :: string where "FileLink = ''link''"
definition FileTouch :: string where "FileTouch = ''touch''"

lemmas file_states = FileAbsent_def FileDirectory_def FileFile_def FileHard_def FileLink_def FileTouch_def

record File =
  f_Path :: string
  f_Follow :: "bool option"
  f_Group :: string
  f_Mode :: "Mode option"
  f_Owner :: string
  f_Recurse :: bool
  f_Src :: string
  f_State :: string
  f_AccessTime :: string
  f_AccessTimeFormat :: string
  f_Attributes :: string
  f_Force :: bool
  f_ModificationTime :: string
  f_ModificationTimeFormat :: string
  f_Selevel :: string
  f_Serole :: string
  f_Setype :: string
  f_Seuser :: string
  f_UnsafeWrites :: bool

text \<open>The zero value of the Go struct.\<close>

definition File_zero :: File where
  "File_zero =
     \<lparr> f_Path = [], f_Follow = None, f_Group = [], f_Mode = None, f_Owner = [], f_Recurse = False,
       f_Src = [], f_State = [], f_AccessTime = [], f_AccessTimeFormat = [], f_Attributes = [],
       f_Force = False, f_ModificationTime = [], f_ModificationTimeFormat = [], f_Selevel = [],
       f_Serole = [], f_Setype = [], f_Seuser = [], f_UnsafeWrites = False \<rparr>"

record FileResult = CommonResult +
  fr_Dest :: string
  fr_Uid :: u32
  fr_Gid :: u32
  fr_Owner :: string
  fr_Group :: string
  fr_Mode :: string
  fr_Path :: string
  fr_State :: string
  fr_Size :: nat

definition FileResult_zero :: FileResult where
  "FileResult_zero = CommonResult.extend CommonResult_zero
     (FileResult.fields [] 0 0 [] [] [] [] [] 0)"

section \<open>Validation\<close>

definition quoted :: "string \<Rightarrow> string" where "quoted s = [CHR 0x27] @ s @ [CHR 0x27]"

definition File_Validate :: "File \<Rightarrow> goerr option" where
  "File_Validate f =
     (if f_State f \<notin> {FileAbsent, FileDirectory, FileFile, FileHard, FileLink, FileTouch}
      then Some (ErrMsg ''invalid state'')
      else if f_Path f = [] then Some (ErrMsg ''path is required'')
      else if f_Recurse f \<and> f_State f \<noteq> FileDirectory
      then Some (ErrMsg (''recurse option requires state to be '' @ quoted ''directory''))
      else if (f_State f = FileLink \<or> f_State f = FileHard) \<and> f_Src f = []
      then Some (ErrMsg (''src option is required when state is '' @ quoted ''link'' @ '' or '' @ quoted ''hard''))
      else None)"

section \<open>Does a file need a change of mode or owner?\<close>

definition desired_mode :: "'w os \<Rightarrow> string \<Rightarrow> mode_any \<Rightarrow> 'w \<Rightarrow> goerr + filemode" where
  "desired_mode os p mode w =
     (case mode of
        MNil \<Rightarrow> Inr 0
      | MString v \<Rightarrow>
          if v = [] then Inr 0
          else (case parse_uint 8 32 v of
                  Some n \<Rightarrow> Inr (mode_of_nat n)
                | None \<Rightarrow> NewModeFromSpec os (path_dir p) p v w)
      | MInt v \<Rightarrow> Inr (mode_of_int v)
      | MInt64 v \<Rightarrow> Inr (mode_of_int v)
      | MUint64 v \<Rightarrow> Inr (mode_of_nat v)
      | MUint64Ptr None \<Rightarrow> Inr 0
      | MUint64Ptr (Some v) \<Rightarrow> Inr (mode_of_nat v)
      | MOther \<Rightarrow> Inl (ErrMsg ''unsupported mode type''))"

definition needsModeOrOwnershipChange ::
  "'w os \<Rightarrow> string \<Rightarrow> mode_any \<Rightarrow> int \<Rightarrow> int \<Rightarrow> 'w \<Rightarrow> goerr + bool" where
  "needsModeOrOwnershipChange os p mode uid gid w =
     (case os_lstat os p w of
        Inl e \<Rightarrow> Inl (OsErr e)
      | Inr stat \<Rightarrow>
          (case desired_mode os p mode w of
             Inl e \<Rightarrow> Inl e
           | Inr desired \<Rightarrow>
               if mode \<noteq> MNil \<and> desired \<noteq> 0 \<and> perm (fi_mode stat) \<noteq> desired then Inr True
               else if uid \<noteq> -1 \<and> fi_uid stat \<noteq> word_of_int uid then Inr True
               else if gid \<noteq> -1 \<and> fi_gid stat \<noteq> word_of_int gid then Inr True
               else Inr False))"

section \<open>Applying\<close>

text \<open>
  The block the states share: change mode and ids if they differ. \<open>Inr b\<close> tells whether
  anything was changed; a failing change is wrapped, a failing check is not.
\<close>

definition ensure_mode_ids ::
  "'w os \<Rightarrow> string \<Rightarrow> mode_any \<Rightarrow> int \<Rightarrow> int \<Rightarrow> 'w \<Rightarrow> (goerr + bool) \<times> 'w" where
  "ensure_mode_ids os p mode uid gid w =
     (case needsModeOrOwnershipChange os p mode uid gid w of
        Inl e \<Rightarrow> (Inl e, w)
      | Inr False \<Rightarrow> (Inr False, w)
      | Inr True \<Rightarrow>
          (case ApplyModeAndIDs os p mode uid gid w of
             (Some e, w') \<Rightarrow> (Inl (Wrap (''couldn't apply mode and IDs to '' @ p) e), w')
           | (None, w') \<Rightarrow> (Inr True, w')))"

text \<open>The callback of the recursive walk; its state is the \<open>changed\<close> flag and the world.\<close>

definition recurse_entry ::
  "'w os \<Rightarrow> mode_any \<Rightarrow> int \<Rightarrow> int \<Rightarrow> string \<Rightarrow> fileinfo \<Rightarrow> bool \<times> 'w \<Rightarrow> goerr option \<times> (bool \<times> 'w)" where
  "recurse_entry os mode uid gid p d s =
     (case s of (changed, w) \<Rightarrow>
        if is_link d then
          (case needsModeOrOwnershipChange os p MNil uid gid w of
             Inl e \<Rightarrow> (Some e, changed, w)
           | Inr False \<Rightarrow> (None, changed, w)
           | Inr True \<Rightarrow>
               (case os_lchown os p uid gid w of
                  (Some e, w') \<Rightarrow> (Some (OsErr e), True, w')
                | (None, w') \<Rightarrow> (None, True, w')))
        else
          (case needsModeOrOwnershipChange os p mode uid gid w of
             Inl e \<Rightarrow> (Some e, changed, w)
           | Inr False \<Rightarrow> (None, changed, w)
           | Inr True \<Rightarrow>
               (case ApplyModeAndIDs os p mode uid gid w of
                  (Some e, w') \<Rightarrow> (Some e, True, w')
                | (None, w') \<Rightarrow> (None, True, w'))))"

text \<open>
  A branch of the switch returns early (\<open>Inl\<close>, with the result and the error) or falls
  through to the report with the result so far and the \<open>changed\<close> flag.
\<close>

type_synonym 'w file_step = "((FileResult \<times> goerr option) + (FileResult \<times> bool)) \<times> 'w"

definition fail_with :: "FileResult \<Rightarrow> goerr \<Rightarrow> 'w \<Rightarrow> 'w file_step" where
  "fail_with r e w = (Inl (TaskFailed r, Some e), w)"

definition file_absent :: "'w os \<Rightarrow> File \<Rightarrow> bool \<Rightarrow> FileResult \<Rightarrow> 'w \<Rightarrow> 'w file_step" where
  "file_absent os f exists result w =
     (let r = result\<lparr>fr_Path := f_Path f, fr_State := FileAbsent\<rparr> in
      if exists then
        (case os_removeAll os (f_Path f) w of
           (Some e, w') \<Rightarrow> fail_with r (OsErr e) w'
         | (None, w') \<Rightarrow> (Inl (TaskChanged r, None), w'))
      else (Inl (r, None), w))"

definition file_directory ::
  "'w os \<Rightarrow> File \<Rightarrow> bool \<Rightarrow> int \<Rightarrow> int \<Rightarrow> FileResult \<Rightarrow> 'w \<Rightarrow> 'w file_step" where
  "file_directory os f exists uid gid result w =
     (let r = result\<lparr>fr_Path := f_Path f\<rparr>; mode = MString (Mode_GetValue (f_Mode f)) in
      case os_mkdirAll os (f_Path f) 0x1ED w of
        (Some e, w1) \<Rightarrow> fail_with r (OsErr e) w1
      | (None, w1) \<Rightarrow>
          (if f_Recurse f then
             (case walk_dir os snd (recurse_entry os mode uid gid) (f_Path f) (\<not> exists, w1) of
                (Some e, _, w2) \<Rightarrow> fail_with r e w2
              | (None, changed, w2) \<Rightarrow> (Inr (r, changed), w2))
           else
             (case ensure_mode_ids os (f_Path f) mode uid gid w1 of
                (Inl e, w2) \<Rightarrow> fail_with r e w2
              | (Inr b, w2) \<Rightarrow> (Inr (r, \<not> exists \<or> b), w2))))"

definition file_file ::
  "'w os \<Rightarrow> File \<Rightarrow> bool \<Rightarrow> int \<Rightarrow> int \<Rightarrow> FileResult \<Rightarrow> 'w \<Rightarrow> 'w file_step" where
  "file_file os f exists uid gid result w =
     (let r = result\<lparr>fr_Path := f_Path f\<rparr> in
      if \<not> exists then fail_with r (ErrMsg ''file does not exist'') w
      else if f_Mode f = None \<and> f_Owner f = [] \<and> f_Group f = [] then (Inl (TaskSkipped r, None), w)
      else (case ensure_mode_ids os (f_Path f) (MString (Mode_GetValue (f_Mode f))) uid gid w of
              (Inl e, w1) \<Rightarrow> fail_with r e w1
            | (Inr b, w1) \<Rightarrow> (Inr (r, b), w1)))"

text \<open>Make the link point to \<open>f_Src\<close>: \<open>Inr b\<close> tells whether it had to be made or replaced.\<close>

definition place_link :: "'w os \<Rightarrow> File \<Rightarrow> bool \<Rightarrow> 'w \<Rightarrow> (goerr + bool) \<times> 'w" where
  "place_link os f exists w =
     (if \<not> exists then
        (case os_symlink os (f_Src f) (f_Path f) w of
           (Some e, w1) \<Rightarrow> (Inl (OsErr e), w1)
         | (None, w1) \<Rightarrow> (Inr True, w1))
      else
        (case os_readlink os (f_Path f) w of
           Inl e \<Rightarrow> (Inl (OsErr e), w)
         | Inr existingSrc \<Rightarrow>
             if existingSrc \<noteq> f_Src f then
               (case os_remove os (f_Path f) w of
                  (Some e, w1) \<Rightarrow> (Inl (OsErr e), w1)
                | (None, w1) \<Rightarrow>
                    (case os_symlink os (f_Src f) (f_Path f) w1 of
                       (Some e, w2) \<Rightarrow> (Inl (OsErr e), w2)
                     | (None, w2) \<Rightarrow> (Inr True, w2)))
             else (Inr False, w)))"

definition file_link ::
  "'w os \<Rightarrow> File \<Rightarrow> bool \<Rightarrow> bool \<Rightarrow> int \<Rightarrow> int \<Rightarrow> FileResult \<Rightarrow> 'w \<Rightarrow> 'w file_step" where
  "file_link os f exists follow uid gid result w =
     (let r = result\<lparr>fr_Dest := f_Path f\<rparr> in
      case place_link os f exists w of
        (Inl e, w1) \<Rightarrow> fail_with r e w1
      | (Inr changed, w1) \<Rightarrow>
          (if follow then
             (case ensure_mode_ids os (f_Path f) (MString (Mode_GetValue (f_Mode f))) uid gid w1 of
                (Inl e, w2) \<Rightarrow> fail_with r e w2
              | (Inr b, w2) \<Rightarrow> (Inr (r, changed \<or> b), w2))
           else (Inr (r, changed), w1)))"

definition file_touch ::
  "'w os \<Rightarrow> File \<Rightarrow> bool \<Rightarrow> int \<Rightarrow> int \<Rightarrow> FileResult \<Rightarrow> 'w \<Rightarrow> 'w file_step" where
  "file_touch os f exists uid gid result w =
     (let r = result\<lparr>fr_Dest := f_Path f\<rparr> in
      case (if exists then (None, w)
            else (case os_create os (f_Path f) w of
                    (Inl e, w1) \<Rightarrow> (Some (Wrap (''failed to create '' @ f_Path f) (OsErr e)), w1)
                  | (Inr _, w1) \<Rightarrow> (None, w1))) of
        (Some e, w1) \<Rightarrow> fail_with r e w1
      | (None, w1) \<Rightarrow>
          (case ensure_mode_ids os (f_Path f) (MString (Mode_GetValue (f_Mode f))) uid gid w1 of
             (Inl e, w2) \<Rightarrow> fail_with r e w2
           | (Inr b, w2) \<Rightarrow> (Inr (r, \<not> exists \<or> b), w2)))"

definition file_state ::
  "'w os \<Rightarrow> File \<Rightarrow> string \<Rightarrow> bool \<Rightarrow> bool \<Rightarrow> int \<Rightarrow> int \<Rightarrow> FileResult \<Rightarrow> 'w \<Rightarrow> 'w file_step" where
  "file_state os f actualState exists follow uid gid result w =
     (if actualState = FileAbsent then file_absent os f exists result w
      else if actualState = FileDirectory then file_directory os f exists uid gid result w
      else if actualState = FileFile then file_file os f exists uid gid result w
      else if actualState = FileHard then
        fail_with (result\<lparr>fr_Dest := f_Path f\<rparr>) (ErrMsg ''not implemented'') w
      else if actualState = FileLink then file_link os f exists follow uid gid result w
      else if actualState = FileTouch then file_touch os f exists uid gid result w
      else fail_with result (ErrMsg ''unsupported state parameter'') w)"

text \<open>\<^verbatim>\<open>fmt.Sprintf("%#o", m)\<close>.\<close>

definition sharp_octal :: "filemode \<Rightarrow> string" where
  "sharp_octal m = (if m = 0 then ''0'' else CHR ''0'' # format_uint 8 (unat m))"

definition reported_state :: "fileinfo \<Rightarrow> string" where
  "reported_state fi =
     (if is_link fi then FileLink
      else if is_dir fi then FileDirectory
      else if 1 < fi_nlink fi then FileHard
      else FileFile)"

definition file_report ::
  "'w os \<Rightarrow> userdb \<Rightarrow> File \<Rightarrow> string \<Rightarrow> FileResult \<Rightarrow> 'w \<Rightarrow> FileResult \<times> goerr option \<times> 'w" where
  "file_report os db f actualState r w =
     (if actualState \<noteq> FileAbsent then
        (case os_lstat os (f_Path f) w of
           Inl e \<Rightarrow> (TaskFailed r, Some (Wrap (''failed to stat '' @ f_Path f) (OsErr e)), w)
         | Inr fi \<Rightarrow>
             (r\<lparr>fr_Mode := sharp_octal (perm (fi_mode fi)), fr_State := reported_state fi,
                fr_Uid := fi_uid fi, fr_Gid := fi_gid fi, fr_Size := fi_size fi,
                fr_Owner := (case user_LookupId db (itoa (uint (fi_uid fi))) of
                               Inr u \<Rightarrow> u_username u | Inl _ \<Rightarrow> fr_Owner r),
                fr_Group := (case user_LookupGroupId db (itoa (uint (fi_gid fi))) of
                               Inr g \<Rightarrow> g_name g | Inl _ \<Rightarrow> fr_Group r)\<rparr>,
              None, w))
      else (r, None, w))"

text \<open>After the switch: an early return is final, otherwise the flag is set and the file reported.\<close>

definition file_finish ::
  "'w os \<Rightarrow> userdb \<Rightarrow> File \<Rightarrow> string \<Rightarrow> 'w file_step \<Rightarrow> FileResult \<times> goerr option \<times> 'w" where
  "file_finish os db f actualState s =
     (case s of
        (Inl (r, err), w) \<Rightarrow> (r, err, w)
      | (Inr (r, changed), w) \<Rightarrow>
          file_report os db f actualState (if changed then TaskChanged r else r) w)"

definition follows :: "File \<Rightarrow> bool" where
  "follows f = (case f_Follow f of None \<Rightarrow> True | Some b \<Rightarrow> b)"

definition actual_state :: "File \<Rightarrow> bool \<Rightarrow> string" where
  "actual_state f exists =
     (if f_State f = [] \<and> \<not> exists then (if f_Recurse f then FileDirectory else FileFile) else f_State f)"

definition path_exists :: "'w os \<Rightarrow> string \<Rightarrow> 'w \<Rightarrow> errno + bool" where
  "path_exists os p w =
     (case os_lstat os p w of
        Inr _ \<Rightarrow> Inr True
      | Inl e \<Rightarrow> if is_not_exist e then Inr False else Inl e)"

definition File_Apply :: "'w os \<Rightarrow> userdb \<Rightarrow> File \<Rightarrow> 'w \<Rightarrow> FileResult \<times> goerr option \<times> 'w" where
  "File_Apply os db f w =
     (let follow = follows f;
          result = FileResult_zero
      in case path_exists os (f_Path f) w of
           Inl e \<Rightarrow> (TaskFailed result, Some (OsErr e), w)
         | Inr exists \<Rightarrow>
             (let actualState = actual_state f exists in
              case GetUid db (f_Owner f) of
                Inl e \<Rightarrow> (TaskFailed result, Some e, w)
              | Inr uid \<Rightarrow>
                  (case GetGid db (f_Group f) of
                     Inl e \<Rightarrow> (TaskFailed result, Some e, w)
                   | Inr gid \<Rightarrow>
                       file_finish os db f actualState
                         (file_state os f actualState exists follow uid gid result w))))"

end
