(* ===== verification/MemFs.thy ===== *)
theory MemFs
  imports Os "HOL-Library.Char_ord" "HOL-Library.List_Lexorder" "HOL-Library.Sublist"
begin

text \<open>
  An executable file system in the style of a Unix kernel run as the superuser: names are
  mapped to inode numbers (two names may share an inode, so hard links alias), directories,
  regular files and symbolic links, path resolution with \<open>..\<close>, relative paths, symbolic links
  with the kernel's limit of 40, and \<open>PATH_MAX\<close>. It provides the operations of \<open>Os\<close>, is
  shown to satisfy the laws \<open>posix_os\<close>, and evaluates in witnesses. Permission checks
  (the executer runs as root), quotas, devices and directory time stamps are left out.
\<close>

section \<open>State\<close>

datatype kind = KFile | KDir | KLink

record inode =
  in_kind :: kind
  in_mode :: filemode
  in_uid :: u32
  in_gid :: u32
  in_data :: string
  in_mtime :: int

record memfs =
  fs_names :: "(string list \<times> nat) list"
  fs_inodes :: "nat \<Rightarrow> inode"
  fs_cwd :: "string list"
  fs_umask :: filemode
  fs_now :: int

text \<open>The bits \<^verbatim>\<open>chmod\<close> sets: permissions, setuid, setgid and sticky, in Go's encoding.\<close>

definition chmod_mask :: filemode where "chmod_mask = 0xD001FF"
definition setuid_bit :: filemode where "setuid_bit = 0x800000"
definition setgid_bit :: filemode where "setgid_bit = 0x400000"

definition kind_bits :: "kind \<Rightarrow> filemode" where
  "kind_bits k = (case k of KFile \<Rightarrow> 0 | KDir \<Rightarrow> mode_dir | KLink \<Rightarrow> mode_symlink)"

definition node :: "memfs \<Rightarrow> string list \<Rightarrow> inode option" where
  "node fs p = map_option (fs_inodes fs) (map_of (fs_names fs) p)"

definition fresh_ino :: "memfs \<Rightarrow> nat" where
  "fresh_ino fs = Suc (foldr max (map snd (fs_names fs)) 0)"

definition info_of :: "memfs \<Rightarrow> nat \<Rightarrow> fileinfo" where
  "info_of fs i =
     (let nd = fs_inodes fs i in
      \<lparr> fi_mode = kind_bits (in_kind nd) OR (in_mode nd AND chmod_mask), fi_uid = in_uid nd,
        fi_gid = in_gid nd, fi_nlink = length (filter (\<lambda>(p, j). j = i) (fs_names fs)),
        fi_size = length (in_data nd), fi_mtime = in_mtime nd \<rparr>)"

section \<open>Path resolution\<close>

text \<open>
  \<open>walk fs k fl cur cs\<close> resolves the components \<open>cs\<close> from the directory \<open>cur\<close> and returns the
  place the path names, which need not exist unless more components follow; \<open>fl\<close> says
  whether a symbolic link in the last place is followed and \<open>k\<close> how many links may be.
\<close>

function walk :: "memfs \<Rightarrow> nat \<Rightarrow> bool \<Rightarrow> string list \<Rightarrow> string list \<Rightarrow> errno + string list" where
  "walk fs k fl cur [] = Inr cur"
| "walk fs k fl cur (c # cs) =
     (if c = [] \<or> c = ''.'' then walk fs k fl cur cs
      else if c = ''..'' then walk fs k fl (butlast cur) cs
      else (let p = cur @ [c] in
            case node fs p of
              None \<Rightarrow> if cs = [] then Inr p else Inl ENOENT
            | Some nd \<Rightarrow>
                if in_kind nd = KLink \<and> (cs \<noteq> [] \<or> fl) then
                  (case k of 0 \<Rightarrow> Inl ELOOP
                   | Suc k' \<Rightarrow>
                       walk fs k' fl (if is_abs (in_data nd) then [] else cur)
                         (split_on slash (in_data nd) @ cs))
                else if in_kind nd = KDir \<or> cs = [] then walk fs k fl p cs
                else Inl ENOTDIR))"
  by pat_completeness auto
termination
  by (relation "measures [\<lambda>(fs, k, fl, cur, cs). k, \<lambda>(fs, k, fl, cur, cs). length cs]") auto

definition max_links :: nat where "max_links = 40"

definition locate :: "memfs \<Rightarrow> bool \<Rightarrow> string \<Rightarrow> errno + string list" where
  "locate fs fl p =
     (if p = [] then Inl ENOENT
      else if path_max \<le> length p then Inl ENAMETOOLONG
      else walk fs max_links fl (if is_abs p then [] else fs_cwd fs) (split_on slash p))"

text \<open>The inode number a path names.\<close>

definition ino_at :: "memfs \<Rightarrow> bool \<Rightarrow> string \<Rightarrow> errno + nat" where
  "ino_at fs fl p =
     (case locate fs fl p of
        Inl e \<Rightarrow> Inl e
      | Inr q \<Rightarrow> (case map_of (fs_names fs) q of None \<Rightarrow> Inl ENOENT | Some i \<Rightarrow> Inr i))"

section \<open>Operations\<close>

definition mem_lstat :: "string \<Rightarrow> memfs \<Rightarrow> errno + fileinfo" where
  "mem_lstat p fs = (case ino_at fs False p of Inl e \<Rightarrow> Inl e | Inr i \<Rightarrow> Inr (info_of fs i))"

definition mem_stat :: "string \<Rightarrow> memfs \<Rightarrow> errno + fileinfo" where
  "mem_stat p fs = (case ino_at fs True p of Inl e \<Rightarrow> Inl e | Inr i \<Rightarrow> Inr (info_of fs i))"

definition upd_inode :: "nat \<Rightarrow> (inode \<Rightarrow> inode) \<Rightarrow> memfs \<Rightarrow> memfs" where
  "upd_inode i f fs = fs\<lparr>fs_inodes := (fs_inodes fs)(i := f (fs_inodes fs i))\<rparr>"

definition on_ino :: "bool \<Rightarrow> (inode \<Rightarrow> inode) \<Rightarrow> string \<Rightarrow> memfs \<Rightarrow> errno option \<times> memfs" where
  "on_ino fl f p fs =
     (case ino_at fs fl p of Inl e \<Rightarrow> (Some e, fs) | Inr i \<Rightarrow> (None, upd_inode i f fs))"

definition mem_chmod :: "string \<Rightarrow> filemode \<Rightarrow> memfs \<Rightarrow> errno option \<times> memfs" where
  "mem_chmod p m = on_ino True (\<lambda>nd. nd\<lparr>in_mode := m AND chmod_mask\<rparr>) p"

text \<open>A change of owner clears setuid, and setgid where the group may execute, except on directories.\<close>

definition chown_inode :: "int \<Rightarrow> int \<Rightarrow> inode \<Rightarrow> inode" where
  "chown_inode u g nd =
     nd\<lparr>in_uid := new_id u (in_uid nd), in_gid := new_id g (in_gid nd),
        in_mode := (if in_kind nd = KDir then in_mode nd
                    else if in_mode nd AND 0x8 \<noteq> 0
                         then (in_mode nd AND NOT setuid_bit) AND NOT setgid_bit
                    else in_mode nd AND NOT setuid_bit)\<rparr>"

definition mem_chown :: "string \<Rightarrow> int \<Rightarrow> int \<Rightarrow> memfs \<Rightarrow> errno option \<times> memfs" where
  "mem_chown p u g = on_ino True (chown_inode u g) p"

definition mem_lchown :: "string \<Rightarrow> int \<Rightarrow> int \<Rightarrow> memfs \<Rightarrow> errno option \<times> memfs" where
  "mem_lchown p u g = on_ino False (chown_inode u g) p"

definition add_node :: "string list \<Rightarrow> inode \<Rightarrow> memfs \<Rightarrow> memfs" where
  "add_node q nd fs =
     fs\<lparr>fs_names := (q, fresh_ino fs) # fs_names fs,
        fs_inodes := (fs_inodes fs)(fresh_ino fs := nd)\<rparr>"

definition new_node :: "memfs \<Rightarrow> kind \<Rightarrow> filemode \<Rightarrow> string \<Rightarrow> inode" where
  "new_node fs k m d =
     \<lparr> in_kind = k, in_mode = m, in_uid = 0, in_gid = 0, in_data = d, in_mtime = fs_now fs \<rparr>"

text \<open>Make a new entry where the path leads, unless something is there.\<close>

definition make :: "kind \<Rightarrow> filemode \<Rightarrow> string \<Rightarrow> string \<Rightarrow> memfs \<Rightarrow> errno option \<times> memfs" where
  "make k m d p fs =
     (case locate fs False p of
        Inl e \<Rightarrow> (Some e, fs)
      | Inr q \<Rightarrow> (case node fs q of
                    Some nd \<Rightarrow> (Some EEXIST, fs)
                  | None \<Rightarrow> (None, add_node q (new_node fs k m d) fs)))"

definition mem_symlink :: "string \<Rightarrow> string \<Rightarrow> memfs \<Rightarrow> errno option \<times> memfs" where
  "mem_symlink src p fs = (if src = [] then (Some ENOENT, fs) else make KLink 0x1FF src p fs)"

definition strip_slashes :: "string \<Rightarrow> string" where
  "strip_slashes p = (let q = trim_right (\<lambda>c. c = slash) p in if q = [] \<and> p \<noteq> [] then ''/'' else q)"

definition mem_mkdir :: "string \<Rightarrow> filemode \<Rightarrow> memfs \<Rightarrow> errno option \<times> memfs" where
  "mem_mkdir p m fs = make KDir (perm m AND NOT (fs_umask fs)) [] (strip_slashes p) fs"

text \<open>The proper ancestors of a path and the path itself, outermost first.\<close>

definition ancestors :: "string \<Rightarrow> string list" where
  "ancestors p =
     (let cs = split_on slash p
      in filter (\<lambda>q. q \<noteq> []) (map (\<lambda>n. join_with ''/'' (take n cs)) [1..<Suc (length cs)]))"

definition mem_mkdirAll :: "string \<Rightarrow> filemode \<Rightarrow> memfs \<Rightarrow> errno option \<times> memfs" where
  "mem_mkdirAll p m fs =
     (case mem_stat p fs of
        Inr fi \<Rightarrow> if is_dir fi then (None, fs) else (Some ENOTDIR, fs)
      | Inl e \<Rightarrow>
          (case mem_lstat p fs of
             Inr fi \<Rightarrow> (Some EEXIST, fs)
           | Inl e' \<Rightarrow>
               (let fs' = fold (\<lambda>q t. snd (mem_mkdir q m t)) (ancestors p) fs
                in case mem_lstat p fs' of
                     Inr fi \<Rightarrow> if is_dir fi then (None, fs') else (Some ENOTDIR, fs')
                   | Inl e'' \<Rightarrow> (Some e'', fs'))))"

definition drop_names :: "(string list \<Rightarrow> bool) \<Rightarrow> memfs \<Rightarrow> memfs" where
  "drop_names P fs = fs\<lparr>fs_names := filter (\<lambda>(q, i). \<not> P q) (fs_names fs)\<rparr>"

definition has_children :: "memfs \<Rightarrow> string list \<Rightarrow> bool" where
  "has_children fs q \<longleftrightarrow> list_ex (\<lambda>(r, i). r \<noteq> q \<and> prefix q r) (fs_names fs)"

definition mem_remove :: "string \<Rightarrow> memfs \<Rightarrow> errno option \<times> memfs" where
  "mem_remove p fs =
     (case locate fs False p of
        Inl e \<Rightarrow> (Some e, fs)
      | Inr q \<Rightarrow> (case node fs q of
                    None \<Rightarrow> (Some ENOENT, fs)
                  | Some nd \<Rightarrow>
                      if q = [] then (Some EPERM, fs)
                      else if in_kind nd = KDir \<and> has_children fs q then (Some ENOTEMPTY, fs)
                      else (None, drop_names (\<lambda>r. r = q) fs)))"

definition mem_removeAll :: "string \<Rightarrow> memfs \<Rightarrow> errno option \<times> memfs" where
  "mem_removeAll p fs =
     (case locate fs False p of
        Inl e \<Rightarrow> (if e = ENOENT then None else Some e, fs)
      | Inr q \<Rightarrow> (case node fs q of
                    None \<Rightarrow> (None, fs)
                  | Some nd \<Rightarrow>
                      if q = [] then (Some EPERM, fs) else (None, drop_names (prefix q) fs)))"

definition mem_readlink :: "string \<Rightarrow> memfs \<Rightarrow> errno + string" where
  "mem_readlink p fs =
     (case ino_at fs False p of
        Inl e \<Rightarrow> Inl e
      | Inr i \<Rightarrow> if in_kind (fs_inodes fs i) = KLink then Inr (in_data (fs_inodes fs i)) else Inl EINVAL)"

definition mem_open :: "string \<Rightarrow> memfs \<Rightarrow> errno + nat" where
  "mem_open p fs = ino_at fs True p"

definition set_data :: "bytes \<Rightarrow> int \<Rightarrow> inode \<Rightarrow> inode" where
  "set_data d t nd = nd\<lparr>in_data := d, in_mtime := t\<rparr>"

text \<open>\<^verbatim>\<open>open(O_CREAT|O_TRUNC)\<close> with the given permissions and first content.\<close>

definition creat :: "filemode \<Rightarrow> bytes \<Rightarrow> string \<Rightarrow> memfs \<Rightarrow> (errno + nat) \<times> memfs" where
  "creat m d p fs =
     (case locate fs True p of
        Inl e \<Rightarrow> (Inl e, fs)
      | Inr q \<Rightarrow>
          (case map_of (fs_names fs) q of
             Some i \<Rightarrow>
               if in_kind (fs_inodes fs i) = KDir then (Inl EISDIR, fs)
               else (Inr i, upd_inode i (set_data d (fs_now fs)) fs)
           | None \<Rightarrow>
               (Inr (fresh_ino fs), add_node q (new_node fs KFile (perm m AND NOT (fs_umask fs)) d) fs)))"

definition mem_create :: "string \<Rightarrow> memfs \<Rightarrow> (errno + nat) \<times> memfs" where
  "mem_create p fs = creat 0x1B6 [] p fs"

definition mem_read :: "nat \<Rightarrow> memfs \<Rightarrow> errno + bytes" where
  "mem_read i fs = (let nd = fs_inodes fs i in if in_kind nd = KDir then Inl EISDIR else Inr (in_data nd))"

definition mem_write :: "nat \<Rightarrow> bytes \<Rightarrow> memfs \<Rightarrow> errno option \<times> memfs" where
  "mem_write i d fs = (None, upd_inode i (set_data d (fs_now fs)) fs)"

definition mem_readFile :: "string \<Rightarrow> memfs \<Rightarrow> errno + bytes" where
  "mem_readFile p fs = (case mem_open p fs of Inl e \<Rightarrow> Inl e | Inr i \<Rightarrow> mem_read i fs)"

definition mem_writeFile :: "string \<Rightarrow> bytes \<Rightarrow> filemode \<Rightarrow> memfs \<Rightarrow> errno option \<times> memfs" where
  "mem_writeFile p d m fs =
     (case creat m d p fs of (Inl e, fs') \<Rightarrow> (Some e, fs') | (Inr i, fs') \<Rightarrow> (None, fs'))"

text \<open>\<^verbatim>\<open>os.ReadDir\<close> sorts by name.\<close>

definition children :: "memfs \<Rightarrow> string list \<Rightarrow> string list" where
  "children fs q =
     sort (remdups (map last (filter (\<lambda>r. r \<noteq> [] \<and> butlast r = q \<and> comp_ok (last r) \<and> last r \<noteq> ''..'')
                                (map fst (fs_names fs)))))"

definition mem_readDir :: "string \<Rightarrow> memfs \<Rightarrow> errno + (string \<times> fileinfo) list" where
  "mem_readDir p fs =
     (case locate fs True p of
        Inl e \<Rightarrow> Inl e
      | Inr q \<Rightarrow>
          (case node fs q of
             None \<Rightarrow> Inl ENOENT
           | Some nd \<Rightarrow>
               if in_kind nd \<noteq> KDir then Inl ENOTDIR
               else Inr (List.map_filter (\<lambda>c. map_option (\<lambda>i. (c, info_of fs i)) (map_of (fs_names fs) (q @ [c])))
                           (children fs q))))"

definition mem_os :: "memfs os" where
  "mem_os =
     \<lparr> os_lstat = mem_lstat, os_stat = mem_stat, os_chmod = mem_chmod, os_chown = mem_chown,
       os_lchown = mem_lchown, os_mkdir = mem_mkdir, os_mkdirAll = mem_mkdirAll,
       os_remove = mem_remove, os_removeAll = mem_removeAll, os_symlink = mem_symlink,
       os_readlink = mem_readlink, os_open = mem_open, os_create = mem_create, os_read = mem_read,
       os_write = mem_write, os_readFile = mem_readFile, os_writeFile = mem_writeFile,
       os_readDir = mem_readDir, os_now = fs_now \<rparr>"

text \<open>A root directory with nothing in it; the umask is 022.\<close>

definition empty_fs :: memfs where
  "empty_fs =
     \<lparr> fs_names = [([], 0)],
       fs_inodes = (\<lambda>i. \<lparr> in_kind = KDir, in_mode = 0x1ED, in_uid = 0, in_gid = 0, in_data = [], in_mtime = 0 \<rparr>),
       fs_cwd = [], fs_umask = 0x12, fs_now = 0 \<rparr>"

section \<open>Resolution depends on the names, the kinds and the link targets\<close>

definition shape :: "inode option \<Rightarrow> (kind \<times> string) option" where
  "shape n = map_option (\<lambda>nd. (in_kind nd, if in_kind nd = KLink then in_data nd else [])) n"

lemma shape_cases:
  "shape n = shape n' \<Longrightarrow> (n = None \<and> n' = None) \<or>
     (\<exists>nd nd'. n = Some nd \<and> n' = Some nd' \<and> in_kind nd = in_kind nd' \<and>
        (in_kind nd = KLink \<longrightarrow> in_data nd = in_data nd'))"
  by (cases n; cases n') (auto simp: shape_def split: if_splits)

lemma walk_cong:
  assumes "\<And>q. shape (node fs q) = shape (node fs' q)"
  shows "walk fs k fl cur cs = walk fs' k fl cur cs"
  using assms
proof (induction fs k fl cur cs rule: walk.induct)
  case (1 fs k fl cur)
  then show ?case by simp
next
  case (2 fs k fl cur c cs)
  show ?case
  proof (cases "c = [] \<or> c = ''.'' \<or> c = ''..''")
    case True
    with 2 show ?thesis by auto
  next
    case False
    let ?p = "cur @ [c]"
    from shape_cases [OF "2.prems" [of ?p]] show ?thesis
    proof (elim disjE exE conjE)
      assume "node fs ?p = None" "node fs' ?p = None"
      with False show ?thesis by simp
    next
      fix nd nd'
      assume nd: "node fs ?p = Some nd" "node fs' ?p = Some nd'" "in_kind nd = in_kind nd'"
        and tgt: "in_kind nd = KLink \<longrightarrow> in_data nd = in_data nd'"
      show ?thesis
      proof (cases "in_kind nd = KLink \<and> (cs \<noteq> [] \<or> fl)")
        case True
        then show ?thesis
          using False nd tgt "2.IH"(3) [OF _ _ refl nd(1) _ _ "2.prems"]
          by (cases k) simp_all
      next
        case other: False
        then show ?thesis
          using False nd "2.IH"(4) [OF _ _ refl nd(1) _ _ "2.prems"] by auto
      qed
    qed
  qed
qed

text \<open>
  The four ways one component is resolved, as equations with their conditions; the proofs below
  split along them.
\<close>

lemma walk_dots: "c = [] \<or> c = ''.'' \<Longrightarrow> walk fs k fl cur (c # cs) = walk fs k fl cur cs"
  by simp

lemma walk_up: "walk fs k fl cur (''..'' # cs) = walk fs k fl (butlast cur) cs"
  by simp

definition plain :: "string \<Rightarrow> bool" where
  "plain c \<longleftrightarrow> c \<noteq> [] \<and> c \<noteq> ''.'' \<and> c \<noteq> ''..''"

lemma walk_missing:
  "plain c \<Longrightarrow> node fs (cur @ [c]) = None \<Longrightarrow>
   walk fs k fl cur (c # cs) = (if cs = [] then Inr (cur @ [c]) else Inl ENOENT)"
  by (simp add: plain_def)

lemma walk_link:
  "plain c \<Longrightarrow> node fs (cur @ [c]) = Some nd \<Longrightarrow> in_kind nd = KLink \<Longrightarrow> cs \<noteq> [] \<or> fl \<Longrightarrow>
   walk fs k fl cur (c # cs) =
     (case k of 0 \<Rightarrow> Inl ELOOP
      | Suc k' \<Rightarrow> walk fs k' fl (if is_abs (in_data nd) then [] else cur)
                     (split_on slash (in_data nd) @ cs))"
  by (simp add: plain_def)

lemma walk_node:
  "plain c \<Longrightarrow> node fs (cur @ [c]) = Some nd \<Longrightarrow> \<not> (in_kind nd = KLink \<and> (cs \<noteq> [] \<or> fl)) \<Longrightarrow>
   walk fs k fl cur (c # cs) =
     (if in_kind nd = KDir \<or> cs = [] then walk fs k fl (cur @ [c]) cs else Inl ENOTDIR)"
  by (auto simp: plain_def)

lemma walk_cases [case_names Nil Dots Up Missing Link Node]:
  assumes "cs = [] \<Longrightarrow> P"
    and "\<And>c ds. cs = c # ds \<Longrightarrow> c = [] \<or> c = ''.'' \<Longrightarrow> P"
    and "\<And>ds. cs = ''..'' # ds \<Longrightarrow> P"
    and "\<And>c ds. cs = c # ds \<Longrightarrow> plain c \<Longrightarrow> node fs (cur @ [c]) = None \<Longrightarrow> P"
    and "\<And>c ds nd. cs = c # ds \<Longrightarrow> plain c \<Longrightarrow> node fs (cur @ [c]) = Some nd \<Longrightarrow>
           in_kind nd = KLink \<Longrightarrow> ds \<noteq> [] \<or> fl \<Longrightarrow> P"
    and "\<And>c ds nd. cs = c # ds \<Longrightarrow> plain c \<Longrightarrow> node fs (cur @ [c]) = Some nd \<Longrightarrow>
           \<not> (in_kind nd = KLink \<and> (ds \<noteq> [] \<or> fl)) \<Longrightarrow> P"
  shows P
proof (cases cs)
  case Nil
  with assms(1) show P .
next
  case (Cons c ds)
  then show P using assms(2-6) by (cases "node fs (cur @ [c])") (auto simp: plain_def)
qed

lemmas walk_eqs = walk_dots walk_up walk_missing walk_link walk_node

declare walk.simps [simp del]
declare walk.simps(1) [simp]

text \<open>The induction all proofs about \<open>walk\<close> use: fewer links left, or fewer components.\<close>

lemma walk_induct [case_names step]:
  assumes "\<And>k cur cs. (\<And>k' cur' cs'. k' < k \<or> k' = k \<and> length cs' < length cs \<Longrightarrow> P k' cur' cs') \<Longrightarrow> P k cur cs"
  shows "P (k :: nat) (cur :: string list) (cs :: string list)"
proof -
  let ?fs = "[\<lambda>(k, cur, cs). k, \<lambda>(k :: nat, cur :: string list, cs :: string list). length cs]"
  have "case x of (k, cur, cs) \<Rightarrow> P k cur cs" for x
  proof (induction x rule: wf_induct_rule [OF wf_measures [of ?fs]])
    case (1 x)
    obtain k cur cs where x: "x = (k, cur, cs)" by (cases x) auto
    have "P k' cur' cs'" if "k' < k \<or> k' = k \<and> length cs' < length cs" for k' cur' cs'
      using 1 [of "(k', cur', cs')"] that x by auto
    then show ?case using x assms by auto
  qed
  from this [of "(k, cur, cs)"] show ?thesis by simp
qed

text \<open>Not following the last link: errors agree, and a result that is no link is the same.\<close>

lemma walk_follow:
  "case walk fs k False cur cs of
     Inl e \<Rightarrow> walk fs k True cur cs = Inl e
   | Inr q \<Rightarrow> (\<forall>nd. node fs q = Some nd \<longrightarrow> in_kind nd \<noteq> KLink) \<longrightarrow> walk fs k True cur cs = Inr q"
proof (induction k cur cs rule: walk_induct)
  case (step k cur cs)
  show ?case
  proof (cases rule: walk_cases [where fs = fs and cur = cur and cs = cs and fl = False])
    case Nil
    then show ?thesis by simp
  next
    case (Dots c ds)
    with step [of k ds cur] show ?thesis by (simp add: walk_dots split: sum.splits)
  next
    case (Up ds)
    with step [of k ds "butlast cur"] show ?thesis by (simp add: walk_up split: sum.splits)
  next
    case (Missing c ds)
    then show ?thesis by (simp add: walk_missing)
  next
    case (Link c ds nd)
    show ?thesis
    proof (cases k)
      case 0
      with Link show ?thesis by (simp add: walk_link split: sum.splits)
    next
      case (Suc k')
      let ?cur = "if is_abs (in_data nd) then [] else cur"
      let ?cs = "split_on slash (in_data nd) @ ds"
      from Link Suc have eq: "walk fs k fl cur cs = walk fs k' fl ?cur ?cs" for fl
        by (simp add: walk_link)
      show ?thesis unfolding eq by (rule step) (simp add: Suc)
    qed
  next
    case (Node c ds nd)
    show ?thesis
    proof (cases "in_kind nd = KLink")
      case True
      with Node show ?thesis by (simp add: walk_node split: sum.splits)
    next
      case False
      with Node step [of k ds "cur @ [c]"] show ?thesis by (simp add: walk_node split: sum.splits)
    qed
  qed
qed

text \<open>A new entry where a path leads does not change where that path leads.\<close>

lemma walk_add_gen:
  assumes "\<And>r. r \<noteq> q \<Longrightarrow> shape (node fs' r) = shape (node fs r)" and "node fs q = None"
    and "fl \<Longrightarrow> \<forall>nd. node fs' q = Some nd \<longrightarrow> in_kind nd \<noteq> KLink"
    and "walk fs k fl cur cs = Inr q"
  shows "walk fs' k fl cur cs = Inr q"
  using assms(4)
proof (induction k cur cs rule: walk_induct)
  case (step k cur cs)
  have same: "node fs r = Some nd \<Longrightarrow> \<exists>nd'. node fs' r = Some nd' \<and> in_kind nd' = in_kind nd \<and>
      (in_kind nd = KLink \<longrightarrow> in_data nd' = in_data nd)" for r nd
    using shape_cases [OF assms(1) [of r]] assms(2) by (cases "r = q") auto
  show ?case
  proof (cases rule: walk_cases [where fs = fs and cur = cur and cs = cs and fl = fl])
    case Nil
    with step.prems show ?thesis by simp
  next
    case (Dots c ds)
    with step show ?thesis by (simp add: walk_dots)
  next
    case (Up ds)
    with step show ?thesis by (simp add: walk_up)
  next
    case (Missing c ds)
    with step.prems have q: "ds = []" "q = cur @ [c]" by (auto simp: walk_missing split: if_splits)
    show ?thesis
    proof (cases "node fs' (cur @ [c])")
      case None
      with Missing q show ?thesis by (simp add: walk_missing)
    next
      case (Some nd)
      with assms(3) q have "\<not> (in_kind nd = KLink \<and> ([] \<noteq> ([] :: string list) \<or> fl))" by auto
      from walk_node [OF Missing(2) Some this] Missing q show ?thesis by simp
    qed
  next
    case (Link c ds nd)
    from same [OF Link(3)] obtain nd' where nd': "node fs' (cur @ [c]) = Some nd'"
      "in_kind nd' = KLink" "in_data nd' = in_data nd" using Link by auto
    show ?thesis
    proof (cases k)
      case 0
      with Link step.prems show ?thesis by (simp add: walk_link)
    next
      case (Suc k')
      with Link nd' step show ?thesis by (simp add: walk_link)
    qed
  next
    case (Node c ds nd)
    from same [OF Node(3)] obtain nd' where nd': "node fs' (cur @ [c]) = Some nd'"
      "in_kind nd' = in_kind nd" by blast
    with Node step show ?thesis by (auto simp: walk_node split: if_splits)
  qed
qed

lemmas walk_add = walk_add_gen [where fl = False, simplified]

text \<open>Removing entries: the path leads where it did, or to nothing.\<close>

lemma walk_drop:
  assumes "\<And>r. node fs' r = node fs r \<or> node fs' r = None"
    and "walk fs k False cur cs = Inr q"
  shows "walk fs' k False cur cs = Inr q \<or> walk fs' k False cur cs = Inl ENOENT"
  using assms(2)
proof (induction k cur cs rule: walk_induct)
  case (step k cur cs)
  show ?case
  proof (cases rule: walk_cases [where fs = fs and cur = cur and cs = cs and fl = False])
    case Nil
    with step.prems show ?thesis by simp
  next
    case (Dots c ds)
    with step show ?thesis by (simp add: walk_dots)
  next
    case (Up ds)
    with step show ?thesis by (simp add: walk_up)
  next
    case (Missing c ds)
    with assms(1) [of "cur @ [c]"] step.prems show ?thesis by (auto simp: walk_missing)
  next
    case (Link c ds nd)
    show ?thesis
    proof (cases "node fs' (cur @ [c]) = None")
      case True
      with Link show ?thesis by (simp add: walk_missing)
    next
      case False
      with assms(1) [of "cur @ [c]"] Link have nd': "node fs' (cur @ [c]) = Some nd" by auto
      show ?thesis
      proof (cases k)
        case 0
        with Link step.prems show ?thesis by (simp add: walk_link)
      next
        case (Suc k')
        with Link nd' step show ?thesis by (simp add: walk_link)
      qed
    qed
  next
    case (Node c ds nd)
    show ?thesis
    proof (cases "node fs' (cur @ [c]) = None")
      case True
      with Node step.prems show ?thesis by (auto simp: walk_missing walk_node split: if_splits)
    next
      case False
      with assms(1) [of "cur @ [c]"] Node have nd': "node fs' (cur @ [c]) = Some nd" by auto
      with Node step show ?thesis by (auto simp: walk_node split: if_splits)
    qed
  qed
qed

section \<open>The mode word of a node\<close>

lemmas mode_consts = mode_dir_def mode_symlink_def mode_type_def perm_mask_def chmod_mask_def

lemma mask_facts:
  "mode_dir AND perm_mask = 0" "mode_symlink AND perm_mask = 0" "chmod_mask AND perm_mask = perm_mask"
  "chmod_mask AND mode_dir = 0" "chmod_mask AND mode_symlink = 0" "chmod_mask AND mode_type = 0"
  "mode_dir AND mode_symlink = 0" "mode_symlink AND mode_dir = 0"
  "mode_dir AND mode_type = mode_dir" "mode_symlink AND mode_type = mode_symlink"
  "mode_dir \<noteq> 0" "mode_symlink \<noteq> 0"
  by (simp_all add: mode_consts)

lemma node_mode:
  "perm (kind_bits k OR (m AND chmod_mask)) = perm m"
  "(kind_bits k OR (m AND chmod_mask)) AND mode_type = kind_bits k"
  "is_dir_mode (kind_bits k OR (m AND chmod_mask)) \<longleftrightarrow> k = KDir"
  "is_symlink_mode (kind_bits k OR (m AND chmod_mask)) \<longleftrightarrow> k = KLink"
  by (cases k; simp add: perm_def kind_bits_def is_dir_mode_def is_symlink_mode_def
      bit.conj_disj_distrib2 and.assoc mask_facts)+

lemma info_simps [world_simps]:
  "perm (fi_mode (info_of fs i)) = perm (in_mode (fs_inodes fs i))"
  "fi_mode (info_of fs i) AND mode_type = kind_bits (in_kind (fs_inodes fs i))"
  "is_dir (info_of fs i) \<longleftrightarrow> in_kind (fs_inodes fs i) = KDir"
  "is_link (info_of fs i) \<longleftrightarrow> in_kind (fs_inodes fs i) = KLink"
  "fi_uid (info_of fs i) = in_uid (fs_inodes fs i)"
  "fi_gid (info_of fs i) = in_gid (fs_inodes fs i)"
  by (simp_all add: info_of_def Let_def node_mode is_dir_def is_link_def)

lemma perm_clear_setid:
  "perm (m AND NOT setuid_bit) = perm m" "perm (m AND NOT setgid_bit) = perm m"
  "perm (m AND chmod_mask) = perm m"
proof -
  have masks: "NOT setuid_bit AND perm_mask = perm_mask" "NOT setgid_bit AND perm_mask = perm_mask"
    by (simp_all add: setuid_bit_def setgid_bit_def perm_mask_def)
  then show "perm (m AND NOT setuid_bit) = perm m" "perm (m AND NOT setgid_bit) = perm m"
    "perm (m AND chmod_mask) = perm m"
    by (simp_all only: perm_def and.assoc masks mask_facts)
qed

section \<open>The operations satisfy the laws\<close>

lemma map_of_node: "node fs q = Some nd \<longleftrightarrow> (\<exists>i. map_of (fs_names fs) q = Some i \<and> nd = fs_inodes fs i)"
  by (auto simp: node_def)

lemma foldr_max_ge: "i \<in> set xs \<Longrightarrow> (i :: nat) \<le> foldr max xs m"
  by (induction xs) (auto simp: max.coboundedI2)

lemma fresh_above: "(q, i) \<in> set (fs_names fs) \<Longrightarrow> i < fresh_ino fs"
  unfolding fresh_ino_def less_Suc_eq_le by (rule foldr_max_ge) force

lemma node_add:
  "node (add_node q nd fs) r = (if r = q then Some nd else node fs r)"
proof -
  have "map_of (fs_names fs) r = Some i \<Longrightarrow> i \<noteq> fresh_ino fs" for i
    using fresh_above [of r i fs] by (auto dest: map_of_SomeD)
  then show ?thesis by (auto simp: node_def add_node_def map_option_case split: option.split)
qed

lemma node_upd:
  "\<forall>nd. in_kind (f nd) = in_kind nd \<and> (in_kind nd = KLink \<longrightarrow> in_data (f nd) = in_data nd) \<Longrightarrow>
   shape (node (upd_inode i f fs) r) = shape (node fs r)"
  by (auto simp: shape_def node_def upd_inode_def option.map_comp comp_def split: option.split
      intro!: option.map_cong0)

lemma map_of_filter_key:
  "map_of (filter (\<lambda>(q, i). \<not> P q) xs) r = (if P r then None else map_of xs r)"
  by (induction xs) auto

lemma map_of_drop:
  "map_of (fs_names (drop_names P fs)) r = (if P r then None else map_of (fs_names fs) r)"
  by (simp add: drop_names_def map_of_filter_key)

lemma node_drop: "node (drop_names P fs) r = (if P r then None else node fs r)"
  by (simp add: node_def map_of_drop) (simp add: drop_names_def)

lemma locate_cong:
  "(\<And>q. shape (node fs q) = shape (node fs' q)) \<Longrightarrow> fs_cwd fs' = fs_cwd fs \<Longrightarrow>
   locate fs' fl p = locate fs fl p"
  using walk_cong [of fs fs'] by (simp add: locate_def)

lemma upd_fields [simp]:
  "fs_names (upd_inode i f fs) = fs_names fs" "fs_cwd (upd_inode i f fs) = fs_cwd fs"
  "fs_inodes (upd_inode i f fs) j = (if j = i then f (fs_inodes fs i) else fs_inodes fs j)"
  by (simp_all add: upd_inode_def)

lemma locate_upd:
  "\<forall>nd. in_kind (f nd) = in_kind nd \<and> (in_kind nd = KLink \<longrightarrow> in_data (f nd) = in_data nd) \<Longrightarrow>
   locate (upd_inode i f fs) fl p = locate fs fl p"
  by (rule locate_cong) (simp_all add: node_upd)

lemma locate_follow:
  assumes "locate fs False p = Inr q" "\<forall>nd. node fs q = Some nd \<longrightarrow> in_kind nd \<noteq> KLink"
  shows "locate fs True p = Inr q"
  using assms walk_follow [of fs max_links "if is_abs p then [] else fs_cwd fs" "split_on slash p"]
  by (auto simp: locate_def split: if_splits)

lemma locate_follow_err: "locate fs False p = Inl e \<Longrightarrow> locate fs True p = Inl e"
  using walk_follow [of fs max_links "if is_abs p then [] else fs_cwd fs" "split_on slash p"]
  by (auto simp: locate_def split: if_splits)

lemma ino_at_follow:
  assumes "ino_at fs False p = Inr i" "in_kind (fs_inodes fs i) \<noteq> KLink"
  shows "ino_at fs True p = Inr i"
proof -
  from assms(1) obtain q where q: "locate fs False p = Inr q" "map_of (fs_names fs) q = Some i"
    by (auto simp: ino_at_def split: sum.splits option.splits)
  with assms(2) have "locate fs True p = Inr q" by (intro locate_follow) (auto simp: node_def)
  with q show ?thesis by (simp add: ino_at_def)
qed

lemma ino_at_upd:
  "\<forall>nd. in_kind (f nd) = in_kind nd \<and> (in_kind nd = KLink \<longrightarrow> in_data (f nd) = in_data nd) \<Longrightarrow>
   ino_at (upd_inode i f fs) fl p = ino_at fs fl p"
  by (simp add: ino_at_def locate_upd upd_fields split: sum.split)

lemma lstat_ino: "mem_lstat p fs = Inr fi \<longleftrightarrow> (\<exists>i. ino_at fs False p = Inr i \<and> fi = info_of fs i)"
  by (auto simp: mem_lstat_def split: sum.split)

lemma locate_add:
  assumes "locate fs False p = Inr q" "node fs q = None"
  shows "locate (add_node q nd fs) False p = Inr q"
proof -
  have "fs_cwd (add_node q nd fs) = fs_cwd fs" by (simp add: add_node_def)
  with assms show ?thesis
    by (auto simp: locate_def node_add intro: walk_add split: if_splits)
qed

lemma lstat_add:
  assumes "locate fs False p = Inr q" "node fs q = None"
  shows "ino_at (add_node q nd fs) False p = Inr (fresh_ino fs)"
    and "fs_inodes (add_node q nd fs) (fresh_ino fs) = nd"
  using locate_add [OF assms] by (simp_all add: ino_at_def add_node_def)

lemma lstat_missing:
  "mem_lstat p fs = Inl ENOENT \<longleftrightarrow>
     locate fs False p = Inl ENOENT \<or> (\<exists>q. locate fs False p = Inr q \<and> node fs q = None)"
  by (auto simp: mem_lstat_def ino_at_def node_def split: sum.split option.split)

lemma locate_drop:
  assumes "locate fs False p = Inr q"
  shows "locate (drop_names P fs) False p = Inr q \<or> locate (drop_names P fs) False p = Inl ENOENT"
proof -
  have "fs_cwd (drop_names P fs) = fs_cwd fs" by (simp add: drop_names_def)
  moreover have "node (drop_names P fs) r = node fs r \<or> node (drop_names P fs) r = None" for r
    by (simp add: node_drop)
  ultimately show ?thesis
    using assms walk_drop [of "drop_names P fs" fs] by (simp add: locate_def split: if_splits)
qed

subsection \<open>Law by law\<close>

lemma mem_chmod_ok:
  assumes "mem_lstat p fs = Inr fi" "\<not> is_link fi" "mem_chmod p m fs = (None, fs')"
  shows "\<exists>fi'. mem_lstat p fs' = Inr fi' \<and> same_type fi fi' \<and> perm (fi_mode fi') = perm m \<and>
           fi_uid fi' = fi_uid fi \<and> fi_gid fi' = fi_gid fi"
proof -
  from assms(1) obtain i where i: "ino_at fs False p = Inr i" "fi = info_of fs i"
    by (auto simp: lstat_ino)
  with assms(2) have "ino_at fs True p = Inr i" by (intro ino_at_follow) (simp_all add: info_simps)
  with assms(3) have fs': "fs' = upd_inode i (\<lambda>nd. nd\<lparr>in_mode := m AND chmod_mask\<rparr>) fs"
    by (simp add: mem_chmod_def on_ino_def)
  then have "ino_at fs' False p = Inr i" using i by (simp add: ino_at_upd)
  then have "mem_lstat p fs' = Inr (info_of fs' i)" by (simp add: mem_lstat_def)
  with fs' i show ?thesis by (simp add: same_type_def info_simps perm_clear_setid)
qed

lemma chown_inode_simps:
  "in_kind (chown_inode u g nd) = in_kind nd" "in_data (chown_inode u g nd) = in_data nd"
  "in_uid (chown_inode u g nd) = new_id u (in_uid nd)" "in_gid (chown_inode u g nd) = new_id g (in_gid nd)"
  "perm (in_mode (chown_inode u g nd)) = perm (in_mode nd)"
  by (simp_all add: chown_inode_def perm_clear_setid)

lemma mem_chown_ok:
  assumes "mem_lstat p fs = Inr fi" "\<not> is_link fi" "mem_chown p u g fs = (None, fs')"
  shows "\<exists>fi'. mem_lstat p fs' = Inr fi' \<and> same_type fi fi' \<and> perm (fi_mode fi') = perm (fi_mode fi) \<and>
           fi_uid fi' = new_id u (fi_uid fi) \<and> fi_gid fi' = new_id g (fi_gid fi)"
proof -
  from assms(1) obtain i where i: "ino_at fs False p = Inr i" "fi = info_of fs i"
    by (auto simp: lstat_ino)
  with assms(2) have "ino_at fs True p = Inr i" by (intro ino_at_follow) (simp_all add: info_simps)
  with assms(3) have fs': "fs' = upd_inode i (chown_inode u g) fs"
    by (simp add: mem_chown_def on_ino_def)
  then have "ino_at fs' False p = Inr i" using i by (simp add: ino_at_upd chown_inode_simps)
  then have "mem_lstat p fs' = Inr (info_of fs' i)" by (simp add: mem_lstat_def)
  with fs' i show ?thesis by (simp add: same_type_def info_simps chown_inode_simps)
qed

lemma mem_mkdirAll_new:
  assumes "mem_lstat p fs = Inl ENOENT" "mem_mkdirAll p m fs = (None, fs')"
  shows "\<exists>fi. mem_lstat p fs' = Inr fi \<and> is_dir fi \<and> \<not> is_link fi"
proof -
  have "mem_stat p fs = Inl ENOENT"
  proof -
    from assms(1) consider "locate fs False p = Inl ENOENT"
      | q where "locate fs False p = Inr q" "node fs q = None"
      by (auto simp: lstat_missing)
    then show ?thesis
    proof cases
      case 1
      from locate_follow_err [OF 1] show ?thesis by (simp add: mem_stat_def ino_at_def)
    next
      case (2 q)
      with locate_follow [of fs p q] show ?thesis
        by (auto simp: mem_stat_def ino_at_def node_def)
    qed
  qed
  with assms obtain fi where "mem_lstat p fs' = Inr fi" "is_dir fi"
    by (auto simp: mem_mkdirAll_def Let_def split: sum.splits if_splits)
  then show ?thesis by (auto simp: lstat_ino info_simps)
qed

lemma mem_lstat_stat: "mem_lstat p fs = Inr fi \<Longrightarrow> \<not> is_link fi \<Longrightarrow> mem_stat p fs = Inr fi"
  by (auto simp: mem_stat_def lstat_ino info_simps dest: ino_at_follow)

lemma mem_mkdirAll_old:
  assumes "mem_lstat p fs = Inr fi" "mem_mkdirAll p m fs = (None, fs')"
  shows "fs' = fs \<and> (is_link fi \<or> is_dir fi)"
proof -
  from assms obtain fi' where "mem_stat p fs = Inr fi'" "is_dir fi'" "fs' = fs"
    by (auto simp: mem_mkdirAll_def split: sum.splits if_splits)
  with mem_lstat_stat [OF assms(1)] show ?thesis by auto
qed

lemma mem_mkdirAll_dir:
  "mem_lstat p fs = Inr fi \<Longrightarrow> is_dir fi \<Longrightarrow> mem_mkdirAll p m fs = (None, fs)"
  by (auto simp: mem_mkdirAll_def mem_stat_def lstat_ino info_simps dest!: ino_at_follow)

lemma mem_create_new:
  assumes "mem_lstat p fs = Inl ENOENT" "mem_create p fs = (Inr h, fs')"
  shows "\<exists>fi. mem_lstat p fs' = Inr fi \<and> \<not> is_link fi"
proof -
  have "locate fs False p \<noteq> Inl ENOENT"
    using assms(2) locate_follow_err [of fs p ENOENT] by (auto simp: mem_create_def creat_def)
  with assms(1) obtain q where q: "locate fs False p = Inr q" "node fs q = None"
    by (auto simp: lstat_missing)
  then have "locate fs True p = Inr q" by (intro locate_follow) auto
  with q assms(2) obtain nd where fs': "fs' = add_node q nd fs" "in_kind nd = KFile"
    by (auto simp: mem_create_def creat_def node_def new_node_def split: option.splits)
  with lstat_add [OF q, of nd] show ?thesis by (auto simp: mem_lstat_def info_simps)
qed

lemma mem_removeAll_gone:
  assumes "mem_removeAll p fs = (None, fs')"
  shows "mem_lstat p fs' = Inl ENOENT"
proof (cases "locate fs False p")
  case (Inl e)
  with assms show ?thesis by (auto simp: mem_removeAll_def mem_lstat_def ino_at_def split: if_splits)
next
  case (Inr q)
  show ?thesis
  proof (cases "node fs q")
    case None
    with assms Inr show ?thesis by (auto simp: mem_removeAll_def lstat_missing)
  next
    case (Some nd)
    with assms Inr have fs': "fs' = drop_names (prefix q) fs"
      by (auto simp: mem_removeAll_def split: if_splits)
    with locate_drop [OF Inr, of "prefix q"] show ?thesis by (auto simp: lstat_missing node_drop)
  qed
qed

lemma mem_symlink_new:
  assumes "mem_symlink src p fs = (None, fs')"
  shows "(\<exists>fi. mem_lstat p fs' = Inr fi \<and> is_link fi) \<and> mem_readlink p fs' = Inr src"
proof -
  let ?nd = "new_node fs KLink 0x1FF src"
  from assms obtain q where q: "locate fs False p = Inr q" "node fs q = None"
    and fs': "fs' = add_node q ?nd fs"
    by (auto simp: mem_symlink_def make_def split: if_splits sum.splits option.splits)
  from lstat_add [OF q, of ?nd] show ?thesis
    by (simp add: fs' mem_lstat_def mem_readlink_def info_simps) (simp add: new_node_def)
qed

lemma mem_readDir_path_max: "path_max \<le> length p \<Longrightarrow> \<exists>e. mem_readDir p fs = Inl e"
  by (auto simp: mem_readDir_def locate_def path_max_def)

lemma mem_readDir_names:
  assumes "mem_readDir p fs = Inr ents"
  shows "list_all (\<lambda>(name, fi). comp_ok name \<and> name \<noteq> ''..'') ents"
proof -
  from assms obtain q where "ents = List.map_filter
      (\<lambda>c. map_option (\<lambda>i. (c, info_of fs i)) (map_of (fs_names fs) (q @ [c]))) (children fs q)"
    by (auto simp: mem_readDir_def split: sum.splits option.splits if_splits)
  then show ?thesis by (auto simp: list_all_iff List.map_filter_def children_def)
qed

lemmas mem_os_sel = mem_os_def os.select_convs

interpretation memfs: posix_os mem_os
  by unfold_locales
    (simp_all add: mem_os_sel mem_readDir_path_max mem_readDir_names mem_chmod_ok mem_chown_ok
      mem_mkdirAll_new mem_mkdirAll_old mem_mkdirAll_dir mem_create_new mem_removeAll_gone
      mem_symlink_new mem_lstat_stat)

end
