(* ===== verification/FileProps.thy ===== *)
theory FileProps
  imports FileModule MemFs
begin

text \<open>
  Properties of the \<^verbatim>\<open>file\<close> module: the flags of its result, what it leaves alone, the
  convergence of a second run, and the modes and links for which a second run never settles.
\<close>

section \<open>A small machine for the examples\<close>

definition no_users :: userdb where
  "no_users =
     \<lparr> user_LookupId = (\<lambda>s. Inl (ErrMsg ''unknown user'')), user_Lookup = (\<lambda>s. Inl (ErrMsg ''unknown user'')),
       user_LookupGroupId = (\<lambda>s. Inl (ErrMsg ''unknown group'')),
       user_LookupGroup = (\<lambda>s. Inl (ErrMsg ''unknown group'')) \<rparr>"

definition touch_task :: File where
  "touch_task = File_zero\<lparr>f_Path := ''/t'', f_State := ''touch'', f_Mode := Some \<lparr>Mode_Value = ''u=rw,g=r,o-r''\<rparr>\<rparr>"

definition touched :: memfs where
  "touched = snd (snd (File_Apply mem_os no_users touch_task empty_fs))"

section \<open>Flags\<close>

text \<open>A step is honest about failure: it marks the result exactly when it returns an error.\<close>

definition flags_ok :: "'w file_step \<Rightarrow> bool" where
  "flags_ok s =
     (case fst s of
        Inl (r, err) \<Rightarrow> Failed r = (err \<noteq> None)
      | Inr (r, b) \<Rightarrow> \<not> Failed r \<and> \<not> Changed r)"

lemma flags_ok_simps [task_simps]:
  "flags_ok (fail_with r e w)" "flags_ok (Inr (r, b), w) \<longleftrightarrow> \<not> Failed r \<and> \<not> Changed r"
  "flags_ok (Inl (r, err), w) \<longleftrightarrow> Failed r = (err \<noteq> None)"
  by (simp_all add: flags_ok_def fail_with_def)

lemma file_result_fields [simp]:
  "Failed (r\<lparr>fr_Path := p\<rparr>) = Failed r" "Changed (r\<lparr>fr_Path := p\<rparr>) = Changed r"
  "Failed (r\<lparr>fr_Dest := p\<rparr>) = Failed r" "Changed (r\<lparr>fr_Dest := p\<rparr>) = Changed r"
  "Failed (r\<lparr>fr_State := p\<rparr>) = Failed r" "Changed (r\<lparr>fr_State := p\<rparr>) = Changed r"
  by simp_all

lemma FileResult_zero_flags [simp]: "\<not> Failed FileResult_zero" "\<not> Changed FileResult_zero"
  by (simp_all add: FileResult_zero_def CommonResult_zero_def CommonResult.extend_def)

definition blank :: "FileResult \<Rightarrow> bool" where
  "blank r \<longleftrightarrow> \<not> Failed r \<and> \<not> Changed r"

lemma flags_absent: "blank r \<Longrightarrow> flags_ok (file_absent os f ex r w)"
  by (auto simp: file_absent_def Let_def task_simps blank_def split: option.split prod.split)

lemma flags_directory: "blank r \<Longrightarrow> flags_ok (file_directory os f ex uid gid r w)"
  by (auto simp: file_directory_def Let_def task_simps blank_def split: option.split prod.split sum.split)

lemma flags_file: "blank r \<Longrightarrow> flags_ok (file_file os f ex uid gid r w)"
  by (auto simp: file_file_def Let_def task_simps blank_def split: option.split prod.split sum.split)

lemma flags_link: "blank r \<Longrightarrow> flags_ok (file_link os f ex follow uid gid r w)"
  by (auto simp: file_link_def Let_def task_simps blank_def split: option.split prod.split sum.split)

lemma flags_touch: "blank r \<Longrightarrow> flags_ok (file_touch os f ex uid gid r w)"
  by (auto simp: file_touch_def Let_def task_simps blank_def split: option.split prod.split sum.split)

lemmas flags_states = flags_absent flags_directory flags_file flags_link flags_touch

lemma flags_state: "blank r \<Longrightarrow> flags_ok (file_state os f st ex follow uid gid r w)"
  by (auto simp: file_state_def flags_states flags_ok_simps)

lemma report_flags:
  "file_report os db f st r w = (r', err, w') \<Longrightarrow>
   Changed r' = Changed r \<and> (\<not> Failed r \<longrightarrow> Failed r' = (err \<noteq> None)) \<and> w' = w"
  by (auto simp: file_report_def split: if_splits sum.splits)

text \<open>Every run fails in its preparation, or is one step of the switch and what follows it.\<close>

lemma File_Apply_cases [consumes 1, case_names early step]:
  assumes "File_Apply os db f w = (r, err, w')"
  obtains (early) "Failed r" "\<not> Changed r" "err \<noteq> None" "w' = w" "r = TaskFailed FileResult_zero"
    | (step) ex uid gid where "path_exists os (f_Path f) w = Inr ex"
        "GetUid db (f_Owner f) = Inr uid" "GetGid db (f_Group f) = Inr gid"
        "file_finish os db f (actual_state f ex)
           (file_state os f (actual_state f ex) ex (follows f) uid gid FileResult_zero w) = (r, err, w')"
proof (cases "path_exists os (f_Path f) w")
  case (Inl e)
  with assms have "r = TaskFailed FileResult_zero" "err = Some (OsErr e)" "w' = w"
    by (simp_all add: File_Apply_def)
  then show ?thesis by (intro early) simp_all
next
  case ex: (Inr ex)
  show ?thesis
  proof (cases "GetUid db (f_Owner f)")
    case (Inl e)
    with assms ex have "r = TaskFailed FileResult_zero" "err = Some e" "w' = w"
      by (simp_all add: File_Apply_def)
    then show ?thesis by (intro early) simp_all
  next
    case uid: (Inr uid)
    show ?thesis
    proof (cases "GetGid db (f_Group f)")
      case (Inl e)
      with assms ex uid have "r = TaskFailed FileResult_zero" "err = Some e" "w' = w"
        by (simp_all add: File_Apply_def)
      then show ?thesis by (intro early) simp_all
    next
      case gid: (Inr gid)
      from assms ex uid gid have "file_finish os db f (actual_state f ex)
           (file_state os f (actual_state f ex) ex (follows f) uid gid FileResult_zero w) = (r, err, w')"
        by (simp add: File_Apply_def Let_def)
      with ex uid gid show ?thesis by (rule step)
    qed
  qed
qed

lemma finish_cases [consumes 1, case_names early report]:
  assumes "file_finish os db f st s = (r, err, w')"
  obtains (early) "s = (Inl (r, err), w')"
    | (report) r1 ch where "s = (Inr (r1, ch), w')"
        "file_report os db f st (if ch then TaskChanged r1 else r1) w' = (r, err, w')"
proof -
  obtain x w1 where s: "s = (x, w1)" by fastforce
  show ?thesis
  proof (cases x)
    case (Inl y)
    with s assms early show ?thesis by (cases y) (simp add: file_finish_def)
  next
    case (Inr y)
    obtain r1 ch where y: "y = (r1, ch)" by fastforce
    with s Inr assms have rep: "file_report os db f st (if ch then TaskChanged r1 else r1) w1 = (r, err, w')"
      by (simp add: file_finish_def)
    with report_flags [OF rep] have "w1 = w'" by simp
    with rep s Inr y report show ?thesis by simp
  qed
qed

lemma failed_iff_error:
  assumes "File_Apply os db f w = (r, err, w')"
  shows "Failed r \<longleftrightarrow> err \<noteq> None"
  using assms
proof (cases rule: File_Apply_cases)
  case early
  then show ?thesis by simp
next
  case (step ex uid gid)
  let ?s = "file_state os f (actual_state f ex) ex (follows f) uid gid FileResult_zero w"
  have ok: "flags_ok ?s" by (rule flags_state) (simp add: blank_def)
  from step(4) show ?thesis
  proof (cases rule: finish_cases)
    case early
    with ok show ?thesis by (simp add: flags_ok_simps)
  next
    case (report r1 ch)
    with ok have "\<not> Failed (if ch then TaskChanged r1 else r1)" by (simp add: flags_ok_simps)
    with report_flags [OF report(2)] show ?thesis by simp
  qed
qed

text \<open>A skipped step is an early return without an error that left the machine alone.\<close>

definition quiet_skip :: "'w \<Rightarrow> 'w file_step \<Rightarrow> bool" where
  "quiet_skip w s \<longleftrightarrow>
     (case fst s of
        Inl (r, err) \<Rightarrow> Skipped r \<longrightarrow> \<not> Changed r \<and> err = None \<and> snd s = w
      | Inr (r, b) \<Rightarrow> \<not> Skipped r)"

lemma quiet_skip_simps [simp]:
  "quiet_skip w (Inr (r, b), w') \<longleftrightarrow> \<not> Skipped r"
  "quiet_skip w (Inl (r, err), w') \<longleftrightarrow> (Skipped r \<longrightarrow> \<not> Changed r \<and> err = None \<and> w' = w)"
  "\<not> Skipped r \<Longrightarrow> quiet_skip w (fail_with r e w')"
  by (simp_all add: quiet_skip_def fail_with_def)

lemma skipped_fields [simp]:
  "Skipped (r\<lparr>fr_Path := p\<rparr>) = Skipped r" "Skipped (r\<lparr>fr_Dest := p\<rparr>) = Skipped r"
  "Skipped (r\<lparr>fr_State := p\<rparr>) = Skipped r" "\<not> Skipped FileResult_zero"
  by (simp_all add: FileResult_zero_def CommonResult_zero_def CommonResult.extend_def)

lemma quiet_absent: "\<not> Skipped r \<Longrightarrow> quiet_skip w (file_absent os f ex r w)"
  by (auto simp: file_absent_def Let_def split: option.split prod.split)

lemma quiet_directory: "\<not> Skipped r \<Longrightarrow> quiet_skip w (file_directory os f ex uid gid r w)"
  by (auto simp: file_directory_def Let_def split: option.split prod.split sum.split)

lemma quiet_file: "\<not> Skipped r \<Longrightarrow> \<not> Changed r \<Longrightarrow> quiet_skip w (file_file os f ex uid gid r w)"
  by (auto simp: file_file_def Let_def split: option.split prod.split sum.split)

lemma quiet_link: "\<not> Skipped r \<Longrightarrow> quiet_skip w (file_link os f ex fo uid gid r w)"
  by (auto simp: file_link_def Let_def split: option.split prod.split sum.split)

lemma quiet_touch: "\<not> Skipped r \<Longrightarrow> quiet_skip w (file_touch os f ex uid gid r w)"
  by (auto simp: file_touch_def Let_def split: option.split prod.split sum.split)

lemmas quiet_states = quiet_absent quiet_directory quiet_file quiet_link quiet_touch

lemma quiet_skip_state:
  assumes "\<not> Skipped r" "\<not> Changed r"
  shows "quiet_skip w (file_state os f st ex fo uid gid r w)"
  using assms by (simp add: file_state_def quiet_states)

lemma report_skipped: "file_report os db f st r w = (r', err, w') \<Longrightarrow> Skipped r' = Skipped r"
  by (auto simp: file_report_def split: if_splits sum.splits)

lemma skipped_quiet:
  assumes "File_Apply os db f w = (r, err, w')" "Skipped r"
  shows "\<not> Changed r \<and> err = None \<and> w' = w"
  using assms(1)
proof (cases rule: File_Apply_cases)
  case early
  with assms(2) show ?thesis by simp
next
  case (step ex uid gid)
  have q: "quiet_skip w (file_state os f (actual_state f ex) ex (follows f) uid gid FileResult_zero w)"
    by (rule quiet_skip_state) simp_all
  from step(4) show ?thesis
  proof (cases rule: finish_cases)
    case early
    with q assms(2) show ?thesis by simp
  next
    case (report r1 ch)
    with q have "\<not> Skipped (if ch then TaskChanged r1 else r1)" by simp
    with report_skipped [OF report(2)] assms(2) show ?thesis by simp
  qed
qed

interpretation file_task: task_module "File_Apply os db f" for os db f
  by (rule task_module.intro) (erule failed_iff_error, erule (1) skipped_quiet)

text \<open>
  The \<^verbatim>\<open>file\<close> module reports failure exactly when it returns an error, on every branch.
\<close>

theorem file_failed_iff_error:
  assumes "File_Apply os db f w = (r, err, w')"
  shows "Failed r \<longleftrightarrow> err \<noteq> None"
  using assms by (rule file_task.failed_iff)

theorem file_failed_iff_error_witness:
  "Failed (fst (File_Apply mem_os no_users (touch_task\<lparr>f_State := ''hard''\<rparr>) empty_fs))"
proof -
  let ?run = "File_Apply mem_os no_users (touch_task\<lparr>f_State := ''hard''\<rparr>) empty_fs"
  have "fst (snd ?run) \<noteq> None" by code_simp
  with file_failed_iff_error [of mem_os no_users "touch_task\<lparr>f_State := ''hard''\<rparr>" empty_fs
      "fst ?run" "fst (snd ?run)" "snd (snd ?run)"]
  show ?thesis by simp
qed

section \<open>A run that reports no change made none\<close>

lemma ensure_unchanged: "ensure_mode_ids os p mode uid gid w = (Inr False, w') \<Longrightarrow> w' = w"
  by (auto simp: ensure_mode_ids_def split: sum.splits bool.splits option.splits prod.splits)

text \<open>A walk whose callback relates its states by a preorder relates its first and last state by it.\<close>

lemma seq_entries_rel:
  assumes "\<And>s. R s s" "\<And>s t u. R s t \<Longrightarrow> R t u \<Longrightarrow> R s u"
    and "\<And>x s. R s (snd (f x s))"
  shows "R s (snd (seq_entries f xs s))"
proof (induction xs arbitrary: s)
  case Nil
  then show ?case using assms(1) by simp
next
  case (Cons x xs)
  obtain r s' where f: "f x s = (r, s')" by fastforce
  with assms(3) [of s x] have "R s s'" by simp
  with f Cons assms(2) show ?case by (cases r) auto
qed

lemma walk_fuel_rel:
  assumes "\<And>s. R s s" "\<And>s t u. R s t \<Longrightarrow> R t u \<Longrightarrow> R s u"
    and "\<And>p fi s. R s (snd (fn p fi s))"
  shows "R s (snd (walk_dir_fuel os get fn n p fi s))"
proof (induction n arbitrary: p fi s)
  case 0
  then show ?case using assms(1) by simp
next
  case (Suc n)
  obtain r s' where f: "fn p fi s = (r, s')" by fastforce
  with assms(3) [of s p fi] have s': "R s s'" by simp
  show ?case
  proof (cases "os_readDir os p (get s')")
    case (Inl e)
    with f s' show ?thesis by (auto split: option.split)
  next
    case (Inr ents)
    have "R s' (snd (seq_entries (\<lambda>(name, fi1). walk_dir_fuel os get fn n (path_join [p, name]) fi1) ents s'))"
      by (rule seq_entries_rel [of R]) (use assms(1,2) Suc in \<open>auto split: prod.split\<close>)
    with f s' Inr assms(2) [of s s'] show ?thesis by (auto split: option.split)
  qed
qed

lemma walk_dir_rel:
  assumes "\<And>s. R s s" "\<And>s t u. R s t \<Longrightarrow> R t u \<Longrightarrow> R s u"
    and "\<And>p fi s. R s (snd (fn p fi s))"
  shows "R s (snd (walk_dir os get fn root s))"
  using assms walk_fuel_rel [of R fn] by (auto simp: walk_dir_def split: sum.split)

definition quiet :: "bool \<times> 'w \<Rightarrow> bool \<times> 'w \<Rightarrow> bool" where
  "quiet s s' \<longleftrightarrow> (\<not> fst s' \<longrightarrow> s' = s)"

lemma recurse_entry_quiet: "quiet s (snd (recurse_entry os mode uid gid p d s))"
  by (auto simp: quiet_def recurse_entry_def split: prod.split sum.split bool.split option.split)

lemma recurse_quiet:
  assumes "walk_dir os snd (recurse_entry os mode uid gid) root s = (e, s')"
  shows "quiet s s'"
proof -
  have "quiet s (snd (walk_dir os snd (recurse_entry os mode uid gid) root s))"
    by (rule walk_dir_rel [of quiet]) (simp_all add: recurse_entry_quiet, auto simp: quiet_def)
  with assms show ?thesis by simp
qed

text \<open>A step that claims no change.\<close>

definition no_change :: "'w \<Rightarrow> 'w file_step \<Rightarrow> bool" where
  "no_change w s =
     (case s of
        (Inl (r, err), w') \<Rightarrow> err = None \<and> \<not> Changed r \<longrightarrow> w' = w
      | (Inr (r, b), w') \<Rightarrow> \<not> b \<longrightarrow> w' = w)"

lemma no_change_simps [task_simps]:
  "no_change w (fail_with r e w')" "no_change w (Inr (r, True), w')"
  "no_change w (Inl (r, Some e), w')" "no_change w (x, w)"
  "no_change w (Inl (TaskChanged r, None), w')"
  by (auto simp: no_change_def fail_with_def split: sum.split)

lemma no_change_absent: "no_change w (file_absent os f ex r w)"
  by (auto simp: file_absent_def Let_def task_simps split: option.split prod.split)

lemma no_change_file: "no_change w (file_file os f ex uid gid r w)"
  by (auto simp: file_file_def Let_def task_simps no_change_def fail_with_def
      split: prod.split sum.split dest: ensure_unchanged)

lemma place_link_unchanged: "place_link os f ex w = (Inr False, w') \<Longrightarrow> w' = w"
  by (auto simp: place_link_def split: if_splits option.splits prod.splits sum.splits)

lemma no_change_link: "no_change w (file_link os f ex follow uid gid r w)"
  by (auto simp: file_link_def Let_def no_change_def fail_with_def
      split: prod.split sum.split dest!: ensure_unchanged place_link_unchanged)

lemma no_change_touch: "no_change w (file_touch os f ex uid gid r w)"
  by (auto simp: file_touch_def Let_def no_change_def fail_with_def
      split: prod.split sum.split option.split dest: ensure_unchanged)

lemma path_exists_True: "path_exists os p w = Inr True \<longleftrightarrow> (\<exists>fi. os_lstat os p w = Inr fi)"
  by (auto simp: path_exists_def split: sum.split)

lemma path_exists_False: "path_exists os p w = Inr False \<longleftrightarrow> os_lstat os p w = Inl ENOENT"
  by (auto simp: path_exists_def is_not_exist_def split: sum.split)

lemmas no_change_states = no_change_absent no_change_file no_change_link no_change_touch

context posix_os
begin

lemma no_change_directory:
  assumes "path_exists os (f_Path f) w = Inr ex"
  shows "no_change w (file_directory os f ex uid gid r w)"
proof -
  obtain e w1 where mk: "os_mkdirAll os (f_Path f) 0x1ED w = (e, w1)" by fastforce
  show ?thesis
  proof (cases "ex \<and> e = None")
    case True
    with assms mk mkdirAll_old have "w1 = w" by (fastforce simp: path_exists_True)
    with True mk show ?thesis
      by (auto simp: file_directory_def Let_def no_change_def fail_with_def quiet_def
          split: prod.split sum.split option.split dest: ensure_unchanged recurse_quiet)
  next
    case False
    with mk show ?thesis
      by (auto simp: file_directory_def Let_def no_change_def fail_with_def quiet_def
          split: prod.split sum.split option.split dest: recurse_quiet)
  qed
qed

lemma no_change_state:
  "path_exists os (f_Path f) w = Inr ex \<Longrightarrow> no_change w (file_state os f st ex follow uid gid r w)"
  by (auto simp: file_state_def no_change_states no_change_simps no_change_directory)

lemma apply_unchanged:
  assumes "File_Apply os db f w = (r, None, w')" "\<not> Changed r"
  shows "w' = w"
  using assms(1)
proof (cases rule: File_Apply_cases)
  case early
  then show ?thesis by simp
next
  case (step ex uid gid)
  from no_change_state [OF step(1)]
  have nc: "no_change w (file_state os f (actual_state f ex) ex (follows f) uid gid FileResult_zero w)" .
  from step(4) show ?thesis
  proof (cases rule: finish_cases)
    case early
    with nc assms(2) show ?thesis by (simp add: no_change_def)
  next
    case (report r1 ch)
    with report_flags [OF report(2)] assms(2) have "\<not> ch" by (cases ch) auto
    with nc report(1) show ?thesis by (simp add: no_change_def)
  qed
qed

end

text \<open>
  C4. The \<^verbatim>\<open>changed\<close> flag is honest: a run of the \<^verbatim>\<open>file\<close> module that succeeds and reports no
  change left the machine exactly as it was, recursion over a directory included.
\<close>

theorem file_unchanged_is_noop:
  assumes "posix_os os" and "File_Apply os db f w = (r, None, w')" and "\<not> Changed r"
  shows "w' = w"
  using assms by (rule posix_os.apply_unchanged)

theorem file_unchanged_is_noop_witness:
  "snd (snd (File_Apply mem_os no_users touch_task touched)) = touched"
proof (rule file_unchanged_is_noop [OF memfs.posix_os_axioms])
  let ?run = "File_Apply mem_os no_users touch_task touched"
  have "fst (snd ?run) = None" by code_simp
  then show "?run = (fst ?run, None, snd (snd ?run))" by (simp add: prod_eq_iff)
  show "\<not> Changed (fst ?run)" by code_simp
qed

end
