(* ===== verification/FileConverge.thy ===== *)
theory FileConverge
  imports FileProps
begin

text \<open>
  Convergence of the \<^verbatim>\<open>file\<close> module: under the laws of the operating system a second run of
  the same task succeeds, reports no change and leaves the machine alone, and what the task asks for is the case.
\<close>

section \<open>Modes and ids that settle\<close>

text \<open>
  A mode is absent, an octal number of permission bits, or symbolic on a path that its own
  directory and base name lead back to.
\<close>

definition settling_mode :: "string \<Rightarrow> string \<Rightarrow> bool" where
  "settling_mode p v \<longleftrightarrow>
     v = [] \<or>
     (case parse_uint 8 32 v of
        Some n \<Rightarrow> n < 512
      | None \<Rightarrow> dirfs_path (path_dir p) (path_base p) = Some p)"

definition valid_id :: "int \<Rightarrow> bool" where
  "valid_id i \<longleftrightarrow> i = -1 \<or> word_of_int i \<noteq> (-1 :: u32)"

lemma perm_small: "n < 512 \<Longrightarrow> perm (mode_of_nat n) = mode_of_nat n"
proof -
  assume n: "n < 512"
  have "perm_mask = mask 9" by (simp add: perm_mask_def mask_eq_exp_minus_1)
  then have "perm (mode_of_nat n) = take_bit 9 (of_nat n :: filemode)"
    by (simp add: perm_def mode_of_nat_def take_bit_eq_mask)
  also have "\<dots> = of_nat (take_bit 9 n)" by (simp add: take_bit_of_nat)
  also have "take_bit 9 n = n" using n by (simp add: take_bit_nat_eq_self)
  finally show ?thesis by (simp add: mode_of_nat_def)
qed

definition settled :: "filemode \<Rightarrow> int \<Rightarrow> int \<Rightarrow> fileinfo \<Rightarrow> bool" where
  "settled d uid gid fi \<longleftrightarrow>
     (d = 0 \<or> perm (fi_mode fi) = d) \<and>
     (uid = -1 \<or> fi_uid fi = word_of_int uid) \<and> (gid = -1 \<or> fi_gid fi = word_of_int gid)"

lemma needs_settled:
  "os_lstat os p w = Inr fi \<Longrightarrow> desired_mode os p (MString v) w = Inr d \<Longrightarrow>
   needsModeOrOwnershipChange os p (MString v) uid gid w = Inr (\<not> settled d uid gid fi)"
  by (auto simp: needsModeOrOwnershipChange_def settled_def)

lemma new_id_settled: "valid_id i \<Longrightarrow> i = -1 \<or> new_id i old = word_of_int i"
  by (auto simp: valid_id_def new_id_def)

context posix_os
begin

text \<open>What a symbolic mode is computed from: the file itself.\<close>

lemma symbolic_stat:
  assumes "os_lstat os p w = Inr fi" "\<not> is_link fi" "dirfs_path (path_dir p) (path_base p) = Some p"
  shows "NewModeFromSpec os (path_dir p) p v w = spec_mode (perm (fi_mode fi)) v"
  using assms lstat_stat [OF assms(1,2)] by (simp add: NewModeFromSpec_def dirfs_stat_def)

text \<open>
  The mode step of \<^verbatim>\<open>ApplyModeAndIDs\<close>: afterwards the file has a mode that the same specification
  asks for again.
\<close>

lemma apply_mode_settles:
  assumes fi: "os_lstat os p w = Inr fi" "\<not> is_link fi" and v: "settling_mode p v"
    and run: "apply_mode os p (MString v) w = (None, w')"
  shows "\<exists>fi' d. os_lstat os p w' = Inr fi' \<and> same_type fi fi' \<and>
           (d = 0 \<or> perm (fi_mode fi') = d) \<and>
           (\<forall>w2 fi2. os_lstat os p w2 = Inr fi2 \<longrightarrow> \<not> is_link fi2 \<longrightarrow>
              perm (fi_mode fi2) = perm (fi_mode fi') \<longrightarrow> desired_mode os p (MString v) w2 = Inr d)"
proof (cases "v = []")
  case True
  with run fi show ?thesis
    by (intro exI [of _ fi] exI [of _ 0]) (auto simp: apply_mode_def desired_mode_def same_type_def)
next
  case v_ne: False
  show ?thesis
  proof (cases "parse_uint 8 32 v")
    case (Some n)
    with v v_ne have n: "n < 512" by (simp add: settling_mode_def)
    from Some v_ne run have "os_chmod os p (mode_of_nat n) w = (None, w')"
      by (simp add: apply_mode_def)
    from chmod_ok [OF fi this] obtain fi' where "os_lstat os p w' = Inr fi'" "same_type fi fi'"
      "perm (fi_mode fi') = mode_of_nat n" by (auto simp: perm_small [OF n])
    with Some v_ne show ?thesis
      by (intro exI [of _ fi'] exI [of _ "mode_of_nat n"]) (simp add: desired_mode_def)
  next
    case None
    with v v_ne have dp: "dirfs_path (path_dir p) (path_base p) = Some p"
      by (simp add: settling_mode_def)
    note sym = symbolic_stat [OF _ _ dp, of _ _ v]
    from run None v_ne obtain m where m: "spec_mode (perm (fi_mode fi)) v = Inr m"
      and ch: "os_chmod os p m w = (None, w')"
      by (cases "spec_mode (perm (fi_mode fi)) v")
        (auto simp: apply_mode_def ChmodFromString_def sym [OF fi])
    have pm: "perm m = m" by (rule spec_mode_low [OF m])
    from chmod_ok [OF fi ch] obtain fi' where fi': "os_lstat os p w' = Inr fi'" "same_type fi fi'"
      "perm (fi_mode fi') = m" by (auto simp: pm)
    have "desired_mode os p (MString v) w2 = Inr m"
      if "os_lstat os p w2 = Inr fi2" "\<not> is_link fi2" "perm (fi_mode fi2) = m" for w2 fi2
      using sym [OF that(1,2)] that(3) spec_mode_again [OF m] None v_ne by (simp add: desired_mode_def)
    with fi' show ?thesis by (intro exI [of _ fi'] exI [of _ m]) simp
  qed
qed

lemma ensure_settles:
  assumes fi: "os_lstat os p w = Inr fi" "\<not> is_link fi" and v: "settling_mode p v"
    and ids: "valid_id uid" "valid_id gid"
    and run: "ensure_mode_ids os p (MString v) uid gid w = (Inr b, w')"
  shows "\<exists>fi'. os_lstat os p w' = Inr fi' \<and> same_type fi fi' \<and>
           ensure_mode_ids os p (MString v) uid gid w' = (Inr False, w')"
proof (cases b)
  case False
  with run have "w' = w" by (simp add: ensure_unchanged)
  with run False fi show ?thesis by (auto simp: same_type_def)
next
  case True
  with run have "ApplyModeAndIDs os p (MString v) uid gid w = (None, w')"
    by (auto simp: ensure_mode_ids_def split: sum.splits bool.splits option.splits prod.splits)
  then obtain w1 where w1: "apply_mode os p (MString v) w = (None, w1)"
    and ch: "os_chown os p uid gid w1 = (None, w')"
    by (auto simp: ApplyModeAndIDs_def split: prod.splits option.splits)
  from apply_mode_settles [OF fi v w1] obtain fi1 d where fi1: "os_lstat os p w1 = Inr fi1"
    "same_type fi fi1" and d: "d = 0 \<or> perm (fi_mode fi1) = d"
    and again: "\<And>w2 fi2. os_lstat os p w2 = Inr fi2 \<Longrightarrow> \<not> is_link fi2 \<Longrightarrow>
      perm (fi_mode fi2) = perm (fi_mode fi1) \<Longrightarrow> desired_mode os p (MString v) w2 = Inr d" by blast
  have nl: "\<not> is_link fi1" using same_type_kind [OF fi1(2)] fi(2) by simp
  from chown_ok [OF fi1(1) nl ch] obtain fi' where fi': "os_lstat os p w' = Inr fi'"
    "same_type fi1 fi'" "perm (fi_mode fi') = perm (fi_mode fi1)"
    "fi_uid fi' = new_id uid (fi_uid fi1)" "fi_gid fi' = new_id gid (fi_gid fi1)" by blast
  have nl': "\<not> is_link fi'" using same_type_kind [OF fi'(2)] nl by simp
  have "settled d uid gid fi'"
    using d fi' ids new_id_settled [of uid] new_id_settled [of gid] by (auto simp: settled_def)
  with needs_settled [OF fi'(1) again [OF fi'(1) nl' fi'(3)]]
  have "ensure_mode_ids os p (MString v) uid gid w' = (Inr False, w')"
    by (simp add: ensure_mode_ids_def)
  moreover have "same_type fi fi'" using fi1(2) fi'(2) by (simp add: same_type_def)
  ultimately show ?thesis using fi'(1) by blast
qed

end

section \<open>The second run\<close>

definition settled_step :: "'w os \<Rightarrow> string \<Rightarrow> 'w \<Rightarrow> 'w file_step \<Rightarrow> bool" where
  "settled_step os p w s \<longleftrightarrow>
     (\<exists>r. s = (Inl (r, None), w) \<and> \<not> Changed r) \<or>
     (\<exists>r fi. s = (Inr (r, False), w) \<and> \<not> Changed r \<and> os_lstat os p w = Inr fi)"

lemma finish_settled:
  assumes "settled_step os (f_Path f) w s"
  shows "\<exists>r. file_finish os db f st s = (r, None, w) \<and> \<not> Changed r"
  using assms unfolding settled_step_def
  by (auto simp: file_finish_def file_report_def)

text \<open>The states a second run settles for, and what is asked of the path.\<close>

definition no_link :: "'w os \<Rightarrow> string \<Rightarrow> 'w \<Rightarrow> bool" where
  "no_link os p w \<longleftrightarrow> (case os_lstat os p w of Inr fi \<Rightarrow> \<not> is_link fi | Inl e \<Rightarrow> True)"

definition settling :: "'w os \<Rightarrow> File \<Rightarrow> 'w \<Rightarrow> bool" where
  "settling os f w \<longleftrightarrow>
     f_Path f \<noteq> [] \<and> \<not> f_Recurse f \<and> settling_mode (f_Path f) (Mode_GetValue (f_Mode f)) \<and>
     (f_State f = FileAbsent \<or>
      f_State f = FileLink \<and> \<not> follows f \<or>
      f_State f \<in> {FileDirectory, FileFile, FileTouch} \<and> no_link os (f_Path f) w)"

definition settling_ids :: "userdb \<Rightarrow> File \<Rightarrow> bool" where
  "settling_ids db f \<longleftrightarrow>
     (case GetUid db (f_Owner f) of Inr u \<Rightarrow> valid_id u | Inl e \<Rightarrow> True) \<and>
     (case GetGid db (f_Group f) of Inr g \<Rightarrow> valid_id g | Inl e \<Rightarrow> True)"

lemma fail_with_neq [simp]:
  "fail_with r e w \<noteq> (Inr x, w')" "fail_with r e w \<noteq> (Inl (r', None), w')"
  by (simp_all add: fail_with_def)

text \<open>A step of the first run that did not fail.\<close>

definition good_step :: "'w file_step \<Rightarrow> 'w \<Rightarrow> bool" where
  "good_step s w' \<longleftrightarrow> (\<exists>r. s = (Inl (r, None), w')) \<or> (\<exists>x. s = (Inr x, w'))"

lemma good_simps [simp]:
  "\<not> good_step (fail_with r e w) w'" "good_step (Inl (r, None), w) w' \<longleftrightarrow> w' = w"
  "good_step (Inr x, w) w' \<longleftrightarrow> w' = w"
  by (auto simp: good_step_def)

context posix_os
begin

lemma again_absent:
  assumes "path_exists os (f_Path f) w = Inr ex" "f_Path f \<noteq> []"
    and "good_step (file_absent os f ex r w) w'" "\<not> Changed r"
  shows "\<exists>ex'. path_exists os (f_Path f) w' = Inr ex' \<and>
           settled_step os (f_Path f) w' (file_absent os f ex' r w')"
proof -
  have "os_lstat os (f_Path f) w' = Inl ENOENT"
    using assms removeAll_gone [OF assms(2)]
    by (cases ex) (auto simp: file_absent_def Let_def path_exists_False split: prod.splits option.splits)
  then have "path_exists os (f_Path f) w' = Inr False" by (simp add: path_exists_False)
  with assms(4) show ?thesis
    by (intro exI [of _ False]) (simp add: file_absent_def Let_def settled_step_def)
qed

text \<open>The states that end in the mode and ownership block.\<close>

lemma again_ensure:
  assumes "os_lstat os p w1 = Inr fi" "\<not> is_link fi" "settling_mode p v" "valid_id uid" "valid_id gid"
    and "ensure_mode_ids os p (MString v) uid gid w1 = (Inr b, w')"
  obtains fi' where "os_lstat os p w' = Inr fi'" "is_dir fi' = is_dir fi" "no_link os p w'"
    "ensure_mode_ids os p (MString v) uid gid w' = (Inr False, w')"
    "path_exists os p w' = Inr True"
proof -
  obtain fi' where fi': "os_lstat os p w' = Inr fi'" "same_type fi fi'"
    "ensure_mode_ids os p (MString v) uid gid w' = (Inr False, w')" using ensure_settles [OF assms] by blast
  with same_type_kind [OF fi'(2)] assms(2) that show ?thesis by (auto simp: path_exists_True no_link_def)
qed

lemma again_file:
  assumes "path_exists os (f_Path f) w = Inr ex"
    and "no_link os (f_Path f) w"
    and mode: "settling_mode (f_Path f) (Mode_GetValue (f_Mode f))" and ids: "valid_id uid" "valid_id gid"
    and good: "good_step (file_file os f ex uid gid r w) w'" and r: "\<not> Changed r"
  shows "\<exists>ex'. path_exists os (f_Path f) w' = Inr ex' \<and>
           settled_step os (f_Path f) w' (file_file os f ex' uid gid r w') \<and> no_link os (f_Path f) w'"
proof (cases "f_Mode f = None \<and> f_Owner f = [] \<and> f_Group f = []")
  case True
  with good have "ex" "w' = w" by (auto simp: file_file_def Let_def split: if_splits)
  with assms(1,2) True r show ?thesis
    by (intro exI [of _ True]) (auto simp: file_file_def Let_def settled_step_def)
next
  case False
  with good have ex: ex by (auto simp: file_file_def Let_def split: if_splits)
  with assms(1,2) obtain fi where fi: "os_lstat os (f_Path f) w = Inr fi" "\<not> is_link fi"
    by (auto simp: path_exists_True no_link_def)
  obtain b where run: "ensure_mode_ids os (f_Path f) (MString (Mode_GetValue (f_Mode f))) uid gid w = (Inr b, w')"
    using good ex False by (auto simp: file_file_def Let_def split: prod.splits sum.splits)
  from again_ensure [OF fi mode ids run] obtain fi' where "os_lstat os (f_Path f) w' = Inr fi'"
    "ensure_mode_ids os (f_Path f) (MString (Mode_GetValue (f_Mode f))) uid gid w' = (Inr False, w')"
    "path_exists os (f_Path f) w' = Inr True" "no_link os (f_Path f) w'" .
  with False r show ?thesis
    by (intro exI [of _ True]) (auto simp: file_file_def Let_def settled_step_def)
qed

lemma again_touch:
  assumes "path_exists os (f_Path f) w = Inr ex"
    and "no_link os (f_Path f) w"
    and mode: "settling_mode (f_Path f) (Mode_GetValue (f_Mode f))" and ids: "valid_id uid" "valid_id gid"
    and good: "good_step (file_touch os f ex uid gid r w) w'" and r: "\<not> Changed r"
  shows "\<exists>ex'. path_exists os (f_Path f) w' = Inr ex' \<and>
           settled_step os (f_Path f) w' (file_touch os f ex' uid gid r w') \<and> no_link os (f_Path f) w'"
proof -
  obtain w1 fi b where fi: "os_lstat os (f_Path f) w1 = Inr fi" "\<not> is_link fi"
    and run: "ensure_mode_ids os (f_Path f) (MString (Mode_GetValue (f_Mode f))) uid gid w1 = (Inr b, w')"
  proof (cases ex)
    case True
    with assms(1,2) obtain fi where "os_lstat os (f_Path f) w = Inr fi" "\<not> is_link fi"
      by (auto simp: path_exists_True no_link_def)
    moreover obtain b where "ensure_mode_ids os (f_Path f) (MString (Mode_GetValue (f_Mode f))) uid gid w = (Inr b, w')"
      using good True by (auto simp: file_touch_def Let_def split: prod.splits sum.splits)
    ultimately show ?thesis by (rule that)
  next
    case False
    with assms(1) have none: "os_lstat os (f_Path f) w = Inl ENOENT" by (simp add: path_exists_False)
    obtain h w1 where cr: "os_create os (f_Path f) w = (Inr h, w1)"
      using good False by (cases "os_create os (f_Path f) w")
        (auto simp: file_touch_def Let_def split: sum.splits)
    from create_new [OF none cr] obtain fi where "os_lstat os (f_Path f) w1 = Inr fi" "\<not> is_link fi" by blast
    moreover obtain b where "ensure_mode_ids os (f_Path f) (MString (Mode_GetValue (f_Mode f))) uid gid w1 = (Inr b, w')"
      using good False cr by (auto simp: file_touch_def Let_def split: prod.splits sum.splits)
    ultimately show ?thesis by (rule that)
  qed
  from again_ensure [OF fi mode ids run] obtain fi' where "os_lstat os (f_Path f) w' = Inr fi'"
    "ensure_mode_ids os (f_Path f) (MString (Mode_GetValue (f_Mode f))) uid gid w' = (Inr False, w')"
    "path_exists os (f_Path f) w' = Inr True" "no_link os (f_Path f) w'" .
  with r show ?thesis
    by (intro exI [of _ True]) (auto simp: file_touch_def Let_def settled_step_def)
qed

lemma again_directory:
  assumes "path_exists os (f_Path f) w = Inr ex" "\<not> f_Recurse f"
    and "no_link os (f_Path f) w"
    and mode: "settling_mode (f_Path f) (Mode_GetValue (f_Mode f))" and ids: "valid_id uid" "valid_id gid"
    and good: "good_step (file_directory os f ex uid gid r w) w'" and r: "\<not> Changed r"
  shows "\<exists>ex'. path_exists os (f_Path f) w' = Inr ex' \<and>
           settled_step os (f_Path f) w' (file_directory os f ex' uid gid r w') \<and> no_link os (f_Path f) w'"
proof -
  obtain w1 where mk: "os_mkdirAll os (f_Path f) 0x1ED w = (None, w1)"
    using good by (cases "os_mkdirAll os (f_Path f) 0x1ED w")
      (auto simp: file_directory_def Let_def split: option.splits)
  obtain fi where fi: "os_lstat os (f_Path f) w1 = Inr fi" "\<not> is_link fi" "is_dir fi"
  proof (cases ex)
    case True
    with assms(1,3) obtain fi where "os_lstat os (f_Path f) w = Inr fi" "\<not> is_link fi"
      by (auto simp: path_exists_True no_link_def)
    with mkdirAll_old [OF _ mk] that show ?thesis by auto
  next
    case False
    with assms(1) mkdirAll_new [OF _ mk] that show ?thesis by (auto simp: path_exists_False)
  qed
  obtain b where run: "ensure_mode_ids os (f_Path f) (MString (Mode_GetValue (f_Mode f))) uid gid w1 = (Inr b, w')"
    using good mk assms(2) by (auto simp: file_directory_def Let_def split: prod.splits sum.splits)
  from again_ensure [OF fi(1,2) mode ids run] obtain fi' where fi': "os_lstat os (f_Path f) w' = Inr fi'"
    "is_dir fi' = is_dir fi"
    "ensure_mode_ids os (f_Path f) (MString (Mode_GetValue (f_Mode f))) uid gid w' = (Inr False, w')"
    "path_exists os (f_Path f) w' = Inr True" "no_link os (f_Path f) w'" .
  with mkdirAll_dir [OF fi'(1)] fi(3) r assms(2) show ?thesis
    by (intro exI [of _ True]) (auto simp: file_directory_def Let_def settled_step_def)
qed

lemma again_link:
  assumes "path_exists os (f_Path f) w = Inr ex"
    and good: "good_step (file_link os f ex False uid gid r w) w'" and r: "\<not> Changed r"
  shows "\<exists>ex'. path_exists os (f_Path f) w' = Inr ex' \<and>
           settled_step os (f_Path f) w' (file_link os f ex' False uid gid r w')"
proof -
  obtain b where pl: "place_link os f ex w = (Inr b, w')"
    using good by (cases "place_link os f ex w") (auto simp: file_link_def Let_def split: sum.splits)
  then have "(\<exists>fi. os_lstat os (f_Path f) w' = Inr fi) \<and> os_readlink os (f_Path f) w' = Inr (f_Src f)"
    using assms(1) symlink_new [of "f_Src f" "f_Path f"]
    by (auto simp: place_link_def path_exists_True split: if_splits option.splits prod.splits sum.splits)
  with r show ?thesis
    by (intro exI [of _ True])
      (auto simp: path_exists_True file_link_def place_link_def Let_def settled_step_def)
qed

end


context posix_os
begin

lemma again_state:
  assumes pe: "path_exists os (f_Path f) w = Inr ex" and s: "settling os f w"
    and ids: "valid_id uid" "valid_id gid"
    and good: "good_step (file_state os f (f_State f) ex (follows f) uid gid FileResult_zero w) w'"
  shows "\<exists>ex'. path_exists os (f_Path f) w' = Inr ex' \<and>
           settled_step os (f_Path f) w'
             (file_state os f (f_State f) ex' (follows f) uid gid FileResult_zero w') \<and> settling os f w'"
proof -
  have z: "\<not> Changed FileResult_zero" by simp
  from s have p: "f_Path f \<noteq> []" "\<not> f_Recurse f" "settling_mode (f_Path f) (Mode_GetValue (f_Mode f))"
    by (simp_all add: settling_def)
  from s consider "f_State f = FileAbsent" | "f_State f = FileLink" "\<not> follows f"
    | "f_State f = FileDirectory" "no_link os (f_Path f) w"
    | "f_State f = FileFile" "no_link os (f_Path f) w"
    | "f_State f = FileTouch" "no_link os (f_Path f) w"
    by (auto simp: settling_def)
  note states = this
  have keep: "settling os f w'" if "f_State f \<in> {FileDirectory, FileFile, FileTouch} \<Longrightarrow> no_link os (f_Path f) w'"
    using s that unfolding settling_def by blast
  from states show ?thesis
  proof cases
    case 1
    with again_absent [OF pe p(1) _ z, of w'] good keep show ?thesis by (simp add: file_state_def file_states)
  next
    case 2
    with again_link [OF pe _ z, of uid gid w'] good keep show ?thesis
      by (simp add: file_state_def file_states)
  next
    case 3
    with again_directory [OF pe p(2) 3(2) p(3) ids _ z, of w'] good keep show ?thesis
      by (auto simp: file_state_def file_states)
  next
    case 4
    with again_file [OF pe 4(2) p(3) ids _ z, of w'] good keep show ?thesis
      by (auto simp: file_state_def file_states)
  next
    case 5
    with again_touch [OF pe 5(2) p(3) ids _ z, of w'] good keep show ?thesis
      by (auto simp: file_state_def file_states)
  qed
qed

lemma apply_again:
  assumes s: "settling os f w" and ids: "settling_ids db f"
    and run: "File_Apply os db f w = (r, None, w')"
  shows "(\<exists>r'. File_Apply os db f w' = (r', None, w') \<and> \<not> Changed r') \<and> settling os f w'"
  using run
proof (cases rule: File_Apply_cases)
  case early
  then show ?thesis by simp
next
  case (step ex uid gid)
  have st: "actual_state f e = f_State f" for e
    using s by (auto simp: actual_state_def settling_def file_states)
  have v: "valid_id uid" "valid_id gid" using ids step by (simp_all add: settling_ids_def)
  from step(4) have "good_step (file_state os f (f_State f) ex (follows f) uid gid FileResult_zero w) w'"
    unfolding st by (cases rule: finish_cases) simp_all
  from again_state [OF step(1) s v this] obtain ex' where ex': "path_exists os (f_Path f) w' = Inr ex'"
    and "settled_step os (f_Path f) w' (file_state os f (f_State f) ex' (follows f) uid gid FileResult_zero w')"
    and "settling os f w'" by blast
  from finish_settled [OF this(2)] this(3) show ?thesis
    by (simp add: File_Apply_def Let_def ex' step(2,3) st)
qed

end

text \<open>
  C1. Idempotence of the \<^verbatim>\<open>file\<close> module. Under the POSIX laws, once a task with \<^verbatim>\<open>state\<close> absent, directory, file, touch or link
  (without following it) has succeeded, running it again succeeds, reports no change and
  leaves the machine as it is; the mode may be octal within the permission bits or symbolic.
\<close>

theorem file_second_run_settles:
  assumes "posix_os os" and "settling os f w" and "settling_ids db f"
    and "File_Apply os db f w = (r, None, w')"
  shows "\<exists>r'. File_Apply os db f w' = (r', None, w') \<and> \<not> Changed r'"
  using posix_os.apply_again [OF assms] by blast

theorem file_second_run_settles_witness:
  "\<exists>r'. File_Apply mem_os no_users touch_task touched = (r', None, touched) \<and> \<not> Changed r'"
proof -
  have s: "settling mem_os touch_task empty_fs" by code_simp
  have ids: "settling_ids no_users touch_task" by code_simp
  have "fst (snd (File_Apply mem_os no_users touch_task empty_fs)) = None" by code_simp
  then have run: "File_Apply mem_os no_users touch_task empty_fs =
      (fst (File_Apply mem_os no_users touch_task empty_fs), None, touched)"
    by (simp add: touched_def prod_eq_iff)
  show ?thesis by (rule file_second_run_settles [OF memfs.posix_os_axioms s ids run])
qed

section \<open>The state that is reached\<close>

text \<open>
  What a task asks for: nothing at the path; a link to \<^verbatim>\<open>src\<close>; or something of the right kind, with the mode and the ids
  of the task where it names them. A mode that is symbolic is reached when it asks for the permissions that are there.
\<close>

definition asked_mode :: "string \<Rightarrow> filemode \<Rightarrow> goerr + filemode" where
  "asked_mode v q =
     (if v = [] then Inr q else case parse_uint 8 32 v of Some n \<Rightarrow> Inr (mode_of_nat n) | None \<Rightarrow> spec_mode q v)"

definition has_mode :: "string \<Rightarrow> fileinfo \<Rightarrow> bool" where
  "has_mode v fi \<longleftrightarrow> asked_mode v (perm (fi_mode fi)) = Inr (perm (fi_mode fi))"

definition has_id :: "string \<Rightarrow> goerr + int \<Rightarrow> u32 \<Rightarrow> bool" where
  "has_id name looked_up i \<longleftrightarrow> name = [] \<or> (\<exists>n. looked_up = Inr n \<and> word_of_int n = i)"

definition in_state :: "'w os \<Rightarrow> userdb \<Rightarrow> File \<Rightarrow> 'w \<Rightarrow> bool" where
  "in_state os db f w \<longleftrightarrow>
     (if f_State f = FileAbsent then os_lstat os (f_Path f) w = Inl ENOENT
      else if f_State f = FileLink then os_readlink os (f_Path f) w = Inr (f_Src f)
      else \<exists>fi. os_lstat os (f_Path f) w = Inr fi \<and> \<not> is_link fi \<and> (f_State f = FileDirectory \<longrightarrow> is_dir fi) \<and>
        has_mode (Mode_GetValue (f_Mode f)) fi \<and>
        has_id (f_Owner f) (GetUid db (f_Owner f)) (fi_uid fi) \<and> has_id (f_Group f) (GetGid db (f_Group f)) (fi_gid fi))"

text \<open>
  What the code cannot be asked for: a mode without any permission, which it takes for no mode at all, and the id -1, which is its
  sign for no id.
\<close>

definition grants :: "'w os \<Rightarrow> File \<Rightarrow> 'w \<Rightarrow> bool" where
  "grants os f w \<longleftrightarrow>
     Mode_GetValue (f_Mode f) = [] \<or>
     (case os_lstat os (f_Path f) w of
        Inl e \<Rightarrow> True | Inr fi \<Rightarrow> asked_mode (Mode_GetValue (f_Mode f)) (perm (fi_mode fi)) \<noteq> Inr 0)"

definition names_ids :: "userdb \<Rightarrow> File \<Rightarrow> bool" where
  "names_ids db f \<longleftrightarrow>
     (f_Owner f = [] \<or> GetUid db (f_Owner f) \<noteq> Inr (-1)) \<and> (f_Group f = [] \<or> GetGid db (f_Group f) \<noteq> Inr (-1))"

text \<open>What the code itself takes for the state that is asked for.\<close>

definition seems_in_state :: "'w os \<Rightarrow> userdb \<Rightarrow> File \<Rightarrow> 'w \<Rightarrow> bool" where
  "seems_in_state os db f w \<longleftrightarrow>
     (if f_State f = FileAbsent then os_lstat os (f_Path f) w = Inl ENOENT
      else if f_State f = FileLink then os_readlink os (f_Path f) w = Inr (f_Src f)
      else \<exists>fi d uid gid. os_lstat os (f_Path f) w = Inr fi \<and> \<not> is_link fi \<and> (f_State f = FileDirectory \<longrightarrow> is_dir fi) \<and>
        desired_mode os (f_Path f) (MString (Mode_GetValue (f_Mode f))) w = Inr d \<and>
        GetUid db (f_Owner f) = Inr uid \<and> GetGid db (f_Group f) = Inr gid \<and> settled d uid gid fi)"

text \<open>A step that changes nothing finds what it was asked for.\<close>

definition idle_step :: "'w file_step \<Rightarrow> 'w \<Rightarrow> bool" where
  "idle_step s w \<longleftrightarrow> (\<exists>r. s = (Inl (r, None), w) \<and> \<not> Changed r) \<or> (\<exists>r. s = (Inr (r, False), w))"

lemma ensure_idle:
  assumes "ensure_mode_ids os p (MString v) uid gid w = (Inr False, w')"
  shows "\<exists>fi d. os_lstat os p w = Inr fi \<and> desired_mode os p (MString v) w = Inr d \<and> settled d uid gid fi"
proof -
  have n: "needsModeOrOwnershipChange os p (MString v) uid gid w = Inr False"
    using assms by (auto simp: ensure_mode_ids_def split: sum.splits bool.splits option.splits prod.splits)
  then obtain fi d where "os_lstat os p w = Inr fi" "desired_mode os p (MString v) w = Inr d"
    by (auto simp: needsModeOrOwnershipChange_def split: sum.splits)
  with needs_settled [OF this] n show ?thesis by auto
qed

context posix_os
begin

lemma idle_in_state:
  assumes s: "settling os f w" and pe: "path_exists os (f_Path f) w = Inr ex"
    and ids: "GetUid db (f_Owner f) = Inr uid" "GetGid db (f_Group f) = Inr gid"
    and idle: "idle_step (file_state os f (f_State f) ex (follows f) uid gid FileResult_zero w) w"
  shows "seems_in_state os db f w"
proof -
  let ?mode = "MString (Mode_GetValue (f_Mode f))"
  have there: "seems_in_state os db f w"
    if st: "f_State f \<in> {FileDirectory, FileFile, FileTouch}" and e: "ensure_mode_ids os (f_Path f) ?mode uid gid w = (Inr False, w)"
      and d: "f_State f = FileDirectory \<longrightarrow> (\<exists>m. os_mkdirAll os (f_Path f) m w = (None, w))"
  proof -
    from ensure_idle [OF e] obtain fi d where fi: "os_lstat os (f_Path f) w = Inr fi"
      "desired_mode os (f_Path f) ?mode w = Inr d" "settled d uid gid fi" by blast
    have nl: "\<not> is_link fi" using s st fi(1) by (auto simp: settling_def no_link_def file_states)
    moreover have "f_State f = FileDirectory \<longrightarrow> is_dir fi" using d mkdirAll_old [OF fi(1)] nl by blast
    ultimately show ?thesis using fi ids st by (auto simp: seems_in_state_def file_states)
  qed
  from s consider "f_State f = FileAbsent" | "f_State f = FileLink" "\<not> follows f" | "f_State f = FileDirectory"
    | "f_State f = FileFile" | "f_State f = FileTouch"
    by (auto simp: settling_def)
  then show ?thesis
  proof cases
    case 1
    with idle have "\<not> ex" by (auto simp: idle_step_def file_state_def file_absent_def Let_def split: if_splits prod.splits option.splits)
    with 1 pe show ?thesis by (simp add: seems_in_state_def path_exists_False)
  next
    case 2
    with idle show ?thesis
      by (auto simp: idle_step_def file_state_def file_link_def place_link_def Let_def file_states seems_in_state_def
          split: if_splits prod.splits option.splits sum.splits)
  next
    case 3
    with idle s obtain w1 where mk: "os_mkdirAll os (f_Path f) 0x1ED w = (None, w1)" and ex: ex
      and e: "ensure_mode_ids os (f_Path f) ?mode uid gid w1 = (Inr False, w)"
      by (auto simp: idle_step_def file_state_def file_directory_def Let_def file_states settling_def
          split: if_splits prod.splits option.splits sum.splits)
    from ex pe obtain fi where "os_lstat os (f_Path f) w = Inr fi" by (auto simp: path_exists_True)
    with mkdirAll_old [OF _ mk] have "w1 = w" by blast
    with there e mk 3 show ?thesis by (auto simp: file_states)
  next
    case 4
    show ?thesis
    proof (cases "f_Mode f = None \<and> f_Owner f = [] \<and> f_Group f = []")
      case True
      with 4 idle have ex by (auto simp: idle_step_def file_state_def file_file_def Let_def file_states split: if_splits)
      then obtain fi where "os_lstat os (f_Path f) w = Inr fi" using pe by (auto simp: path_exists_True)
      with True 4 s ids show ?thesis
        by (auto simp: seems_in_state_def file_states settling_def no_link_def settled_def desired_mode_def Mode_GetValue_def GetUid_def GetGid_def)
    next
      case False
      with 4 idle there show ?thesis
        by (auto simp: idle_step_def file_state_def file_file_def Let_def file_states split: if_splits prod.splits sum.splits)
    qed
  next
    case 5
    with idle there show ?thesis
      by (cases ex) (auto simp: idle_step_def file_state_def file_touch_def Let_def file_states split: if_splits prod.splits option.splits sum.splits)
  qed
qed

lemma apply_in_state:
  assumes s: "settling os f w" and run: "File_Apply os db f w = (r, None, w)" "\<not> Changed r"
  shows "seems_in_state os db f w"
  using run(1)
proof (cases rule: File_Apply_cases)
  case (step ex uid gid)
  have st: "actual_state f e = f_State f" for e
    using s by (auto simp: actual_state_def settling_def file_states)
  from step(4) have "idle_step (file_state os f (f_State f) ex (follows f) uid gid FileResult_zero w) w"
    unfolding st
  proof (cases rule: finish_cases)
    case early
    with run(2) show ?thesis by (auto simp: idle_step_def)
  next
    case (report r1 ch)
    with report_flags [OF report(2)] run(2) show ?thesis by (cases ch) (auto simp: idle_step_def)
  qed
  from idle_in_state [OF s step(1-3) this] show ?thesis .
qed simp

lemma seems_in_state_is:
  assumes "seems_in_state os db f w" "settling_mode (f_Path f) (Mode_GetValue (f_Mode f))" "grants os f w" "names_ids db f"
  shows "in_state os db f w"
proof (cases "f_State f = FileAbsent \<or> f_State f = FileLink")
  case True
  with assms(1) show ?thesis by (auto simp: seems_in_state_def in_state_def)
next
  case False
  let ?v = "Mode_GetValue (f_Mode f)"
  from assms(1) False obtain fi d uid gid where fi: "os_lstat os (f_Path f) w = Inr fi" "\<not> is_link fi"
    and kind: "f_State f = FileDirectory \<longrightarrow> is_dir fi" and d: "desired_mode os (f_Path f) (MString ?v) w = Inr d"
    and ids: "GetUid db (f_Owner f) = Inr uid" "GetGid db (f_Group f) = Inr gid" and s: "settled d uid gid fi"
    by (auto simp: seems_in_state_def)
  have "has_mode ?v fi"
  proof (cases "?v = []")
    case True
    then show ?thesis by (simp add: has_mode_def asked_mode_def)
  next
    case v: False
    have asked: "asked_mode ?v (perm (fi_mode fi)) = Inr d"
    proof (cases "parse_uint 8 32 ?v")
      case (Some n)
      with d v show ?thesis by (simp add: asked_mode_def desired_mode_def)
    next
      case None
      with assms(2) v have "dirfs_path (path_dir (f_Path f)) (path_base (f_Path f)) = Some (f_Path f)" by (simp add: settling_mode_def)
      with symbolic_stat [OF fi] d v None show ?thesis by (simp add: asked_mode_def desired_mode_def)
    qed
    moreover from assms(3) v fi(1) this have "d \<noteq> 0" by (auto simp: grants_def)
    ultimately show ?thesis using s by (simp add: has_mode_def settled_def)
  qed
  moreover have "has_id (f_Owner f) (GetUid db (f_Owner f)) (fi_uid fi)" "has_id (f_Group f) (GetGid db (f_Group f)) (fi_gid fi)"
    using s ids assms(4) by (auto simp: has_id_def settled_def names_ids_def)
  ultimately show ?thesis using fi kind False by (auto simp: in_state_def)
qed

end

text \<open>
  C2. A task of the \<^verbatim>\<open>file\<close> module does what it asks for. Under the POSIX laws, when a task with \<^verbatim>\<open>state\<close> absent, directory (not
  recursive), file, touch or link (without following it) has succeeded on a path that was not a link, then nothing is at the path,
  or it is a link to \<^verbatim>\<open>src\<close>, or something of the right kind is there that is no link and has the permissions the octal or symbolic
  mode asks for, the owner and the group of the task where it names them. The mode must ask for some permission (the mode
  \<^verbatim>\<open>0000\<close> is ignored) and the ids be others than -1.
\<close>

theorem file_reaches_state:
  assumes "posix_os os" and "settling os f w" and "settling_ids db f"
    and "File_Apply os db f w = (r, None, w')" and "grants os f w'" and "names_ids db f"
  shows "in_state os db f w'"
  using posix_os.apply_again [OF assms(1-4)] posix_os.apply_in_state [OF assms(1)]
    posix_os.seems_in_state_is [OF assms(1) _ _ assms(5,6)] assms(2)
  by (auto simp: settling_def)

theorem file_reaches_state_witness: "in_state mem_os no_users touch_task touched"
proof -
  have "settling mem_os touch_task empty_fs" "settling_ids no_users touch_task"
    "grants mem_os touch_task touched" "names_ids no_users touch_task" by code_simp+
  moreover have "fst (snd (File_Apply mem_os no_users touch_task empty_fs)) = None" by code_simp
  then have "File_Apply mem_os no_users touch_task empty_fs =
      (fst (File_Apply mem_os no_users touch_task empty_fs), None, touched)"
    by (simp add: touched_def prod_eq_iff)
  ultimately show ?thesis using file_reaches_state [OF memfs.posix_os_axioms] by blast
qed

end
