(* ===== verification/FileEnds.thy ===== *)
theory FileEnds
  imports FileConverge
begin

text \<open>
  The tasks of the \<^verbatim>\<open>file\<close> module whose second run does not settle: modes with bits above the permissions, links that are
  followed, and the mode \<^verbatim>\<open>0000\<close>.
\<close>

section \<open>Modes that never settle\<close>

lemma ensure_mismatch:
  assumes "os_lstat os p w = Inr fi" "parse_uint 8 32 v = Some n" "mode_of_nat n \<noteq> 0"
    and "perm (fi_mode fi) \<noteq> mode_of_nat n"
    and "ensure_mode_ids os p (MString v) uid gid w = (Inr b, w')"
  shows "b"
proof -
  have "v \<noteq> []" using assms(2) by (auto simp: parse_uint_def)
  with assms have "needsModeOrOwnershipChange os p (MString v) uid gid w = Inr True"
    by (simp add: needsModeOrOwnershipChange_def desired_mode_def)
  with assms(5) show ?thesis by (auto simp: ensure_mode_ids_def split: prod.splits option.splits)
qed

lemma ensure_lstat:
  "ensure_mode_ids os p m uid gid w = (Inr b, w') \<Longrightarrow> \<exists>fi. os_lstat os p w = Inr fi"
  by (auto simp: ensure_mode_ids_def needsModeOrOwnershipChange_def split: sum.splits)

lemma parse_uint_bound: "parse_uint b k s = Some n \<Longrightarrow> n < 2 ^ k"
  by (auto simp: parse_uint_def split: option.splits if_splits)

lemma high_mode:
  assumes "parse_uint 8 32 v = Some n" "512 \<le> n"
  shows "mode_of_nat n \<noteq> 0" "perm m \<noteq> mode_of_nat n"
proof -
  have u: "unat (mode_of_nat n) = n"
    using parse_uint_bound [OF assms(1)] by (simp add: mode_of_nat_def unat_of_nat)
  with assms(2) show "mode_of_nat n \<noteq> 0" by auto
  have "perm m = take_bit 9 m"
    by (simp add: perm_def perm_mask_def take_bit_eq_mask mask_eq_exp_minus_1)
  then have "unat (perm m) = take_bit 9 (unat m)" by (simp add: unsigned_take_bit_eq)
  then have "unat (perm m) < 2 ^ 9" using take_bit_nat_less_exp [of 9 "unat m"] by metis
  with u assms(2) show "perm m \<noteq> mode_of_nat n" by auto
qed

lemma report_Changed: "file_report os db f st r w = (r', None, w') \<Longrightarrow> Changed r' = Changed r"
  by (auto dest: report_flags)

lemma File_Apply_changed:
  assumes "File_Apply os db f w = (r, None, w')" and "f_State f \<noteq> []"
    and "\<And>ex uid gid r1. fst (file_state os f (f_State f) ex (follows f) uid gid FileResult_zero w)
           \<noteq> Inl (r1, None)"
    and "\<And>ex uid gid r1 b w1. path_exists os (f_Path f) w = Inr ex \<Longrightarrow>
           file_state os f (f_State f) ex (follows f) uid gid FileResult_zero w = (Inr (r1, b), w1) \<Longrightarrow> b"
  shows "Changed r"
  using assms(1)
proof (cases rule: File_Apply_cases)
  case early
  then show ?thesis by simp
next
  case (step ex uid gid)
  have st: "actual_state f ex = f_State f" using assms(2) by (simp add: actual_state_def)
  from step(4) show ?thesis
  proof (cases rule: finish_cases)
    case early
    with assms(3) [of ex uid gid r] show ?thesis by (simp add: st)
  next
    case (report r1 ch)
    with assms(4) [OF step(1)] have ch by (simp add: st)
    with report(2) show ?thesis by (auto dest: report_Changed)
  qed
qed

text \<open>Where the flag of a falling-through step comes from.\<close>

abbreviation ensure_task :: "'w os \<Rightarrow> File \<Rightarrow> int \<Rightarrow> int \<Rightarrow> 'w \<Rightarrow> (goerr + bool) \<times> 'w" where
  "ensure_task os f uid gid w \<equiv> ensure_mode_ids os (f_Path f) (MString (Mode_GetValue (f_Mode f))) uid gid w"

lemma file_flag:
  "file_file os f ex uid gid r w = (Inr (r1, c), w1) \<Longrightarrow> \<exists>w2 b. ensure_task os f uid gid w2 = (Inr b, w1) \<and> (b \<longrightarrow> c)"
  by (auto simp: file_file_def Let_def split: if_splits prod.splits sum.splits)

lemma touch_flag:
  "file_touch os f ex uid gid r w = (Inr (r1, c), w1) \<Longrightarrow> \<exists>w2 b. ensure_task os f uid gid w2 = (Inr b, w1) \<and> (b \<longrightarrow> c)"
  unfolding file_touch_def Let_def by (auto split: prod.splits sum.splits option.splits)

lemma directory_flag:
  "file_directory os f ex uid gid r w = (Inr (r1, c), w1) \<Longrightarrow> \<not> f_Recurse f \<Longrightarrow>
   \<exists>w2 b. ensure_task os f uid gid w2 = (Inr b, w1) \<and> (b \<longrightarrow> c)"
  by (auto simp: file_directory_def Let_def split: prod.splits sum.splits option.splits)

lemma link_flag:
  "file_link os f ex True uid gid r w = (Inr (r1, c), w1) \<Longrightarrow>
   \<exists>w2 b. ensure_task os f uid gid w2 = (Inr b, w1) \<and> (b \<longrightarrow> c)"
  by (auto simp: file_link_def Let_def split: prod.splits sum.splits)

lemma early_return:
  "fst (file_file os f ex uid gid r w) = Inl (r1, None) \<Longrightarrow> f_Mode f = None"
  "fst (file_touch os f ex uid gid r w) \<noteq> Inl (r1, None)"
  "fst (file_directory os f ex uid gid r w) \<noteq> Inl (r1, None)"
  "fst (file_link os f ex fo uid gid r w) \<noteq> Inl (r1, None)"
  by (auto simp: file_file_def file_touch_def file_directory_def file_link_def Let_def fail_with_def
      split: prod.splits sum.splits option.splits if_splits)

lemma state_flag:
  assumes "f_State f \<in> {FileFile, FileTouch, FileDirectory}" "\<not> f_Recurse f"
    and "file_state os f (f_State f) ex fo uid gid r w = (Inr (r1, c), w1)"
  shows "\<exists>w2 b. ensure_task os f uid gid w2 = (Inr b, w1) \<and> (b \<longrightarrow> c)"
proof -
  from assms(1) consider "f_State f = FileFile" | "f_State f = FileTouch" | "f_State f = FileDirectory" by auto
  then show ?thesis
  proof cases
    case 1
    with assms(3) file_flag show ?thesis by (simp add: file_state_def file_states)
  next
    case 2
    with assms(3) touch_flag show ?thesis by (simp add: file_state_def file_states)
  next
    case 3
    with assms(3) directory_flag [OF _ assms(2)] show ?thesis by (simp add: file_state_def file_states)
  qed
qed

lemma state_early:
  assumes "f_State f \<in> {FileFile, FileTouch, FileDirectory}" "f_Mode f \<noteq> None"
  shows "fst (file_state os f (f_State f) ex fo uid gid r w) \<noteq> Inl (r1, None)"
  using assms by (auto simp: file_state_def file_states early_return dest: early_return(1))

lemma mode_given: "parse_uint 8 32 (Mode_GetValue m) = Some n \<Longrightarrow> m \<noteq> None"
  by (cases m) (simp_all add: Mode_GetValue_def parse_uint_def)

text \<open>
  A numeric mode with a bit above the permission bits (setuid, setgid, sticky: \<^verbatim>\<open>"4755"\<close>,
  \<^verbatim>\<open>"1777"\<close>) never settles: every successful run with state file, touch or a non-recursive
  directory reports a change, however often the task has run before.
\<close>

theorem file_high_mode_never_settles:
  assumes "parse_uint 8 32 (Mode_GetValue (f_Mode f)) = Some n" and "512 \<le> n"
    and "f_State f \<in> {FileFile, FileTouch, FileDirectory}" and "\<not> f_Recurse f"
    and "File_Apply os db f w = (r, None, w')"
  shows "Changed r"
proof (rule File_Apply_changed [OF assms(5)])
  show "f_State f \<noteq> []" using assms(3) by (auto simp: file_states)
  show "fst (file_state os f (f_State f) ex (follows f) uid gid FileResult_zero w) \<noteq> Inl (r1, None)"
    for ex uid gid r1
    by (rule state_early [OF assms(3) mode_given [OF assms(1)]])
  show c if fs: "file_state os f (f_State f) ex (follows f) uid gid FileResult_zero w = (Inr (r1, c), w1)"
    for ex uid gid r1 c w1
  proof -
    obtain w2 b where en: "ensure_task os f uid gid w2 = (Inr b, w1)" "b \<longrightarrow> c"
      using state_flag [OF assms(3,4) fs] by blast
    obtain fi where "os_lstat os (f_Path f) w2 = Inr fi" using ensure_lstat [OF en(1)] by blast
    from ensure_mismatch [OF this assms(1) high_mode [OF assms(1,2)] en(1)] en(2) show c by blast
  qed
qed

definition setuid_task :: File where
  "setuid_task = touch_task\<lparr>f_Mode := Some \<lparr>Mode_Value = ''4755''\<rparr>\<rparr>"

theorem file_high_mode_never_settles_witness:
  "Changed (fst (File_Apply mem_os no_users setuid_task
      (snd (snd (File_Apply mem_os no_users setuid_task empty_fs)))))"
proof -
  let ?w = "snd (snd (File_Apply mem_os no_users setuid_task empty_fs))"
  let ?run = "File_Apply mem_os no_users setuid_task ?w"
  have ok: "fst (snd ?run) = None" by code_simp
  show ?thesis
  proof (rule file_high_mode_never_settles [of setuid_task "0x9ED" mem_os no_users ?w "fst ?run" "snd (snd ?run)"])
    show "parse_uint 8 32 (Mode_GetValue (f_Mode setuid_task)) = Some 0x9ED" by code_simp
    show "f_State setuid_task \<in> {FileFile, FileTouch, FileDirectory}" "\<not> f_Recurse setuid_task"
      by (simp_all add: setuid_task_def touch_task_def File_zero_def file_states)
    show "?run = (fst ?run, None, snd (snd ?run))" using ok by (simp add: prod_eq_iff)
  qed simp
qed

text \<open>
  A link that is followed never settles either: the check reads the mode of the link itself
  (0777 on Linux) while the change goes to its target, so a task with state link and any other
  numeric mode reports a change on every run, although the link is already in place.
\<close>

theorem file_followed_link_never_settles:
  assumes "f_State f = FileLink" and "follows f"
    and "os_lstat os (f_Path f) w = Inr fi" and "perm (fi_mode fi) = 0x1FF"
    and "os_readlink os (f_Path f) w = Inr (f_Src f)"
    and "parse_uint 8 32 (Mode_GetValue (f_Mode f)) = Some n" and "n \<noteq> 0" and "n < 0x1FF"
    and "File_Apply os db f w = (r, None, w')"
  shows "Changed r"
proof (rule File_Apply_changed [OF assms(9)])
  have st: "file_state os f (f_State f) ex (follows f) uid gid FileResult_zero w =
      file_link os f ex True uid gid FileResult_zero w" for ex uid gid
    using assms(1,2) by (simp add: file_state_def file_states)
  show "f_State f \<noteq> []" using assms(1) by (simp add: file_states)
  show "fst (file_state os f (f_State f) ex (follows f) uid gid FileResult_zero w) \<noteq> Inl (r1, None)"
    for ex uid gid r1
    unfolding st by (rule early_return)
  have u: "unat (mode_of_nat n) = n" using assms(8) by (simp add: mode_of_nat_def unat_of_nat)
  have ne: "mode_of_nat n \<noteq> 0" "perm (fi_mode fi) \<noteq> mode_of_nat n"
    using u assms(4,7,8) by auto
  show c if "path_exists os (f_Path f) w = Inr ex"
    and "file_state os f (f_State f) ex (follows f) uid gid FileResult_zero w = (Inr (r1, c), w1)"
    for ex uid gid r1 c w1
  proof -
    have ex: ex using that(1) assms(3) by (simp add: path_exists_def)
    from that(2) ex assms(5) obtain b where "ensure_task os f uid gid w = (Inr b, w1)" "b \<longrightarrow> c"
      unfolding st by (auto simp: file_link_def place_link_def Let_def split: prod.splits sum.splits)
    with ensure_mismatch [OF assms(3,6) ne] show c by blast
  qed
qed

definition link_task :: File where
  "link_task = File_zero\<lparr>f_Path := ''/l'', f_Src := ''/t'', f_State := ''link'',
                         f_Mode := Some \<lparr>Mode_Value = ''0644''\<rparr>\<rparr>"

definition linked :: memfs where
  "linked = snd (snd (File_Apply mem_os no_users link_task touched))"

theorem file_followed_link_never_settles_witness:
  "Changed (fst (File_Apply mem_os no_users link_task linked))"
proof -
  let ?run = "File_Apply mem_os no_users link_task linked"
  have ok: "fst (snd ?run) = None" by code_simp
  obtain fi where fi: "mem_lstat ''/l'' linked = Inr fi" and pm: "perm (fi_mode fi) = 0x1FF"
  proof -
    have "(case mem_lstat ''/l'' linked of Inl e \<Rightarrow> False | Inr fi \<Rightarrow> perm (fi_mode fi) = 0x1FF)" by code_simp
    then show ?thesis by (auto intro: that split: sum.splits)
  qed
  have sel: "os_lstat mem_os = mem_lstat" "f_Path link_task = ''/l''"
    by (simp_all add: mem_os_sel link_task_def)
  show ?thesis
  proof (rule file_followed_link_never_settles [of link_task mem_os linked fi "0x1A4" no_users "fst ?run" "snd (snd ?run)"])
    show "f_State link_task = FileLink" "follows link_task"
      by (simp_all add: link_task_def File_zero_def file_states follows_def)
    show "os_lstat mem_os (f_Path link_task) linked = Inr fi" using fi by (simp add: sel)
    show "os_readlink mem_os (f_Path link_task) linked = Inr (f_Src link_task)" by code_simp
    show "parse_uint 8 32 (Mode_GetValue (f_Mode link_task)) = Some 0x1A4" by code_simp
    show "?run = (fst ?run, None, snd (snd ?run))" using ok by (simp add: prod_eq_iff)
  qed (use pm in simp_all)
qed

lemma ensure_zero:
  assumes "os_lstat os p w = Inr fi" "parse_uint 8 32 v = Some 0"
  shows "ensure_mode_ids os p (MString v) (-1) (-1) w = (Inr False, w)"
  using assms by (auto simp: ensure_mode_ids_def needsModeOrOwnershipChange_def desired_mode_def mode_of_nat_def)

text \<open>
  The mode \<^verbatim>\<open>0\<close> (also spelled \<^verbatim>\<open>000\<close> or \<^verbatim>\<open>0000\<close>) is never applied: the check takes a
  desired mode of zero for no mode at all, so a task that asks for it on an existing file succeeds,
  reports no change and leaves the mode of the file as it was.
\<close>

theorem file_mode_zero_ignored:
  assumes "f_State f = FileFile" and "parse_uint 8 32 (Mode_GetValue (f_Mode f)) = Some 0"
    and "f_Owner f = []" and "f_Group f = []" and "os_lstat os (f_Path f) w = Inr fi"
  shows "\<exists>r. File_Apply os db f w = (r, None, w) \<and> \<not> Changed r"
proof -
  have m: "f_Mode f \<noteq> None" by (rule mode_given [OF assms(2)])
  have ids: "GetUid db (f_Owner f) = Inr (-1)" "GetGid db (f_Group f) = Inr (-1)"
    using assms(3,4) by (simp_all add: GetUid_def GetGid_def)
  have st: "actual_state f True = FileFile" using assms(1) by (simp add: actual_state_def file_states)
  have "file_state os f FileFile True (follows f) (-1) (-1) FileResult_zero w =
      (Inr (FileResult_zero\<lparr>fr_Path := f_Path f\<rparr>, False), w)"
    using ensure_zero [OF assms(5,2)] m by (simp add: file_state_def file_states file_file_def Let_def)
  with ids st assms(5) show ?thesis
    by (simp add: File_Apply_def Let_def path_exists_def file_finish_def file_report_def file_states)
qed

definition zero_mode_task :: File where
  "zero_mode_task = touch_task\<lparr>f_State := ''file'', f_Mode := Some \<lparr>Mode_Value = ''0000''\<rparr>\<rparr>"

theorem file_mode_zero_ignored_witness:
  "\<exists>r. File_Apply mem_os no_users zero_mode_task touched = (r, None, touched) \<and> \<not> Changed r"
proof -
  have "(case os_lstat mem_os (f_Path zero_mode_task) touched of Inl e \<Rightarrow> False | Inr fi \<Rightarrow> True)" by code_simp
  then obtain fi where fi: "os_lstat mem_os (f_Path zero_mode_task) touched = Inr fi" by (auto split: sum.splits)
  show ?thesis
  proof (rule file_mode_zero_ignored [OF _ _ _ _ fi])
    show "f_State zero_mode_task = FileFile" "f_Owner zero_mode_task = []" "f_Group zero_mode_task = []"
      by (simp_all add: zero_mode_task_def touch_task_def File_zero_def file_states)
    show "parse_uint 8 32 (Mode_GetValue (f_Mode zero_mode_task)) = Some 0" by code_simp
  qed
qed

text \<open>
  A symbolic mode on a path with a trailing slash is computed from another file: the directory
  of \<^verbatim>\<open>/srv/www/\<close> is \<^verbatim>\<open>/srv/www\<close> and its base name \<^verbatim>\<open>www\<close>, so \<^verbatim>\<open>/srv/www/www\<close> is the file
  whose mode is read.
\<close>

theorem symbolic_mode_trailing_slash:
  "NewModeFromSpec os (path_dir ''/srv/www/'') ''/srv/www/'' spec w =
     (case os_stat os ''/srv/www/www'' w of
        Inl e \<Rightarrow> Inl (OsErr e)
      | Inr info \<Rightarrow> spec_mode (perm (fi_mode info)) spec)"
proof -
  have "dirfs_path (path_dir ''/srv/www/'') (path_base ''/srv/www/'') = Some ''/srv/www/www''" by code_simp
  then show ?thesis by (simp add: NewModeFromSpec_def dirfs_stat_def)
qed

end
