(* ===== verification/PathFacts.thy ===== *)
theory PathFacts
  imports GoPath
begin

text \<open>
  More about \<^verbatim>\<open>filepath\<close>: joining as a fold over components, base and directory of a clean path, and the words of a
  line that is put together from tokens.
\<close>

section \<open>Components\<close>

lemma comps_join_with: "comps (join_with ''/'' es) = concat (map comps es)"
proof (induction es rule: induct_list012)
  case 1
  then show ?case by (simp add: comps_def)
next
  case (2 e)
  then show ?case by simp
next
  case (3 d e es)
  then show ?case using comps_append_slash [of d] by simp
qed

lemma join_with_first: "d \<noteq> [] \<Longrightarrow> is_abs (join_with ''/'' (d # es)) = is_abs d"
  by (cases es) (simp_all add: is_abs_append)

lemma path_join_comps:
  "d \<noteq> [] \<Longrightarrow> path_join (d # es) = render_path (is_abs d) (clean_comps (is_abs d) (concat (map comps (d # es))))"
  using comps_join_with [of "d # es"] by (simp add: path_join_def clean_def join_with_first)

lemma path_join_same_comps:
  "d \<noteq> [] \<Longrightarrow> concat (map comps es) = concat (map comps fs) \<Longrightarrow> path_join (d # es) = path_join (d # fs)"
  by (simp add: path_join_comps)

lemma clean_ne: "clean p \<noteq> []"
proof
  assume e: "clean p = []"
  have "comps (clean p) = clean_comps (is_abs p) (comps p)"
    by (simp add: clean_def comps_render clean_comps_ok comps_ok)
  with e have "clean_comps (is_abs p) (comps p) = []" by (simp add: comps_def)
  with e show False by (auto simp: clean_def render_path_def split: if_splits)
qed

lemma path_join_ne: "d \<noteq> [] \<Longrightarrow> path_join (d # es) \<noteq> []"
  by (simp add: path_join_def clean_ne join_with_first)

lemma cleaned_butlast: "cleaned r (cs @ [c]) \<Longrightarrow> cleaned r cs"
  using clean_comps_fixed [of r "cs @ [c]"] clean_comps_cleaned [of r cs]
proof -
  assume c: "cleaned r (cs @ [c])"
  then obtain n ts where n: "cs @ [c] = replicate n ''..'' @ ts" "''..'' \<notin> set ts" "r \<longrightarrow> n = 0" by (auto simp: cleaned_def)
  show "cleaned r cs"
  proof (cases ts rule: rev_cases)
    case Nil
    with n(1) have "cs = replicate (n - 1) ''..''" by (cases n) (auto simp: replicate_append_same [symmetric])
    with n show ?thesis by (intro cleanedI [where n = "n - 1" and ts = "[]"]) auto
  next
    case (snoc us u)
    with n show ?thesis by (intro cleanedI [where n = n and ts = us]) auto
  qed
qed

lemma cleaned_snoc: "cleaned r cs \<Longrightarrow> c \<noteq> ''..'' \<Longrightarrow> cleaned r (cs @ [c])"
  using clean_comps_cleaned [of r "cs @ [c]"] clean_comps_fixed [of r cs] by (simp add: clean_comps_def clean_step_def)

lemma join_with_snoc: "join_with ''/'' (cs @ [c]) = (if cs = [] then c else join_with ''/'' cs @ ''/'' @ c)"
proof (induction cs)
  case Nil
  then show ?case by simp
next
  case (Cons x xs)
  then show ?case by (cases xs) auto
qed

lemma render_snoc:
  "render_path r (cs @ [c]) = (if cs = [] then (if r then ''/'' @ c else c) else render_path r cs @ ''/'' @ c)"
  by (simp add: render_path_def join_with_snoc)

section \<open>Base and directory of a clean path\<close>

lemma path_base_append:
  assumes "comp_ok c"
  shows "path_base (p @ ''/'' @ c) = c" "path_base c = c"
proof -
  have c: "c \<noteq> []" "slash \<notin> set c" using assms by (auto simp: comp_ok_def)
  then have l: "last c \<noteq> slash" using last_in_set by metis
  have t: "trim_right (\<lambda>x. x = slash) (q @ c) = q @ c" for q
    using c(1) l by (simp add: trim_right_def trim_left_def hd_rev dropWhile_eq_self_iff rev_eq_append_conv flip: hd_rev)
  have "split_on slash (p @ slash # c) = split_on slash p @ [c]"
    using c(2) by (simp add: split_append_sep split_on_single)
  with t [of "p @ ''/''"] show "path_base (p @ ''/'' @ c) = c" by (simp add: path_base_def slash_def)
  show "path_base c = c" using t [of "[]"] c by (simp add: path_base_def split_on_single)
qed

lemma path_base_ne: "path_base p \<noteq> []"
proof -
  let ?q = "trim_right (\<lambda>c. c = slash) p"
  have "last (split_on slash ?q) \<noteq> []" if ne: "?q \<noteq> []"
  proof
    assume l: "last (split_on slash ?q) = []"
    have "hd (dropWhile (\<lambda>c. c = slash) (rev p)) \<noteq> slash"
      using ne hd_dropWhile [of "\<lambda>c. c = slash" "rev p"] by (simp add: trim_right_def)
    then have "last ?q \<noteq> slash" using ne by (simp add: trim_right_def last_rev)
    moreover obtain q c where q: "?q = q @ [c]" using ne by (meson rev_exhaust)
    ultimately have c: "c \<noteq> slash" by simp
    have "last (split_on slash (q @ [c])) \<noteq> []"
    proof (induction q)
      case Nil
      then show ?case using c by simp
    next
      case (Cons x q)
      then show ?case using split_on_ne [of slash "q @ [c]"] by (cases "split_on slash (q @ [c])") auto
    qed
    with l q show False by simp
  qed
  then show ?thesis by (simp add: path_base_def Let_def)
qed

lemma path_base_render: "list_all comp_ok (cs @ [c]) \<Longrightarrow> path_base (render_path r (cs @ [c])) = c"
  using path_base_append [of c] path_base_append(1) [of c "[]"] by (simp add: render_snoc)

lemma path_dir_append: "slash \<notin> set c \<Longrightarrow> path_dir (p @ ''/'' @ c) = clean (p @ ''/'')"
proof -
  assume c: "slash \<notin> set c"
  have "dropWhile (\<lambda>x. x \<noteq> slash) (rev c @ slash # rev p) = slash # rev p"
    using c by (subst dropWhile_append2) auto
  then show ?thesis by (simp add: path_dir_def slash_def)
qed

lemma path_dir_plain: "slash \<notin> set c \<Longrightarrow> path_dir c = ''.''"
proof -
  assume "slash \<notin> set c"
  then have none: "dropWhile (\<lambda>x. x \<noteq> slash) (rev c) = []" by (simp add: dropWhile_eq_Nil_conv) auto
  show ?thesis unfolding path_dir_def none by (simp add: clean_def render_path_def clean_comps_def comps_def)
qed

lemma clean_render_slash:
  assumes "list_all comp_ok cs" "cleaned r cs" "cs \<noteq> []"
  shows "clean (render_path r cs @ ''/'') = render_path r cs"
proof -
  have ne: "render_path r cs \<noteq> []" using assms(1,3) by (cases cs rule: rev_cases) (auto simp: render_snoc comp_ok_def)
  have "comps (render_path r cs @ ''/'') = cs" using comps_append_slash [of "render_path r cs" "[]"] assms(1)
    by (simp add: comps_render) (simp add: comps_def)
  with assms ne show ?thesis by (simp add: clean_def is_abs_append is_abs_render clean_comps_fixed)
qed

lemma path_dir_render:
  assumes "list_all comp_ok (cs @ [c])" "cleaned r (cs @ [c])"
  shows "path_dir (render_path r (cs @ [c])) = render_path r cs"
proof -
  have c: "slash \<notin> set c" using assms(1) by (simp add: comp_ok_def)
  show ?thesis
  proof (cases "cs = []")
    case True
    have "clean ''/'' = ''/''" by (simp add: clean_def comps_def slash_def clean_comps_def render_path_def)
    with True c path_dir_append [of c "[]"] show ?thesis
      by (cases r) (simp_all add: render_snoc path_dir_plain render_path_def)
  next
    case False
    with c path_dir_append [of c "render_path r cs"] clean_render_slash [of cs r] assms cleaned_butlast [OF assms(2)]
    show ?thesis by (simp add: render_snoc)
  qed
qed

lemma path_dir_root: "path_dir (render_path r []) = render_path r []"
  by (cases r) (simp_all add: render_path_def path_dir_def slash_def clean_def comps_def clean_comps_def)

text \<open>Every directory is a clean path.\<close>

lemma path_dir_clean: "\<exists>r cs. path_dir p = render_path r cs \<and> list_all comp_ok cs \<and> cleaned r cs"
  by (metis path_dir_def clean_def clean_comps_ok comps_ok clean_comps_cleaned)

lemma path_dir_ne: "path_dir p \<noteq> []"
  by (simp add: path_dir_def clean_ne)

lemma drop_common_prefix: "drop_common xs (xs @ ys) = ([], ys)"
  by (induction xs) (cases ys, simp_all)

text \<open>
  A file in a directory, relative to the parent of the directory: it is named by the base of the directory and its own
  name, as far as joining goes. This holds for the root and for paths that end in dot-dots, too.
\<close>

lemma rel_to_parent:
  assumes "comp_ok f" "f \<noteq> ''..''" "d \<noteq> []"
  shows "\<exists>name. path_rel (path_dir (path_dir p)) (path_join [path_dir p, f]) = Some name \<and>
    path_join [d, name] = path_join [d, path_base (path_dir p), f]"
proof -
  obtain r cs where src: "path_dir p = render_path r cs" and ok: "list_all comp_ok cs" and cl: "cleaned r cs"
    using path_dir_clean by blast
  have ne: "render_path r cs \<noteq> []" using path_dir_ne [of p] src by simp
  have f: "comps f = [f]" using comps_join [of "[f]"] assms(1) by simp
  have clf: "cleaned r (cs @ [f])" using cleaned_snoc [OF cl assms(2)] .
  have okf: "list_all comp_ok (cs @ [f])" using ok assms(1) by simp
  have joined: "path_join [path_dir p, f] = render_path r (cs @ [f])"
    using ne ok f clf by (simp add: src path_join_comps is_abs_render comps_render clean_comps_fixed)
  note t = is_abs_render [OF okf] comps_render [OF okf] clean_comps_fixed [OF clf]
  show ?thesis
  proof (cases cs rule: rev_cases)
    case Nil
    then have "path_rel (path_dir (path_dir p)) (path_join [path_dir p, f]) = Some f"
      using t unfolding joined unfolding src
      by (simp add: path_dir_root path_rel_def is_abs_render comps_render clean_comps_def clean_step_def assms(2) render_path_def [of False])
    moreover have "comps (path_base (path_dir p)) = []"
      using Nil by (cases r) (simp_all add: src render_path_def path_base_def trim_right_def trim_left_def slash_def comps_def)
    then have "path_join [d, f] = path_join [d, path_base (path_dir p), f]"
      using assms(3) by (intro path_join_same_comps) simp_all
    ultimately show ?thesis by blast
  next
    case (snoc bs c)
    have clb: "cleaned r bs" and okb: "list_all comp_ok bs" "comp_ok c" using cl ok snoc by (auto dest: cleaned_butlast)
    have dir: "path_dir (path_dir p) = render_path r bs" unfolding src snoc using ok cl snoc by (intro path_dir_render) auto
    have "path_rel (path_dir (path_dir p)) (path_join [path_dir p, f]) = Some (render_path False [c, f])"
      using t okb clb drop_common_prefix [of bs "[c, f]"] unfolding joined unfolding dir
      by (simp add: path_rel_def is_abs_render comps_render clean_comps_fixed snoc)
    moreover have "path_base (path_dir p) = c" unfolding src snoc using ok snoc by (intro path_base_render) simp
    moreover have "comps (render_path False [c, f]) = [c, f]" using okb(2) assms(1) by (intro comps_render) simp
    moreover have "comps c = [c]" using comps_join [of "[c]"] okb(2) by simp
    moreover have "path_join [d, render_path False [c, f]] = path_join [d, c, f]"
      using assms(3) f calculation(3,4) by (intro path_join_same_comps) simp_all
    ultimately show ?thesis by auto
  qed
qed

end
