(* ===== verification/Trees.thy ===== *)
theory Trees
  imports PathFacts MemFs
begin

text \<open>
  A file system as a tree: what is at which place, whatever the paths, inodes and modes. The locale \<open>tree_os\<close> states
  how the operations of \<open>Os\<close> act on that view along paths that go through directories only; the executable file system
  of \<open>MemFs\<close> satisfies it.
\<close>

section \<open>Trees\<close>

datatype item = Folder | Document bytes | Pointer string | Special

type_synonym filetree = "string list \<rightharpoonup> item"

text \<open>A name in a directory.\<close>

definition simple :: "string \<Rightarrow> bool" where
  "simple c \<longleftrightarrow> comp_ok c \<and> c \<noteq> ''..''"

text \<open>Where a path starts: at the root or in the current directory.\<close>

definition origin :: "bool \<Rightarrow> string list \<Rightarrow> string list" where
  "origin a dir = (if a then [] else dir)"

text \<open>Everything on the way from \<open>base\<close> to a place is a directory.\<close>

definition clear_to :: "filetree \<Rightarrow> string list \<Rightarrow> string list \<Rightarrow> bool" where
  "clear_to t base q \<longleftrightarrow> (\<forall>r. strict_prefix r q \<longrightarrow> t (base @ r) = Some Folder)"

definition vacant :: "filetree \<Rightarrow> string list \<Rightarrow> bool" where
  "vacant t x \<longleftrightarrow> t x = None \<or> t x = Some Folder"

text \<open>The directories that are missing on the way, and at the place itself, are made.\<close>

definition fill :: "filetree \<Rightarrow> string list \<Rightarrow> string list \<Rightarrow> filetree" where
  "fill t base q = (\<lambda>x. if t x = None \<and> (\<exists>r. prefix r q \<and> x = base @ r) then Some Folder else t x)"

lemma fill_keep: "t x = Some it \<Longrightarrow> fill t base q x = Some it"
  by (simp add: fill_def)

lemma fill_way: "vacant t (base @ r) \<Longrightarrow> prefix r q \<Longrightarrow> fill t base q (base @ r) = Some Folder"
  by (auto simp: fill_def vacant_def)

lemma fill_other: "(\<And>r. prefix r q \<Longrightarrow> x \<noteq> base @ r) \<Longrightarrow> fill t base q x = t x"
  by (auto simp: fill_def)

lemma fill_idle: "(\<And>r. prefix r q \<Longrightarrow> t (base @ r) = Some Folder) \<Longrightarrow> fill t base q = t"
  by (fastforce simp: fill_def fun_eq_iff)

lemma fill_fill: "prefix p q \<Longrightarrow> fill (fill t base p) base q = fill t base q"
  by (auto simp: fill_def fun_eq_iff dest: prefix_order.trans)

text \<open>The last directory of the way is the only one that may be missing.\<close>

lemma fill_last:
  assumes "clear_to t base q" "vacant t (base @ q)"
  shows "fill t base q = t(base @ q \<mapsto> Folder)"
  using assms by (auto simp: fill_def vacant_def clear_to_def fun_eq_iff strict_prefix_def)

text \<open>What \<^verbatim>\<open>Lstat\<close> tells about a place.\<close>

definition describes :: "fileinfo \<Rightarrow> item \<Rightarrow> bool" where
  "describes fi it \<longleftrightarrow>
     is_dir fi = (it = Folder) \<and> is_link fi = (\<exists>s. it = Pointer s) \<and>
     is_regular_mode (fi_mode fi) = (\<exists>d. it = Document d) \<and> (\<forall>d. it = Document d \<longrightarrow> fi_size fi = length d)"

section \<open>The operations on the tree\<close>

locale tree_os = os_dirs os for os :: "'w os" +
  fixes view :: "'w \<Rightarrow> filetree" and dir :: "'w \<Rightarrow> string list"
  assumes lstat_view:
      "list_all simple q \<Longrightarrow> clear_to (view w) (origin a (dir w)) q \<Longrightarrow>
       os_lstat os (render_path a q) w = Inr fi \<Longrightarrow>
       \<exists>it. view w (origin a (dir w) @ q) = Some it \<and> describes fi it"
    and readDir_view:
      "list_all simple q \<Longrightarrow> clear_to (view w) (origin a (dir w)) q \<Longrightarrow>
       view w (origin a (dir w) @ q) = Some Folder \<Longrightarrow> os_readDir os (render_path a q) w = Inr ents \<Longrightarrow>
       distinct (map fst ents) \<and>
       (\<forall>c. c \<in> fst ` set ents \<longleftrightarrow> simple c \<and> view w (origin a (dir w) @ q @ [c]) \<noteq> None) \<and>
       (\<forall>(c, fi)\<in>set ents. \<exists>it. view w (origin a (dir w) @ q @ [c]) = Some it \<and> describes fi it)"
    and readFile_view:
      "list_all simple q \<Longrightarrow> clear_to (view w) (origin a (dir w)) q \<Longrightarrow>
       view w (origin a (dir w) @ q) = Some (Document d) \<Longrightarrow> os_readFile os (render_path a q) w = Inr d' \<Longrightarrow> d' = d"
    and readlink_view:
      "list_all simple q \<Longrightarrow> clear_to (view w) (origin a (dir w)) q \<Longrightarrow>
       view w (origin a (dir w) @ q) = Some (Pointer s) \<Longrightarrow> os_readlink os (render_path a q) w = Inr s' \<Longrightarrow> s' = s"
    and mkdirAll_view:
      "list_all simple q \<Longrightarrow> (\<And>r. prefix r q \<Longrightarrow> vacant (view w) (origin a (dir w) @ r)) \<Longrightarrow>
       view w (origin a (dir w)) = Some Folder \<Longrightarrow> os_mkdirAll os (render_path a q) m w = (None, w') \<Longrightarrow>
       view w' = fill (view w) (origin a (dir w)) q \<and> dir w' = dir w"
    and writeFile_view:
      "list_all simple q \<Longrightarrow> clear_to (view w) (origin a (dir w)) q \<Longrightarrow>
       view w (origin a (dir w) @ q) = None \<Longrightarrow> os_writeFile os (render_path a q) d m w = (None, w') \<Longrightarrow>
       view w' = (view w)(origin a (dir w) @ q \<mapsto> Document d) \<and> dir w' = dir w"
    and symlink_view:
      "list_all simple q \<Longrightarrow> clear_to (view w) (origin a (dir w)) q \<Longrightarrow>
       view w (origin a (dir w) @ q) = None \<Longrightarrow> os_symlink os s (render_path a q) w = (None, w') \<Longrightarrow>
       view w' = (view w)(origin a (dir w) @ q \<mapsto> Pointer s) \<and> dir w' = dir w"

section \<open>The executable file system\<close>

definition mem_item :: "inode \<Rightarrow> item" where
  "mem_item nd = (case in_kind nd of KDir \<Rightarrow> Folder | KFile \<Rightarrow> Document (in_data nd) | KLink \<Rightarrow> Pointer (in_data nd))"

definition mem_view :: "memfs \<Rightarrow> filetree" where
  "mem_view fs q = map_option mem_item (node fs q)"

lemma mem_item_simps [simp]:
  "mem_item nd = Folder \<longleftrightarrow> in_kind nd = KDir"
  "mem_item nd = Pointer s \<longleftrightarrow> in_kind nd = KLink \<and> in_data nd = s"
  "mem_item nd = Document d \<longleftrightarrow> in_kind nd = KFile \<and> in_data nd = d"
  "mem_item nd \<noteq> Special"
  by (auto simp: mem_item_def split: kind.split)

lemma simple_plain: "simple c \<Longrightarrow> plain c"
  by (simp add: simple_def plain_def comp_ok_def)

lemma strict_prefix_snoc: "strict_prefix r (q @ [c]) \<longleftrightarrow> prefix r q"
  by (auto simp: strict_prefix_def)

lemma strict_prefix_Cons: "strict_prefix r (c # q) \<longleftrightarrow> r = [] \<or> (\<exists>s. r = c # s \<and> strict_prefix s q)"
  by (cases r) auto

lemma clear_to_Nil [simp]: "clear_to t base []"
  by (simp add: clear_to_def)

lemma clear_to_snoc: "clear_to t base (q @ [c]) \<longleftrightarrow> clear_to t base q \<and> t (base @ q) = Some Folder"
  by (auto simp: clear_to_def strict_prefix_snoc prefix_order.le_less)

lemma clear_to_Cons: "clear_to t base (c # q) \<longleftrightarrow> t base = Some Folder \<and> clear_to t (base @ [c]) q"
  by (auto simp: clear_to_def strict_prefix_Cons)

text \<open>A path through directories leads to its place.\<close>

lemma walk_clear:
  assumes "list_all simple q" "\<And>r. strict_prefix r q \<Longrightarrow> r \<noteq> [] \<Longrightarrow> mem_view fs (base @ r) = Some Folder"
    and "fl \<Longrightarrow> \<forall>s. mem_view fs (base @ q) \<noteq> Some (Pointer s)"
  shows "walk fs k fl base q = Inr (base @ q)"
  using assms
proof (induction q arbitrary: base)
  case Nil
  then show ?case by simp
next
  case (Cons c q)
  have c: "plain c" using Cons.prems(1) by (simp add: simple_plain)
  have tl: "mem_view fs ((base @ [c]) @ r) = Some Folder" if "strict_prefix r q" for r
    using Cons.prems(2) [of "c # r"] that by simp
  have IH: "walk fs k fl (base @ [c]) q = Inr ((base @ [c]) @ q)"
    using Cons.prems(1,3) tl by (intro Cons.IH) simp_all
  show ?case
  proof (cases "q = []")
    case True
    show ?thesis
    proof (cases "node fs (base @ [c])")
      case None
      with True c show ?thesis by (simp add: walk_missing)
    next
      case (Some nd)
      with True Cons.prems(3) have "\<not> (in_kind nd = KLink \<and> ([] \<noteq> ([] :: string list) \<or> fl))" by (auto simp: mem_view_def)
      with walk_node [OF c Some] True show ?thesis by simp
    qed
  next
    case False
    then have "mem_view fs (base @ [c]) = Some Folder" using tl [of "[]"] by (simp add: strict_prefix_def)
    then show ?thesis using IH c by (auto simp: mem_view_def walk_node)
  qed
qed

lemma walk_blocked:
  assumes "list_all simple q" "\<And>r. strict_prefix r q \<Longrightarrow> r \<noteq> [] \<Longrightarrow> vacant (mem_view fs) (base @ r)"
    and "strict_prefix r q" "r \<noteq> []" "mem_view fs (base @ r) = None"
  shows "walk fs k fl base q = Inl ENOENT"
  using assms
proof (induction q arbitrary: base r)
  case Nil
  then show ?case by simp
next
  case (Cons c q)
  have c: "plain c" using Cons.prems(1) by (simp add: simple_plain)
  obtain s where s: "r = c # s" "strict_prefix s q" using Cons.prems(3,4) by (auto simp: strict_prefix_Cons)
  then have q: "q \<noteq> []" by auto
  have tl: "vacant (mem_view fs) ((base @ [c]) @ r')" if "strict_prefix r' q" for r'
    using Cons.prems(2) [of "c # r'"] that by simp
  show ?case
  proof (cases "node fs (base @ [c])")
    case None
    with c q show ?thesis by (simp add: walk_missing)
  next
    case (Some nd)
    with tl [of "[]"] q have dir: "in_kind nd = KDir" by (auto simp: vacant_def mem_view_def strict_prefix_def)
    have "s \<noteq> []" using Cons.prems(5) s Some by (auto simp: mem_view_def)
    then have "walk fs k fl (base @ [c]) q = Inl ENOENT"
      using Cons.prems(1,5) s tl by (intro Cons.IH [of "base @ [c]" s]) simp_all
    with Some dir c q show ?thesis by (simp add: walk_node)
  qed
qed

lemma simple_ok: "list_all simple q \<Longrightarrow> list_all comp_ok q"
  by (simp add: list_all_iff simple_def)

lemma split_render:
  assumes "list_all simple q"
  shows "split_on slash (render_path a q) =
    (if q = [] then (if a then [[], []] else [''.'']) else if a then [] # q else q)"
proof -
  have "list_all (\<lambda>c. slash \<notin> set c) q" using assms by (simp add: list_all_iff simple_def comp_ok_def)
  from split_join [OF _ this] show ?thesis by (auto simp: render_path_def slash_def)
qed

lemma locate_render:
  assumes "list_all simple q"
  shows "locate fs fl (render_path a q) =
    (if path_max \<le> length (render_path a q) then Inl ENAMETOOLONG else walk fs max_links fl (origin a (fs_cwd fs)) q)"
proof -
  have "render_path a q \<noteq> []"
    using split_render [OF assms, of a] assms by (auto simp: simple_def comp_ok_def split: if_splits)
  moreover note is_abs_render [OF simple_ok [OF assms], of a]
  ultimately show ?thesis
    using split_render [OF assms, of a] by (auto simp: locate_def origin_def walk_dots)
qed

text \<open>What a place holds, in terms of the inodes.\<close>

lemma mem_view_ino: "mem_view fs x = map_option (\<lambda>i. mem_item (fs_inodes fs i)) (map_of (fs_names fs) x)"
  by (simp add: mem_view_def node_def option.map_comp comp_def)

lemma ino_at_render:
  assumes "list_all simple q" "clear_to (mem_view fs) (origin a (fs_cwd fs)) q"
    and "fl \<Longrightarrow> \<forall>s. mem_view fs (origin a (fs_cwd fs) @ q) \<noteq> Some (Pointer s)"
  shows "ino_at fs fl (render_path a q) =
    (if path_max \<le> length (render_path a q) then Inl ENAMETOOLONG
     else case map_of (fs_names fs) (origin a (fs_cwd fs) @ q) of None \<Rightarrow> Inl ENOENT | Some i \<Rightarrow> Inr i)"
proof -
  have "walk fs max_links fl (origin a (fs_cwd fs)) q = Inr (origin a (fs_cwd fs) @ q)"
    using assms by (intro walk_clear) (auto simp: clear_to_def)
  with assms(1) show ?thesis by (simp add: ino_at_def locate_render)
qed

lemma info_describes: "describes (info_of fs i) (mem_item (fs_inodes fs i))"
proof -
  have "is_regular_mode (fi_mode (info_of fs i)) \<longleftrightarrow> in_kind (fs_inodes fs i) = KFile"
    by (cases "in_kind (fs_inodes fs i)") (simp_all add: is_regular_mode_def info_simps kind_bits_def, simp_all add: mode_consts)
  moreover have "fi_size (info_of fs i) = length (in_data (fs_inodes fs i))" by (simp add: info_of_def Let_def)
  ultimately show ?thesis by (auto simp: describes_def info_simps)
qed

lemma mem_lstat_view:
  assumes "list_all simple q" "clear_to (mem_view fs) (origin a (fs_cwd fs)) q" "mem_lstat (render_path a q) fs = Inr fi"
  shows "\<exists>it. mem_view fs (origin a (fs_cwd fs) @ q) = Some it \<and> describes fi it"
  using assms(3) ino_at_render [OF assms(1,2), of False] info_describes
  by (auto simp: mem_lstat_def mem_view_ino split: if_splits option.splits)

lemma mem_readFile_view:
  assumes "list_all simple q" "clear_to (mem_view fs) (origin a (fs_cwd fs)) q"
    and "mem_view fs (origin a (fs_cwd fs) @ q) = Some (Document d)" "mem_readFile (render_path a q) fs = Inr d'"
  shows "d' = d"
  using assms(3,4) ino_at_render [OF assms(1,2), of True]
  by (auto simp: mem_readFile_def mem_open_def mem_read_def Let_def mem_view_ino split: if_splits option.splits)

lemma mem_readlink_view:
  assumes "list_all simple q" "clear_to (mem_view fs) (origin a (fs_cwd fs)) q"
    and "mem_view fs (origin a (fs_cwd fs) @ q) = Some (Pointer s)" "mem_readlink (render_path a q) fs = Inr s'"
  shows "s' = s"
  using assms(3,4) ino_at_render [OF assms(1,2), of False]
  by (auto simp: mem_readlink_def mem_view_ino split: if_splits option.splits)

lemma mem_view_add: "mem_view (add_node x nd fs) = (mem_view fs)(x \<mapsto> mem_item nd)"
  by (simp add: fun_eq_iff mem_view_def node_add)

lemma cwd_add: "fs_cwd (add_node x nd fs) = fs_cwd fs"
  by (simp add: add_node_def)

lemma locate_vacant:
  assumes "list_all simple q" "clear_to (mem_view fs) (origin a (fs_cwd fs)) q"
    and "mem_view fs (origin a (fs_cwd fs) @ q) = None" "locate fs fl (render_path a q) = Inr x"
  shows "x = origin a (fs_cwd fs) @ q \<and> node fs x = None"
proof -
  have "walk fs max_links fl (origin a (fs_cwd fs)) q = Inr (origin a (fs_cwd fs) @ q)"
    using assms(1-3) by (intro walk_clear) (auto simp: clear_to_def)
  with assms show ?thesis by (auto simp: locate_render mem_view_def split: if_splits)
qed

lemma mem_writeFile_view:
  assumes "list_all simple q" "clear_to (mem_view fs) (origin a (fs_cwd fs)) q"
    and "mem_view fs (origin a (fs_cwd fs) @ q) = None" "mem_writeFile (render_path a q) d m fs = (None, fs')"
  shows "mem_view fs' = (mem_view fs)(origin a (fs_cwd fs) @ q \<mapsto> Document d) \<and> fs_cwd fs' = fs_cwd fs"
proof -
  from assms(4) obtain x where x: "locate fs True (render_path a q) = Inr x"
    by (auto simp: mem_writeFile_def creat_def split: sum.splits)
  from locate_vacant [OF assms(1-3) x] x assms(4) show ?thesis
    by (auto simp: mem_writeFile_def creat_def node_def mem_view_add cwd_add mem_item_def new_node_def)
qed

lemma mem_symlink_view:
  assumes "list_all simple q" "clear_to (mem_view fs) (origin a (fs_cwd fs)) q"
    and "mem_view fs (origin a (fs_cwd fs) @ q) = None" "mem_symlink s (render_path a q) fs = (None, fs')"
  shows "mem_view fs' = (mem_view fs)(origin a (fs_cwd fs) @ q \<mapsto> Pointer s) \<and> fs_cwd fs' = fs_cwd fs"
proof -
  from assms(4) obtain x where x: "locate fs False (render_path a q) = Inr x"
    by (auto simp: mem_symlink_def make_def split: sum.splits if_splits)
  from locate_vacant [OF assms(1-3) x] x assms(4) show ?thesis
    by (auto simp: mem_symlink_def make_def mem_view_add cwd_add mem_item_def new_node_def split: if_splits)
qed

lemma map_filter_fst:
  "map fst (List.map_filter (\<lambda>c. map_option (\<lambda>i. (c, g i)) (m c)) cs) = filter (\<lambda>c. m c \<noteq> None) cs"
  by (induction cs) (auto simp: List.map_filter_simps split: option.split)

lemma in_children: "c \<in> set (children fs x) \<longleftrightarrow> simple c \<and> (\<exists>i. (x @ [c], i) \<in> set (fs_names fs))"
proof
  assume "c \<in> set (children fs x)"
  then obtain r i where r: "(r, i) \<in> set (fs_names fs)" "r \<noteq> []" "butlast r = x" "simple c" "last r = c"
    by (auto simp: children_def simple_def)
  then have "r = x @ [c]" by (metis append_butlast_last_id)
  with r(1,4) show "simple c \<and> (\<exists>i. (x @ [c], i) \<in> set (fs_names fs))" by auto
next
  assume "simple c \<and> (\<exists>i. (x @ [c], i) \<in> set (fs_names fs))"
  then obtain i where c: "simple c" and i: "(x @ [c], i) \<in> set (fs_names fs)" by blast
  have "x @ [c] \<in> fst ` set (fs_names fs)" using image_eqI [OF _ i, of _ fst] by simp
  with c have "last (x @ [c]) \<in> last ` {r \<in> fst ` set (fs_names fs). r \<noteq> [] \<and> butlast r = x \<and> comp_ok (last r) \<and> last r \<noteq> ''..''}"
    by (intro imageI) (simp add: simple_def)
  then show "c \<in> set (children fs x)" by (simp add: children_def)
qed

lemma mem_readDir_view:
  assumes "list_all simple q" "clear_to (mem_view fs) (origin a (fs_cwd fs)) q"
    and "mem_view fs (origin a (fs_cwd fs) @ q) = Some Folder" "mem_readDir (render_path a q) fs = Inr ents"
  shows "distinct (map fst ents) \<and>
    (\<forall>c. c \<in> fst ` set ents \<longleftrightarrow> simple c \<and> mem_view fs (origin a (fs_cwd fs) @ q @ [c]) \<noteq> None) \<and>
    (\<forall>(c, fi)\<in>set ents. \<exists>it. mem_view fs (origin a (fs_cwd fs) @ q @ [c]) = Some it \<and> describes fi it)"
proof -
  let ?x = "origin a (fs_cwd fs) @ q"
  have "walk fs max_links True (origin a (fs_cwd fs)) q = Inr ?x"
    using assms(1-3) by (intro walk_clear) (auto simp: clear_to_def)
  with assms have ents: "ents = List.map_filter
      (\<lambda>c. map_option (\<lambda>i. (c, info_of fs i)) (map_of (fs_names fs) (?x @ [c]))) (children fs ?x)"
    by (auto simp: mem_readDir_def locate_render split: if_splits option.splits)
  have all: "c \<in> set (children fs ?x) \<and> map_of (fs_names fs) (?x @ [c]) \<noteq> None \<longleftrightarrow>
      simple c \<and> mem_view fs (?x @ [c]) \<noteq> None" for c
    using map_of_SomeD [of "fs_names fs" "?x @ [c]"] by (auto simp: mem_view_ino in_children)
  have "distinct (map fst ents)" unfolding ents map_filter_fst by (simp add: children_def)
  moreover have "c \<in> fst ` set ents \<longleftrightarrow> simple c \<and> mem_view fs (?x @ [c]) \<noteq> None" for c
    using all [of c] unfolding set_map [symmetric] ents map_filter_fst by simp
  moreover have "\<exists>it. mem_view fs (?x @ [c]) = Some it \<and> describes fi it" if "(c, fi) \<in> set ents" for c fi
    using that info_describes unfolding ents by (auto simp: List.map_filter_def mem_view_ino)
  ultimately show ?thesis by auto
qed

text \<open>Making one directory, and all that are missing.\<close>

lemma strip_render: "list_all simple q \<Longrightarrow> strip_slashes (render_path a q) = render_path a q"
proof (cases q rule: rev_cases)
  case Nil
  then show ?thesis by (simp add: render_path_def strip_slashes_def trim_right_def trim_left_def slash_def)
next
  case (snoc r c)
  assume "list_all simple q"
  then have c: "c \<noteq> []" "slash \<notin> set c" using snoc by (auto simp: simple_def comp_ok_def)
  then have c: "c \<noteq> []" "last c \<noteq> slash" by (metis last_in_set)+
  then have "last (render_path a q) = last c" "render_path a q \<noteq> []" using snoc by (auto simp: render_snoc)
  with c(2) have "trim_right (\<lambda>x. x = slash) (render_path a q) = render_path a q"
    by (cases "render_path a q" rule: rev_cases) (auto simp: trim_right_def trim_left_def)
  with \<open>render_path a q \<noteq> []\<close> show ?thesis by (simp add: strip_slashes_def)
qed

lemma mem_mkdir_fill:
  assumes "list_all simple q" "clear_to (mem_view fs) (origin a (fs_cwd fs)) q"
    and "vacant (mem_view fs) (origin a (fs_cwd fs) @ q)" "length (render_path a q) < path_max"
  shows "mem_view (snd (mem_mkdir (render_path a q) m fs)) = fill (mem_view fs) (origin a (fs_cwd fs)) q \<and>
    fs_cwd (snd (mem_mkdir (render_path a q) m fs)) = fs_cwd fs"
proof -
  have "walk fs max_links False (origin a (fs_cwd fs)) q = Inr (origin a (fs_cwd fs) @ q)"
    using assms(1,2) by (intro walk_clear) (auto simp: clear_to_def)
  with assms have "locate fs False (render_path a q) = Inr (origin a (fs_cwd fs) @ q)" by (simp add: locate_render)
  then show ?thesis using assms(3) fill_last [OF assms(2,3)] strip_render [OF assms(1), of a]
    by (cases "node fs (origin a (fs_cwd fs) @ q)")
      (auto simp: mem_mkdir_def make_def mem_view_add cwd_add mem_item_def new_node_def vacant_def mem_view_def fun_eq_iff)
qed

lemma ancestors_render:
  assumes "list_all simple q" "q \<noteq> []"
  shows "ancestors (render_path a q) = map (\<lambda>n. render_path a (take (Suc n) q)) [0..<length q]"
proof -
  have ne: "join_with ''/'' (take (Suc n) q) \<noteq> []" for n
    using assms by (cases q; cases "take n (tl q)") (auto simp: simple_def comp_ok_def)
  have idx: "[Suc 0..<Suc k] = map Suc [0..<k]" for k by (simp add: map_Suc_upt)
  have abs: "[Suc 0..<Suc (Suc k)] = Suc 0 # map (\<lambda>n. Suc (Suc n)) [0..<k]" for k
    by (induction k) auto
  show ?thesis
  proof (cases a)
    case True
    have "join_with ''/'' (take (Suc (Suc n)) ([] # q)) = render_path True (take (Suc n) q)" for n
      using assms(2) by (cases q) (simp_all add: render_path_def)
    moreover have "render_path True r \<noteq> []" for r by (simp add: render_path_def)
    moreover have "take (Suc 0) ([] # q) = [[]]" by simp
    ultimately show ?thesis using True assms
      by (simp add: ancestors_def Let_def split_render abs comp_def filter_map del: take_Suc_Cons upt_Suc)
  next
    case False
    have "join_with ''/'' (take (Suc n) q) = render_path False (take (Suc n) q)" for n
      using assms(2) by (simp add: render_path_def)
    with ne False assms show ?thesis by (simp add: ancestors_def Let_def split_render idx comp_def filter_map del: upt_Suc)
  qed
qed

lemma length_render_take: "length (render_path a (take n q)) \<le> length (render_path a q)" if "q \<noteq> []" "n \<noteq> 0"
proof -
  have "length (join_with ''/'' xs) \<le> length (join_with ''/'' (xs @ ys))" for xs ys :: "string list"
    by (induction xs rule: induct_list012; cases ys) auto
  from this [of "take n q" "drop n q"] that show ?thesis by (simp add: render_path_def)
qed

lemma mem_mkdirs_fill:
  assumes "list_all simple q" "\<And>r. prefix r q \<Longrightarrow> vacant (mem_view fs) (origin a (fs_cwd fs) @ r)"
    and "mem_view fs (origin a (fs_cwd fs)) = Some Folder" "length (render_path a q) < path_max" "n \<le> length q"
  shows "mem_view (fold (\<lambda>p t. snd (mem_mkdir p m t)) (map (\<lambda>n. render_path a (take (Suc n) q)) [0..<n]) fs) =
      fill (mem_view fs) (origin a (fs_cwd fs)) (take n q) \<and>
    fs_cwd (fold (\<lambda>p t. snd (mem_mkdir p m t)) (map (\<lambda>n. render_path a (take (Suc n) q)) [0..<n]) fs) = fs_cwd fs"
  using assms(5)
proof (induction n)
  case 0
  from fill_idle [of "[]" "mem_view fs" "origin a (fs_cwd fs)"] assms(3) show ?case by simp
next
  case (Suc n)
  let ?fs = "fold (\<lambda>p t. snd (mem_mkdir p m t)) (map (\<lambda>n. render_path a (take (Suc n) q)) [0..<n]) fs"
  let ?r = "take (Suc n) q" and ?o = "origin a (fs_cwd fs)"
  have IH: "mem_view ?fs = fill (mem_view fs) ?o (take n q)" "fs_cwd ?fs = fs_cwd fs" using Suc by simp_all
  have snoc: "?r = take n q @ [q ! n]" using Suc.prems by (simp add: take_Suc_conv_app_nth)
  have pre: "prefix r q" if "prefix r ?r" for r using that take_is_prefix [of "Suc n" q] by (rule prefix_order.trans)
  have sim: "list_all simple ?r" using assms(1) by (auto simp: list_all_iff dest: in_set_takeD)
  have clear: "clear_to (mem_view ?fs) ?o ?r"
    unfolding clear_to_def IH(1) snoc strict_prefix_snoc
    using assms(2) pre snoc by (auto intro!: fill_way)
  have vac: "vacant (mem_view ?fs) (?o @ ?r)"
    using assms(2) [OF pre [of ?r]] unfolding IH(1) by (auto simp: vacant_def fill_def)
  have len: "length (render_path a ?r) < path_max"
    using length_render_take [of q "Suc n" a] assms(4) Suc.prems by (cases q) auto
  from mem_mkdir_fill [of ?r ?fs a m] sim clear vac len IH fill_fill [of "take n q" ?r "mem_view fs" ?o]
  show ?case by (simp add: snoc)
qed

lemma mem_mkdirAll_view:
  assumes "list_all simple q" "\<And>r. prefix r q \<Longrightarrow> vacant (mem_view fs) (origin a (fs_cwd fs) @ r)"
    and "mem_view fs (origin a (fs_cwd fs)) = Some Folder" "mem_mkdirAll (render_path a q) m fs = (None, fs')"
  shows "mem_view fs' = fill (mem_view fs) (origin a (fs_cwd fs)) q \<and> fs_cwd fs' = fs_cwd fs"
proof (cases "\<exists>fi. mem_stat (render_path a q) fs = Inr fi")
  case True
  let ?o = "origin a (fs_cwd fs)"
  from True assms(4) have same: "fs' = fs" by (auto simp: mem_mkdirAll_def split: if_splits)
  from True obtain i where i: "ino_at fs True (render_path a q) = Inr i" by (auto simp: mem_stat_def split: sum.splits)
  have "mem_view fs (?o @ r) = Some Folder" if r: "strict_prefix r q" for r
  proof (rule ccontr)
    assume no: "mem_view fs (?o @ r) \<noteq> Some Folder"
    then have "mem_view fs (?o @ r) = None" "r \<noteq> []" using assms(2) [of r] assms(3) r by (auto simp: vacant_def)
    from walk_blocked [OF assms(1) _ r this(2,1)] assms(2)
    have "walk fs max_links True ?o q = Inl ENOENT" by (auto simp: strict_prefix_def)
    with i assms(1) show False by (auto simp: ino_at_def locate_render split: if_splits)
  qed
  then have clear: "clear_to (mem_view fs) ?o q" by (simp add: clear_to_def)
  have vac: "vacant (mem_view fs) (?o @ q)" using assms(2) by simp
  then have "mem_view fs (?o @ q) = Some Folder"
    using i ino_at_render [OF assms(1) clear, of True]
    by (auto simp: vacant_def mem_view_ino split: if_splits option.splits)
  with clear same show ?thesis
    by (auto simp: clear_to_def strict_prefix_def intro!: fill_idle [symmetric])
next
  case False
  let ?o = "origin a (fs_cwd fs)"
  have ne: "q \<noteq> []"
  proof
    assume "q = []"
    then have "length (render_path a q) < path_max" by (simp add: render_path_def path_max_def)
    with False assms(3) \<open>q = []\<close> ino_at_render [of "[]" fs a True] show False
      by (auto simp: mem_stat_def mem_view_ino split: option.splits)
  qed
  let ?fs = "fold (\<lambda>p t. snd (mem_mkdir p m t)) (ancestors (render_path a q)) fs"
  from False assms(4) have fs': "fs' = ?fs" and "\<exists>fi. mem_lstat (render_path a q) ?fs = Inr fi"
    by (auto simp: mem_mkdirAll_def Let_def split: sum.splits if_splits)
  then have "length (render_path a q) < path_max"
    by (auto simp: mem_lstat_def ino_at_def locate_def split: sum.splits if_splits)
  from mem_mkdirs_fill [OF assms(1,2,3) this order.refl, of m] fs' ancestors_render [OF assms(1) ne]
  show ?thesis by simp
qed

interpretation memtree: tree_os mem_os mem_view fs_cwd
  by (unfold_locales, unfold mem_os_sel)
    (erule (2) mem_lstat_view | erule (3) mem_readDir_view | erule (3) mem_readFile_view | erule (3) mem_readlink_view |
      (rule mem_mkdirAll_view; (assumption | simp)) | erule (3) mem_writeFile_view | erule (3) mem_symlink_view)+

section \<open>Simple paths\<close>

lemma path_join_simple:
  assumes "list_all simple ds" "list_all simple (comps name)"
  shows "path_join [render_path a ds, name] = render_path a (ds @ comps name)"
proof -
  have ne: "render_path a ds \<noteq> []"
    using split_render [OF assms(1), of a] assms(1) by (auto simp: simple_def comp_ok_def split: if_splits)
  have "''..'' \<notin> set (ds @ comps name)" using assms by (auto simp: simple_def list_all_iff)
  then have "clean_comps a (ds @ comps name) = ds @ comps name" by (simp add: clean_comps_def clean_comps_names)
  with ne show ?thesis
    by (simp add: path_join_comps is_abs_render comps_render simple_ok [OF assms(1)])
qed

lemma simple_cleaned: "list_all simple q \<Longrightarrow> cleaned a q"
  by (rule cleanedI [of _ 0 q]) (auto simp: simple_def list_all_iff)

lemma path_dir_simple:
  assumes "list_all simple q" "q \<noteq> []"
  shows "path_dir (render_path a q) = render_path a (butlast q)"
  using assms path_dir_render [of "butlast q" "last q" a] simple_ok [OF assms(1)] simple_cleaned [OF assms(1), of a] by simp

section \<open>The contents of a directory\<close>

text \<open>Everything below a place that is reached through directories, by names.\<close>

definition contents :: "filetree \<Rightarrow> string list \<Rightarrow> (string list \<times> item) set" where
  "contents t base = {(q, it). list_all simple q \<and> t (base @ q) = Some it \<and> clear_to t base q}"

lemma contents_leaf:
  assumes "t base = Some it" "it \<noteq> Folder"
  shows "contents t base = {([], it)}"
proof -
  have leaf: "clear_to t base q \<longleftrightarrow> q = []" for q using assms by (cases q) (auto simp: clear_to_Cons)
  show ?thesis unfolding contents_def leaf by (auto simp: assms(1))
qed

lemma contents_folder:
  assumes "t base = Some Folder"
  shows "contents t base = insert ([], Folder)
    (\<Union>c\<in>{c. simple c \<and> t (base @ [c]) \<noteq> None}. (\<lambda>(q, it). (c # q, it)) ` contents t (base @ [c]))" (is "_ = ?R")
proof (intro set_eqI iffI)
  fix x assume "x \<in> contents t base"
  then obtain q it where x: "x = (q, it)" "list_all simple q" "t (base @ q) = Some it" "clear_to t base q"
    by (auto simp: contents_def)
  show "x \<in> ?R"
  proof (cases q)
    case Nil
    with x assms show ?thesis by simp
  next
    case (Cons c r)
    have "t (base @ [c]) \<noteq> None" using x Cons
      by (cases r) (auto simp: clear_to_Cons)
    with x Cons have "simple c" "(r, it) \<in> contents t (base @ [c])" by (simp_all add: contents_def clear_to_Cons)
    with x Cons \<open>t (base @ [c]) \<noteq> None\<close> show ?thesis by force
  qed
next
  fix x assume "x \<in> ?R"
  with assms show "x \<in> contents t base" by (auto simp: contents_def clear_to_Cons)
qed

end
