(* ===== verification/FileRecurse.thy ===== *)
theory FileRecurse
  imports FileConverge Trees
begin

text \<open>
  The recursive form of the \<^verbatim>\<open>file\<close> module: after \<^verbatim>\<open>recurse: yes\<close> everything below the directory has the mode and the ids
  of the task. Hard links may alias files that were visited before, so the argument is that the walk only moves
  modes and ids towards what the task asks for.
\<close>

section \<open>Changes of modes and ids\<close>

text \<open>
  What \<^verbatim>\<open>chmod\<close>, \<^verbatim>\<open>chown\<close> and \<^verbatim>\<open>lchown\<close> do to the files they are not called on: a file behind another name of the same inode
  changes along, every other one stays, and nothing moves in the tree.
\<close>

definition ids_moved :: "int \<Rightarrow> int \<Rightarrow> fileinfo \<Rightarrow> fileinfo \<Rightarrow> bool" where
  "ids_moved u g fi fi' \<longleftrightarrow>
     (fi_uid fi' = fi_uid fi \<or> fi_uid fi' = new_id u (fi_uid fi)) \<and> (fi_gid fi' = fi_gid fi \<or> fi_gid fi' = new_id g (fi_gid fi))"

locale attr_os = tree_os os view dir + posix_os os
  for os :: "'w os" and view :: "'w \<Rightarrow> filetree" and dir :: "'w \<Rightarrow> string list" +
  assumes chmod_others:
      "os_chmod os q m w = (None, w') \<Longrightarrow> os_lstat os p w' = Inr fi' \<Longrightarrow>
       \<exists>fi. os_lstat os p w = Inr fi \<and> same_type fi fi' \<and>
         (perm (fi_mode fi') = perm (fi_mode fi) \<or> perm (fi_mode fi') = perm m) \<and> fi_uid fi' = fi_uid fi \<and> fi_gid fi' = fi_gid fi"
    and chown_others:
      "os_chown os q u g w = (None, w') \<Longrightarrow> os_lstat os p w' = Inr fi' \<Longrightarrow>
       \<exists>fi. os_lstat os p w = Inr fi \<and> same_type fi fi' \<and> perm (fi_mode fi') = perm (fi_mode fi) \<and> ids_moved u g fi fi'"
    and lchown_others:
      "os_lchown os q u g w = (None, w') \<Longrightarrow> os_lstat os p w' = Inr fi' \<Longrightarrow>
       \<exists>fi. os_lstat os p w = Inr fi \<and> same_type fi fi' \<and> perm (fi_mode fi') = perm (fi_mode fi) \<and> ids_moved u g fi fi'"
    and lchown_ok:
      "os_lstat os p w = Inr fi \<Longrightarrow> os_lchown os p u g w = (None, w') \<Longrightarrow>
       \<exists>fi'. os_lstat os p w' = Inr fi' \<and> fi_uid fi' = new_id u (fi_uid fi) \<and> fi_gid fi' = new_id g (fi_gid fi)"
    and chmod_view: "os_chmod os q m w = (None, w') \<Longrightarrow> view w' = view w \<and> dir w' = dir w"
    and chown_view: "os_chown os q u g w = (None, w') \<Longrightarrow> view w' = view w \<and> dir w' = dir w"
    and lchown_view: "os_lchown os q u g w = (None, w') \<Longrightarrow> view w' = view w \<and> dir w' = dir w"

section \<open>On the executable file system\<close>

definition keeps_kind :: "(inode \<Rightarrow> inode) \<Rightarrow> bool" where
  "keeps_kind f \<longleftrightarrow> (\<forall>nd. in_kind (f nd) = in_kind nd \<and> in_data (f nd) = in_data nd)"

lemma on_ino_view:
  assumes "on_ino fl f q fs = (None, fs')" "keeps_kind f"
  shows "mem_view fs' = mem_view fs \<and> fs_cwd fs' = fs_cwd fs"
proof -
  from assms(1) obtain j where fs': "fs' = upd_inode j f fs" by (auto simp: on_ino_def split: sum.splits)
  have "mem_item (fs_inodes fs' i) = mem_item (fs_inodes fs i)" for i
    using assms(2) by (cases "i = j") (simp_all add: fs' upd_inode_def mem_item_def keeps_kind_def split: kind.split)
  moreover have "fs_names fs' = fs_names fs" "fs_cwd fs' = fs_cwd fs" by (simp_all add: fs' upd_inode_def)
  ultimately show ?thesis by (simp add: mem_view_ino fun_eq_iff)
qed

lemma on_ino_others:
  assumes "on_ino fl f q fs = (None, fs')" "keeps_kind f" "mem_lstat p fs' = Inr fi'"
  shows "\<exists>i. mem_lstat p fs = Inr (info_of fs i) \<and> fi' = info_of fs' i \<and>
    (fs_inodes fs' i = fs_inodes fs i \<or> fs_inodes fs' i = f (fs_inodes fs i))"
proof -
  from assms(1) obtain j where j: "fs' = upd_inode j f fs" by (auto simp: on_ino_def split: sum.splits)
  have "ino_at fs' False p = ino_at fs False p" unfolding j using assms(2) by (intro ino_at_upd) (simp add: keeps_kind_def)
  with assms(3) obtain i where "mem_lstat p fs = Inr (info_of fs i)" "fi' = info_of fs' i"
    by (auto simp: lstat_ino)
  moreover have "fs_inodes fs' i = fs_inodes fs i \<or> fs_inodes fs' i = f (fs_inodes fs i)" by (simp add: j upd_inode_def)
  ultimately show ?thesis by blast
qed

lemma keeps_chmod: "keeps_kind (\<lambda>nd. nd\<lparr>in_mode := m\<rparr>)" "keeps_kind (chown_inode u g)"
  by (simp_all add: keeps_kind_def chown_inode_simps)

lemma mem_chmod_others:
  assumes "mem_chmod q m fs = (None, fs')" "mem_lstat p fs' = Inr fi'"
  shows "\<exists>fi. mem_lstat p fs = Inr fi \<and> same_type fi fi' \<and>
    (perm (fi_mode fi') = perm (fi_mode fi) \<or> perm (fi_mode fi') = perm m) \<and> fi_uid fi' = fi_uid fi \<and> fi_gid fi' = fi_gid fi"
  using on_ino_others [OF assms(1) [unfolded mem_chmod_def] keeps_chmod(1) assms(2)]
  by (auto simp: same_type_def info_simps perm_clear_setid)

lemma mem_chown_others:
  assumes "on_ino fl (chown_inode u g) q fs = (None, fs')" "mem_lstat p fs' = Inr fi'"
  shows "\<exists>fi. mem_lstat p fs = Inr fi \<and> same_type fi fi' \<and> perm (fi_mode fi') = perm (fi_mode fi) \<and> ids_moved u g fi fi'"
  using on_ino_others [OF assms(1) keeps_chmod(2) assms(2)]
  by (auto simp: same_type_def info_simps chown_inode_simps ids_moved_def)

lemma mem_lchown_ok:
  assumes "mem_lstat p fs = Inr fi" "mem_lchown p u g fs = (None, fs')"
  shows "\<exists>fi'. mem_lstat p fs' = Inr fi' \<and> fi_uid fi' = new_id u (fi_uid fi) \<and> fi_gid fi' = new_id g (fi_gid fi)"
proof -
  from assms(1) obtain i where i: "ino_at fs False p = Inr i" "fi = info_of fs i" by (auto simp: lstat_ino)
  with assms(2) have fs': "fs' = upd_inode i (chown_inode u g) fs" by (simp add: mem_lchown_def on_ino_def)
  then have "ino_at fs' False p = Inr i" using i by (simp add: ino_at_upd chown_inode_simps)
  then have "mem_lstat p fs' = Inr (info_of fs' i)" by (simp add: mem_lstat_def)
  with fs' i show ?thesis by (simp add: info_simps chown_inode_simps upd_inode_def)
qed

lemma mem_chmod_view: "mem_chmod q m fs = (None, fs') \<Longrightarrow> mem_view fs' = mem_view fs \<and> fs_cwd fs' = fs_cwd fs"
  unfolding mem_chmod_def by (rule on_ino_view [OF _ keeps_chmod(1)])

interpretation memattr: attr_os mem_os mem_view fs_cwd
proof (unfold_locales, unfold mem_os_sel)
qed (auto dest: mem_chmod_others mem_lchown_ok
    mem_chown_others [of True, folded mem_chown_def] mem_chown_others [of False, folded mem_lchown_def]
    mem_chmod_view
    on_ino_view [OF _ keeps_chmod(2), of True, folded mem_chown_def] on_ino_view [OF _ keeps_chmod(2), of False, folded mem_lchown_def])

section \<open>The walk\<close>

text \<open>An octal mode of permission bits, not zero, or none: the same for every file.\<close>

definition octal_mode :: "string \<Rightarrow> filemode \<Rightarrow> bool" where
  "octal_mode v d \<longleftrightarrow>
     v = [] \<and> d = 0 \<or> v \<noteq> [] \<and> (\<exists>n. parse_uint 8 32 v = Some n \<and> n < 512 \<and> d = mode_of_nat n \<and> d \<noteq> 0)"

text \<open>What the task wants of a file; the mode of a link is left alone.\<close>

definition wanted :: "filemode \<Rightarrow> int \<Rightarrow> int \<Rightarrow> fileinfo \<Rightarrow> bool" where
  "wanted d uid gid fi \<longleftrightarrow> settled (if is_link fi then 0 else d) uid gid fi"

text \<open>How the machine may change: modes and ids move to those of the task, if at all.\<close>

definition moves :: "'w os \<Rightarrow> filemode \<Rightarrow> int \<Rightarrow> int \<Rightarrow> 'w \<Rightarrow> 'w \<Rightarrow> bool" where
  "moves os d uid gid w w' \<longleftrightarrow>
     (\<forall>p fi'. os_lstat os p w' = Inr fi' \<longrightarrow>
        (\<exists>fi. os_lstat os p w = Inr fi \<and> same_type fi fi' \<and>
           (perm (fi_mode fi') = perm (fi_mode fi) \<or> d \<noteq> 0 \<and> perm (fi_mode fi') = d) \<and>
           (fi_uid fi' = fi_uid fi \<or> uid \<noteq> -1 \<and> fi_uid fi' = word_of_int uid) \<and>
           (fi_gid fi' = fi_gid fi \<or> gid \<noteq> -1 \<and> fi_gid fi' = word_of_int gid)))"

lemma moves_refl: "moves os d uid gid w w"
  by (auto simp: moves_def same_type_def)

lemma moves_trans:
  assumes "moves os d uid gid w w1" "moves os d uid gid w1 w2"
  shows "moves os d uid gid w w2"
  unfolding moves_def
proof (intro allI impI)
  fix p fi2 assume "os_lstat os p w2 = Inr fi2"
  with assms(2) obtain fi1 where one: "os_lstat os p w1 = Inr fi1" "same_type fi1 fi2"
    "perm (fi_mode fi2) = perm (fi_mode fi1) \<or> d \<noteq> 0 \<and> perm (fi_mode fi2) = d"
    "fi_uid fi2 = fi_uid fi1 \<or> uid \<noteq> -1 \<and> fi_uid fi2 = word_of_int uid"
    "fi_gid fi2 = fi_gid fi1 \<or> gid \<noteq> -1 \<and> fi_gid fi2 = word_of_int gid" unfolding moves_def by blast
  with assms(1) obtain fi where "os_lstat os p w = Inr fi" "same_type fi fi1"
    "perm (fi_mode fi1) = perm (fi_mode fi) \<or> d \<noteq> 0 \<and> perm (fi_mode fi1) = d"
    "fi_uid fi1 = fi_uid fi \<or> uid \<noteq> -1 \<and> fi_uid fi1 = word_of_int uid"
    "fi_gid fi1 = fi_gid fi \<or> gid \<noteq> -1 \<and> fi_gid fi1 = word_of_int gid" unfolding moves_def by blast
  with one show "\<exists>fi. os_lstat os p w = Inr fi \<and> same_type fi fi2 \<and>
      (perm (fi_mode fi2) = perm (fi_mode fi) \<or> d \<noteq> 0 \<and> perm (fi_mode fi2) = d) \<and>
      (fi_uid fi2 = fi_uid fi \<or> uid \<noteq> -1 \<and> fi_uid fi2 = word_of_int uid) \<and>
      (fi_gid fi2 = fi_gid fi \<or> gid \<noteq> -1 \<and> fi_gid fi2 = word_of_int gid)"
    by (intro exI [of _ fi]) (auto simp: same_type_def)
qed

text \<open>Once a file is as wanted it stays so.\<close>

definition fine :: "'w os \<Rightarrow> filemode \<Rightarrow> int \<Rightarrow> int \<Rightarrow> 'w \<Rightarrow> string \<Rightarrow> bool" where
  "fine os d uid gid w p \<longleftrightarrow> (\<forall>fi. os_lstat os p w = Inr fi \<longrightarrow> wanted d uid gid fi)"

lemma fine_moves:
  assumes "moves os d uid gid w w'" "fine os d uid gid w p"
  shows "fine os d uid gid w' p"
  unfolding fine_def
proof (intro allI impI)
  fix fi' assume "os_lstat os p w' = Inr fi'"
  with assms(1) obtain fi where fi: "os_lstat os p w = Inr fi" "same_type fi fi'"
    "perm (fi_mode fi') = perm (fi_mode fi) \<or> d \<noteq> 0 \<and> perm (fi_mode fi') = d"
    "fi_uid fi' = fi_uid fi \<or> uid \<noteq> -1 \<and> fi_uid fi' = word_of_int uid"
    "fi_gid fi' = fi_gid fi \<or> gid \<noteq> -1 \<and> fi_gid fi' = word_of_int gid" unfolding moves_def by blast
  have "wanted d uid gid fi" using assms(2) fi(1) by (simp add: fine_def)
  with fi(3-5) same_type_kind(2) [OF fi(2)] show "wanted d uid gid fi'" by (auto simp: wanted_def settled_def)
qed

text \<open>A step that moves the machine only towards the task, and makes the files \<open>X\<close> as wanted.\<close>

definition advances ::
  "'w os \<Rightarrow> ('w \<Rightarrow> filetree) \<Rightarrow> ('w \<Rightarrow> string list) \<Rightarrow> filemode \<Rightarrow> int \<Rightarrow> int \<Rightarrow> string set \<Rightarrow> 'w \<Rightarrow> 'w \<Rightarrow> bool" where
  "advances os view dir d uid gid X w w' \<longleftrightarrow>
     moves os d uid gid w w' \<and> view w' = view w \<and> dir w' = dir w \<and> (\<forall>p\<in>X. fine os d uid gid w' p)"

lemma advances_trans:
  "advances os view dir d u g X w w1 \<Longrightarrow> advances os view dir d u g Y w1 w2 \<Longrightarrow> advances os view dir d u g (X \<union> Y) w w2"
  using moves_trans fine_moves by (fastforce simp: advances_def)

lemma ids_moved_to:
  assumes "ids_moved uid gid fi fi'" "valid_id uid" "valid_id gid"
  shows "fi_uid fi' = fi_uid fi \<or> uid \<noteq> -1 \<and> fi_uid fi' = word_of_int uid"
    and "fi_gid fi' = fi_gid fi \<or> gid \<noteq> -1 \<and> fi_gid fi' = word_of_int gid"
  using assms by (auto simp: ids_moved_def new_id_def valid_id_def split: if_splits)

context attr_os
begin

lemma chown_moves:
  assumes "os_chown os q uid gid w = (None, w')" "valid_id uid" "valid_id gid"
  shows "moves os d uid gid w w'"
  unfolding moves_def
proof (intro allI impI)
  fix p fi' assume "os_lstat os p w' = Inr fi'"
  from chown_others [OF assms(1) this] show "\<exists>fi. os_lstat os p w = Inr fi \<and> same_type fi fi' \<and>
      (perm (fi_mode fi') = perm (fi_mode fi) \<or> d \<noteq> 0 \<and> perm (fi_mode fi') = d) \<and>
      (fi_uid fi' = fi_uid fi \<or> uid \<noteq> -1 \<and> fi_uid fi' = word_of_int uid) \<and>
      (fi_gid fi' = fi_gid fi \<or> gid \<noteq> -1 \<and> fi_gid fi' = word_of_int gid)"
    using ids_moved_to [OF _ assms(2,3)] by blast
qed

lemma lchown_moves:
  assumes "os_lchown os q uid gid w = (None, w')" "valid_id uid" "valid_id gid"
  shows "moves os d uid gid w w'"
  unfolding moves_def
proof (intro allI impI)
  fix p fi' assume "os_lstat os p w' = Inr fi'"
  from lchown_others [OF assms(1) this] show "\<exists>fi. os_lstat os p w = Inr fi \<and> same_type fi fi' \<and>
      (perm (fi_mode fi') = perm (fi_mode fi) \<or> d \<noteq> 0 \<and> perm (fi_mode fi') = d) \<and>
      (fi_uid fi' = fi_uid fi \<or> uid \<noteq> -1 \<and> fi_uid fi' = word_of_int uid) \<and>
      (fi_gid fi' = fi_gid fi \<or> gid \<noteq> -1 \<and> fi_gid fi' = word_of_int gid)"
    using ids_moved_to [OF _ assms(2,3)] by blast
qed

text \<open>The mode step: it moves modes to \<open>d\<close>, and the file itself has it.\<close>

lemma apply_mode_moves:
  assumes "octal_mode v d" "apply_mode os p (MString v) w = (None, w')" "os_lstat os p w = Inr fi" "\<not> is_link fi"
  shows "moves os d uid gid w w' \<and> view w' = view w \<and> dir w' = dir w \<and>
    (\<exists>fi'. os_lstat os p w' = Inr fi' \<and> \<not> is_link fi' \<and> (d = 0 \<or> perm (fi_mode fi') = d))"
proof (cases "v = []")
  case True
  with assms moves_refl show ?thesis by (auto simp: octal_mode_def apply_mode_def)
next
  case False
  with assms(1) obtain n where n: "parse_uint 8 32 v = Some n" "n < 512" "d = mode_of_nat n" "d \<noteq> 0" by (auto simp: octal_mode_def)
  with False assms(2) have ch: "os_chmod os p d w = (None, w')" by (simp add: apply_mode_def)
  have pd: "perm d = d" using n perm_small by simp
  from chmod_ok [OF assms(3,4) ch] obtain fi' where fi': "os_lstat os p w' = Inr fi'" "same_type fi fi'" "perm (fi_mode fi') = d"
    using pd by auto
  with assms(4) same_type_kind(2) [OF fi'(2)] have "\<not> is_link fi'" by simp
  moreover have "moves os d uid gid w w'"
    unfolding moves_def
  proof (intro allI impI)
    fix q fq assume q: "os_lstat os q w' = Inr fq"
    from chmod_others [OF ch q] obtain f0 where f0: "os_lstat os q w = Inr f0" "same_type f0 fq"
      "perm (fi_mode fq) = perm (fi_mode f0) \<or> perm (fi_mode fq) = d" "fi_uid fq = fi_uid f0" "fi_gid fq = fi_gid f0"
      using pd by auto
    show "\<exists>fi. os_lstat os q w = Inr fi \<and> same_type fi fq \<and>
      (perm (fi_mode fq) = perm (fi_mode fi) \<or> d \<noteq> 0 \<and> perm (fi_mode fq) = d) \<and>
      (fi_uid fq = fi_uid fi \<or> uid \<noteq> -1 \<and> fi_uid fq = word_of_int uid) \<and>
      (fi_gid fq = fi_gid fi \<or> gid \<noteq> -1 \<and> fi_gid fq = word_of_int gid)"
      using f0 n(4) by blast
  qed
  ultimately show ?thesis using fi' chmod_view [OF ch] by blast
qed

lemma entry_fine:
  assumes d: "octal_mode v d" and ids: "valid_id uid" "valid_id gid"
    and kind: "\<forall>f0. os_lstat os p w = Inr f0 \<longrightarrow> is_link f0 = is_link fi"
    and run: "recurse_entry os (MString v) uid gid p fi (c, w) = (None, s')"
  shows "advances os view dir d uid gid {p} w (snd s')"
proof -
  let ?m = "if is_link fi then MNil else MString v"
  from run obtain b where b: "needsModeOrOwnershipChange os p ?m uid gid w = Inr b"
    by (auto simp: recurse_entry_def split: if_splits sum.splits)
  then obtain f0 where f0: "os_lstat os p w = Inr f0" by (auto simp: needsModeOrOwnershipChange_def split: sum.splits)
  with kind have k: "is_link f0 = is_link fi" by blast
  have "desired_mode os p (MString v) w = Inr d" using d by (auto simp: octal_mode_def desired_mode_def)
  with b f0 have b': "b \<longleftrightarrow> \<not> settled (if is_link fi then 0 else d) uid gid f0"
    by (auto simp: needsModeOrOwnershipChange_def desired_mode_def settled_def split: if_splits)
  consider (same) "\<not> b" | (link) "b" "is_link fi" | (other) "b" "\<not> is_link fi" by blast
  then show ?thesis
  proof cases
    case same
    with run b have "snd s' = w" by (auto simp: recurse_entry_def split: if_splits)
    with same b' f0 k moves_refl show ?thesis by (auto simp: advances_def fine_def wanted_def)
  next
    case link
    with run b have l: "os_lchown os p uid gid w = (None, snd s')"
      by (auto simp: recurse_entry_def split: prod.splits option.splits)
    from lchown_ok [OF f0 l] obtain f1 where f1: "os_lstat os p (snd s') = Inr f1"
      "fi_uid f1 = new_id uid (fi_uid f0)" "fi_gid f1 = new_id gid (fi_gid f0)" by blast
    from lchown_others [OF l f1(1)] f0 have "same_type f0 f1" by auto
    with link k have "is_link f1" using same_type_kind(2) by blast
    with f1 ids new_id_settled have "fine os d uid gid (snd s') p" by (simp add: fine_def wanted_def settled_def)
    with lchown_moves [OF l ids] lchown_view [OF l] show ?thesis by (simp add: advances_def)
  next
    case other
    with run b obtain w1 where a: "apply_mode os p (MString v) w = (None, w1)" and ch: "os_chown os p uid gid w1 = (None, snd s')"
      by (auto simp: recurse_entry_def ApplyModeAndIDs_def lift_err_def prod_eq_iff split: prod.splits option.splits)
    from apply_mode_moves [OF d a f0] other k obtain f1 where m: "moves os d uid gid w w1" "view w1 = view w" "dir w1 = dir w"
      and f1: "os_lstat os p w1 = Inr f1" "\<not> is_link f1" "d = 0 \<or> perm (fi_mode f1) = d" by blast
    from chown_ok [OF f1(1,2) ch] obtain f2 where f2: "os_lstat os p (snd s') = Inr f2"
      "fi_uid f2 = new_id uid (fi_uid f1)" "fi_gid f2 = new_id gid (fi_gid f1)" by blast
    from chown_others [OF ch f2(1)] f1(1) have "perm (fi_mode f2) = perm (fi_mode f1)" "same_type f1 f2" by auto
    with f1 f2 ids new_id_settled same_type_kind(2) have "fine os d uid gid (snd s') p" by (simp add: fine_def wanted_def settled_def)
    with m moves_trans [OF m(1) chown_moves [OF ch ids]] chown_view [OF ch] show ?thesis by (simp add: advances_def)
  qed
qed

lemma entries_advance:
  assumes "\<forall>c fi s s'. (c, fi) \<in> set ents \<longrightarrow> view (snd s) = V \<longrightarrow> dir (snd s) = D \<longrightarrow> g (c, fi) s = (None, s') \<longrightarrow>
      advances os view dir d u gg (X c) (snd s) (snd s')"
    and "view (snd s) = V" "dir (snd s) = D" "seq_entries g ents s = (None, s')"
  shows "advances os view dir d u gg (\<Union>c\<in>fst ` set ents. X c) (snd s) (snd s')"
  using assms
proof (induction ents arbitrary: s)
  case Nil
  then show ?case by (simp add: advances_def moves_refl)
next
  case (Cons e ents)
  obtain c fi where e: "e = (c, fi)" by (cases e)
  from Cons.prems(4) obtain s1 where s1: "g e s = (None, s1)" "seq_entries g ents s1 = (None, s')"
    by (auto split: prod.splits option.splits)
  with Cons.prems(1-3) e have one: "advances os view dir d u gg (X c) (snd s) (snd s1)" by (simp del: split_paired_All)
  then have "view (snd s1) = V" "dir (snd s1) = D" using Cons.prems(2,3) by (simp_all add: advances_def)
  from Cons.IH [OF _ this s1(2)] Cons.prems(1) have "advances os view dir d u gg (\<Union>c\<in>fst ` set ents. X c) (snd s1) (snd s')" by simp
  from advances_trans [OF one this] e show ?case by simp
qed

text \<open>The paths of everything below a place.\<close>

lemma walk_advances:
  assumes d: "octal_mode v d" and ids: "valid_id uid" "valid_id gid"
    and "list_all simple q" "clear_to (view w) (origin a (dir w)) q"
    and "view w (origin a (dir w) @ q) = Some it" "describes fi it"
    and "walk_dir_fuel os snd (recurse_entry os (MString v) uid gid) n (render_path a q) fi (ch, w) = (None, s')"
  shows "advances os view dir d uid gid ((\<lambda>(r, i). render_path a (q @ r)) ` contents (view w) (origin a (dir w) @ q)) w (snd s')"
  using assms(4-)
proof (induction n arbitrary: q fi it ch w s')
  case 0
  then show ?case by simp
next
  case (Suc n)
  let ?o = "origin a (dir w)"
  let ?f = "recurse_entry os (MString v) uid gid"
  let ?P = "\<lambda>q. (\<lambda>(r, i). render_path a (q @ r)) ` contents (view w) (?o @ q)"
  from Suc.prems(5) obtain s1 where s1: "?f (render_path a q) fi (ch, w) = (None, s1)"
    by (auto split: prod.splits option.splits)
  have "\<forall>f0. os_lstat os (render_path a q) w = Inr f0 \<longrightarrow> is_link f0 = is_link fi"
    using lstat_view [OF Suc.prems(1,2)] Suc.prems(3,4) by (fastforce simp: describes_def)
  from entry_fine [OF d ids this s1] have one: "advances os view dir d uid gid {render_path a q} w (snd s1)" .
  show ?case
  proof (cases "it = Folder")
    case False
    with Suc.prems(4) have "\<not> is_dir_mode (fi_mode fi)" by (auto simp: describes_def is_dir_def)
    with Suc.prems(5) s1 have "s' = s1" by simp
    with contents_leaf [of "view w" "?o @ q", OF Suc.prems(3) False] one show ?thesis by simp
  next
    case True
    let ?g = "\<lambda>(name, fi1). walk_dir_fuel os snd ?f n (path_join [render_path a q, name]) fi1"
    have vw: "view (snd s1) = view w" "dir (snd s1) = dir w" using one by (simp_all add: advances_def)
    from Suc.prems(4) True have "is_dir_mode (fi_mode fi)" by (auto simp: describes_def is_dir_def)
    with Suc.prems(5) s1 obtain ents where ents: "os_readDir os (render_path a q) (snd s1) = Inr ents"
      and seq: "seq_entries ?g ents s1 = (None, s')"
      by (auto split: sum.splits)
    have F: "view w (?o @ q) = Some Folder" using Suc.prems(3) True by simp
    from readDir_view [OF Suc.prems(1) _ _ ents] Suc.prems(2) F
    have names: "\<And>c. c \<in> fst ` set ents \<longleftrightarrow> simple c \<and> view w (?o @ q @ [c]) \<noteq> None"
      and infos: "\<And>c fi. (c, fi) \<in> set ents \<Longrightarrow> \<exists>it. view w (?o @ q @ [c]) = Some it \<and> describes fi it"
      unfolding vw by auto
    have step: "advances os view dir d uid gid (?P (q @ [c])) (snd s2) (snd s3)"
      if c: "(c, fi1) \<in> set ents" and same: "view (snd s2) = view w" "dir (snd s2) = dir w" and run: "?g (c, fi1) s2 = (None, s3)"
      for c fi1 s2 s3
    proof -
      have "c \<in> fst ` set ents" using c by force
      then have sc: "simple c" using names by blast
      then have "comps c = [c]" using comps_join [of "[c]"] by (simp add: simple_def)
      then have p: "path_join [render_path a q, c] = render_path a (q @ [c])"
        using path_join_simple [OF Suc.prems(1), of c a] sc by simp
      have "clear_to (view w) ?o (q @ [c])" using Suc.prems(2) F clear_to_snoc [of "view w" ?o q c] by simp
      moreover obtain it1 where "view w (?o @ (q @ [c])) = Some it1" "describes fi1 it1" using infos [OF c] by auto
      ultimately show ?thesis
        using Suc.IH [of "q @ [c]" "snd s2" it1 fi1 "fst s2" s3] sc Suc.prems(1) run same p by simp
    qed
    then have "\<forall>c fi1 s2 s3. (c, fi1) \<in> set ents \<longrightarrow> view (snd s2) = view w \<longrightarrow> dir (snd s2) = dir w \<longrightarrow> ?g (c, fi1) s2 = (None, s3) \<longrightarrow>
        advances os view dir d uid gid (?P (q @ [c])) (snd s2) (snd s3)" by blast
    from entries_advance [OF this vw seq]
    have two: "advances os view dir d uid gid (\<Union>c\<in>fst ` set ents. ?P (q @ [c])) (snd s1) (snd s')" .
    have "?P q = {render_path a q} \<union> (\<Union>c\<in>fst ` set ents. ?P (q @ [c]))"
    proof -
      have "fst ` set ents = {c. simple c \<and> view w ((?o @ q) @ [c]) \<noteq> None}" using names by auto
      then show ?thesis using contents_folder [of "view w" "?o @ q"] F
        by (simp add: image_UN image_image case_prod_unfold)
    qed
    with advances_trans [OF one two] show ?thesis by simp
  qed
qed

lemma file_recurse:
  assumes d: "octal_mode (Mode_GetValue (f_Mode f)) d" and ids: "valid_id uid" "valid_id gid"
    and p: "f_Path f = render_path a q" "list_all simple q" and "f_Recurse f"
    and free: "view w (origin a (dir w)) = Some Folder" "\<forall>r. prefix r q \<longrightarrow> vacant (view w) (origin a (dir w) @ r)"
    and run: "file_directory os f ex uid gid r0 w = (Inr (r, ch), w')"
  shows "dir w' = dir w \<and> view w' = fill (view w) (origin a (dir w)) q \<and>
    (\<forall>(s, i) \<in> contents (view w') (origin a (dir w') @ q). fine os d uid gid w' (render_path a (q @ s)))"
proof -
  let ?o = "origin a (dir w)"
  let ?f = "recurse_entry os (MString (Mode_GetValue (f_Mode f))) uid gid"
  from run \<open>f_Recurse f\<close> obtain w1 where mk: "os_mkdirAll os (render_path a q) 0x1ED w = (None, w1)"
    and walk: "walk_dir os snd ?f (render_path a q) (\<not> ex, w1) = (None, ch, w')"
    by (auto simp: file_directory_def fail_with_def Let_def p split: prod.splits option.splits)
  from mkdirAll_view [OF p(2) _ free(1) mk] free(2) have vw: "view w1 = fill (view w) ?o q" "dir w1 = dir w" by auto
  have way: "view w1 (origin a (dir w1) @ r) = Some Folder" if "prefix r q" for r
    using free(2) that by (auto simp: vw intro: fill_way)
  have clear: "clear_to (view w1) (origin a (dir w1)) q" using way by (simp add: clear_to_def strict_prefix_def)
  from walk obtain fi where fi: "os_lstat os (render_path a q) w1 = Inr fi"
    and run: "walk_dir_fuel os snd ?f walk_fuel (render_path a q) fi (\<not> ex, w1) = (None, ch, w')"
    by (auto simp: walk_dir_def split: sum.splits)
  from lstat_view [OF p(2) clear fi] obtain it where it: "view w1 (origin a (dir w1) @ q) = Some it" "describes fi it" by auto
  from walk_advances [OF d ids p(2) clear it run] vw show ?thesis by (auto simp: advances_def)
qed

lemma apply_recurse:
  assumes st: "f_State f = FileDirectory" "f_Recurse f" and p: "f_Path f = render_path a q" "list_all simple q"
    and d: "octal_mode (Mode_GetValue (f_Mode f)) d" and ids: "settling_ids db f"
    and free: "view w (origin a (dir w)) = Some Folder" "\<forall>r. prefix r q \<longrightarrow> vacant (view w) (origin a (dir w) @ r)"
    and run: "File_Apply os db f w = (r, None, w')"
  shows "\<exists>uid gid. GetUid db (f_Owner f) = Inr uid \<and> GetGid db (f_Group f) = Inr gid \<and>
    dir w' = dir w \<and> view w' = fill (view w) (origin a (dir w)) q \<and>
    (\<forall>(s, i) \<in> contents (view w') (origin a (dir w') @ q). fine os d uid gid w' (render_path a (q @ s)))"
  using run
proof (cases rule: File_Apply_cases)
  case (step ex uid gid)
  have "valid_id uid" "valid_id gid" using ids step(2,3) by (simp_all add: settling_ids_def)
  note rec = file_recurse [OF d this p st(2) free]
  have dirs: "file_state os f (actual_state f ex) ex (follows f) uid gid FileResult_zero w = file_directory os f ex uid gid FileResult_zero w"
    using st(1) by (simp add: file_state_def actual_state_def file_states)
  from step(4) [unfolded dirs] show ?thesis
  proof (cases rule: finish_cases)
    case early
    then show ?thesis
      by (auto simp: file_directory_def Let_def split: prod.splits option.splits sum.splits if_splits)
  next
    case (report r1 ch)
    from rec [OF report(1)] step(2,3) show ?thesis by simp
  qed
qed simp

end

section \<open>The whole task\<close>

text \<open>
  C3. A recursive task of the \<^verbatim>\<open>file\<close> module reaches everything below its directory. When a task with \<^verbatim>\<open>state: directory\<close>,
  \<^verbatim>\<open>recurse: yes\<close> and an octal mode (or none) has succeeded, then the directories that were missing on the way to it, and
  itself, are there and nothing else has moved; and every file, directory and link that is found below the directory and can
  be looked up has the owner and the group of the task and, links apart, its mode. Hard links may lead to files that were visited before.
\<close>

theorem recurse_reaches_all:
  assumes "attr_os os view dir" and "f_State f = FileDirectory" "f_Recurse f" "f_Path f = render_path a q" "list_all simple q"
    and "octal_mode (Mode_GetValue (f_Mode f)) d" and "settling_ids db f"
    and "view w (origin a (dir w)) = Some Folder" "\<forall>r. prefix r q \<longrightarrow> vacant (view w) (origin a (dir w) @ r)"
    and "File_Apply os db f w = (r, None, w')"
  shows "\<exists>uid gid. GetUid db (f_Owner f) = Inr uid \<and> GetGid db (f_Group f) = Inr gid \<and>
    dir w' = dir w \<and> view w' = fill (view w) (origin a (dir w)) q \<and>
    (\<forall>(s, i) \<in> contents (view w') (origin a (dir w') @ q). \<forall>fi.
      os_lstat os (render_path a (q @ s)) w' = Inr fi \<longrightarrow> wanted d uid gid fi)"
  using attr_os.apply_recurse [OF assms] by (simp add: fine_def)

definition recurse_task :: File where
  "recurse_task = File_zero\<lparr>f_Path := ''/d'', f_State := ''directory'', f_Recurse := True, f_Mode := Some \<lparr>Mode_Value = ''0750''\<rparr>\<rparr>"

definition recurse_fs :: memfs where
  "recurse_fs = snd (mem_symlink ''f'' ''/d/l'' (snd (mem_writeFile ''/d/e/f'' ''x'' 0x1A4 (snd (mem_mkdirAll ''/d/e'' 0x1ED empty_fs)))))"

theorem recurse_reaches_all_witness:
  "\<exists>fi. mem_lstat ''/d/e/f'' (snd (snd (File_Apply mem_os no_users recurse_task recurse_fs))) = Inr fi \<and> wanted 0x1E8 (-1) (-1) fi \<and>
    \<not> is_link fi"
proof -
  let ?w = "snd (snd (File_Apply mem_os no_users recurse_task recurse_fs))"
  have "fst (snd (File_Apply mem_os no_users recurse_task recurse_fs)) = None" by code_simp
  then have run: "File_Apply mem_os no_users recurse_task recurse_fs =
      (fst (File_Apply mem_os no_users recurse_task recurse_fs), None, ?w)"
    by (simp add: prod_eq_iff)
  have path: "f_Path recurse_task = render_path True [''d'']" "list_all simple [''d'']" by code_simp+
  have task: "f_State recurse_task = FileDirectory" "f_Recurse recurse_task" "settling_ids no_users recurse_task" by code_simp+
  have "parse_uint 8 32 (Mode_GetValue (f_Mode recurse_task)) = Some 0x1E8" "Mode_GetValue (f_Mode recurse_task) \<noteq> []" by code_simp+
  then have mode: "octal_mode (Mode_GetValue (f_Mode recurse_task)) 0x1E8" by (simp add: octal_mode_def mode_of_nat_def)
  have here: "mem_view recurse_fs [] = Some Folder" "mem_view recurse_fs [''d''] = Some Folder" by code_simp+
  then have free: "\<forall>r. prefix r [''d''] \<longrightarrow> vacant (mem_view recurse_fs) (origin True (fs_cwd recurse_fs) @ r)"
    by (auto simp: vacant_def origin_def prefix_Cons)
  have there: "mem_view ?w [] = Some Folder" "mem_view ?w [''d''] = Some Folder" "mem_view ?w [''d'', ''e''] = Some Folder"
    "mem_view ?w [''d'', ''e'', ''f''] = Some (Document ''x'')" by code_simp+
  have sim: "simple ''e''" "simple ''f''" by code_simp+
  have ids: "GetUid no_users (f_Owner recurse_task) = Inr (-1)" "GetGid no_users (f_Group recurse_task) = Inr (-1)" by code_simp+
  obtain fi where fi: "mem_lstat ''/d/e/f'' ?w = Inr fi" "\<not> is_link fi"
  proof -
    have "(case mem_lstat ''/d/e/f'' ?w of Inr fi \<Rightarrow> \<not> is_link fi | Inl e \<Rightarrow> False)" by code_simp
    then show thesis using that by (auto split: sum.splits)
  qed
  have inside: "([''e'', ''f''], Document ''x'') \<in> contents (mem_view ?w) (origin True (fs_cwd ?w) @ [''d''])"
    using there sim by (simp add: contents_def origin_def clear_to_Cons)
  have name: "render_path True ([''d''] @ [''e'', ''f'']) = ''/d/e/f''" by code_simp
  have root: "mem_view recurse_fs (origin True (fs_cwd recurse_fs)) = Some Folder" using here by (simp add: origin_def)
  from recurse_reaches_all [OF memattr.attr_os_axioms task(1,2) path mode task(3) root free run]
  have "\<forall>(s, i) \<in> contents (mem_view ?w) (origin True (fs_cwd ?w) @ [''d'']).
      \<forall>fi. os_lstat mem_os (render_path True ([''d''] @ s)) ?w = Inr fi \<longrightarrow> wanted 0x1E8 (-1) (-1) fi"
    unfolding ids by blast
  from bspec [OF this inside] fi(1) have "wanted 0x1E8 (-1) (-1) fi" unfolding prod.case name mem_os_sel by blast
  with fi show ?thesis by blast
qed

end
