(* ===== verification/CommandModule.thy ===== *)
theory CommandModule
  imports GoStrings Result
begin

text \<open>
  Running commands: \<^verbatim>\<open>pkg/exec/command_executor.go\<close>, \<^verbatim>\<open>command.go\<close> and \<^verbatim>\<open>shell.go\<close>, with the
  expansion of \<^verbatim>\<open>os.ExpandEnv\<close> they use. The host (processes, the file name patterns of
  \<^verbatim>\<open>filepath.Glob\<close>, the environment and the clock) is a record of operations over the world.
\<close>

section \<open>os.ExpandEnv\<close>

definition is_special_var :: "char \<Rightarrow> bool" where
  "is_special_var c \<longleftrightarrow> c \<in> set ''*#$@!?-0123456789''"

definition is_alnum :: "char \<Rightarrow> bool" where
  "is_alnum c \<longleftrightarrow>
     (let n = (of_char c :: nat) in
      n = 95 \<or> (48 \<le> n \<and> n \<le> 57) \<or> (97 \<le> n \<and> n \<le> 122) \<or> (65 \<le> n \<and> n \<le> 90))"

text \<open>The text up to the closing brace, if there is one.\<close>

fun to_brace :: "string \<Rightarrow> string option" where
  "to_brace [] = None"
| "to_brace (c # s) = (if c = CHR ''}'' then Some [] else map_option ((#) c) (to_brace s))"

text \<open>The name after a dollar sign and the number of characters it takes.\<close>

definition getShellName :: "string \<Rightarrow> string \<times> nat" where
  "getShellName s =
     (case s of
        [] \<Rightarrow> ([], 0)
      | c # t \<Rightarrow>
          if c = CHR ''{'' then
            (if 2 < length s \<and> is_special_var (s ! 1) \<and> s ! 2 = CHR ''}'' then ([s ! 1], 3)
             else case to_brace t of
                    Some n \<Rightarrow> if n = [] then ([], 2) else (n, length n + 2)
                  | None \<Rightarrow> ([], 1))
          else if is_special_var c then ([c], 1)
          else (let n = takeWhile is_alnum s in (n, length n)))"

function expand :: "(string \<Rightarrow> string) \<Rightarrow> string \<Rightarrow> string" where
  "expand mapping [] = []"
| "expand mapping (c # s) =
     (if c = CHR ''$'' \<and> s \<noteq> [] then
        (case getShellName s of (name, k) \<Rightarrow>
           (if name = [] \<and> 0 < k then [] else if name = [] then [c] else mapping name) @
           expand mapping (drop k s))
      else c # expand mapping s)"
  by pat_completeness auto
termination by (relation "measure (length \<circ> snd)") auto

lemma expand_plain: "CHR ''$'' \<notin> set s \<Longrightarrow> expand mapping s = s"
  by (induction s) auto

section \<open>Processes\<close>

text \<open>What the setters of \<^verbatim>\<open>commandExecutor\<close> leave in the \<^verbatim>\<open>exec.Cmd\<close>; no standard input is \<open>None\<close>.\<close>

record exec_cmd =
  c_name :: string
  c_args :: "string list"
  c_dir :: string
  c_stdin :: "string option"

definition realCmdFactory :: "string \<Rightarrow> string list \<Rightarrow> exec_cmd" where
  "realCmdFactory name args = \<lparr> c_name = name, c_args = args, c_dir = [], c_stdin = None \<rparr>"

definition SetDir :: "string \<Rightarrow> exec_cmd \<Rightarrow> exec_cmd" where
  "SetDir dir c = c\<lparr>c_dir := dir\<rparr>"

definition SetStdin :: "string \<Rightarrow> exec_cmd \<Rightarrow> exec_cmd" where
  "SetStdin s c = c\<lparr>c_stdin := Some s\<rparr>"

text \<open>\<open>h_run\<close> gives what was written to standard output and error, and the error of \<^verbatim>\<open>Run\<close>.\<close>

record 'w host =
  h_glob :: "string \<Rightarrow> 'w \<Rightarrow> goerr + string list"
  h_run :: "exec_cmd \<Rightarrow> 'w \<Rightarrow> (string \<times> string \<times> goerr option) \<times> 'w"
  h_getenv :: "string \<Rightarrow> string"
  h_now :: "'w \<Rightarrow> int"

text \<open>\<^verbatim>\<open>errors.As(err, &ec)\<close> and \<^verbatim>\<open>ec.ExitCode()\<close>.\<close>

definition exit_code :: "goerr \<Rightarrow> int option" where
  "exit_code e = (case unwrapped e of ExitError c \<Rightarrow> Some c | _ \<Rightarrow> None)"

definition command_stdin :: "string \<Rightarrow> bool option \<Rightarrow> string" where
  "command_stdin stdin addNewline =
     (if addNewline = None \<or> addNewline = Some True then stdin @ [CHR 0x0A] else stdin)"

definition prepared :: "string \<Rightarrow> string \<Rightarrow> bool option \<Rightarrow> string \<Rightarrow> string list \<Rightarrow> exec_cmd" where
  "prepared chdir stdin addNewline name args =
     (let c0 = realCmdFactory name args;
          c1 = (if chdir \<noteq> [] then SetDir chdir c0 else c0)
      in if stdin \<noteq> [] then SetStdin (command_stdin stdin addNewline) c1 else c1)"

definition ApplyCommand ::
  "'w host \<Rightarrow> string \<Rightarrow> string \<Rightarrow> bool option \<Rightarrow> string \<Rightarrow> string list \<Rightarrow> 'w \<Rightarrow>
   (string \<times> string \<times> int \<times> goerr option) \<times> 'w" where
  "ApplyCommand h chdir stdin addNewline name args w =
     (case h_run h (prepared chdir stdin addNewline name args) w of ((out, errout, err), w') \<Rightarrow>
        (let rc = (case err of
                     None \<Rightarrow> 0
                   | Some e \<Rightarrow> (case exit_code e of Some c \<Rightarrow> c | None \<Rightarrow> -1))
         in ((out, errout, rc, err), w')))"

definition validateCmd :: "string list \<Rightarrow> string \<Rightarrow> string \<Rightarrow> bool option \<Rightarrow> goerr option" where
  "validateCmd argv cmd stdin addNewline =
     (if cmd \<noteq> [] \<and> length argv \<noteq> 0
      then Some (ErrMsg (''cmd and argv can'' @ [CHR 0x27] @ ''t be both specified at the same time''))
      else if cmd = [] \<and> length argv = 0 then Some (ErrMsg ''either cmd or argv need to be specified'')
      else if stdin = [] \<and> addNewline = Some True
      then Some (ErrMsg (''stdin_add_newline can'' @ [CHR 0x27] @ ''t be set if stdin is unset''))
      else None)"

definition shouldApply :: "'w host \<Rightarrow> string \<Rightarrow> string \<Rightarrow> 'w \<Rightarrow> goerr + bool" where
  "shouldApply h creates removes w =
     (if creates \<noteq> [] then
        (case h_glob h creates w of Inl e \<Rightarrow> Inl e | Inr ms \<Rightarrow> Inr (length ms = 0))
      else if removes \<noteq> [] then
        (case h_glob h removes w of Inl e \<Rightarrow> Inl e | Inr ms \<Rightarrow> Inr (0 < length ms))
      else Inr True)"

section \<open>command\<close>

record Command =
  cm_Cmd :: string
  cm_Argv :: "string list"
  cm_Creates :: string
  cm_Removes :: string
  cm_Chdir :: string
  cm_ExpandArgumentVars :: bool
  cm_Stdin :: string
  cm_StdinAddNewline :: "bool option"
  cm_StripEmptyEnds :: "bool option"

definition Command_zero :: Command where
  "Command_zero = \<lparr> cm_Cmd = [], cm_Argv = [], cm_Creates = [], cm_Removes = [], cm_Chdir = [],
     cm_ExpandArgumentVars = False, cm_Stdin = [], cm_StdinAddNewline = None, cm_StripEmptyEnds = None \<rparr>"

record CommandResult = CommonResult +
  cr_Cmd :: "string list"
  cr_Delta :: int
  cr_End :: int
  cr_Start :: int

text \<open>The zero time of Go, 1 January of the year 1, in nanoseconds of Unix time.\<close>

definition zero_time :: int where "zero_time = -62135596800000000000"

definition CommandResult_zero :: CommandResult where
  "CommandResult_zero = CommonResult.extend CommonResult_zero (CommandResult.fields [] 0 zero_time zero_time)"

definition Command_Validate :: "Command \<Rightarrow> goerr option" where
  "Command_Validate c = validateCmd (cm_Argv c) (cm_Cmd c) (cm_Stdin c) (cm_StdinAddNewline c)"

text \<open>The words of the command; the first one is taken by index, which panics when there is none.\<close>

definition first_rest :: "string list \<Rightarrow> goerr + string \<times> string list" where
  "first_rest ws = (case ws of [] \<Rightarrow> Inl (Panic ''index out of range'') | n # as \<Rightarrow> Inr (n, as))"

definition command_words :: "'w host \<Rightarrow> Command \<Rightarrow> goerr + string \<times> string list" where
  "command_words h c =
     (if cm_Cmd c \<noteq> [] then
        (if cm_ExpandArgumentVars c then first_rest (GoStrings.fields (expand (h_getenv h) (cm_Cmd c)))
         else first_rest (GoStrings.fields (cm_Cmd c)))
      else if length (cm_Argv c) \<noteq> 0 then
        (if cm_ExpandArgumentVars c then first_rest (List.map (expand (h_getenv h)) (cm_Argv c))
         else first_rest (cm_Argv c))
      else Inr ([], []))"

text \<open>The handler. A panic takes the place of the result, which is then failed by convention.\<close>

definition Command_Apply :: "'w host \<Rightarrow> Command \<Rightarrow> 'w \<Rightarrow> CommandResult \<times> goerr option \<times> 'w" where
  "Command_Apply h c w =
     (case command_words h c of
        Inl e \<Rightarrow> (TaskFailed CommandResult_zero, Some e, w)
      | Inr (name, args) \<Rightarrow>
          (let result = CommandResult_zero\<lparr>cr_Cmd := name # args\<rparr> in
           case shouldApply h (cm_Creates c) (cm_Removes c) w of
             Inl e \<Rightarrow> (TaskFailed result, Some (Wrap ''failed to check creates/removes'' e), w)
           | Inr False \<Rightarrow> (TaskSkipped result, None, w)
           | Inr True \<Rightarrow>
               (case ApplyCommand h (cm_Chdir c) (cm_Stdin c) (cm_StdinAddNewline c) name args w of
                  ((out, errout, rc, err), w') \<Rightarrow>
                    (let result = result\<lparr>cr_Start := h_now h w, cr_End := h_now h w',
                                         cr_Delta := h_now h w' - h_now h w,
                                         Stdout := out, Stderr := errout, RC := rc\<rparr>
                     in case err of
                          Some e \<Rightarrow> (TaskFailed result, Some (Wrap ''failed to execute command'' e), w')
                        | None \<Rightarrow> (TaskChanged result, None, w')))))"

section \<open>shell\<close>

record Shell =
  sh_Argv :: "string list"
  sh_Chdir :: string
  sh_Cmd :: string
  sh_Creates :: string
  sh_Executable :: string
  sh_Removes :: string
  sh_Stdin :: string
  sh_StdinAddNewline :: "bool option"

record ShellResult = CommonResult +
  sr_Cmd :: string
  sr_Delta :: int
  sr_End :: int
  sr_Start :: int

definition ShellResult_zero :: ShellResult where
  "ShellResult_zero = CommonResult.extend CommonResult_zero (ShellResult.fields [] 0 zero_time zero_time)"

definition Shell_Validate :: "Shell \<Rightarrow> goerr option" where
  "Shell_Validate s = validateCmd (sh_Argv s) (sh_Cmd s) (sh_Stdin s) (sh_StdinAddNewline s)"

definition shell_name :: "Shell \<Rightarrow> string" where
  "shell_name s = (if sh_Executable s \<noteq> [] then sh_Executable s else ''/bin/sh'')"

definition shell_text :: "Shell \<Rightarrow> string" where
  "shell_text s =
     (if sh_Cmd s \<noteq> [] then sh_Cmd s
      else if length (sh_Argv s) \<noteq> 0 then join_with '' '' (sh_Argv s) else [])"

definition Shell_Apply :: "'w host \<Rightarrow> Shell \<Rightarrow> 'w \<Rightarrow> ShellResult \<times> goerr option \<times> 'w" where
  "Shell_Apply h s w =
     (let name = shell_name s;
          args = [''-c'', shell_text s];
          result = ShellResult_zero\<lparr>sr_Cmd := shell_text s\<rparr>
      in case shouldApply h (sh_Creates s) (sh_Removes s) w of
           Inl e \<Rightarrow> (TaskFailed result, Some (Wrap ''failed to check creates/removes'' e), w)
         | Inr False \<Rightarrow> (TaskSkipped result, None, w)
         | Inr True \<Rightarrow>
             (case ApplyCommand h (sh_Chdir s) (sh_Stdin s) (sh_StdinAddNewline s) name args w of
                ((out, errout, rc, err), w') \<Rightarrow>
                  (let result = result\<lparr>sr_Start := h_now h w, sr_End := h_now h w',
                                       sr_Delta := h_now h w' - h_now h w,
                                       Stdout := out, Stderr := errout, RC := rc\<rparr>
                   in case err of
                        Some e \<Rightarrow> (TaskFailed result, Some (Wrap ''failed to execute command'' e), w')
                      | None \<Rightarrow> (TaskChanged result, None, w'))))"

end
