(* ===== verification/CommandProps.thy ===== *)
theory CommandProps
  imports CommandModule
begin

text \<open>
  Properties of \<^verbatim>\<open>command\<close> and \<^verbatim>\<open>shell\<close>: the module contract, the guards \<^verbatim>\<open>creates\<close> and \<^verbatim>\<open>removes\<close>,
  the panic on a blank command, and \<^verbatim>\<open>shell\<close> as a special case of \<^verbatim>\<open>command\<close>.
\<close>

section \<open>The contract of a module\<close>

lemma command_zero_flags [simp]:
  "\<not> Failed CommandResult_zero" "\<not> Changed CommandResult_zero" "\<not> Skipped CommandResult_zero"
  "\<not> Failed ShellResult_zero" "\<not> Changed ShellResult_zero" "\<not> Skipped ShellResult_zero"
  by (simp_all add: CommandResult_zero_def ShellResult_zero_def CommonResult_zero_def CommonResult.extend_def)

lemma command_fields_flags [simp]:
  "Failed (r\<lparr>cr_Cmd := x\<rparr>) = Failed r" "Changed (r\<lparr>cr_Cmd := x\<rparr>) = Changed r" "Skipped (r\<lparr>cr_Cmd := x\<rparr>) = Skipped r"
  "Failed (s\<lparr>sr_Cmd := y\<rparr>) = Failed s" "Changed (s\<lparr>sr_Cmd := y\<rparr>) = Changed s" "Skipped (s\<lparr>sr_Cmd := y\<rparr>) = Skipped s"
  by simp_all

interpretation command: task_module "Command_Apply h c" for h c
  by unfold_locales
    (auto simp: Command_Apply_def Let_def TaskFailed_def TaskSkipped_def TaskChanged_def
      split: sum.splits prod.splits option.splits bool.splits)

interpretation shell: task_module "Shell_Apply h s" for h s
  by unfold_locales
    (auto simp: Shell_Apply_def Let_def TaskFailed_def TaskSkipped_def TaskChanged_def
      split: sum.splits prod.splits option.splits bool.splits)

section \<open>The cases of a run\<close>

lemma Command_Apply_cases [consumes 1, case_names panic glob skip run]:
  assumes "Command_Apply h c w = (r, err, w')"
  obtains (panic) e where "command_words h c = Inl e" "err = Some e" "w' = w" "Failed r"
    | (glob) e where "shouldApply h (cm_Creates c) (cm_Removes c) w = Inl e" "w' = w"
        "err = Some (Wrap ''failed to check creates/removes'' e)"
    | (skip) "shouldApply h (cm_Creates c) (cm_Removes c) w = Inr False" "w' = w" "err = None" "Skipped r"
    | (run) name args out errout e where "command_words h c = Inr (name, args)"
        "shouldApply h (cm_Creates c) (cm_Removes c) w = Inr True"
        "h_run h (prepared (cm_Chdir c) (cm_Stdin c) (cm_StdinAddNewline c) name args) w = ((out, errout, e), w')"
        "err = map_option (Wrap ''failed to execute command'') e"
        "Stdout r = out" "Stderr r = errout" "Changed r = (e = None)" "cr_Cmd r = name # args"
        "RC r = (case e of None \<Rightarrow> 0 | Some e1 \<Rightarrow> (case exit_code e1 of Some k \<Rightarrow> k | None \<Rightarrow> -1))"
        "\<not> Skipped r"
proof (cases "command_words h c")
  case (Inl e)
  with assms have "err = Some e" "w' = w" "Failed r" by (auto simp: Command_Apply_def)
  with Inl show ?thesis by (rule panic)
next
  case words: (Inr na)
  obtain name args where na: "na = (name, args)" by fastforce
  show ?thesis
  proof (cases "shouldApply h (cm_Creates c) (cm_Removes c) w")
    case (Inl e)
    with assms words na have "w' = w" "err = Some (Wrap ''failed to check creates/removes'' e)"
      by (auto simp: Command_Apply_def Let_def)
    with Inl show ?thesis by (rule glob)
  next
    case sa: (Inr b)
    show ?thesis
    proof (cases b)
      case False
      with assms words na sa have "w' = w" "err = None" "Skipped r"
        by (auto simp: Command_Apply_def Let_def)
      with sa False show ?thesis by (intro skip) simp_all
    next
      case True
      obtain x w1 where x: "h_run h (prepared (cm_Chdir c) (cm_Stdin c) (cm_StdinAddNewline c) name args) w = (x, w1)"
        by fastforce
      obtain out errout e where x': "x = (out, errout, e)" by (rule prod_cases3)
      note run_facts = words [unfolded na] sa [unfolded True, simplified] x [unfolded x']
      have eqs: "err = map_option (Wrap ''failed to execute command'') e" "w' = w1"
        "Stdout r = out" "Stderr r = errout" "Changed r = (e = None)" "cr_Cmd r = name # args"
        "RC r = (case e of None \<Rightarrow> 0 | Some e1 \<Rightarrow> (case exit_code e1 of Some k \<Rightarrow> k | None \<Rightarrow> -1))"
        "\<not> Skipped r"
        using assms True run_facts sa na
        by (auto simp: Command_Apply_def ApplyCommand_def Let_def TaskChanged_def TaskFailed_def
            split: option.splits)
      show ?thesis using run_facts eqs sa True by (intro run) simp_all
    qed
  qed
qed

section \<open>Guards\<close>

lemma shouldApply_creates:
  "creates \<noteq> [] \<Longrightarrow> h_glob h creates w = Inr ms \<Longrightarrow> shouldApply h creates removes w = Inr (ms = [])"
  by (simp add: shouldApply_def)

lemma command_skips:
  assumes "command_words h c = Inr na" "shouldApply h (cm_Creates c) (cm_Removes c) w = Inr False"
  shows "\<exists>r. Command_Apply h c w = (r, None, w) \<and> Skipped r \<and> \<not> Changed r"
  using assms by (cases na) (simp add: Command_Apply_def Let_def)

text \<open>
  C22. A command guarded by \<^verbatim>\<open>creates\<close> is idempotent: if a run succeeds and the pattern matches
  something afterwards, the next run is skipped, reports no change and starts no process.
\<close>

theorem command_creates_idempotent:
  assumes "cm_Creates c \<noteq> []" and "Command_Apply h c w = (r, None, w')"
    and "h_glob h (cm_Creates c) w' = Inr (m # ms)"
  shows "\<exists>r'. Command_Apply h c w' = (r', None, w') \<and> Skipped r' \<and> \<not> Changed r'"
proof -
  obtain na where "command_words h c = Inr na"
    using assms(2) by (cases "command_words h c") (auto simp: Command_Apply_def)
  moreover have "shouldApply h (cm_Creates c) (cm_Removes c) w' = Inr False"
    using shouldApply_creates [OF assms(1,3)] by simp
  ultimately show ?thesis by (rule command_skips)
qed

text \<open>A host whose world is the list of its files and whose commands create their last argument.\<close>

definition toy_host :: "string list host" where
  "toy_host =
     \<lparr> h_glob = (\<lambda>p w. Inr (filter (\<lambda>f. f = p) w)),
       h_run = (\<lambda>c w. (([], [], None), last (c_name c # c_args c) # w)),
       h_getenv = (\<lambda>v. []), h_now = (\<lambda>w. int (length w)) \<rparr>"

definition touch_command :: Command where
  "touch_command = Command_zero\<lparr>cm_Cmd := ''touch /a'', cm_Creates := ''/a''\<rparr>"

theorem command_creates_idempotent_witness:
  "\<exists>r'. Command_Apply toy_host touch_command [''/a''] = (r', None, [''/a'']) \<and> Skipped r' \<and> \<not> Changed r'"
proof (rule command_creates_idempotent)
  let ?run = "Command_Apply toy_host touch_command []"
  show "cm_Creates touch_command \<noteq> []" by (simp add: touch_command_def)
  have "fst (snd ?run) = None" "snd (snd ?run) = [''/a'']" by code_simp+
  then show "?run = (fst ?run, None, [''/a''])" by (simp add: prod_eq_iff)
  show "h_glob toy_host (cm_Creates touch_command) [''/a''] = Inr [''/a'']" by code_simp
qed

text \<open>
  C23. What a run reports is what the process did: unless the guards skip it or its preparation
  fails, the command's words are run once, with the working directory and the standard input
  of the task, and output, return code, change and failure are those of that process; the error that is returned, which
  stops the play, is the error of the process, and there is none exactly if the process succeeded.
\<close>

theorem command_reports_process:
  assumes "command_words h c = Inr (name, args)"
    and "shouldApply h (cm_Creates c) (cm_Removes c) w = Inr True"
    and "h_run h (prepared (cm_Chdir c) (cm_Stdin c) (cm_StdinAddNewline c) name args) w = ((out, errout, e), w1)"
    and "Command_Apply h c w = (r, err, w')"
  shows "w' = w1 \<and> err = map_option (Wrap ''failed to execute command'') e \<and> Stdout r = out \<and> Stderr r = errout \<and> cr_Cmd r = name # args \<and>
    Changed r = (e = None) \<and> Failed r = (e \<noteq> None) \<and>
    RC r = (case e of None \<Rightarrow> 0 | Some e1 \<Rightarrow> (case exit_code e1 of Some k \<Rightarrow> k | None \<Rightarrow> -1))"
  using assms(4)
proof (cases rule: Command_Apply_cases)
  case (run name' args' out' errout' e')
  with assms command.failed_iff [OF assms(4)] show ?thesis by auto
qed (use assms in auto)

definition false_command :: Command where
  "false_command = Command_zero\<lparr>cm_Argv := [''sh'', ''-c'', ''exit 3''], cm_Chdir := ''/srv''\<rparr>"

definition exit_host :: "nat host" where
  "exit_host = \<lparr> h_glob = (\<lambda>p w. Inr []), h_run = (\<lambda>c w. ((''o'', c_dir c, Some (ExitError 3)), Suc w)),
                 h_getenv = (\<lambda>v. []), h_now = int \<rparr>"

theorem command_reports_process_witness:
  "RC (fst (Command_Apply exit_host false_command 0)) = 3 \<and>
   Stderr (fst (Command_Apply exit_host false_command 0)) = ''/srv'' \<and>
   Failed (fst (Command_Apply exit_host false_command 0)) \<and>
   fst (snd (Command_Apply exit_host false_command 0)) = Some (Wrap ''failed to execute command'' (ExitError 3))"
proof -
  let ?run = "Command_Apply exit_host false_command 0"
  have "?run = (fst ?run, fst (snd ?run), snd (snd ?run))" by simp
  from command_reports_process [of exit_host false_command "''sh''" "[''-c'', ''exit 3'']" 0
      "''o''" "''/srv''" "Some (ExitError 3)" "Suc 0", OF _ _ _ this]
  show ?thesis
    by (simp add: exit_host_def false_command_def Command_zero_def command_words_def first_rest_def
        shouldApply_def prepared_def realCmdFactory_def SetDir_def exit_code_def)
qed

section \<open>Panics\<close>

text \<open>What is asked of the host: patterns and processes fail without a panic.\<close>

definition calm_host :: "'w host \<Rightarrow> bool" where
  "calm_host h \<longleftrightarrow>
     (\<forall>p w e. h_glob h p w = Inl e \<longrightarrow> \<not> is_panic e) \<and>
     (\<forall>c w out errout e w'. h_run h c w = ((out, errout, Some e), w') \<longrightarrow> \<not> is_panic e)"

lemma shouldApply_calm: "calm_host h \<Longrightarrow> shouldApply h cr re w = Inl e \<Longrightarrow> \<not> is_panic e"
  by (auto simp: shouldApply_def calm_host_def split: if_splits sum.splits)

lemma words_panic: "command_words h c = Inl e \<Longrightarrow> is_panic e"
  by (auto simp: command_words_def first_rest_def split: if_splits list.splits)

definition expanded_command :: "'w host \<Rightarrow> Command \<Rightarrow> string" where
  "expanded_command h c = (if cm_ExpandArgumentVars c then expand (h_getenv h) (cm_Cmd c) else cm_Cmd c)"

lemma words_Inl:
  "(\<exists>e. command_words h c = Inl e) \<longleftrightarrow> cm_Cmd c \<noteq> [] \<and> (\<forall>x\<in>set (expanded_command h c). is_space x)"
proof -
  have fr: "(\<exists>e. first_rest ws = Inl e) \<longleftrightarrow> ws = []" for ws
    by (cases ws) (simp_all add: first_rest_def)
  have fr': "(\<forall>e. first_rest ws \<noteq> Inl e) \<longleftrightarrow> ws \<noteq> []" for ws using fr [of ws] by blast
  show ?thesis
    by (cases "cm_Cmd c = []"; cases "cm_Argv c = []")
      (simp_all add: command_words_def expanded_command_def fr fr' fields_Nil_iff)
qed

text \<open>
  C33. A validated command panics exactly when its \<^verbatim>\<open>cmd\<close> is blank, or becomes blank when the
  environment variables are expanded: \<^verbatim>\<open>strings.Fields\<close> then gives no word to index.
\<close>

theorem command_panics_iff_blank:
  assumes "calm_host h" and "Command_Validate c = None" and "Command_Apply h c w = (r, err, w')"
  shows "(\<exists>e. err = Some e \<and> is_panic e) \<longleftrightarrow>
    cm_Cmd c \<noteq> [] \<and> (\<forall>x\<in>set (expanded_command h c). is_space x)"
  using assms(3)
proof (cases rule: Command_Apply_cases)
  case (panic e)
  with words_panic words_Inl [of h c] show ?thesis by auto
next
  case (glob e)
  have calm: "\<not> is_panic e" by (rule shouldApply_calm [OF assms(1) glob(1)])
  have "\<nexists>e. command_words h c = Inl e"
  proof
    assume "\<exists>e. command_words h c = Inl e"
    then obtain e2 where e2: "command_words h c = Inl e2" by blast
    with assms(3) have "err = Some e2" by (auto simp: Command_Apply_def)
    with glob(3) words_panic [OF e2] calm show False by auto
  qed
  with words_Inl [of h c] glob(3) calm show ?thesis by simp
next
  case skip
  have "\<nexists>e. command_words h c = Inl e"
    using assms(3) skip by (auto simp: Command_Apply_def)
  with words_Inl [of h c] skip show ?thesis by auto
next
  case (run name args out errout e)
  have "\<nexists>e. command_words h c = Inl e" using run(1) by simp
  moreover have "\<not> is_panic e1" if "e = Some e1" for e1
    using assms(1) run(3) that unfolding calm_host_def by blast
  ultimately show ?thesis using words_Inl [of h c] run(4) by (cases e) auto
qed

definition blank_command :: Command where
  "blank_command = Command_zero\<lparr>cm_Cmd := ''$NOTSET'', cm_ExpandArgumentVars := True\<rparr>"

theorem command_panics_iff_blank_witness:
  "\<exists>e. fst (snd (Command_Apply toy_host blank_command [])) = Some e \<and> is_panic e"
proof -
  let ?run = "Command_Apply toy_host blank_command []"
  have calm: "calm_host toy_host" by (simp add: calm_host_def toy_host_def)
  have val: "Command_Validate blank_command = None" by code_simp
  have blank: "expanded_command toy_host blank_command = []" by code_simp
  have "?run = (fst ?run, fst (snd ?run), snd (snd ?run))" by simp
  from command_panics_iff_blank [OF calm val this] show ?thesis
    by (simp add: blank) (simp add: blank_command_def)
qed

section \<open>Shell and command\<close>

definition shell_as_command :: "Shell \<Rightarrow> Command" where
  "shell_as_command s = Command_zero
     \<lparr>cm_Argv := [shell_name s, ''-c'', shell_text s], cm_Creates := sh_Creates s, cm_Removes := sh_Removes s,
      cm_Chdir := sh_Chdir s, cm_Stdin := sh_Stdin s, cm_StdinAddNewline := sh_StdinAddNewline s\<rparr>"

text \<open>
  C35. \<^verbatim>\<open>shell\<close> is \<^verbatim>\<open>command\<close> on the argument vector of its executable, \<^verbatim>\<open>-c\<close> and its text: both
  have the same effect on the machine, the same error and the same common result.
\<close>

theorem shell_refines_command:
  "(case Shell_Apply h s w of (r, err, w') \<Rightarrow> (CommonResult.truncate r, err, w')) =
   (case Command_Apply h (shell_as_command s) w of (r, err, w') \<Rightarrow> (CommonResult.truncate r, err, w'))"
proof -
  have words: "command_words h (shell_as_command s) = Inr (shell_name s, [''-c'', shell_text s])"
    by (simp add: command_words_def shell_as_command_def Command_zero_def first_rest_def)
  have sel: "cm_Creates (shell_as_command s) = sh_Creates s" "cm_Removes (shell_as_command s) = sh_Removes s"
    "cm_Chdir (shell_as_command s) = sh_Chdir s" "cm_Stdin (shell_as_command s) = sh_Stdin s"
    "cm_StdinAddNewline (shell_as_command s) = sh_StdinAddNewline s"
    by (simp_all add: shell_as_command_def)
  show ?thesis
    unfolding Shell_Apply_def Command_Apply_def words sel Let_def
    by (simp add: CommonResult.truncate_def TaskFailed_def TaskSkipped_def TaskChanged_def
        CommandResult_zero_def ShellResult_zero_def CommonResult.extend_def
        split: sum.split prod.split option.split bool.split)
qed

end
