(* ===== verification/AptModule.thy ===== *)
theory AptModule
  imports Os Result
begin

text \<open>
  The \<^verbatim>\<open>apt\<close> and \<^verbatim>\<open>apt_repository\<close> modules: \<^verbatim>\<open>pkg/exec/apt.go\<close>, \<^verbatim>\<open>apt_client.go\<close> and
  \<^verbatim>\<open>apt_repository.go\<close>, and the YAML aliases of their messages. The package manager is the interface
  \<^verbatim>\<open>aptClient\<close>, a record of operations over the world; the library behind it is not under \<^verbatim>\<open>src/\<close>.
\<close>

section \<open>The client\<close>

text \<open>
  A package is built and compared by its name alone. A repository is what the client's parser
  makes of a line; the program reads its URI. Outputs that the modules drop are left out.
\<close>

record package =
  pk_Name :: string

record repository =
  re_Line :: string
  re_URI :: string

record 'w aptClient =
  ac_CheckForUpdates :: "'w \<Rightarrow> goerr option \<times> 'w"
  ac_Clean :: "'w \<Rightarrow> goerr option \<times> 'w"
  ac_DistUpgrade :: "'w \<Rightarrow> goerr option \<times> 'w"
  ac_Install :: "package list \<Rightarrow> 'w \<Rightarrow> goerr option \<times> 'w"
  ac_ListInstalled :: "'w \<Rightarrow> goerr + package list"
  ac_Remove :: "package list \<Rightarrow> 'w \<Rightarrow> goerr option \<times> 'w"
  ac_UpgradeAll :: "'w \<Rightarrow> goerr option \<times> 'w"
  ac_ParseAPTConfigFolder :: "string \<Rightarrow> 'w \<Rightarrow> goerr + repository list"
  ac_ParseAPTConfigLine :: "string \<Rightarrow> repository option"
  ac_AddRepository :: "repository \<Rightarrow> string \<Rightarrow> string \<Rightarrow> 'w \<Rightarrow> goerr option \<times> 'w"
  ac_RemoveRepository :: "repository \<Rightarrow> string \<Rightarrow> 'w \<Rightarrow> goerr option \<times> 'w"
  ac_Find :: "repository list \<Rightarrow> repository \<Rightarrow> repository option"

text \<open>
  \<^verbatim>\<open>realAptClient\<close> passes every call on to the library, whose commands answer with their output as bytes; the conversion
  to a string goes with the outputs that are left out.
\<close>

record 'w apt_lib =
  al_CheckForUpdates :: "'w \<Rightarrow> (bytes \<times> goerr option) \<times> 'w"
  al_Clean :: "'w \<Rightarrow> (bytes \<times> goerr option) \<times> 'w"
  al_DistUpgrade :: "'w \<Rightarrow> (bytes \<times> goerr option) \<times> 'w"
  al_Install :: "package list \<Rightarrow> 'w \<Rightarrow> (bytes \<times> goerr option) \<times> 'w"
  al_ListInstalled :: "'w \<Rightarrow> goerr + package list"
  al_Remove :: "package list \<Rightarrow> 'w \<Rightarrow> (bytes \<times> goerr option) \<times> 'w"
  al_UpgradeAll :: "'w \<Rightarrow> (bytes \<times> goerr option) \<times> 'w"
  al_ParseAPTConfigFolder :: "string \<Rightarrow> 'w \<Rightarrow> goerr + repository list"
  al_ParseAPTConfigLine :: "string \<Rightarrow> repository option"
  al_AddRepository :: "repository \<Rightarrow> string \<Rightarrow> string \<Rightarrow> 'w \<Rightarrow> goerr option \<times> 'w"
  al_RemoveRepository :: "repository \<Rightarrow> string \<Rightarrow> 'w \<Rightarrow> goerr option \<times> 'w"
  al_Find :: "repository list \<Rightarrow> repository \<Rightarrow> repository option"

definition error_of :: "(bytes \<times> goerr option) \<times> 'w \<Rightarrow> goerr option \<times> 'w" where
  "error_of x = (case x of ((out, err), w) \<Rightarrow> (err, w))"

definition realAptClient :: "'w apt_lib \<Rightarrow> 'w aptClient" where
  "realAptClient l =
     \<lparr> ac_CheckForUpdates = (\<lambda>w. error_of (al_CheckForUpdates l w)), ac_Clean = (\<lambda>w. error_of (al_Clean l w)),
       ac_DistUpgrade = (\<lambda>w. error_of (al_DistUpgrade l w)), ac_Install = (\<lambda>pkgs w. error_of (al_Install l pkgs w)),
       ac_ListInstalled = al_ListInstalled l, ac_Remove = (\<lambda>pkgs w. error_of (al_Remove l pkgs w)),
       ac_UpgradeAll = (\<lambda>w. error_of (al_UpgradeAll l w)), ac_ParseAPTConfigFolder = al_ParseAPTConfigFolder l,
       ac_ParseAPTConfigLine = al_ParseAPTConfigLine l, ac_AddRepository = al_AddRepository l,
       ac_RemoveRepository = al_RemoveRepository l, ac_Find = al_Find l \<rparr>"

text \<open>What else the modules use: \<^verbatim>\<open>fs.Stat(a.aptFS, "lists")\<close> (its modification time) and the clock.\<close>

record 'w apt_env =
  ae_client :: "'w aptClient"
  ae_lists :: "'w \<Rightarrow> errno + int"
  ae_now :: "'w \<Rightarrow> int"

section \<open>apt\<close>

definition AptAbsent :: string where "AptAbsent = ''absent''"
definition AptBuildDep :: string where "AptBuildDep = ''build-dep''"
definition AptLatest :: string where "AptLatest = ''latest''"
definition AptPresent :: string where "AptPresent = ''present''"
definition AptFixed :: string where "AptFixed = ''fixed''"

definition AptUpgradeYes :: string where "AptUpgradeYes = ''yes''"
definition AptUpgradeFull :: string where "AptUpgradeFull = ''full''"
definition AptUpgradeDist :: string where "AptUpgradeDist = ''dist''"
definition AptUpgradeSafe :: string where "AptUpgradeSafe = ''safe''"
definition AptUpgradeNo :: string where "AptUpgradeNo = ''no''"

lemmas apt_consts = AptAbsent_def AptLatest_def AptPresent_def AptUpgradeYes_def AptUpgradeFull_def
  AptUpgradeDist_def AptUpgradeSafe_def AptUpgradeNo_def

record PackageList =
  pl_Items :: "string list"

record Apt =
  ap_AllowChangeHeldPackages :: bool
  ap_AllowDowngrade :: bool
  ap_AllowUnauthenticated :: bool
  ap_AutoInstallModuleDeps :: "bool option"
  ap_Autoclean :: bool
  ap_Autoremove :: bool
  ap_CacheValidTime :: "nat option"
  ap_Clean :: bool
  ap_Deb :: string
  ap_DefaultRelease :: string
  ap_DpkgOptions :: string
  ap_FailOnAutoremove :: bool
  ap_Force :: bool
  ap_ForceAptGet :: bool
  ap_InstallRecommends :: bool
  ap_LockTimeout :: int
  ap_Name :: "PackageList option"
  ap_OnlyUpgrade :: bool
  ap_PolicyRcD :: int
  ap_Purge :: bool
  ap_State :: string
  ap_UpdateCache :: "bool option"
  ap_UpdateCacheRetries :: nat
  ap_UpdateCacheRetryMaxDelay :: nat
  ap_Upgrade :: string

definition Apt_zero :: Apt where
  "Apt_zero =
     \<lparr> ap_AllowChangeHeldPackages = False, ap_AllowDowngrade = False, ap_AllowUnauthenticated = False,
       ap_AutoInstallModuleDeps = None, ap_Autoclean = False, ap_Autoremove = False, ap_CacheValidTime = None,
       ap_Clean = False, ap_Deb = [], ap_DefaultRelease = [], ap_DpkgOptions = [], ap_FailOnAutoremove = False,
       ap_Force = False, ap_ForceAptGet = False, ap_InstallRecommends = False, ap_LockTimeout = 0,
       ap_Name = None, ap_OnlyUpgrade = False, ap_PolicyRcD = 0, ap_Purge = False, ap_State = [],
       ap_UpdateCache = None, ap_UpdateCacheRetries = 0, ap_UpdateCacheRetryMaxDelay = 0, ap_Upgrade = [] \<rparr>"

record AptResult = CommonResult +
  ar_CacheUpdateTime :: int
  ar_CacheUpdated :: bool

definition go_zero_time :: int where "go_zero_time = -62135596800000000000"

definition AptResult_zero :: AptResult where
  "AptResult_zero = CommonResult.extend CommonResult_zero (AptResult.fields go_zero_time False)"

definition Apt_Validate :: "Apt \<Rightarrow> goerr option" where
  "Apt_Validate a =
     (if ap_Upgrade a \<notin> {AptUpgradeYes, AptUpgradeNo, AptUpgradeFull, AptUpgradeDist, AptUpgradeSafe, []}
      then Some (ErrMsg (''unsupported upgrade mode: '' @ ap_Upgrade a))
      else if ap_State a \<notin> {AptAbsent, AptPresent, AptLatest, []}
      then Some (ErrMsg (''unsupported state: '' @ ap_State a))
      else None)"

text \<open>
  \<^verbatim>\<open>time.Since(t).Seconds() > float64(valid)\<close>, in nanoseconds. The conversion to floating point
  (exact up to a rounding below a microsecond) is not modelled.
\<close>

definition older_than :: "int \<Rightarrow> nat \<Rightarrow> bool" where
  "older_than elapsed valid \<longleftrightarrow> int valid * 1000000000 < elapsed"

text \<open>
  The cache refresh. \<open>cacheInfo\<close> is a pointer that is nil when the directory does not exist:
  reading its time then is a panic. The result is (updated, time) with the error, if any.
\<close>

definition mod_time :: "int option \<Rightarrow> goerr + int" where
  "mod_time info = (case info of None \<Rightarrow> Inl (Panic ''nil pointer dereference'') | Some t \<Rightarrow> Inr t)"

definition wants_update :: "Apt \<Rightarrow> bool" where
  "wants_update a \<longleftrightarrow> ap_UpdateCache a \<noteq> None \<and> the (ap_UpdateCache a)"

type_synonym update_result = "goerr + bool \<times> int"

definition update_missing :: "'w apt_env \<Rightarrow> int \<Rightarrow> 'w \<Rightarrow> update_result \<times> 'w" where
  "update_missing e before w =
     (case ac_CheckForUpdates (ae_client e) w of
        (Some err, w') \<Rightarrow> (Inl err, w')
      | (None, w') \<Rightarrow>
          (case ae_lists e w' of
             Inl n \<Rightarrow>
               if is_not_exist n then (Inr (True, ae_now e w'), w')
               else (Inl (Wrap ''failed to check cache after update'' (OsErr n)), w')
           | Inr after \<Rightarrow> (Inr (after \<noteq> before, after), w')))"

definition update_existing :: "'w apt_env \<Rightarrow> int \<Rightarrow> 'w \<Rightarrow> update_result \<times> 'w" where
  "update_existing e before w =
     (case ac_CheckForUpdates (ae_client e) w of
        (Some err, w') \<Rightarrow> (Inl err, w')
      | (None, w') \<Rightarrow>
          (case ae_lists e w' of
             Inl n \<Rightarrow>
               if is_not_exist n then (Inl (ErrMsg ''cache directory disappeared after update''), w')
               else (Inl (Wrap ''failed to check cache after update'' (OsErr n)), w')
           | Inr after \<Rightarrow> (Inr (after \<noteq> before, after), w')))"

text \<open>\<^verbatim>\<open>a.UpdateCache != nil && *a.UpdateCache || a.CacheValidTime != nil && time.Since(...) > ...\<close>\<close>

definition is_stale :: "'w apt_env \<Rightarrow> Apt \<Rightarrow> int option \<Rightarrow> 'w \<Rightarrow> goerr + bool" where
  "is_stale e a cacheInfo w =
     (if wants_update a then Inr True
      else case ap_CacheValidTime a of
             None \<Rightarrow> Inr False
           | Some valid \<Rightarrow>
               (case mod_time cacheInfo of
                  Inl err \<Rightarrow> Inl err
                | Inr t \<Rightarrow> Inr (older_than (ae_now e w - t) valid)))"

definition handleUpdate :: "'w apt_env \<Rightarrow> Apt \<Rightarrow> 'w \<Rightarrow> update_result \<times> 'w" where
  "handleUpdate e a w =
     (let stat = ae_lists e w;
          err = (case stat of Inl n \<Rightarrow> Some n | Inr t \<Rightarrow> None);
          cacheInfo = (case stat of Inl n \<Rightarrow> None | Inr t \<Rightarrow> Some t);
          beforeModTime = (case stat of Inl n \<Rightarrow> go_zero_time | Inr t \<Rightarrow> t)
      in case err of
           Some n \<Rightarrow>
             if \<not> is_not_exist n then (Inl (Wrap ''failed to check cache last refresh time'' (OsErr n)), w)
             else if wants_update a \<or> ap_CacheValidTime a \<noteq> None then update_missing e beforeModTime w
             else (case is_stale e a cacheInfo w of
                     Inl p \<Rightarrow> (Inl p, w)
                   | Inr True \<Rightarrow> update_existing e beforeModTime w
                   | Inr False \<Rightarrow> (Inr (False, 0), w))
         | None \<Rightarrow>
             (case is_stale e a cacheInfo w of
                Inl p \<Rightarrow> (Inl p, w)
              | Inr True \<Rightarrow> update_existing e beforeModTime w
              | Inr False \<Rightarrow> (Inr (False, beforeModTime), w)))"

definition package_named :: "string \<Rightarrow> package" where "package_named n = \<lparr> pk_Name = n \<rparr>"

text \<open>The wanted packages that are not among the installed ones.\<close>

definition missing_packages :: "package list \<Rightarrow> string list \<Rightarrow> package list" where
  "missing_packages installed items =
     List.map package_named (filter (\<lambda>wanted. \<not> (\<exists>p\<in>set installed. pk_Name p = wanted)) items)"

text \<open>\<^verbatim>\<open>if len(list) > 0 { ...; result.TaskChanged() }\<close> around an installation or a removal.\<close>

definition change_packages ::
  "(package list \<Rightarrow> 'w \<Rightarrow> goerr option \<times> 'w) \<Rightarrow> string \<Rightarrow> package list \<Rightarrow> AptResult \<Rightarrow> 'w \<Rightarrow>
   AptResult \<times> goerr option \<times> 'w" where
  "change_packages act msg pkgs result w =
     (if 0 < length pkgs then
        (case act pkgs w of
           (Some err, w') \<Rightarrow> (TaskFailed result, Some (Wrap msg err), w')
         | (None, w') \<Rightarrow> (TaskChanged result, None, w'))
      else (result, None, w))"

definition apt_packages :: "'w aptClient \<Rightarrow> string \<Rightarrow> string list \<Rightarrow> AptResult \<Rightarrow> 'w \<Rightarrow> AptResult \<times> goerr option \<times> 'w" where
  "apt_packages c actualState items result w =
     (if actualState = AptPresent then
        (case ac_ListInstalled c w of
           Inl err \<Rightarrow> (TaskFailed result, Some (Wrap ''failed to list installed packages'' err), w)
         | Inr installed \<Rightarrow>
             change_packages (ac_Install c) ''failed to install package list'' (missing_packages installed items) result w)
      else if actualState = AptLatest then
        change_packages (ac_Install c) ''failed to install package list'' (List.map package_named items) result w
      else if actualState = AptAbsent then
        change_packages (ac_Remove c) ''failed to remove package list'' (List.map package_named items) result w
      else (TaskFailed result, Some (ErrMsg (''state '' @ actualState @ '' is not implemented for apt'')), w))"

definition apt_upgrade :: "'w aptClient \<Rightarrow> string \<Rightarrow> 'w \<Rightarrow> goerr option \<times> 'w" where
  "apt_upgrade c up w =
     (if up = AptUpgradeYes \<or> up = AptUpgradeSafe then
        (case ac_UpgradeAll c w of
           (Some err, w') \<Rightarrow> (Some (Wrap ''failed to upgrade'' err), w')
         | (None, w') \<Rightarrow> (None, w'))
      else if up = AptUpgradeDist \<or> up = AptUpgradeFull then
        (case ac_DistUpgrade c w of
           (Some err, w') \<Rightarrow> (Some (Wrap ''failed to dist-upgrade'' err), w')
         | (None, w') \<Rightarrow> (None, w'))
      else (Some (ErrMsg (''unsupported value of upgrade: '' @ up)), w))"

definition no_packages :: "Apt \<Rightarrow> bool" where
  "no_packages a \<longleftrightarrow> (case ap_Name a of None \<Rightarrow> True | Some l \<Rightarrow> length (pl_Items l) = 0)"

text \<open>After the cache: the upgrade, then the packages.\<close>

definition apt_after_update :: "'w apt_env \<Rightarrow> Apt \<Rightarrow> AptResult \<Rightarrow> 'w \<Rightarrow> AptResult \<times> goerr option \<times> 'w" where
  "apt_after_update e a result w =
     (let c = ae_client e;
          actualState = (if ap_State a = [] then AptPresent else ap_State a)
      in case (if ap_Upgrade a \<noteq> [] then apt_upgrade c (ap_Upgrade a) w else (None, w)) of
           (Some err, w1) \<Rightarrow> (TaskFailed result, Some err, w1)
         | (None, w1) \<Rightarrow>
             (let result1 = (if ap_Upgrade a \<noteq> [] then TaskChanged result else result) in
              if no_packages a then (result1, None, w1)
              else apt_packages c actualState (pl_Items (the (ap_Name a))) result1 w1))"

definition apt_update_and_packages :: "'w apt_env \<Rightarrow> Apt \<Rightarrow> AptResult \<Rightarrow> 'w \<Rightarrow> AptResult \<times> goerr option \<times> 'w" where
  "apt_update_and_packages e a result w =
     (case handleUpdate e a w of
        (Inl err, w1) \<Rightarrow> (TaskFailed result, Some (Wrap ''failed to update apt cache'' err), w1)
      | (Inr (cacheUpdated, cacheUpdateTime), w1) \<Rightarrow>
          (let result1 = result\<lparr>ar_CacheUpdated := cacheUpdated, ar_CacheUpdateTime := cacheUpdateTime\<rparr> in
           apt_after_update e a (if cacheUpdated then TaskChanged result1 else result1) w1))"

definition Apt_Apply :: "'w apt_env \<Rightarrow> Apt \<Rightarrow> 'w \<Rightarrow> AptResult \<times> goerr option \<times> 'w" where
  "Apt_Apply e a w =
     (let result = AptResult_zero in
      if ap_Clean a then
        (case ac_Clean (ae_client e) w of
           (Some err, w1) \<Rightarrow> (TaskFailed result, Some (Wrap ''failed to clean apt cache'' err), w1)
         | (None, w1) \<Rightarrow>
             (let result1 = TaskChanged result in
              if no_packages a \<and> (ap_Upgrade a = AptUpgradeNo \<or> ap_Upgrade a = []) \<and> ap_Deb a = []
              then (result1, None, w1)
              else apt_update_and_packages e a result1 w1))
      else apt_update_and_packages e a result w)"

section \<open>apt_repository\<close>

definition AptRepositoryAbsent :: string where "AptRepositoryAbsent = ''absent''"
definition AptRepositoryPresent :: string where "AptRepositoryPresent = ''present''"

record AptRepository =
  rp_Codename :: string
  rp_Filename :: string
  rp_InstallPythonApt :: bool
  rp_Mode :: string
  rp_Repo :: string
  rp_State :: string
  rp_UpdateCache :: "bool option"
  rp_UpdateCacheRetries :: nat
  rp_UpdateCacheRetryMaxDelay :: nat
  rp_ValidateCerts :: "bool option"

definition AptRepository_Validate :: "AptRepository \<Rightarrow> goerr option" where
  "AptRepository_Validate r =
     (if rp_Repo r = [] then Some (ErrMsg ''repo is required'')
      else if rp_State r \<noteq> AptRepositoryAbsent \<and> rp_State r \<noteq> AptRepositoryPresent \<and> rp_State r \<noteq> []
      then Some (ErrMsg (''unsupported state: '' @ rp_State r))
      else None)"

text \<open>
  \<^verbatim>\<open>regexp.MustCompile("[^a-zA-Z0-9]+").ReplaceAllString(s, "_")\<close>: every longest run of other
  characters becomes one underscore; \<open>in_run\<close> says that the previous one is replaced already.
\<close>

definition slug_char :: "char \<Rightarrow> bool" where
  "slug_char c \<longleftrightarrow>
     (let n = (of_char c :: nat) in
      (97 \<le> n \<and> n \<le> 122) \<or> (65 \<le> n \<and> n \<le> 90) \<or> (48 \<le> n \<and> n \<le> 57))"

fun slugify :: "bool \<Rightarrow> string \<Rightarrow> string" where
  "slugify in_run [] = []"
| "slugify in_run (c # s) =
     (if slug_char c then c # slugify False s
      else if in_run then slugify True s else CHR ''_'' # slugify True s)"

text \<open>\<^verbatim>\<open>url.Parse\<close> is a parameter that gives the host name and the path.\<close>

definition uriToFilename :: "(string \<Rightarrow> goerr + string \<times> string) \<Rightarrow> string \<Rightarrow> goerr + string" where
  "uriToFilename parse_url uri =
     (case parse_url uri of
        Inl e \<Rightarrow> Inl (Wrap ''failed to parse repository URL'' e)
      | Inr (hostname, path) \<Rightarrow> Inr (slugify False (hostname @ path) @ ''.list''))"

definition repository_cache :: "'w apt_env \<Rightarrow> AptRepository \<Rightarrow> CommonResult \<Rightarrow> 'w \<Rightarrow> CommonResult \<times> goerr option \<times> 'w" where
  "repository_cache e r result w =
     (if rp_UpdateCache r = None \<or> rp_UpdateCache r = Some True then
        (let result1 = TaskChanged result in
         case ac_CheckForUpdates (ae_client e) w of
           (Some err, w1) \<Rightarrow> (TaskFailed result1, Some (Wrap ''failed to update apt cache'' err), w1)
         | (None, w1) \<Rightarrow> (result1, None, w1))
      else (result, None, w))"

definition AptRepository_Apply ::
  "'w apt_env \<Rightarrow> (string \<Rightarrow> goerr + string \<times> string) \<Rightarrow> AptRepository \<Rightarrow> 'w \<Rightarrow> CommonResult \<times> goerr option \<times> 'w" where
  "AptRepository_Apply e parse_url r w =
     (let c = ae_client e; result = CommonResult_zero in
      case ac_ParseAPTConfigFolder c ''/etc/apt'' w of
        Inl err \<Rightarrow> (TaskFailed result, Some (Wrap ''failed to parse existing repositories'' err), w)
      | Inr repos \<Rightarrow>
          (case ac_ParseAPTConfigLine c (rp_Repo r) of
             None \<Rightarrow> (TaskFailed result, Some (ErrMsg ''failed to parse repo line''), w)
           | Some repo \<Rightarrow>
               if rp_State r = AptRepositoryAbsent then
                 (case ac_Find c repos repo of
                    None \<Rightarrow> repository_cache e r result w
                  | Some toRemove \<Rightarrow>
                      (case ac_RemoveRepository c toRemove ''/etc/apt'' w of
                         (Some err, w1) \<Rightarrow>
                           (TaskFailed (TaskChanged result), Some (Wrap ''failed to remove repository'' err), w1)
                       | (None, w1) \<Rightarrow> repository_cache e r (TaskChanged result) w1))
               else
                 (case ac_Find c repos repo of
                    Some existing \<Rightarrow> repository_cache e r result w
                  | None \<Rightarrow>
                      (case uriToFilename parse_url (re_URI repo) of
                         Inl err \<Rightarrow>
                           (TaskFailed result, Some (Wrap ''failed to infer filename from repo'' err), w)
                       | Inr filename \<Rightarrow>
                           (case ac_AddRepository c repo ''/etc/apt'' filename w of
                              (Some err, w1) \<Rightarrow>
                                (TaskFailed (TaskChanged result), Some (Wrap ''failed to add repository'' err), w1)
                            | (None, w1) \<Rightarrow> repository_cache e r (TaskChanged result) w1)))))"

section \<open>YAML\<close>

text \<open>
  The aliases, after the library has decoded the message itself and the auxiliary struct
  (parameters; \<open>None\<close> is an error). An absent \<^verbatim>\<open>update-cache\<close> decodes to false here.
\<close>

definition PackageList_UnmarshalYAML ::
  "(bytes \<Rightarrow> string option) \<Rightarrow> (bytes \<Rightarrow> string list option) \<Rightarrow> bytes \<Rightarrow> goerr + PackageList" where
  "PackageList_UnmarshalYAML y_string y_strings b =
     (case y_string b of
        Some packageName \<Rightarrow> Inr \<lparr> pl_Items = [packageName] \<rparr>
      | None \<Rightarrow>
          (case y_strings b of
             Some packages \<Rightarrow> Inr \<lparr> pl_Items = packages \<rparr>
           | None \<Rightarrow> Inl (ErrMsg (''failed to unmarshal package name: '' @ b))))"

datatype yaml_out = YNull | YString string | YStrings "string list"

definition PackageList_MarshalYAML :: "PackageList option \<Rightarrow> yaml_out" where
  "PackageList_MarshalYAML p =
     (case p of
        None \<Rightarrow> YNull
      | Some l \<Rightarrow>
          if length (pl_Items l) = 0 then YNull
          else if length (pl_Items l) = 1 then YString (pl_Items l ! 0)
          else YStrings (pl_Items l))"

record apt_aux =
  ax_Pkg :: PackageList
  ax_Package :: PackageList
  ax_UpdateCache :: bool

definition Apt_UnmarshalYAML ::
  "(bytes \<Rightarrow> goerr + Apt) \<Rightarrow> (bytes \<Rightarrow> goerr + apt_aux) \<Rightarrow> bytes \<Rightarrow> goerr + Apt" where
  "Apt_UnmarshalYAML y_plain y_aux b =
     (case y_plain b of
        Inl e \<Rightarrow> Inl e
      | Inr a \<Rightarrow>
          (case y_aux b of
             Inl e \<Rightarrow> Inl e
           | Inr aux \<Rightarrow>
               (let a1 = (if no_packages a then
                            (if length (pl_Items (ax_Package aux)) \<noteq> 0 then a\<lparr>ap_Name := Some (ax_Package aux)\<rparr>
                             else if length (pl_Items (ax_Pkg aux)) \<noteq> 0 then a\<lparr>ap_Name := Some (ax_Pkg aux)\<rparr>
                             else a)
                          else a)
                in Inr (if ap_UpdateCache a1 = None then a1\<lparr>ap_UpdateCache := Some (ax_UpdateCache aux)\<rparr> else a1))))"

definition AptRepository_UnmarshalYAML ::
  "(bytes \<Rightarrow> goerr + AptRepository) \<Rightarrow> (bytes \<Rightarrow> goerr + bool option) \<Rightarrow> bytes \<Rightarrow> goerr + AptRepository" where
  "AptRepository_UnmarshalYAML y_plain y_aux b =
     (case y_plain b of
        Inl e \<Rightarrow> Inl e
      | Inr r \<Rightarrow>
          (case y_aux b of
             Inl e \<Rightarrow> Inl e
           | Inr aux \<Rightarrow> Inr (if rp_UpdateCache r = None then r\<lparr>rp_UpdateCache := aux\<rparr> else r)))"

end
