(* ===== verification/AptProps.thy ===== *)
theory AptProps
  imports AptModule
begin

text \<open>
  Properties of \<^verbatim>\<open>apt\<close> and \<^verbatim>\<open>apt_repository\<close>: the module contract, when the cache is refreshed,
  that the nil \<^verbatim>\<open>FileInfo\<close> is never read, idempotence under the laws of a package manager, and the
  tasks that never settle.
\<close>

section \<open>The contract of a module\<close>

lemma apt_zero_flags [simp]:
  "\<not> Failed AptResult_zero" "\<not> Changed AptResult_zero" "\<not> Skipped AptResult_zero"
  by (simp_all add: AptResult_zero_def CommonResult_zero_def CommonResult.extend_def)

text \<open>Steps that keep a result neither failed nor skipped until they fail.\<close>

definition sound_outcome :: "'r CommonResult_scheme \<times> goerr option \<times> 'w \<Rightarrow> bool" where
  "sound_outcome x \<longleftrightarrow> (case x of (r, err, w) \<Rightarrow> Failed r = (err \<noteq> None) \<and> \<not> Skipped r)"

lemma sound_outcome_simps [simp]:
  "sound_outcome (r, err, w) \<longleftrightarrow> Failed r = (err \<noteq> None) \<and> \<not> Skipped r"
  by (simp add: sound_outcome_def)

abbreviation fresh_result :: "'r CommonResult_scheme \<Rightarrow> bool" where
  "fresh_result r \<equiv> \<not> Failed r \<and> \<not> Skipped r"

lemma change_packages_sound: "fresh_result r \<Longrightarrow> sound_outcome (change_packages act m pkgs r w)"
  by (simp add: change_packages_def split: prod.split option.split)

lemma apt_packages_sound: "fresh_result r \<Longrightarrow> sound_outcome (apt_packages c st items r w)"
  by (simp add: apt_packages_def change_packages_sound split: sum.split)

lemma apt_after_update_sound: "fresh_result r \<Longrightarrow> sound_outcome (apt_after_update e a r w)"
  by (simp add: apt_after_update_def Let_def apt_packages_sound split: prod.split option.split)

lemma cache_fields_flags [simp]:
  "Failed (r\<lparr>ar_CacheUpdated := b, ar_CacheUpdateTime := t\<rparr>) = Failed r"
  "Skipped (r\<lparr>ar_CacheUpdated := b, ar_CacheUpdateTime := t\<rparr>) = Skipped r"
  "Changed (r\<lparr>ar_CacheUpdated := b, ar_CacheUpdateTime := t\<rparr>) = Changed r"
  by simp_all

lemma apt_update_sound: "fresh_result r \<Longrightarrow> sound_outcome (apt_update_and_packages e a r w)"
  by (simp add: apt_update_and_packages_def Let_def apt_after_update_sound split: prod.split sum.split)

lemma Apt_Apply_sound: "sound_outcome (Apt_Apply e a w)"
  by (simp add: Apt_Apply_def Let_def apt_update_sound split: prod.split option.split)

lemma repository_cache_sound: "fresh_result r \<Longrightarrow> sound_outcome (repository_cache e ar r w)"
  by (simp add: repository_cache_def Let_def split: prod.split option.split)

lemma AptRepository_Apply_sound: "sound_outcome (AptRepository_Apply e pu ar w)"
  by (simp add: AptRepository_Apply_def Let_def repository_cache_sound
      split: prod.split option.split sum.split)

lemma sound_module:
  assumes "\<And>w. sound_outcome (run w)"
  shows "task_module run"
proof
  fix w r err w'
  assume run: "run w = (r, err, w')"
  with assms [of w] show "Failed r \<longleftrightarrow> err \<noteq> None" by simp
  from run assms [of w] show "Skipped r \<Longrightarrow> \<not> Changed r \<and> err = None \<and> w' = w" by simp
qed

interpretation apt: task_module "Apt_Apply e a" for e a
  by (rule sound_module) (rule Apt_Apply_sound)

interpretation apt_repository: task_module "AptRepository_Apply e pu ar" for e pu ar
  by (rule sound_module) (rule AptRepository_Apply_sound)

section \<open>The cache\<close>

text \<open>The cache can be looked at: the only failure is that it does not exist.\<close>

definition lists_readable :: "'w apt_env \<Rightarrow> 'w \<Rightarrow> bool" where
  "lists_readable e w \<longleftrightarrow> (case ae_lists e w of Inl n \<Rightarrow> n = ENOENT | Inr t \<Rightarrow> True)"

text \<open>What the documentation promises: refresh on request, or when the cache is missing or too old.\<close>

definition needs_refresh :: "'w apt_env \<Rightarrow> Apt \<Rightarrow> 'w \<Rightarrow> bool" where
  "needs_refresh e a w \<longleftrightarrow>
     ap_UpdateCache a = Some True \<or>
     (\<exists>valid. ap_CacheValidTime a = Some valid \<and>
        (case ae_lists e w of Inl n \<Rightarrow> True | Inr t \<Rightarrow> int valid * 1000000000 < ae_now e w - t))"

lemma wants_update_iff: "wants_update a \<longleftrightarrow> ap_UpdateCache a = Some True"
  by (cases "ap_UpdateCache a") (auto simp: wants_update_def)

text \<open>
  C28. The cache is refreshed exactly when the documentation asks for it: otherwise \<^verbatim>\<open>handleUpdate\<close>
  answers with the time of the cache (the epoch when there is none) and does nothing; when it is
  refreshed, the answer says updated exactly if the time of the cache differs from before, or
  the directory is missing both times. The pointer that is nil without a cache is never read.
\<close>

theorem handleUpdate_spec:
  assumes "lists_readable e w"
  shows "handleUpdate e a w =
    (if \<not> needs_refresh e a w
     then (Inr (False, case ae_lists e w of Inl n \<Rightarrow> 0 | Inr t \<Rightarrow> t), w)
     else case ac_CheckForUpdates (ae_client e) w of
        (Some err, w') \<Rightarrow> (Inl err, w')
      | (None, w') \<Rightarrow>
          (case (ae_lists e w', ae_lists e w) of
             (Inr after, Inr before) \<Rightarrow> (Inr (after \<noteq> before, after), w')
           | (Inr after, Inl n) \<Rightarrow> (Inr (after \<noteq> go_zero_time, after), w')
           | (Inl n', Inr before) \<Rightarrow>
               (Inl (if n' = ENOENT then ErrMsg ''cache directory disappeared after update''
                     else Wrap ''failed to check cache after update'' (OsErr n')), w')
           | (Inl n', Inl n) \<Rightarrow>
               if n' = ENOENT then (Inr (True, ae_now e w'), w')
               else (Inl (Wrap ''failed to check cache after update'' (OsErr n')), w')))"
proof (cases "ae_lists e w")
  case (Inl n)
  with assms have n: "n = ENOENT" by (simp add: lists_readable_def)
  show ?thesis
  proof (cases "wants_update a \<or> ap_CacheValidTime a \<noteq> None")
    case True
    with Inl have "needs_refresh e a w" by (auto simp: needs_refresh_def wants_update_iff)
    with True Inl n show ?thesis
      by (simp add: handleUpdate_def update_missing_def Let_def is_not_exist_def
          split: prod.split option.split sum.split)
  next
    case False
    then have "\<not> needs_refresh e a w" by (auto simp: needs_refresh_def wants_update_iff)
    with False Inl n show ?thesis
      by (simp add: handleUpdate_def is_stale_def Let_def)
  qed
next
  case (Inr t)
  have st: "is_stale e a (Some t) w = Inr (needs_refresh e a w)"
    using Inr by (auto simp: is_stale_def needs_refresh_def wants_update_iff mod_time_def older_than_def
        split: option.split)
  show ?thesis
    using Inr by (simp add: handleUpdate_def Let_def st update_existing_def is_not_exist_def
        split: prod.split option.split sum.split)
qed

text \<open>A package manager whose world is the installed packages, with the time of its cache.\<close>

record toy_apt =
  ta_installed :: "string list"
  ta_cache :: "int option"
  ta_now :: int

definition toy_client :: "toy_apt aptClient" where
  "toy_client =
     \<lparr> ac_CheckForUpdates = (\<lambda>w. (None, w\<lparr>ta_cache := Some (ta_now w)\<rparr>)),
       ac_Clean = (\<lambda>w. (None, w)), ac_DistUpgrade = (\<lambda>w. (None, w)),
       ac_Install = (\<lambda>ps w. (None, w\<lparr>ta_installed := List.map pk_Name ps @ ta_installed w\<rparr>)),
       ac_ListInstalled = (\<lambda>w. Inr (List.map package_named (ta_installed w))),
       ac_Remove = (\<lambda>ps w. (None, w\<lparr>ta_installed := filter (\<lambda>n. n \<notin> pk_Name ` set ps) (ta_installed w)\<rparr>)),
       ac_UpgradeAll = (\<lambda>w. (None, w)),
       ac_ParseAPTConfigFolder = (\<lambda>p w. Inr []), ac_ParseAPTConfigLine = (\<lambda>l. Some \<lparr> re_Line = l, re_URI = l \<rparr>),
       ac_AddRepository = (\<lambda>r p f w. (None, w)), ac_RemoveRepository = (\<lambda>r p w. (None, w)),
       ac_Find = (\<lambda>rs r. None) \<rparr>"

definition toy_env :: "toy_apt apt_env" where
  "toy_env = \<lparr> ae_client = toy_client,
               ae_lists = (\<lambda>w. case ta_cache w of None \<Rightarrow> Inl ENOENT | Some t \<Rightarrow> Inr t), ae_now = ta_now \<rparr>"

definition fresh_machine :: toy_apt where
  "fresh_machine = \<lparr> ta_installed = [''vim''], ta_cache = Some 5, ta_now = 2000000000 \<rparr>"

theorem handleUpdate_spec_witness:
  "handleUpdate toy_env (Apt_zero\<lparr>ap_CacheValidTime := Some 1\<rparr>) fresh_machine =
     (Inr (True, 2000000000), fresh_machine\<lparr>ta_cache := Some 2000000000\<rparr>)"
proof -
  have l: "lists_readable toy_env fresh_machine"
    by (simp add: lists_readable_def toy_env_def fresh_machine_def)
  show ?thesis
    unfolding handleUpdate_spec [OF l]
    by (simp add: needs_refresh_def Apt_zero_def toy_env_def toy_client_def fresh_machine_def)
qed

section \<open>State present\<close>

text \<open>A task that names packages and asks for nothing else: no cleaning, no upgrade and no refresh of the cache.\<close>

definition packages_only :: "Apt \<Rightarrow> bool" where
  "packages_only a \<longleftrightarrow>
     \<not> ap_Clean a \<and> ap_Upgrade a = [] \<and> ap_UpdateCache a \<noteq> Some True \<and> ap_CacheValidTime a = None"

lemma packages_only_run:
  assumes "packages_only a" "lists_readable e w"
  shows "\<exists>r. \<not> Changed r \<and> \<not> Failed r \<and> \<not> Skipped r \<and> Apt_Apply e a w = apt_after_update e a r w"
proof -
  have nr: "\<not> needs_refresh e a w" using assms(1) by (auto simp: packages_only_def needs_refresh_def)
  have "handleUpdate e a w = (Inr (False, case ae_lists e w of Inl n \<Rightarrow> 0 | Inr t \<Rightarrow> t), w)"
  proof (cases "ae_lists e w")
    case (Inl n)
    with assms nr show ?thesis
      by (auto simp: lists_readable_def handleUpdate_def Let_def is_stale_def packages_only_def wants_update_iff)
  next
    case (Inr t)
    with assms nr show ?thesis
      by (auto simp: lists_readable_def handleUpdate_def Let_def is_stale_def packages_only_def wants_update_iff)
  qed
  with assms(1) show ?thesis
    by (intro exI [of _ "AptResult_zero\<lparr>ar_CacheUpdated := False,
          ar_CacheUpdateTime := (case ae_lists e w of Inl n \<Rightarrow> 0 | Inr t \<Rightarrow> t)\<rparr>"])
      (simp add: Apt_Apply_def Let_def apt_update_and_packages_def packages_only_def)
qed


lemma after_update_present:
  assumes "packages_only a" "ap_State a \<in> {[], AptPresent}" "ap_Name a = Some l" "pl_Items l \<noteq> []"
  shows "apt_after_update e a r w =
    (case ac_ListInstalled (ae_client e) w of
       Inl err \<Rightarrow> (TaskFailed r, Some (Wrap ''failed to list installed packages'' err), w)
     | Inr installed \<Rightarrow>
         change_packages (ac_Install (ae_client e)) ''failed to install package list''
           (missing_packages installed (pl_Items l)) r w)"
  using assms
  by (auto simp: apt_after_update_def Let_def no_packages_def apt_packages_def packages_only_def apt_consts)

lemma missing_wanted:
  "missing_packages installed items = map (\<lambda>n. \<lparr> pk_Name = n \<rparr>) (filter (\<lambda>n. n \<notin> pk_Name ` set installed) items)"
proof -
  have "package_named = (\<lambda>n. \<lparr> pk_Name = n \<rparr>)" by (simp add: package_named_def fun_eq_iff)
  moreover have "(\<lambda>n. \<not> (\<exists>p\<in>set installed. pk_Name p = n)) = (\<lambda>n. n \<notin> pk_Name ` set installed)" by (auto simp: fun_eq_iff)
  ultimately show ?thesis by (simp only: missing_packages_def)
qed

lemma change_packages_outcome:
  "change_packages act msg pkgs r w =
    (if pkgs = [] then (r, None, w)
     else case act pkgs w of (Some err, w') \<Rightarrow> (TaskFailed r, Some (Wrap msg err), w') | (None, w') \<Rightarrow> (TaskChanged r, None, w'))"
  by (cases pkgs) (simp_all add: change_packages_def)

text \<open>
  C21. What state present does, for a task that only names packages (no \<^verbatim>\<open>clean\<close>, \<^verbatim>\<open>upgrade\<close>, \<^verbatim>\<open>update_cache\<close> or
  \<^verbatim>\<open>cache_valid_time\<close>). The installed packages are listed, and if that fails nothing is done. If every wanted package is among them,
  nothing is installed, no change is reported and the machine is left alone. Otherwise the wanted packages that are not among them, and
  no others, are installed in one go in the order of the task; a change is reported exactly if that succeeds, and otherwise its
  error is returned.
\<close>

theorem apt_present_installs_missing:
  assumes "packages_only a" and "ap_State a \<in> {[], AptPresent}"
    and "ap_Name a = Some l" and "pl_Items l \<noteq> []" and "lists_readable e w"
  shows "\<exists>r. \<not> Skipped r \<and>
    (case ac_ListInstalled (ae_client e) w of
       Inl err \<Rightarrow> Apt_Apply e a w = (r, Some (Wrap ''failed to list installed packages'' err), w) \<and> \<not> Changed r
     | Inr installed \<Rightarrow>
         if set (pl_Items l) \<subseteq> pk_Name ` set installed then Apt_Apply e a w = (r, None, w) \<and> \<not> Changed r
         else case ac_Install (ae_client e)
             (map (\<lambda>n. \<lparr> pk_Name = n \<rparr>) (filter (\<lambda>n. n \<notin> pk_Name ` set installed) (pl_Items l))) w of
           (None, w') \<Rightarrow> Apt_Apply e a w = (r, None, w') \<and> Changed r
         | (Some err, w') \<Rightarrow>
             Apt_Apply e a w = (r, Some (Wrap ''failed to install package list'' err), w') \<and> Failed r \<and> \<not> Changed r)"
proof -
  from packages_only_run [OF assms(1,5)] obtain r0 where r0: "\<not> Changed r0" "\<not> Failed r0" "\<not> Skipped r0"
    and run: "Apt_Apply e a w = apt_after_update e a r0 w" by blast
  note after = run [unfolded after_update_present [OF assms(1-4)]]
  show ?thesis
  proof (cases "ac_ListInstalled (ae_client e) w")
    case (Inl err)
    with after r0 show ?thesis by (intro exI [of _ "TaskFailed r0"]) simp
  next
    case (Inr installed)
    let ?pkgs = "map (\<lambda>n. \<lparr> pk_Name = n \<rparr>) (filter (\<lambda>n. n \<notin> pk_Name ` set installed) (pl_Items l))"
    have none: "set (pl_Items l) \<subseteq> pk_Name ` set installed \<longleftrightarrow> ?pkgs = []" by (auto simp: filter_empty_conv)
    obtain x w' where act: "ac_Install (ae_client e) ?pkgs w = (x, w')" by fastforce
    from after Inr have ch: "Apt_Apply e a w =
        change_packages (ac_Install (ae_client e)) ''failed to install package list'' ?pkgs r0 w"
      by (simp add: missing_wanted)
    show ?thesis
    proof (cases "?pkgs = []")
      case True
      from ch have "Apt_Apply e a w = (r0, None, w)" unfolding change_packages_outcome True by simp
      with True none Inr r0 show ?thesis by (intro exI [of _ r0]) simp
    next
      case False
      with ch act have out: "Apt_Apply e a w =
          (case x of Some err \<Rightarrow> (TaskFailed r0, Some (Wrap ''failed to install package list'' err), w') | None \<Rightarrow> (TaskChanged r0, None, w'))"
        by (simp only: change_packages_outcome if_False) (cases x, simp_all)
      have more: "\<not> set (pl_Items l) \<subseteq> pk_Name ` set installed" using False none by blast
      show ?thesis
      proof (cases x)
        case None
        with out act Inr r0 more show ?thesis
          by (intro exI [of _ "TaskChanged r0"]) simp
      next
        case (Some err)
        with out act Inr r0 more show ?thesis
          by (intro exI [of _ "TaskFailed r0"]) simp
      qed
    qed
  qed
qed

definition install_task :: Apt where
  "install_task = Apt_zero\<lparr>ap_Name := Some \<lparr> pl_Items = [''git'', ''vim''] \<rparr>\<rparr>"

definition installed_machine :: toy_apt where
  "installed_machine = fresh_machine\<lparr>ta_installed := [''git'', ''vim'']\<rparr>"

theorem apt_present_installs_missing_witness:
  "\<exists>r. Apt_Apply toy_env install_task fresh_machine = (r, None, installed_machine) \<and> Changed r"
proof -
  have l: "lists_readable toy_env fresh_machine"
    by (simp add: lists_readable_def toy_env_def fresh_machine_def)
  have a: "packages_only install_task" "ap_State install_task \<in> {[], AptPresent}"
    "ap_Name install_task = Some \<lparr> pl_Items = [''git'', ''vim''] \<rparr>"
    by (simp_all add: packages_only_def install_task_def Apt_zero_def)
  from apt_present_installs_missing [OF a(1) a(2) a(3) _ l] show ?thesis
    by (auto simp: toy_env_def toy_client_def fresh_machine_def installed_machine_def package_named_def)
qed

section \<open>Tasks that never settle, and one that never works\<close>

lemma change_packages_changed:
  "pkgs \<noteq> [] \<Longrightarrow> change_packages act m pkgs r w = (r', None, w') \<Longrightarrow> Changed r'"
  by (auto simp: change_packages_def split: prod.splits option.splits)

lemma update_and_packages_after:
  assumes "apt_update_and_packages e a r1 w1 = (r, None, w')"
  shows "\<exists>r0 w0. apt_after_update e a r0 w0 = (r, None, w')"
proof -
  obtain x w2 where x: "handleUpdate e a w1 = (x, w2)" by fastforce
  show ?thesis
  proof (cases x)
    case (Inl err)
    with x assms show ?thesis by (simp add: apt_update_and_packages_def)
  next
    case (Inr y)
    with x assms show ?thesis by (cases y) (auto simp: apt_update_and_packages_def Let_def)
  qed
qed

lemma Apt_Apply_after:
  assumes "Apt_Apply e a w = (r, None, w')" "\<not> no_packages a"
  shows "\<exists>r0 w0. apt_after_update e a r0 w0 = (r, None, w')"
proof (cases "ap_Clean a")
  case True
  obtain x w1 where "ac_Clean (ae_client e) w = (x, w1)" by fastforce
  with True assms have "apt_update_and_packages e a (TaskChanged AptResult_zero) w1 = (r, None, w')"
    by (cases x) (simp_all add: Apt_Apply_def Let_def)
  then show ?thesis by (rule update_and_packages_after)
next
  case False
  with assms(1) have "apt_update_and_packages e a AptResult_zero w = (r, None, w')"
    by (simp add: Apt_Apply_def Let_def)
  then show ?thesis by (rule update_and_packages_after)
qed

text \<open>
  State absent is not idempotent (nor is latest): the module asks for the removal of every
  named package without looking at what is installed, so each successful run reports a change.
\<close>

theorem apt_absent_always_changed:
  assumes "ap_State a \<in> {AptAbsent, AptLatest}" and "ap_Name a = Some l" and "pl_Items l \<noteq> []"
    and "Apt_Apply e a w = (r, None, w')"
  shows "Changed r"
proof -
  have np: "\<not> no_packages a" using assms(2,3) by (simp add: no_packages_def)
  from Apt_Apply_after [OF assms(4) np] obtain r0 w0 where
    "apt_after_update e a r0 w0 = (r, None, w')" by blast
  then obtain r1 w1 where "apt_packages (ae_client e) (ap_State a) (pl_Items l) r1 w1 = (r, None, w')"
    using assms(1,2) np by (auto simp: apt_after_update_def Let_def apt_consts split: prod.splits option.splits if_splits)
  with assms(1,3) show ?thesis
    by (auto simp: apt_packages_def apt_consts dest: change_packages_changed [rotated])
qed

definition remove_task :: Apt where
  "remove_task = Apt_zero\<lparr>ap_Name := Some \<lparr> pl_Items = [''nano''] \<rparr>, ap_State := ''absent''\<rparr>"

theorem apt_absent_always_changed_witness:
  "Changed (fst (Apt_Apply toy_env remove_task fresh_machine)) \<and>
   snd (snd (Apt_Apply toy_env remove_task fresh_machine)) = fresh_machine"
proof -
  let ?run = "Apt_Apply toy_env remove_task fresh_machine"
  have "fst (snd ?run) = None" by code_simp
  then have run: "?run = (fst ?run, None, snd (snd ?run))" by (simp add: prod_eq_iff)
  have "ap_State remove_task \<in> {AptAbsent, AptLatest}" "ap_Name remove_task = Some \<lparr> pl_Items = [''nano''] \<rparr>"
    by (simp_all add: remove_task_def apt_consts)
  from apt_absent_always_changed [OF this _ run] have "Changed (fst ?run)" by simp
  moreover have "snd (snd ?run) = fresh_machine" by code_simp
  ultimately show ?thesis ..
qed

text \<open>
  \<^verbatim>\<open>upgrade: no\<close> passes validation but can never be applied: without \<^verbatim>\<open>clean\<close> every run fails,
  after the cache may have been refreshed.
\<close>

theorem apt_upgrade_no_always_fails:
  assumes "ap_Upgrade a = AptUpgradeNo" and "ap_State a \<in> {[], AptAbsent, AptPresent, AptLatest}"
    and "\<not> ap_Clean a"
  shows "Apt_Validate a = None \<and> (\<exists>r err w'. Apt_Apply e a w = (r, Some err, w') \<and> Failed r)"
proof
  show "Apt_Validate a = None" using assms(1,2) by (auto simp: Apt_Validate_def)
  have up: "apt_upgrade (ae_client e) (ap_Upgrade a) w1 = (Some (ErrMsg ''unsupported value of upgrade: no''), w1)" for w1
    using assms(1) by (simp add: apt_upgrade_def apt_consts)
  have ne: "ap_Upgrade a \<noteq> []" using assms(1) by (simp add: apt_consts)
  have after: "\<exists>err w'. apt_after_update e a r1 w1 = (TaskFailed r1, Some err, w')" for r1 w1
    using ne up by (simp add: apt_after_update_def Let_def)
  obtain r err w' where run: "Apt_Apply e a w = (r, err, w')" by (cases "Apt_Apply e a w") auto
  moreover have "err \<noteq> None"
    using run assms(3) after
    by (auto simp: Apt_Apply_def Let_def apt_update_and_packages_def split: prod.splits sum.splits) (metis option.distinct(1) prod.inject)+
  ultimately show "\<exists>r err w'. Apt_Apply e a w = (r, Some err, w') \<and> Failed r"
    using apt.failed_iff [OF run] by auto
qed

theorem apt_upgrade_no_always_fails_witness:
  "Failed (fst (Apt_Apply toy_env (Apt_zero\<lparr>ap_Upgrade := ''no''\<rparr>) fresh_machine))"
proof -
  have "ap_Upgrade (Apt_zero\<lparr>ap_Upgrade := ''no''\<rparr>) = AptUpgradeNo"
    "ap_State (Apt_zero\<lparr>ap_Upgrade := ''no''\<rparr>) \<in> {[], AptAbsent, AptPresent, AptLatest}"
    "\<not> ap_Clean (Apt_zero\<lparr>ap_Upgrade := ''no''\<rparr>)"
    by (simp_all add: Apt_zero_def apt_consts)
  from apt_upgrade_no_always_fails [OF this, of toy_env fresh_machine] show ?thesis by auto
qed

section \<open>Repository files\<close>

lemma slugify_chars: "c \<in> set (slugify b s) \<Longrightarrow> slug_char c \<or> c = CHR ''_''"
  by (induction b s rule: slugify.induct) (auto split: if_splits)

fun no_double :: "string \<Rightarrow> bool" where
  "no_double (a # b # s) \<longleftrightarrow> \<not> (a = CHR ''_'' \<and> b = CHR ''_'') \<and> no_double (b # s)"
| "no_double _ \<longleftrightarrow> True"

lemma no_double_Cons:
  "no_double (c # s) \<longleftrightarrow> no_double s \<and> \<not> (c = CHR ''_'' \<and> s \<noteq> [] \<and> hd s = CHR ''_'')"
  by (cases s) auto

lemma slug_not_underscore: "slug_char c \<Longrightarrow> c \<noteq> CHR ''_''"
  by (auto simp: slug_char_def Let_def)

lemma slugify_no_double:
  "no_double (slugify b s) \<and> (b \<longrightarrow> slugify b s \<noteq> [] \<longrightarrow> hd (slugify b s) \<noteq> CHR ''_'')"
  by (induction b s rule: slugify.induct)
    (auto simp: no_double_Cons slug_not_underscore)

text \<open>
  C36. The file a repository is stored in is a plain name: letters, digits and single underscores,
  then \<^verbatim>\<open>.list\<close>. No URI can reach another directory through it.
\<close>

theorem repository_filename_safe:
  assumes "uriToFilename parse_url uri = Inr f"
  shows "\<exists>s. f = s @ ''.list'' \<and> (\<forall>c\<in>set s. slug_char c \<or> c = CHR ''_'') \<and> no_double s \<and> CHR ''/'' \<notin> set f"
proof -
  from assms obtain h p where f: "f = slugify False (h @ p) @ ''.list''"
    by (auto simp: uriToFilename_def split: sum.splits prod.splits)
  have chars: "\<forall>c\<in>set (slugify False (h @ p)). slug_char c \<or> c = CHR ''_''" using slugify_chars by blast
  have "\<not> slug_char (CHR ''/'')" by (simp add: slug_char_def)
  with chars have "CHR ''/'' \<notin> set (slugify False (h @ p))" by auto
  with f chars slugify_no_double [of False "h @ p"] show ?thesis by auto
qed

theorem repository_filename_safe_witness:
  "CHR ''/'' \<notin> set ''example_com_debian_dists.list''"
proof -
  have "uriToFilename (\<lambda>u. Inr (''example.com'', ''/debian/../dists'')) ''u'' = Inr ''example_com_debian_dists.list''"
    by code_simp
  from repository_filename_safe [OF this] show ?thesis by blast
qed

text \<open>
  With the default \<^verbatim>\<open>update_cache\<close> a repository task never settles: every successful run
  refreshes the cache and reports a change, also when the repository was there already.
\<close>

theorem repository_default_always_changed:
  assumes "rp_UpdateCache ar \<noteq> Some False" and "AptRepository_Apply e pu ar w = (r, None, w')"
  shows "Changed r \<and> (\<exists>w1. ac_CheckForUpdates (ae_client e) w1 = (None, w'))"
proof -
  have up: "rp_UpdateCache ar = None \<or> rp_UpdateCache ar = Some True" using assms(1) by (cases "rp_UpdateCache ar") auto
  have cache: "repository_cache e ar r1 w1 = (r, None, w') \<Longrightarrow> Changed r \<and> ac_CheckForUpdates (ae_client e) w1 = (None, w')" for r1 w1
    using up by (auto simp: repository_cache_def Let_def split: prod.splits option.splits)
  show ?thesis
    using assms(2) cache
    by (auto simp: AptRepository_Apply_def Let_def split: sum.splits option.splits if_splits prod.splits)
qed

theorem repository_default_always_changed_witness:
  "Changed (fst (AptRepository_Apply toy_env (\<lambda>u. Inr (u, [])) \<lparr> rp_Codename = [], rp_Filename = [],
     rp_InstallPythonApt = False, rp_Mode = [], rp_Repo = ''deb u'', rp_State = [], rp_UpdateCache = None,
     rp_UpdateCacheRetries = 0, rp_UpdateCacheRetryMaxDelay = 0, rp_ValidateCerts = None \<rparr> fresh_machine))"
proof -
  let ?t = "\<lparr> rp_Codename = [], rp_Filename = [],
     rp_InstallPythonApt = False, rp_Mode = [], rp_Repo = ''deb u'', rp_State = [], rp_UpdateCache = None,
     rp_UpdateCacheRetries = 0, rp_UpdateCacheRetryMaxDelay = 0, rp_ValidateCerts = None \<rparr>"
  let ?run = "AptRepository_Apply toy_env (\<lambda>u. Inr (u, [])) ?t fresh_machine"
  have "fst (snd ?run) = None" by code_simp
  then have run: "?run = (fst ?run, None, snd (snd ?run))" by (simp add: prod_eq_iff)
  have "rp_UpdateCache ?t \<noteq> Some False" by simp
  from repository_default_always_changed [OF this run] show ?thesis by blast
qed

end
