(* ===== verification/Inventory.thy ===== *)
theory Inventory
  imports Prelude "HOL-Library.Finite_Map"
begin

text \<open>
  Variables and the inventory: \<^verbatim>\<open>pkg/variables/variables.go\<close> and \<^verbatim>\<open>pkg/inventory/inventory.go\<close>.

  A set of variables is a finite map. The maps of hosts and of groups are ranged over by the code,
  so they are lists of entries, in the order of one iteration: Go leaves that order open, and the
  theorems say what does not depend on it, and what does.
\<close>

section \<open>Variables\<close>

text \<open>
  What YAML decodes to, as far as the program looks at it. \<open>VFloat\<close> is a \<^verbatim>\<open>float64\<close>; only those with
  an integral value are told apart.
\<close>

datatype val =
    VNull | VBool bool | VInt int | VFloat int | VString string | VList "val list" | VMap "(string \<times> val) list"

type_synonym vars = "(string, val) fmap"

text \<open>\<^verbatim>\<open>maps.Copy(v, other)\<close>: the entries of the argument win.\<close>

definition Variables_Merge :: "vars \<Rightarrow> vars \<Rightarrow> vars" where
  "Variables_Merge v other = v ++\<^sub>f other"

lemma merge_lookup [var_simps]:
  "fmlookup (Variables_Merge v u) k = (case fmlookup u k of None \<Rightarrow> fmlookup v k | Some x \<Rightarrow> Some x)"
  by (cases "fmlookup u k") (auto simp: Variables_Merge_def fmdom_notI fmdomI)

lemma merge_empty [simp]: "Variables_Merge v fmempty = v" "Variables_Merge fmempty v = v"
  by (simp_all add: Variables_Merge_def)

lemma merge_assoc: "Variables_Merge (Variables_Merge a b) c = Variables_Merge a (Variables_Merge b c)"
  by (simp add: Variables_Merge_def)

text \<open>
  \<^verbatim>\<open>LoadFromFile\<close>; \<^verbatim>\<open>os.ReadFile\<close> and \<^verbatim>\<open>yaml.Unmarshal\<close> are parameters. A file without a document
  decodes to the nil map, which the callers only read: it is the empty map here.
\<close>

definition LoadFromFile :: "(string \<Rightarrow> goerr + bytes) \<Rightarrow> (bytes \<Rightarrow> goerr + vars) \<Rightarrow> string \<Rightarrow> goerr + vars" where
  "LoadFromFile readFile yaml p = (case readFile p of Inl e \<Rightarrow> Inl e | Inr data \<Rightarrow> yaml data)"

section \<open>Groups\<close>

datatype group =
  Group (Hosts: "(string \<times> vars) list") (Vars: vars) (Children: "(string \<times> group) list")

fun Group_Find :: "string \<Rightarrow> string \<Rightarrow> group \<Rightarrow> string set" where
  "Group_Find groupName node (Group hs vs cs) =
     fold (\<lambda>(childName, child) groups.
             (let foundInChildren = Group_Find childName node child in
              if foundInChildren \<noteq> {} then insert groupName (groups \<union> foundInChildren)
              else groups \<union> foundInChildren))
       cs (if map_of hs node \<noteq> None then {groupName} else {})"

fun Group_All :: "group \<Rightarrow> string set" where
  "Group_All (Group hs vs cs) =
     fold (\<lambda>(childName, child) all. all \<union> Group_All child) cs (fst ` set hs)"

text \<open>The pair is (host variables, group variables).\<close>

fun Group_NodeVars :: "string \<Rightarrow> group \<Rightarrow> vars \<times> vars" where
  "Group_NodeVars node (Group hs vs cs) =
     (let hostVars0 = (case map_of hs node of Some v \<Rightarrow> v | None \<Rightarrow> fmempty);
          groupVars0 = (case map_of hs node of Some v \<Rightarrow> vs | None \<Rightarrow> fmempty);
          (hostVars, childrenVars) =
            fold (\<lambda>(childName, child) (hv, cv).
                    (let (h, c) = Group_NodeVars node child in (Variables_Merge hv h, Variables_Merge cv c)))
              cs (hostVars0, fmempty)
      in (hostVars,
          if 0 < fcard (fmdom childrenVars) then Variables_Merge (Variables_Merge groupVars0 vs) childrenVars
          else groupVars0))"

section \<open>Inventories\<close>

record Inventory =
  Groups :: "(string \<times> group) list"

definition Inventory_Find :: "Inventory \<Rightarrow> string \<Rightarrow> string set" where
  "Inventory_Find i node =
     fold (\<lambda>(name, g) foundIn. foundIn \<union> Group_Find name node g) (Groups i) {''all''}"

definition Inventory_All :: "Inventory \<Rightarrow> string set" where
  "Inventory_All i = fold (\<lambda>(name, g) all. all \<union> Group_All g) (Groups i) {}"

definition Inventory_NodeVars :: "Inventory \<Rightarrow> string \<Rightarrow> vars" where
  "Inventory_NodeVars i node =
     (let (hostVars, groupVars) =
            fold (\<lambda>(name, g) (hv, gv).
                    (let (h, c) = Group_NodeVars node g in (Variables_Merge hv h, Variables_Merge gv c)))
              (Groups i) (fmempty, fmempty)
      in Variables_Merge groupVars hostVars)"

section \<open>Unions and merges along a list\<close>

lemma fold_union: "fold (\<lambda>x s. s \<union> f x) xs s0 = s0 \<union> (\<Union>x\<in>set xs. f x)"
  by (induction xs arbitrary: s0) auto

lemma Group_All_eq: "Group_All (Group hs vs cs) = fst ` set hs \<union> (\<Union>(n, c)\<in>set cs. Group_All c)"
  using fold_union [of "\<lambda>(n, c). Group_All c" cs "fst ` set hs"] by (simp add: case_prod_unfold)

lemma UN_flag: "(\<Union>x\<in>A. (if P x then {a} else {}) \<union> f x) = (if \<exists>x\<in>A. P x then {a} else {}) \<union> (\<Union>x\<in>A. f x)"
  by (auto split: if_splits)

lemma Group_Find_eq:
  "Group_Find name node (Group hs vs cs) =
     (if node \<in> fst ` set hs \<or> (\<exists>(n, c)\<in>set cs. Group_Find n node c \<noteq> {}) then {name} else {}) \<union>
     (\<Union>(n, c)\<in>set cs. Group_Find n node c)"
proof -
  let ?F = "\<lambda>x. Group_Find (fst x) node (snd x)"
  have step: "(\<lambda>(childName, child) groups.
      (let foundInChildren = Group_Find childName node child in
       if foundInChildren \<noteq> {} then insert name (groups \<union> foundInChildren)
       else groups \<union> foundInChildren)) = (\<lambda>x groups. groups \<union> ((if ?F x \<noteq> {} then {name} else {}) \<union> ?F x))"
    by (auto simp: fun_eq_iff Let_def)
  show ?thesis
    unfolding Group_Find.simps step fold_union UN_flag by (auto simp: map_of_eq_None_iff case_prod_unfold)
qed

declare Group_All.simps [simp del] Group_Find.simps [simp del] Group_NodeVars.simps [simp del]

text \<open>
  The groups of a group: itself and the groups of its children, each with its name.
\<close>

inductive subgroup :: "string \<times> group \<Rightarrow> string \<times> group \<Rightarrow> bool" where
  self: "subgroup ng ng"
| child: "(n, c) \<in> set (Children g) \<Longrightarrow> subgroup (n, c) ng \<Longrightarrow> subgroup (m, g) ng"

inductive_cases subgroup_cases: "subgroup (m, g) ng"

lemma subgroup_Group:
  "subgroup (m, Group hs vs cs) ng \<longleftrightarrow>
     ng = (m, Group hs vs cs) \<or> (\<exists>(n, c)\<in>set cs. subgroup (n, c) ng)"
  by (auto elim: subgroup_cases intro: subgroup.intros)

definition listed :: "string \<Rightarrow> group \<Rightarrow> bool" where
  "listed node g \<longleftrightarrow> node \<in> fst ` set (Hosts g)"

lemma subgroup_trans_child: "subgroup a (m, g) \<Longrightarrow> (n, c) \<in> set (Children g) \<Longrightarrow> subgroup a (n, c)"
  by (induction a "(m, g)" arbitrary: m g rule: subgroup.induct) (auto intro: subgroup.intros)

lemma subgroup_All: "subgroup a b \<Longrightarrow> Group_All (snd b) \<subseteq> Group_All (snd a)"
proof (induction rule: subgroup.induct)
  case (self ng)
  then show ?case by simp
next
  case (child n c g ng m)
  have "Group_All c \<subseteq> Group_All g" using child.hyps(1) by (cases g) (auto simp: Group_All_eq)
  with child.IH show ?case by auto
qed

lemma listed_All: "listed node g \<Longrightarrow> node \<in> Group_All g"
  by (cases g) (auto simp: listed_def Group_All_eq)

lemma All_listed: "node \<in> Group_All g \<Longrightarrow> \<exists>n g'. subgroup (m, g) (n, g') \<and> listed node g'"
proof (induction g arbitrary: m)
  case (Group hs vs cs)
  show ?case
  proof (cases "node \<in> fst ` set hs")
    case True
    then have "listed node (Group hs vs cs)" by (simp add: listed_def)
    then show ?thesis using subgroup.self by blast
  next
    case False
    with Group.prems obtain n c where nc: "(n, c) \<in> set cs" "node \<in> Group_All c" by (auto simp: Group_All_eq)
    from Group.IH [OF nc(1) _ nc(2), of n] obtain n' g' where "subgroup (n, c) (n', g')" "listed node g'" by auto
    moreover have "subgroup (m, Group hs vs cs) (n', g')"
      using subgroup.child [of n c "Group hs vs cs"] nc(1) calculation(1) by simp
    ultimately show ?thesis by blast
  qed
qed

text \<open>
  The hosts of a group are the hosts listed in it or in any group below it.
\<close>

theorem group_all_spec: "node \<in> Group_All g \<longleftrightarrow> (\<exists>n g'. subgroup (m, g) (n, g') \<and> listed node g')"
  using All_listed listed_All subgroup_All by fastforce

lemma Find_nonempty: "Group_Find m node g \<noteq> {} \<longleftrightarrow> node \<in> Group_All g"
proof (induction g arbitrary: m)
  case (Group hs vs cs)
  have "Group_Find n node c \<noteq> {} \<longleftrightarrow> node \<in> Group_All c" if "(n, c) \<in> set cs" for n c
    using Group.IH [OF that, of c n] by simp
  then have "(\<exists>(n, c)\<in>set cs. Group_Find n node c \<noteq> {}) \<longleftrightarrow> (\<exists>(n, c)\<in>set cs. node \<in> Group_All c)" by fastforce
  moreover have "Group_Find m node (Group hs vs cs) \<noteq> {} \<longleftrightarrow>
      node \<in> fst ` set hs \<or> (\<exists>(n, c)\<in>set cs. Group_Find n node c \<noteq> {})"
    unfolding Group_Find_eq by auto
  ultimately show ?case unfolding Group_All_eq by auto
qed

lemma Find_unfold:
  "n \<in> Group_Find m node (Group hs vs cs) \<longleftrightarrow>
     n = m \<and> node \<in> Group_All (Group hs vs cs) \<or> (\<exists>(n', c)\<in>set cs. n \<in> Group_Find n' node c)"
proof -
  have "node \<in> fst ` set hs \<or> (\<exists>(n, c)\<in>set cs. Group_Find n node c \<noteq> {}) \<longleftrightarrow> node \<in> Group_All (Group hs vs cs)"
    unfolding Find_nonempty Group_All_eq by auto
  then show ?thesis unfolding Group_Find_eq by auto
qed

lemma Find_spec: "n \<in> Group_Find m node g \<longleftrightarrow> (\<exists>g'. subgroup (m, g) (n, g') \<and> node \<in> Group_All g')"
proof (induction g arbitrary: m)
  case (Group hs vs cs)
  have IH: "n \<in> Group_Find n' node c \<longleftrightarrow> (\<exists>g'. subgroup (n', c) (n, g') \<and> node \<in> Group_All g')"
    if "(n', c) \<in> set cs" for n' c
    using Group.IH [OF that, of c n'] by simp
  then show ?case
    unfolding Find_unfold subgroup_Group by fastforce
qed

text \<open>Group membership does not depend on the order in which Go ranges over its maps.\<close>

lemma Inventory_Find_eq: "Inventory_Find i node = insert ''all'' (\<Union>(n, g)\<in>set (Groups i). Group_Find n node g)"
  using fold_union [of "\<lambda>(n, g). Group_Find n node g" "Groups i" "{''all''}"]
  by (simp add: Inventory_Find_def case_prod_unfold)

lemma Inventory_All_eq: "Inventory_All i = (\<Union>(n, g)\<in>set (Groups i). Group_All g)"
  using fold_union [of "\<lambda>(n, g). Group_All g" "Groups i" "{}"]
  by (simp add: Inventory_All_def case_prod_unfold)

lemma Inventory_Find_spec:
  "n \<in> Inventory_Find i node \<longleftrightarrow>
     n = ''all'' \<or> (\<exists>m g g'. (m, g) \<in> set (Groups i) \<and> subgroup (m, g) (n, g') \<and> node \<in> Group_All g')"
proof -
  have "n \<in> Inventory_Find i node \<longleftrightarrow> n = ''all'' \<or> (\<exists>m g. (m, g) \<in> set (Groups i) \<and> n \<in> Group_Find m node g)"
    unfolding Inventory_Find_eq by auto
  then show ?thesis by (auto simp: Find_spec)
qed

text \<open>
  C17. A node is in the group \<^verbatim>\<open>all\<close>, and in exactly the groups of the inventory that have it as a
  host, directly or through groups below them, whatever the order of iteration.
\<close>

theorem inventory_find_spec:
  "n \<in> Inventory_Find i node \<longleftrightarrow>
     n = ''all'' \<or> (\<exists>m g g'. (m, g) \<in> set (Groups i) \<and> subgroup (m, g) (n, g') \<and> node \<in> Group_All g')"
  by (rule Inventory_Find_spec)

section \<open>The variables of a node\<close>

lemma fold_pair:
  "fold (\<lambda>(n, c) (hv, cv). (let (h, d) = f c in (Variables_Merge hv h, Variables_Merge cv d))) cs (a, b) =
     (fold (\<lambda>x m. Variables_Merge m (fst (f (snd x)))) cs a,
      fold (\<lambda>x m. Variables_Merge m (snd (f (snd x)))) cs b)"
  by (induction cs arbitrary: a b) (auto simp: case_prod_unfold Let_def)

lemma merge_all_sound:
  "fmlookup (fold (\<lambda>x m. Variables_Merge m (F x)) xs m0) k = Some v \<Longrightarrow>
   fmlookup m0 k = Some v \<or> (\<exists>x\<in>set xs. fmlookup (F x) k = Some v)"
proof (induction xs arbitrary: m0)
  case Nil
  then show ?case by simp
next
  case (Cons x xs)
  then have "fmlookup (Variables_Merge m0 (F x)) k = Some v \<or> (\<exists>x\<in>set xs. fmlookup (F x) k = Some v)" by simp
  then show ?case by (auto simp: merge_lookup split: option.splits)
qed

lemma merge_all_complete:
  "fmlookup m0 k \<noteq> None \<or> (\<exists>x\<in>set xs. fmlookup (F x) k \<noteq> None) \<Longrightarrow>
   fmlookup (fold (\<lambda>x m. Variables_Merge m (F x)) xs m0) k \<noteq> None"
proof (induction xs arbitrary: m0)
  case Nil
  then show ?case by simp
next
  case (Cons x xs)
  have "fmlookup (Variables_Merge m0 (F x)) k \<noteq> None \<or> (\<exists>x\<in>set xs. fmlookup (F x) k \<noteq> None)"
    using Cons.prems by (auto simp: merge_lookup split: option.split)
  from Cons.IH [OF this] show ?case by simp
qed

text \<open>The host variables and the group variables of a node in a group, as folds.\<close>

abbreviation host_vars :: "string \<Rightarrow> group \<Rightarrow> vars" where "host_vars node g \<equiv> fst (Group_NodeVars node g)"
abbreviation group_vars :: "string \<Rightarrow> group \<Rightarrow> vars" where "group_vars node g \<equiv> snd (Group_NodeVars node g)"

lemma host_vars_eq:
  "host_vars node (Group hs vs cs) =
     fold (\<lambda>x m. Variables_Merge m (host_vars node (snd x))) cs
       (case map_of hs node of Some v \<Rightarrow> v | None \<Rightarrow> fmempty)"
  by (simp add: Group_NodeVars.simps fold_pair [unfolded Let_def] Let_def)

lemma group_vars_eq:
  "group_vars node (Group hs vs cs) =
     (let own = (case map_of hs node of Some v \<Rightarrow> vs | None \<Rightarrow> fmempty);
          childrenVars = fold (\<lambda>x m. Variables_Merge m (group_vars node (snd x))) cs fmempty
      in if 0 < fcard (fmdom childrenVars) then Variables_Merge (Variables_Merge own vs) childrenVars else own)"
  by (simp add: Group_NodeVars.simps fold_pair [unfolded Let_def] Let_def)

definition host_entry :: "string \<Rightarrow> string \<Rightarrow> val \<Rightarrow> group \<Rightarrow> bool" where
  "host_entry node k v g \<longleftrightarrow> (\<exists>hv. map_of (Hosts g) node = Some hv \<and> fmlookup hv k = Some v)"

lemma host_vars_sound:
  "fmlookup (host_vars node g) k = Some v \<Longrightarrow> \<exists>n g'. subgroup (m, g) (n, g') \<and> host_entry node k v g'"
proof (induction g arbitrary: m)
  case (Group hs vs cs)
  from merge_all_sound [OF Group.prems [unfolded host_vars_eq]]
  consider "fmlookup (case map_of hs node of Some v \<Rightarrow> v | None \<Rightarrow> fmempty) k = Some v"
    | n c where "(n, c) \<in> set cs" "fmlookup (host_vars node c) k = Some v" by force
  then show ?case
  proof cases
    case 1
    then have "host_entry node k v (Group hs vs cs)" by (auto simp: host_entry_def split: option.splits)
    then show ?thesis using subgroup.self by blast
  next
    case 2
    from Group.IH [OF 2(1) _ 2(2), of n] obtain n' g' where "subgroup (n, c) (n', g')" "host_entry node k v g'" by auto
    with 2(1) subgroup.child [of n c "Group hs vs cs" "(n', g')" m] show ?thesis by auto
  qed
qed

lemma host_vars_complete:
  "subgroup (m, g) (n, g') \<Longrightarrow> host_entry node k v g' \<Longrightarrow> fmlookup (host_vars node g) k \<noteq> None"
proof (induction g arbitrary: m)
  case (Group hs vs cs)
  from Group.prems(1) consider "g' = Group hs vs cs" | n1 c where "(n1, c) \<in> set cs" "subgroup (n1, c) (n, g')"
    unfolding subgroup_Group by auto
  then show ?case
  proof cases
    case 1
    with Group.prems(2) show ?thesis
      unfolding host_vars_eq by (intro merge_all_complete disjI1) (auto simp: host_entry_def)
  next
    case 2
    from Group.IH [OF 2(1) _ 2(2) Group.prems(2)] have "fmlookup (host_vars node c) k \<noteq> None" by simp
    with 2(1) show ?thesis unfolding host_vars_eq by (intro merge_all_complete disjI2) force
  qed
qed

definition children_vars :: "string \<Rightarrow> (string \<times> group) list \<Rightarrow> vars" where
  "children_vars node cs = fold (\<lambda>x m. Variables_Merge m (group_vars node (snd x))) cs fmempty"

lemma group_vars_cases:
  "group_vars node (Group hs vs cs) =
     (if children_vars node cs \<noteq> fmempty then Variables_Merge vs (children_vars node cs)
      else if map_of hs node \<noteq> None then vs else fmempty)"
proof -
  have "0 < fcard (fmdom m) \<longleftrightarrow> m \<noteq> fmempty" for m :: vars
    by (metis fcard_0_eq fmdom_empty fmrestrict_fset_dom fmrestrict_fset_null neq0_conv)
  moreover have "Variables_Merge vs vs = vs" by (simp add: Variables_Merge_def)
  ultimately show ?thesis
    by (simp add: group_vars_eq children_vars_def Let_def split: option.split)
qed

lemma children_vars_sound:
  "fmlookup (children_vars node cs) k = Some v \<Longrightarrow> \<exists>(n, c)\<in>set cs. fmlookup (group_vars node c) k = Some v"
  unfolding children_vars_def using merge_all_sound by fastforce

lemma children_vars_ne:
  "children_vars node cs \<noteq> fmempty \<Longrightarrow> \<exists>(n, c)\<in>set cs. group_vars node c \<noteq> fmempty"
proof -
  assume "children_vars node cs \<noteq> fmempty"
  then obtain k v where "fmlookup (children_vars node cs) k = Some v"
    by (metis fmap_ext fmempty_lookup option.exhaust)
  from children_vars_sound [OF this] show ?thesis by force
qed

lemma group_vars_member: "group_vars node g \<noteq> fmempty \<Longrightarrow> node \<in> Group_All g"
proof (induction g)
  case (Group hs vs cs)
  show ?case
  proof (cases "map_of hs node")
    case (Some v)
    then have "node \<in> fst ` set hs" by (metis domI dom_map_of_conv_image_fst)
    then show ?thesis by (simp add: Group_All_eq)
  next
    case None
    with Group.prems have "children_vars node cs \<noteq> fmempty" by (simp add: group_vars_cases split: if_splits)
    from children_vars_ne [OF this] obtain n c where nc: "(n, c) \<in> set cs" "group_vars node c \<noteq> fmempty" by auto
    from Group.IH [OF nc(1) _ nc(2)] have "node \<in> Group_All c" by simp
    with nc(1) show ?thesis by (auto simp: Group_All_eq)
  qed
qed

lemma group_vars_sound:
  "fmlookup (group_vars node g) k = Some v \<Longrightarrow>
   \<exists>n g'. subgroup (m, g) (n, g') \<and> node \<in> Group_All g' \<and> fmlookup (Vars g') k = Some v"
proof (induction g arbitrary: m)
  case (Group hs vs cs)
  have "group_vars node (Group hs vs cs) \<noteq> fmempty" using Group.prems by auto
  then have mem: "node \<in> Group_All (Group hs vs cs)" by (rule group_vars_member)
  from Group.prems consider "fmlookup vs k = Some v" | "fmlookup (children_vars node cs) k = Some v"
    by (auto simp: group_vars_cases merge_lookup split: if_splits option.splits)
  then show ?case
  proof cases
    case 1
    with mem subgroup.self [of "(m, Group hs vs cs)"] show ?thesis by force
  next
    case 2
    from children_vars_sound [OF this] obtain n c where nc: "(n, c) \<in> set cs"
      "fmlookup (group_vars node c) k = Some v" by auto
    from Group.IH [OF nc(1) _ nc(2), of n] obtain n' g' where "subgroup (n, c) (n', g')"
      "node \<in> Group_All g'" "fmlookup (Vars g') k = Some v" by auto
    with nc(1) subgroup.child [of n c "Group hs vs cs" "(n', g')" m] show ?thesis by auto
  qed
qed

definition in_inventory :: "Inventory \<Rightarrow> group \<Rightarrow> bool" where
  "in_inventory i g' \<longleftrightarrow> (\<exists>m g n. (m, g) \<in> set (Groups i) \<and> subgroup (m, g) (n, g'))"

lemma Inventory_NodeVars_eq:
  "Inventory_NodeVars i node =
     Variables_Merge (fold (\<lambda>x m. Variables_Merge m (group_vars node (snd x))) (Groups i) fmempty)
       (fold (\<lambda>x m. Variables_Merge m (host_vars node (snd x))) (Groups i) fmempty)"
  by (simp add: Inventory_NodeVars_def fold_pair [unfolded Let_def] Let_def)

text \<open>
  C18. Precedence of inventory variables, whatever the order of iteration: if some entry of the node
  in some group of the inventory, at any depth, binds a name, then the result binds it to the
  value of such an entry; otherwise a binding comes from the variables of a group that has the
  node as a member.
\<close>

theorem inventory_host_vars_win:
  "(\<forall>v. fmlookup (Inventory_NodeVars i node) k = Some v \<longrightarrow>
      (\<exists>g. in_inventory i g \<and> host_entry node k v g) \<or>
      (\<nexists>g v'. in_inventory i g \<and> host_entry node k v' g) \<and>
      (\<exists>g. in_inventory i g \<and> node \<in> Group_All g \<and> fmlookup (Vars g) k = Some v)) \<and>
   ((\<exists>g v'. in_inventory i g \<and> host_entry node k v' g) \<longrightarrow> fmlookup (Inventory_NodeVars i node) k \<noteq> None)"
proof (intro conjI allI impI)
  let ?H = "fold (\<lambda>x m. Variables_Merge m (host_vars node (snd x))) (Groups i) fmempty"
  let ?G = "fold (\<lambda>x m. Variables_Merge m (group_vars node (snd x))) (Groups i) fmempty"
  have H_complete: "fmlookup ?H k \<noteq> None" if "in_inventory i g" "host_entry node k v' g" for g v'
  proof -
    from that(1) obtain m g0 n where "(m, g0) \<in> set (Groups i)" "subgroup (m, g0) (n, g)"
      by (auto simp: in_inventory_def)
    with host_vars_complete [OF this(2) that(2)] show ?thesis
      by (intro merge_all_complete disjI2) force
  qed
  show "fmlookup (Inventory_NodeVars i node) k \<noteq> None" if "\<exists>g v'. in_inventory i g \<and> host_entry node k v' g"
  proof -
    have "fmlookup ?H k \<noteq> None" using that H_complete by blast
    then show ?thesis by (auto simp: Inventory_NodeVars_eq merge_lookup)
  qed
  fix v
  assume v: "fmlookup (Inventory_NodeVars i node) k = Some v"
  show "(\<exists>g. in_inventory i g \<and> host_entry node k v g) \<or>
      (\<nexists>g v'. in_inventory i g \<and> host_entry node k v' g) \<and>
      (\<exists>g. in_inventory i g \<and> node \<in> Group_All g \<and> fmlookup (Vars g) k = Some v)"
  proof (cases "fmlookup ?H k")
    case (Some v')
    with v have "fmlookup ?H k = Some v" by (simp add: Inventory_NodeVars_eq merge_lookup)
    from merge_all_sound [OF this] obtain m g where mg: "(m, g) \<in> set (Groups i)"
      "fmlookup (host_vars node g) k = Some v" by fastforce
    from host_vars_sound [OF mg(2), of m] mg(1) have "\<exists>g. in_inventory i g \<and> host_entry node k v g"
      unfolding in_inventory_def by blast
    then show ?thesis by blast
  next
    case None
    with v have "fmlookup ?G k = Some v" by (simp add: Inventory_NodeVars_eq merge_lookup)
    from merge_all_sound [OF this] obtain m g where mg: "(m, g) \<in> set (Groups i)"
      "fmlookup (group_vars node g) k = Some v" by fastforce
    from group_vars_sound [OF mg(2), of m] mg(1)
    have "\<exists>g. in_inventory i g \<and> node \<in> Group_All g \<and> fmlookup (Vars g) k = Some v"
      unfolding in_inventory_def by blast
    with H_complete None show ?thesis by blast
  qed
qed

definition port_inventory :: Inventory where
  "port_inventory =
     \<lparr> Groups = [(''web'', Group [] (fmupd ''port'' (VInt 80) fmempty)
                    [(''a'', Group [(''h1'', fmupd ''port'' (VInt 81) fmempty)] fmempty [])])] \<rparr>"

theorem inventory_host_vars_win_witness:
  "fmlookup (Inventory_NodeVars port_inventory ''h1'') ''port'' \<noteq> None"
proof -
  let ?a = "Group [(''h1'', fmupd ''port'' (VInt 81) fmempty)] fmempty []"
  let ?web = "Group [] (fmupd ''port'' (VInt 80) fmempty) [(''a'', ?a)]"
  have "subgroup (''web'', ?web) (''a'', ?a)"
    by (rule subgroup.child [of "''a''" ?a]) (auto intro: subgroup.self)
  then have "in_inventory port_inventory ?a" by (auto simp: in_inventory_def port_inventory_def)
  moreover have "host_entry ''h1'' ''port'' (VInt 81) ?a" by (simp add: host_entry_def)
  ultimately show ?thesis using inventory_host_vars_win [of port_inventory "''h1''" "''port''"] by blast
qed

text \<open>
  The variables of a group are lost for a host that belongs to it only through a child group
  when no group below it has variables: the merge is guarded by the number of variables the
  children contribute and not by membership.
\<close>

theorem parent_vars_lost:
  assumes "map_of hs node = None" and "\<And>n c. (n, c) \<in> set cs \<Longrightarrow> group_vars node c = fmempty"
  shows "group_vars node (Group hs vs cs) = fmempty"
proof -
  have "children_vars node cs = fmempty" using children_vars_ne assms(2) by fastforce
  with assms(1) show ?thesis by (simp add: group_vars_cases)
qed

definition web_child :: group where "web_child = Group [(''h1'', fmempty)] fmempty []"
definition web_vars :: vars where "web_vars = fmupd ''port'' (VInt 80) fmempty"

theorem parent_vars_lost_witness:
  "''h1'' \<in> Group_All (Group [] web_vars [(''web'', web_child)]) \<and>
   group_vars ''h1'' (Group [] web_vars [(''web'', web_child)]) = fmempty"
proof
  show "''h1'' \<in> Group_All (Group [] web_vars [(''web'', web_child)])"
    by (simp add: Group_All_eq web_child_def)
  have "group_vars ''h1'' web_child = fmempty"
    by (simp add: web_child_def group_vars_cases children_vars_def)
  then show "group_vars ''h1'' (Group [] web_vars [(''web'', web_child)]) = fmempty"
    by (intro parent_vars_lost) auto
qed

text \<open>
  When two groups disagree, the variables of a node depend on the order in which Go ranges over
  the map of groups, which is random: the group visited last wins.
\<close>

theorem inventory_vars_order_dependent:
  "fmlookup (Inventory_NodeVars
      \<lparr> Groups = [(a, Group [(node, fmempty)] (fmupd k v fmempty) []),
                  (b, Group [(node, fmempty)] (fmupd k u fmempty) [])] \<rparr> node) k = Some u \<and>
   fmlookup (Inventory_NodeVars
      \<lparr> Groups = [(b, Group [(node, fmempty)] (fmupd k u fmempty) []),
                  (a, Group [(node, fmempty)] (fmupd k v fmempty) [])] \<rparr> node) k = Some v"
  by (simp add: Inventory_NodeVars_eq host_vars_eq group_vars_cases children_vars_def merge_lookup)

end
