(* ===== verification/FileTransfer.thy ===== *)
theory FileTransfer
  imports ModeUtil Inventory Result
begin

text \<open>
  The modules that put files on the machine: \<^verbatim>\<open>copy\<close>, \<^verbatim>\<open>template\<close> and \<^verbatim>\<open>get_url\<close>
  (\<^verbatim>\<open>pkg/exec/copy.go\<close>, \<^verbatim>\<open>template.go\<close>, \<^verbatim>\<open>get_url.go\<close>). The template engine, the digests and
  the HTTP client are parameters.
\<close>

section \<open>copy\<close>

record Copy =
  cp_Content :: string
  cp_RemoteSrc :: bool
  cp_Src :: string
  cp_Dest :: string
  cp_Attributes :: string
  cp_Backup :: bool
  cp_Checksum :: string
  cp_Decrypt :: "bool option"
  cp_DirectoryMode :: string
  cp_Follow :: bool
  cp_Force :: "bool option"
  cp_Group :: string
  cp_LocalFollow :: bool
  cp_Mode :: string
  cp_Owner :: string
  cp_Selevel :: string
  cp_Serole :: string
  cp_Setype :: string
  cp_Seuser :: string
  cp_UnsafeWrites :: bool
  cp_Validate :: string

definition Copy_zero :: Copy where
  "Copy_zero =
     \<lparr> cp_Content = [], cp_RemoteSrc = False, cp_Src = [], cp_Dest = [], cp_Attributes = [], cp_Backup = False,
       cp_Checksum = [], cp_Decrypt = None, cp_DirectoryMode = [], cp_Follow = False, cp_Force = None,
       cp_Group = [], cp_LocalFollow = False, cp_Mode = [], cp_Owner = [], cp_Selevel = [], cp_Serole = [],
       cp_Setype = [], cp_Seuser = [], cp_UnsafeWrites = False, cp_Validate = [] \<rparr>"

text \<open>
  The source is opened before the destination is created, and read through its handle after: a source
  that the creation truncates is read as empty.
\<close>

definition copySingleFile :: "'w os \<Rightarrow> string \<Rightarrow> string \<Rightarrow> 'w \<Rightarrow> goerr option \<times> 'w" where
  "copySingleFile os src dst w =
     (case os_open os src w of
        Inl e \<Rightarrow> (Some (Wrap (''failed to open '' @ src @ '' for reading'') (OsErr e)), w)
      | Inr s \<Rightarrow>
          (case os_create os dst w of
             (Inl e, w1) \<Rightarrow> (Some (Wrap (''failed to open '' @ dst @ '' for writing'') (OsErr e)), w1)
           | (Inr d, w1) \<Rightarrow>
               (let msg = ''failed to copy '' @ src @ '' to '' @ dst in
                case os_read os s w1 of
                  Inl e \<Rightarrow> (Some (Wrap msg (OsErr e)), w1)
                | Inr data \<Rightarrow>
                    (case os_write os d data w1 of
                       (Some e, w2) \<Rightarrow> (Some (Wrap msg (OsErr e)), w2)
                     | (None, w2) \<Rightarrow> (None, w2)))))"

definition Copy_Validate :: "Copy \<Rightarrow> goerr option" where
  "Copy_Validate c =
     (if is_abs (cp_Src c) \<and> \<not> cp_RemoteSrc c
      then Some (ErrMsg ''copying from an absolute path without remote_src is not supported'')
      else if cp_Src c = [] \<and> cp_Content c = []
      then Some (ErrMsg ''either src or content need to be specified'')
      else if cp_Src c \<noteq> [] \<and> cp_Content c \<noteq> []
      then Some (ErrMsg (''src and content can'' @ [CHR 0x27] @ ''t both be specified''))
      else if cp_Content c \<noteq> [] \<and> has_suffix (cp_Dest c) ''/''
      then Some (ErrMsg (''can'' @ [CHR 0x27] @ ''t use content when dest is a directory''))
      else if cp_Dest c = [] then Some (ErrMsg ''dest is required'')
      else None)"

text \<open>The callback of the walk over a source directory.\<close>

definition copy_entry :: "'w os \<Rightarrow> string \<Rightarrow> string \<Rightarrow> string \<Rightarrow> fileinfo \<Rightarrow> 'w \<Rightarrow> goerr option \<times> 'w" where
  "copy_entry os actualSrc dstDir p d w =
     (case path_rel actualSrc p of
        None \<Rightarrow> (Some (ErrMsg (''Rel: can'' @ [CHR 0x27] @ ''t make path relative'')), w)
      | Some relPath \<Rightarrow>
          if is_dir d then lift_err (os_mkdirAll os (path_join [dstDir, relPath]) 0x1FF w)
          else copySingleFile os p (path_join [dstDir, relPath]) w)"

definition copy_dst_dir :: "Copy \<Rightarrow> string \<Rightarrow> string" where
  "copy_dst_dir c actualSrc =
     (if has_suffix actualSrc ''/'' then cp_Dest c else path_join [cp_Dest c, path_base (cp_Src c)])"

definition copyDir :: "'w os \<Rightarrow> Copy \<Rightarrow> string \<Rightarrow> 'w \<Rightarrow> goerr option \<times> 'w" where
  "copyDir os c actualSrc w =
     (let dstDir = copy_dst_dir c actualSrc in
      case os_mkdirAll os dstDir 0x1FF w of
        (Some e, w1) \<Rightarrow> (Some (Wrap (''failed to create destination directory '' @ dstDir) (OsErr e)), w1)
      | (None, w1) \<Rightarrow> walk_dir os id (copy_entry os actualSrc dstDir) actualSrc w1)"

definition copyContent :: "'w os \<Rightarrow> Copy \<Rightarrow> 'w \<Rightarrow> goerr option \<times> 'w" where
  "copyContent os c w =
     (case os_writeFile os (cp_Dest c) (cp_Content c) 0x1B6 w of
        (Some e, w1) \<Rightarrow> (Some (Wrap (''failed to write content to '' @ cp_Dest c) (OsErr e)), w1)
      | (None, w1) \<Rightarrow> (None, w1))"

definition copyFile :: "'w os \<Rightarrow> Copy \<Rightarrow> string \<Rightarrow> 'w \<Rightarrow> goerr option \<times> 'w" where
  "copyFile os c actualSrc w =
     (if has_suffix (cp_Dest c) ''/'' then
        (case os_mkdir os (cp_Dest c) 0x1FF w of
           (Some e, w1) \<Rightarrow>
             if \<not> is_exist e then (Some (OsErr e), w1)
             else copySingleFile os actualSrc (path_join [cp_Dest c, cp_Src c]) w1
         | (None, w1) \<Rightarrow> copySingleFile os actualSrc (path_join [cp_Dest c, cp_Src c]) w1)
      else
        (case os_stat os (cp_Dest c) w of
           Inl e \<Rightarrow>
             if is_not_exist e then copySingleFile os actualSrc (cp_Dest c) w else (Some (OsErr e), w)
         | Inr d \<Rightarrow>
             if is_dir d then copySingleFile os actualSrc (path_join [cp_Dest c, cp_Src c]) w
             else copySingleFile os actualSrc (cp_Dest c) w))"

definition Copy_Apply :: "'w os \<Rightarrow> string \<Rightarrow> Copy \<Rightarrow> 'w \<Rightarrow> CommonResult \<times> goerr option \<times> 'w" where
  "Copy_Apply os parentPath c w =
     (if cp_Content c \<noteq> [] then (case copyContent os c w of (err, w1) \<Rightarrow> (CommonResult_zero, err, w1))
      else
        (let srcPath = path_join [parentPath, ''files'', cp_Src c] in
         case os_stat os srcPath w of
           Inl e \<Rightarrow> (CommonResult_zero, Some (Wrap (''failed to read '' @ cp_Src c) (OsErr e)), w)
         | Inr f \<Rightarrow>
             (case (if is_dir f then copyDir os c srcPath w else copyFile os c srcPath w) of
                (Some e, w1) \<Rightarrow>
                  (CommonResult_zero, Some (Wrap (''failed to copy '' @ cp_Src c @ '' to '' @ cp_Dest c) e), w1)
              | (None, w1) \<Rightarrow> (CommonResult_zero, None, w1))))"

section \<open>template\<close>

record Template =
  tp_Dest :: string
  tp_Group :: string
  tp_Mode :: "Mode option"
  tp_Owner :: string
  tp_Src :: string
  tp_Attributes :: string
  tp_Backup :: bool
  tp_BlockEndString :: string
  tp_BlockStartString :: string
  tp_CommentEndString :: string
  tp_CommentStartString :: string
  tp_Follow :: bool
  tp_Force :: "bool option"
  tp_LstripBlocks :: bool
  tp_NewlineSequence :: string
  tp_OutputEncoding :: string
  tp_Selevel :: string
  tp_Serole :: string
  tp_Setype :: string
  tp_Seuser :: string
  tp_TrimBlocks :: "bool option"
  tp_UnsafeWrites :: bool
  tp_Validate :: string
  tp_VariableEndString :: string
  tp_VariableStartString :: string

definition Template_zero :: Template where
  "Template_zero =
     \<lparr> tp_Dest = [], tp_Group = [], tp_Mode = None, tp_Owner = [], tp_Src = [], tp_Attributes = [],
       tp_Backup = False, tp_BlockEndString = [], tp_BlockStartString = [], tp_CommentEndString = [],
       tp_CommentStartString = [], tp_Follow = False, tp_Force = None, tp_LstripBlocks = False,
       tp_NewlineSequence = [], tp_OutputEncoding = [], tp_Selevel = [], tp_Serole = [], tp_Setype = [],
       tp_Seuser = [], tp_TrimBlocks = None, tp_UnsafeWrites = False, tp_Validate = [],
       tp_VariableEndString = [], tp_VariableStartString = [] \<rparr>"

record TemplateResult = CommonResult +
  tr_Checksum :: string
  tr_Dest :: string
  tr_Gid :: "64 word"
  tr_Group :: string
  tr_MD5Sum :: string
  tr_Mode :: string
  tr_Owner :: string
  tr_Size :: nat
  tr_Uid :: "64 word"

definition TemplateResult_zero :: TemplateResult where
  "TemplateResult_zero = CommonResult.extend CommonResult_zero (TemplateResult.fields [] [] 0 [] [] [] [] 0 0)"

text \<open>\<open>te_load\<close> is \<^verbatim>\<open>gonja.FromFile\<close>, \<open>te_execute\<close> the execution of what it parsed; the digests in hexadecimal.\<close>

record ('t, 'w) template_env =
  te_load :: "string \<Rightarrow> 'w \<Rightarrow> goerr + 't"
  te_execute :: "'t \<Rightarrow> vars \<Rightarrow> goerr + bytes"
  te_sha1 :: "bytes \<Rightarrow> string"
  te_md5 :: "bytes \<Rightarrow> string"

definition Template_Validate :: "Template \<Rightarrow> goerr option" where
  "Template_Validate c =
     (if is_abs (tp_Src c) then Some (ErrMsg ''template from an absolute path is not supported'')
      else if tp_Src c = [] then Some (ErrMsg ''src is required'')
      else if tp_Dest c = [] then Some (ErrMsg ''dest is required'')
      else None)"

text \<open>\<^verbatim>\<open>fmt.Sprintf("%04o", m)\<close>.\<close>

definition octal4 :: "filemode \<Rightarrow> string" where
  "octal4 m = (let s = format_uint 8 (unat m) in replicate (4 - length s) (CHR ''0'') @ s)"

definition has_mode :: "Template \<Rightarrow> bool" where
  "has_mode c \<longleftrightarrow> (case tp_Mode c of None \<Rightarrow> False | Some m \<Rightarrow> Mode_Value m \<noteq> [])"

text \<open>The mode and ids, when any is given; the answer is the result with what was set.\<close>

definition template_ids ::
  "'w os \<Rightarrow> userdb \<Rightarrow> Template \<Rightarrow> TemplateResult \<Rightarrow> 'w \<Rightarrow> (goerr + TemplateResult) \<times> 'w" where
  "template_ids os db c result w =
     (if has_mode c \<or> tp_Owner c \<noteq> [] \<or> tp_Group c \<noteq> [] then
        (case GetUid db (tp_Owner c) of
           Inl e \<Rightarrow> (Inl e, w)
         | Inr uid \<Rightarrow>
             (case GetGid db (tp_Group c) of
                Inl e \<Rightarrow> (Inl e, w)
              | Inr gid \<Rightarrow>
                  (let modeValue = (case tp_Mode c of None \<Rightarrow> MNil | Some m \<Rightarrow> MString (Mode_Value m)) in
                   case ApplyModeAndIDs os (tp_Dest c) modeValue uid gid w of
                     (Some e, w1) \<Rightarrow> (Inl (Wrap (''failed to apply mode and IDs to '' @ tp_Dest c) e), w1)
                   | (None, w1) \<Rightarrow>
                       (let r1 = (if tp_Owner c \<noteq> [] then
                                    (let r0 = result\<lparr>tr_Owner := tp_Owner c\<rparr>
                                     in if uid \<noteq> -1 then r0\<lparr>tr_Uid := word_of_int uid\<rparr> else r0)
                                  else result);
                            r2 = (if tp_Group c \<noteq> [] then
                                    (let r0 = r1\<lparr>tr_Group := tp_Group c\<rparr>
                                     in if gid \<noteq> -1 then r0\<lparr>tr_Gid := word_of_int gid\<rparr> else r0)
                                  else r1)
                        in (Inr r2, w1)))))
      else (Inr result, w))"

text \<open>Writing the rendered content, and the report.\<close>

definition template_write ::
  "('t, 'w) template_env \<Rightarrow> 'w os \<Rightarrow> userdb \<Rightarrow> Template \<Rightarrow> bytes \<Rightarrow> TemplateResult \<Rightarrow> 'w \<Rightarrow>
   TemplateResult \<times> goerr option \<times> 'w" where
  "template_write te os db c content result w =
     (case os_writeFile os (tp_Dest c) content 0x1A4 w of
        (Some e, w1) \<Rightarrow> (TaskFailed result, Some (Wrap (''failed to write destination '' @ tp_Dest c) (OsErr e)), w1)
      | (None, w1) \<Rightarrow>
          (let r1 = (TaskChanged result)\<lparr>tr_MD5Sum := te_md5 te content\<rparr> in
           case template_ids os db c r1 w1 of
             (Inl e, w2) \<Rightarrow> (TaskFailed r1, Some e, w2)
           | (Inr r2, w2) \<Rightarrow>
               (case os_stat os (tp_Dest c) w2 of
                  Inl e \<Rightarrow> (TaskFailed r2, Some (Wrap (''failed to stat '' @ tp_Dest c) (OsErr e)), w2)
                | Inr stat \<Rightarrow>
                    (let r3 = r2\<lparr>tr_Dest := tp_Dest c, tr_Size := fi_size stat\<rparr>
                     in (if has_mode c then r3\<lparr>tr_Mode := octal4 (perm (fi_mode stat))\<rparr> else r3, None, w2)))))"

text \<open>Is the destination a regular file with this content already? (By its MD5 digest.)\<close>

definition template_current ::
  "('t, 'w) template_env \<Rightarrow> 'w os \<Rightarrow> Template \<Rightarrow> string \<Rightarrow> bytes \<Rightarrow> 'w \<Rightarrow> goerr + bool" where
  "template_current te os c srcPath content w =
     (case os_stat os (tp_Dest c) w of
        Inl e \<Rightarrow> if is_not_exist e then Inr False else Inl (Wrap (''failed to state '' @ srcPath) (OsErr e))
      | Inr stat \<Rightarrow>
          if \<not> is_regular_mode (fi_mode stat) then Inr False
          else (case os_readFile os (tp_Dest c) w of
                  Inl e \<Rightarrow> Inl (Wrap (''failed to read from '' @ srcPath) (OsErr e))
                | Inr existing \<Rightarrow> Inr (te_md5 te existing = te_md5 te content)))"

definition Template_Apply ::
  "('t, 'w) template_env \<Rightarrow> 'w os \<Rightarrow> userdb \<Rightarrow> vars option \<Rightarrow> string \<Rightarrow> Template \<Rightarrow> 'w \<Rightarrow>
   TemplateResult \<times> goerr option \<times> 'w" where
  "Template_Apply te os db ctx parentPath c w =
     (let result = TemplateResult_zero;
          srcPath = path_join [parentPath, ''templates'', tp_Src c]
      in case te_load te srcPath w of
           Inl e \<Rightarrow> (TaskFailed result, Some (Wrap (''failed to read template file '' @ srcPath) e), w)
         | Inr template \<Rightarrow>
             (case te_execute te template (case ctx of Some v \<Rightarrow> v | None \<Rightarrow> fmempty) of
                Inl e \<Rightarrow> (TaskFailed result, Some (Wrap (''failed to template file '' @ srcPath) e), w)
              | Inr content \<Rightarrow>
                  (let r1 = result\<lparr>tr_Checksum := te_sha1 te content\<rparr> in
                   case template_current te os c srcPath content w of
                     Inl e \<Rightarrow> (TaskFailed r1, Some e, w)
                   | Inr True \<Rightarrow> (TaskSkipped r1, None, w)
                   | Inr False \<Rightarrow> template_write te os db c content r1 w)))"

section \<open>get_url\<close>

text \<open>Only five fields are read; the others are accepted, rendered and ignored.\<close>

record GetURL =
  gu_Dest :: string
  gu_Url :: string
  gu_Group :: string
  gu_Mode :: "Mode option"
  gu_Owner :: string
  gu_Attributes :: string
  gu_Backup :: bool
  gu_Checksum :: string
  gu_Ciphers :: "string list"
  gu_ClientCert :: string
  gu_ClientKey :: string
  gu_Decompress :: "bool option"
  gu_Force :: "bool option"
  gu_ForceBasicAuth :: bool
  gu_Headers :: "(string \<times> string) list"
  gu_Selevel :: string
  gu_Serole :: string
  gu_Setype :: string
  gu_Seuser :: string
  gu_Timeout :: nat
  gu_TmpDest :: string
  gu_UnredirectedHeaders :: "string list"
  gu_UnsafeWrites :: bool
  gu_UrlPassword :: string
  gu_UrlUsername :: string
  gu_UseGssapi :: bool
  gu_UseNetrc :: "bool option"
  gu_UseProxy :: "bool option"
  gu_ValidateCerts :: "bool option"

definition GetURL_zero :: GetURL where
  "GetURL_zero =
     \<lparr> gu_Dest = [], gu_Url = [], gu_Group = [], gu_Mode = None, gu_Owner = [], gu_Attributes = [],
       gu_Backup = False, gu_Checksum = [], gu_Ciphers = [], gu_ClientCert = [], gu_ClientKey = [],
       gu_Decompress = None, gu_Force = None, gu_ForceBasicAuth = False, gu_Headers = [], gu_Selevel = [],
       gu_Serole = [], gu_Setype = [], gu_Seuser = [], gu_Timeout = 0, gu_TmpDest = [],
       gu_UnredirectedHeaders = [], gu_UnsafeWrites = False, gu_UrlPassword = [], gu_UrlUsername = [],
       gu_UseGssapi = False, gu_UseNetrc = None, gu_UseProxy = None, gu_ValidateCerts = None \<rparr>"

text \<open>
  An answer of \<^verbatim>\<open>http.Get\<close>: the status, the value of the header \<^verbatim>\<open>Content-Disposition\<close> (empty when it is
  missing), and the body, which may end with an error after some bytes. \<open>hc_parse\<close> is \<^verbatim>\<open>url.Parse\<close>, as the path.
\<close>

record response =
  rs_StatusCode :: nat
  rs_Status :: string
  rs_ContentDisposition :: string
  rs_Body :: bytes
  rs_BodyError :: "goerr option"

record 'w http_env =
  hc_get :: "string \<Rightarrow> 'w \<Rightarrow> goerr + response"
  hc_parse :: "string \<Rightarrow> goerr + string"

definition filenameFromHeader :: "string \<Rightarrow> string" where
  "filenameFromHeader cd =
     (if cd = [] then []
      else case str_index cd ''filename='' of
             None \<Rightarrow> []
           | Some i \<Rightarrow> path_base (trim_set (drop (i + length ''filename='') cd) ([CHR 0x22] @ [CHR 0x27] @ ''; '')))"

definition dirDest :: "'w http_env \<Rightarrow> string \<Rightarrow> string \<Rightarrow> string \<Rightarrow> goerr + string" where
  "dirDest hc cd src dest =
     (let filename = filenameFromHeader cd in
      if filename \<noteq> [] then Inr (path_join [dest, filename])
      else case hc_parse hc src of
             Inl e \<Rightarrow> Inl (Wrap ''failed to parse URL'' e)
           | Inr p \<Rightarrow>
               if p \<noteq> [] then Inr (path_join [dest, path_base p])
               else Inr (path_join [dest, ''index.html'']))"

definition GetURL_Validate :: "'w http_env \<Rightarrow> GetURL \<Rightarrow> goerr option" where
  "GetURL_Validate hc g =
     (if gu_Url g = [] then Some (ErrMsg ''url is required'')
      else if gu_Dest g = [] then Some (ErrMsg ''dest is required'')
      else case hc_parse hc (gu_Url g) of
             Inl e \<Rightarrow> Some (ErrMsg ''invalid URL provided'')
           | Inr p \<Rightarrow> None)"

text \<open>Creating the file and copying the body into it.\<close>

definition download :: "'w os \<Rightarrow> GetURL \<Rightarrow> response \<Rightarrow> string \<Rightarrow> 'w \<Rightarrow> goerr option \<times> 'w" where
  "download os g resp actualDest w =
     (case os_create os actualDest w of
        (Inl e, w1) \<Rightarrow> (Some (Wrap (''failed to create file '' @ gu_Dest g) (OsErr e)), w1)
      | (Inr out, w1) \<Rightarrow>
          (case os_write os out (rs_Body resp) w1 of
             (Some e, w2) \<Rightarrow> (Some (Wrap (''failed to write to file '' @ gu_Dest g) (OsErr e)), w2)
           | (None, w2) \<Rightarrow>
               (case rs_BodyError resp of
                  Some e \<Rightarrow> (Some (Wrap (''failed to write to file '' @ gu_Dest g) e), w2)
                | None \<Rightarrow> (None, w2))))"

definition url_ids :: "'w os \<Rightarrow> userdb \<Rightarrow> GetURL \<Rightarrow> string \<Rightarrow> 'w \<Rightarrow> goerr option \<times> 'w" where
  "url_ids os db g actualDest w =
     (if gu_Mode g = None \<and> gu_Owner g = [] \<and> gu_Group g = [] then (None, w)
      else case GetUid db (gu_Owner g) of
             Inl e \<Rightarrow> (Some e, w)
           | Inr uid \<Rightarrow>
               (case GetGid db (gu_Group g) of
                  Inl e \<Rightarrow> (Some e, w)
                | Inr gid \<Rightarrow>
                    (case ApplyModeAndIDs os actualDest (MString (Mode_GetValue (gu_Mode g))) uid gid w of
                       (Some e, w1) \<Rightarrow> (Some (Wrap (''failed to apply mode and IDs to '' @ actualDest) e), w1)
                     | (None, w1) \<Rightarrow> (None, w1))))"

definition url_dest :: "'w http_env \<Rightarrow> 'w os \<Rightarrow> GetURL \<Rightarrow> response \<Rightarrow> 'w \<Rightarrow> goerr + string" where
  "url_dest hc os g resp w =
     (case os_stat os (gu_Dest g) w of
        Inl e \<Rightarrow>
          if \<not> is_not_exist e then Inl (Wrap (''failed to stat '' @ gu_Dest g) (OsErr e)) else Inr (gu_Dest g)
      | Inr d \<Rightarrow>
          if is_dir d then
            (case dirDest hc (rs_ContentDisposition resp) (gu_Url g) (gu_Dest g) of
               Inl e \<Rightarrow> Inl (Wrap ''failed to determine path from dest'' e)
             | Inr p \<Rightarrow> Inr p)
          else Inr (gu_Dest g))"

definition GetURL_Apply ::
  "'w http_env \<Rightarrow> 'w os \<Rightarrow> userdb \<Rightarrow> GetURL \<Rightarrow> 'w \<Rightarrow> CommonResult \<times> goerr option \<times> 'w" where
  "GetURL_Apply hc os db g w =
     (case hc_get hc (gu_Url g) w of
        Inl e \<Rightarrow> (CommonResult_zero, Some (Wrap (''failed to get URL '' @ gu_Url g) e), w)
      | Inr resp \<Rightarrow>
          if rs_StatusCode resp \<noteq> 200 then
            (CommonResult_zero, Some (ErrMsg (''unexpected status getting.Url '' @ gu_Url g @ '': '' @ rs_Status resp)), w)
          else (case url_dest hc os g resp w of
                  Inl e \<Rightarrow> (CommonResult_zero, Some e, w)
                | Inr actualDest \<Rightarrow>
                    (case download os g resp actualDest w of
                       (Some e, w1) \<Rightarrow> (CommonResult_zero, Some e, w1)
                     | (None, w1) \<Rightarrow>
                         (case url_ids os db g actualDest w1 of
                            (err, w2) \<Rightarrow> (CommonResult_zero, err, w2)))))"

end
