(* ===== verification/Contents.thy ===== *)
theory Contents
  imports MemFs
begin

text \<open>
  What the program relies on about the contents of files: writing, creating, copying through
  handles, and that permissions and owners leave the content alone. The laws extend \<open>posix_os\<close>;
  the file system of \<open>MemFs\<close> satisfies them.
\<close>

text \<open>
  A path that names a regular file, or nothing yet: writing to it makes a regular file with that
  content, which writing to a device would not.
\<close>

definition plain_target :: "'w os \<Rightarrow> string \<Rightarrow> 'w \<Rightarrow> bool" where
  "plain_target os p w =
     (case os_stat os p w of Inl e \<Rightarrow> e = ENOENT | Inr fi \<Rightarrow> is_regular_mode (fi_mode fi))"

definition holds_file :: "'w os \<Rightarrow> string \<Rightarrow> bytes \<Rightarrow> 'w \<Rightarrow> bool" where
  "holds_file os p d w =
     (case os_stat os p w of
        Inl e \<Rightarrow> False
      | Inr fi \<Rightarrow> is_regular_mode (fi_mode fi) \<and> os_readFile os p w = Inr d)"

lemma holds_file_iff:
  "holds_file os p d w \<longleftrightarrow>
     (\<exists>fi. os_stat os p w = Inr fi \<and> is_regular_mode (fi_mode fi) \<and> os_readFile os p w = Inr d)"
  by (simp add: holds_file_def split: sum.split)

locale posix_files = posix_os +
  assumes writeFile_holds:
      "plain_target os p w \<Longrightarrow> os_writeFile os p d m w = (None, w') \<Longrightarrow> holds_file os p d w'"
    and create_write_holds:
      "plain_target os p w \<Longrightarrow> os_create os p w = (Inr h, w1) \<Longrightarrow> os_write os h d w1 = (None, w2) \<Longrightarrow>
       holds_file os p d w2"
    and readFile_open:
      "os_open os p w = Inr h \<Longrightarrow> os_readFile os p w = os_read os h w"
    and create_other:
      "os_create os p w = (Inr h, w1) \<Longrightarrow> os_open os q w = Inr k \<Longrightarrow> k \<noteq> h \<Longrightarrow> os_read os k w1 = os_read os k w"
    and create_truncates:
      "plain_target os p w \<Longrightarrow> os_create os p w = (Inr h, w1) \<Longrightarrow> os_read os h w1 = Inr []"
    and chmod_holds:
      "os_chmod os p m w = (None, w') \<Longrightarrow> holds_file os p d w \<Longrightarrow> holds_file os p d w'"
    and chown_holds:
      "os_chown os p u g w = (None, w') \<Longrightarrow> holds_file os p d w \<Longrightarrow> holds_file os p d w'"

section \<open>The executable file system\<close>

lemma regular_info [simp]: "is_regular_mode (fi_mode (info_of fs i)) \<longleftrightarrow> in_kind (fs_inodes fs i) = KFile"
  by (cases "in_kind (fs_inodes fs i)")
    (simp_all add: is_regular_mode_def info_simps kind_bits_def, simp_all add: mode_consts)

lemma mem_ops:
  "os_stat mem_os = mem_stat" "os_chmod mem_os = mem_chmod" "os_chown mem_os = mem_chown"
  "os_open mem_os = mem_open" "os_create mem_os = mem_create" "os_read mem_os = mem_read"
  "os_write mem_os = mem_write" "os_readFile mem_os = mem_readFile" "os_writeFile mem_os = mem_writeFile"
  by (simp_all add: mem_os_sel)

lemma mem_holds:
  "holds_file mem_os p d fs \<longleftrightarrow>
     (\<exists>i. ino_at fs True p = Inr i \<and> in_kind (fs_inodes fs i) = KFile \<and> in_data (fs_inodes fs i) = d)"
  by (auto simp: holds_file_iff mem_ops mem_stat_def mem_readFile_def mem_open_def mem_read_def Let_def
      split: sum.splits if_splits)

lemma mem_target:
  "plain_target mem_os p fs \<Longrightarrow> locate fs True p = Inr q \<Longrightarrow> map_of (fs_names fs) q = Some i \<Longrightarrow>
   in_kind (fs_inodes fs i) = KFile"
  by (simp add: plain_target_def mem_ops mem_stat_def ino_at_def)

text \<open>Writing to a place that exists, and to one that does not.\<close>

lemma creat_cases:
  assumes "creat m d p fs = (Inr h, fs')"
  obtains q where "locate fs True p = Inr q" "map_of (fs_names fs) q = Some h"
      "fs' = upd_inode h (set_data d (fs_now fs)) fs"
  | q nd where "locate fs True p = Inr q" "map_of (fs_names fs) q = None" "h = fresh_ino fs"
      "in_kind nd = KFile" "in_data nd = d" "fs' = add_node q nd fs"
proof -
  from assms obtain q where q: "locate fs True p = Inr q" by (auto simp: creat_def split: sum.splits)
  show thesis
  proof (cases "map_of (fs_names fs) q")
    case None
    with assms q have "h = fresh_ino fs"
      "fs' = add_node q (new_node fs KFile (perm m AND NOT (fs_umask fs)) d) fs"
      by (simp_all add: creat_def)
    then show thesis by (intro that(2) [OF q None]) (simp_all add: new_node_def)
  next
    case (Some i)
    with assms q that(1) [OF q] show thesis by (auto simp: creat_def split: if_splits)
  qed
qed

lemma ino_at_set_data:
  assumes "in_kind (fs_inodes fs i) \<noteq> KLink"
  shows "ino_at (upd_inode i (set_data d t) fs) fl p = ino_at fs fl p"
proof -
  have "shape (node (upd_inode i (set_data d t) fs) q) = shape (node fs q)" for q
    using assms by (cases "map_of (fs_names fs) q") (auto simp: shape_def node_def set_data_def)
  then have "locate (upd_inode i (set_data d t) fs) fl p = locate fs fl p" by (intro locate_cong) simp_all
  then show ?thesis by (simp add: ino_at_def split: sum.split)
qed

lemma locate_new_file:
  assumes "locate fs True p = Inr q" "map_of (fs_names fs) q = None" "in_kind nd = KFile"
  shows "locate (add_node q nd fs) True p = Inr q"
proof -
  have free: "node fs q = None" using assms(2) by (simp add: node_def)
  have "walk (add_node q nd fs) k True cur cs = Inr q" if "walk fs k True cur cs = Inr q" for k cur cs
    by (rule walk_add_gen [OF _ free _ that]) (simp_all add: node_add assms(3))
  moreover have "fs_cwd (add_node q nd fs) = fs_cwd fs" by (simp add: add_node_def)
  ultimately show ?thesis using assms(1) by (simp add: locate_def split: if_splits)
qed

lemma creat_holds:
  assumes "plain_target mem_os p fs" "creat m d p fs = (Inr h, fs')"
  shows "ino_at fs' True p = Inr h \<and> in_kind (fs_inodes fs' h) = KFile \<and> in_data (fs_inodes fs' h) = d"
  using assms(2)
proof (cases rule: creat_cases)
  case (1 q)
  have k: "in_kind (fs_inodes fs h) = KFile" by (rule mem_target [OF assms(1) 1(1,2)])
  with 1 show ?thesis by (simp add: ino_at_set_data) (simp add: ino_at_def set_data_def)
next
  case (2 q nd)
  with locate_new_file [OF 2(1,2,4)] show ?thesis by (simp add: ino_at_def add_node_def)
qed

lemma creat_other:
  assumes "creat m d p fs = (Inr h, fs')" "k \<noteq> h"
  shows "fs_inodes fs' k = fs_inodes fs k"
  using assms(1) by (cases rule: creat_cases) (use assms(2) in \<open>simp_all add: add_node_def\<close>)

lemma mem_writeFile_holds:
  assumes "plain_target mem_os p fs" "mem_writeFile p d m fs = (None, fs')"
  shows "holds_file mem_os p d fs'"
proof -
  from assms(2) obtain h where "creat m d p fs = (Inr h, fs')"
    by (auto simp: mem_writeFile_def split: prod.splits sum.splits)
  from creat_holds [OF assms(1) this] show ?thesis by (simp add: mem_holds)
qed

lemma mem_create_write_holds:
  assumes "plain_target mem_os p fs" "mem_create p fs = (Inr h, fs1)" "mem_write h d fs1 = (None, fs2)"
  shows "holds_file mem_os p d fs2"
  using creat_holds [OF assms(1) assms(2) [unfolded mem_create_def]] assms(3)
  by (simp add: mem_holds mem_write_def) (auto simp: ino_at_set_data set_data_def)

lemma mem_chmod_holds:
  assumes "mem_chmod p m fs = (None, fs')" "holds_file mem_os p d fs"
  shows "holds_file mem_os p d fs'"
proof -
  from assms(2) obtain i where i: "ino_at fs True p = Inr i" "in_kind (fs_inodes fs i) = KFile"
    "in_data (fs_inodes fs i) = d" by (auto simp: mem_holds)
  with assms(1) have "fs' = upd_inode i (\<lambda>nd. nd\<lparr>in_mode := m AND chmod_mask\<rparr>) fs"
    by (simp add: mem_chmod_def on_ino_def)
  with i show ?thesis by (simp add: mem_holds ino_at_upd)
qed

lemma mem_chown_holds:
  assumes "mem_chown p u g fs = (None, fs')" "holds_file mem_os p d fs"
  shows "holds_file mem_os p d fs'"
proof -
  from assms(2) obtain i where i: "ino_at fs True p = Inr i" "in_kind (fs_inodes fs i) = KFile"
    "in_data (fs_inodes fs i) = d" by (auto simp: mem_holds)
  with assms(1) have "fs' = upd_inode i (chown_inode u g) fs"
    by (simp add: mem_chown_def on_ino_def)
  with i show ?thesis by (simp add: mem_holds ino_at_upd chown_inode_simps)
qed

lemma mem_create_other:
  "mem_create p fs = (Inr h, fs') \<Longrightarrow> k \<noteq> h \<Longrightarrow> mem_read k fs' = mem_read k fs"
  using creat_other [of "0x1B6" "[]" p fs h fs' k] by (simp add: mem_create_def mem_read_def)

lemma mem_create_truncates:
  "plain_target mem_os p fs \<Longrightarrow> mem_create p fs = (Inr h, fs') \<Longrightarrow> mem_read h fs' = Inr []"
  using creat_holds [of p fs "0x1B6" "[]" h fs'] by (simp add: mem_create_def mem_read_def)

interpretation memfiles: posix_files mem_os
  by unfold_locales
    (simp_all add: mem_ops mem_writeFile_holds mem_create_write_holds mem_chmod_holds mem_chown_holds
      mem_create_other mem_create_truncates mem_readFile_def)

end
