(* ===== verification/TransferProps.thy ===== *)
theory TransferProps
  imports FileTransfer Contents PathFacts
begin

text \<open>
  Properties of \<^verbatim>\<open>copy\<close>, \<^verbatim>\<open>template\<close> and \<^verbatim>\<open>get_url\<close>: what a successful run leaves at the destination, that
  templating settles and what it overlooks, where a download may go, and the sources of a copy.
\<close>

section \<open>Contents are kept by modes and owners\<close>

context posix_files
begin

lemma apply_mode_holds:
  "apply_mode os p mode w = (None, w') \<Longrightarrow> holds_file os p d w \<Longrightarrow> holds_file os p d w'"
  by (auto simp: apply_mode_def ChmodFromString_def intro: chmod_holds
      split: mode_any.splits if_splits option.splits sum.splits)

lemma ApplyModeAndIDs_holds:
  assumes "ApplyModeAndIDs os p mode u g w = (None, w')" "holds_file os p d w"
  shows "holds_file os p d w'"
proof -
  from assms(1) obtain w1 where "apply_mode os p mode w = (None, w1)" "os_chown os p u g w1 = (None, w')"
    by (auto simp: ApplyModeAndIDs_def split: prod.splits option.splits)
  with assms(2) show ?thesis using apply_mode_holds chown_holds by blast
qed

lemma template_ids_holds:
  assumes "template_ids os db c r w = (Inr r', w')" "holds_file os (tp_Dest c) d w"
  shows "holds_file os (tp_Dest c) d w'"
  using assms ApplyModeAndIDs_holds
  by (auto simp: template_ids_def Let_def split: if_splits sum.splits prod.splits option.splits)

lemma template_write_holds:
  assumes "template_write te os db c content r w = (r', None, w')" "plain_target os (tp_Dest c) w"
  shows "holds_file os (tp_Dest c) content w'"
proof -
  from assms(1) obtain w1 where w1: "os_writeFile os (tp_Dest c) content 0x1A4 w = (None, w1)"
    by (auto simp: template_write_def split: prod.splits option.splits)
  from assms(1) w1 obtain q r2 where "template_ids os db c q w1 = (Inr r2, w')"
    by (auto simp: template_write_def Let_def split: prod.splits sum.splits)
  from template_ids_holds [OF this writeFile_holds [OF assms(2) w1]] show ?thesis .
qed

end

section \<open>template\<close>

lemma template_zero_flags [simp]:
  "\<not> Failed TemplateResult_zero" "\<not> Changed TemplateResult_zero" "\<not> Skipped TemplateResult_zero"
  by (simp_all add: TemplateResult_zero_def CommonResult_zero_def CommonResult.extend_def)

lemma template_ids_flags:
  "template_ids os db c r w = (Inr r', w') \<Longrightarrow> Failed r' = Failed r \<and> Changed r' = Changed r \<and> Skipped r' = Skipped r"
  by (auto simp: template_ids_def Let_def split: if_splits sum.splits prod.splits option.splits)

lemma template_write_flags:
  assumes "template_write te os db c content r w = (r', err, w')" "\<not> Failed r" "\<not> Skipped r"
  shows "Failed r' = (err \<noteq> None)" "\<not> Skipped r'" "err = None \<Longrightarrow> Changed r'"
  using assms template_ids_flags [of os db c]
  by (auto simp: template_write_def Let_def TaskFailed_def TaskChanged_def dest!: template_ids_flags
      split: prod.splits sum.splits option.splits if_splits)

lemma Template_Apply_cases [consumes 1, case_names error current rewrite]:
  assumes "Template_Apply te os db ctx parentPath c w = (r, err, w')"
  obtains (error) e where "err = Some e" "w' = w" "Failed r" "\<not> Skipped r"
  | (current) t content where "te_load te (path_join [parentPath, ''templates'', tp_Src c]) w = Inr t"
      "te_execute te t (case ctx of Some v \<Rightarrow> v | None \<Rightarrow> fmempty) = Inr content"
      "template_current te os c (path_join [parentPath, ''templates'', tp_Src c]) content w = Inr True"
      "err = None" "w' = w" "Skipped r" "\<not> Failed r" "\<not> Changed r"
  | (rewrite) t content r0 where "te_load te (path_join [parentPath, ''templates'', tp_Src c]) w = Inr t"
      "te_execute te t (case ctx of Some v \<Rightarrow> v | None \<Rightarrow> fmempty) = Inr content"
      "template_current te os c (path_join [parentPath, ''templates'', tp_Src c]) content w = Inr False"
      "template_write te os db c content r0 w = (r, err, w')" "\<not> Failed r0" "\<not> Skipped r0"
proof -
  let ?src = "path_join [parentPath, ''templates'', tp_Src c]"
  show thesis
  proof (cases "te_load te ?src w")
    case (Inl e)
    with assms show thesis by (intro error) (auto simp: Template_Apply_def Let_def)
  next
    case load: (Inr t)
    show thesis
    proof (cases "te_execute te t (case ctx of Some v \<Rightarrow> v | None \<Rightarrow> fmempty)")
      case (Inl e)
      with load assms show thesis by (intro error) (auto simp: Template_Apply_def Let_def)
    next
      case content: (Inr content)
      show thesis
      proof (cases "template_current te os c ?src content w")
        case (Inl e)
        with load content assms show thesis by (intro error) (auto simp: Template_Apply_def Let_def)
      next
        case (Inr b)
        with load content assms show thesis
        proof (cases b)
          case True
          with load content Inr assms show thesis
            by (intro current [OF load content]) (auto simp: Template_Apply_def Let_def)
        next
          case False
          with load content Inr assms show thesis
            by (intro rewrite [OF load content, of "TemplateResult_zero\<lparr>tr_Checksum := te_sha1 te content\<rparr>"])
              (auto simp: Template_Apply_def Let_def)
        qed
      qed
    qed
  qed
qed

interpretation template: task_module "Template_Apply te os db ctx parentPath c" for te os db ctx parentPath c
proof
  fix w r err w'
  assume run: "Template_Apply te os db ctx parentPath c w = (r, err, w')"
  show "Failed r \<longleftrightarrow> err \<noteq> None"
    using run by (cases rule: Template_Apply_cases) (auto simp: template_write_flags)
  show "\<not> Changed r \<and> err = None \<and> w' = w" if "Skipped r"
    using run that by (cases rule: Template_Apply_cases) (auto simp: template_write_flags)
qed

lemma template_current_True:
  assumes "holds_file os (tp_Dest c) d w" "te_md5 te d = te_md5 te content"
  shows "template_current te os c src content w = Inr True"
  using assms by (auto simp: holds_file_iff template_current_def)

lemma Template_Apply_current:
  assumes "te_load te (path_join [parentPath, ''templates'', tp_Src c]) w = Inr t"
    and "te_execute te t (case ctx of Some v \<Rightarrow> v | None \<Rightarrow> fmempty) = Inr content"
    and "template_current te os c (path_join [parentPath, ''templates'', tp_Src c]) content w = Inr True"
  shows "\<exists>r. Template_Apply te os db ctx parentPath c w = (r, None, w) \<and> Skipped r \<and> \<not> Changed r"
  using assms by (simp add: Template_Apply_def Let_def)

text \<open>What a template task needs to run again: the template engine answers as it did.\<close>

definition same_template :: "('t, 'w) template_env \<Rightarrow> string \<Rightarrow> Template \<Rightarrow> 'w \<Rightarrow> 'w \<Rightarrow> bool" where
  "same_template te parentPath c w w' \<longleftrightarrow>
     te_load te (path_join [parentPath, ''templates'', tp_Src c]) w' =
     te_load te (path_join [parentPath, ''templates'', tp_Src c]) w"

context posix_files
begin

lemma template_again:
  assumes "Template_Apply te os db ctx parentPath c w = (r, None, w')"
    and "plain_target os (tp_Dest c) w" and "same_template te parentPath c w w'"
  shows "\<exists>r'. Template_Apply te os db ctx parentPath c w' = (r', None, w') \<and> Skipped r' \<and> \<not> Changed r'"
  using assms(1)
proof (cases rule: Template_Apply_cases)
  case (error e)
  then show ?thesis by simp
next
  case (current t content)
  with Template_Apply_current [OF current(1-3)] show ?thesis by simp
next
  case (rewrite t content r0)
  have "template_current te os c (path_join [parentPath, ''templates'', tp_Src c]) content w' = Inr True"
    by (rule template_current_True [OF template_write_holds [OF rewrite(4) assms(2)] refl])
  with rewrite(1,2) assms(3) show ?thesis
    by (intro Template_Apply_current) (simp_all add: same_template_def)
qed

lemma template_writes:
  assumes "Template_Apply te os db ctx parentPath c w = (r, None, w')" "Changed r"
    and "plain_target os (tp_Dest c) w"
  shows "\<exists>t content. te_load te (path_join [parentPath, ''templates'', tp_Src c]) w = Inr t \<and>
           te_execute te t (case ctx of Some v \<Rightarrow> v | None \<Rightarrow> fmempty) = Inr content \<and>
           holds_file os (tp_Dest c) content w'"
  using assms(1)
proof (cases rule: Template_Apply_cases)
  case (error e)
  then show ?thesis by simp
next
  case (current t content)
  with assms(2) show ?thesis by simp
next
  case (rewrite t content r0)
  with template_write_holds [OF rewrite(4) assms(3)] show ?thesis by blast
qed

end

text \<open>A machine with one template, an engine that renders it as it is, and a task.\<close>

definition mem_file :: "string \<Rightarrow> bytes \<Rightarrow> memfs \<Rightarrow> memfs" where
  "mem_file p d fs = snd (mem_writeFile p d 0x1A4 fs)"

definition toy_engine :: "(bytes, memfs) template_env" where
  "toy_engine =
     \<lparr> te_load = (\<lambda>p fs. case mem_readFile p fs of Inl e \<Rightarrow> Inl (OsErr e) | Inr d \<Rightarrow> Inr d),
       te_execute = (\<lambda>t v. Inr t), te_sha1 = id, te_md5 = id \<rparr>"

definition toy_template :: Template where
  "toy_template = Template_zero\<lparr>tp_Dest := ''/motd'', tp_Src := ''motd'', tp_Mode := Some \<lparr> Mode_Value = ''0600'' \<rparr>\<rparr>"

definition toy_site :: memfs where
  "toy_site = mem_file ''/p/templates/motd'' ''hi'' (snd (mem_mkdirAll ''/p/templates'' 0x1ED empty_fs))"

definition no_db :: userdb where
  "no_db =
     \<lparr> user_LookupId = (\<lambda>i. Inl (ErrMsg ''unknown'')), user_Lookup = (\<lambda>n. Inl (ErrMsg ''unknown'')),
       user_LookupGroupId = (\<lambda>i. Inl (ErrMsg ''unknown'')), user_LookupGroup = (\<lambda>n. Inl (ErrMsg ''unknown'')) \<rparr>"

definition templated :: memfs where
  "templated = snd (snd (Template_Apply toy_engine mem_os no_db None ''/p'' toy_template toy_site))"

text \<open>
  C19. A \<^verbatim>\<open>template\<close> task that succeeds settles: as long as the template renders to the same text, running it
  again skips, changes nothing and leaves the machine as it is, whatever mode and owner it sets.
\<close>

theorem template_second_run_skips:
  assumes "posix_files os" and "plain_target os (tp_Dest c) w" and "same_template te parentPath c w w'"
    and "Template_Apply te os db ctx parentPath c w = (r, None, w')"
  shows "\<exists>r'. Template_Apply te os db ctx parentPath c w' = (r', None, w') \<and> Skipped r' \<and> \<not> Changed r'"
  using posix_files.template_again [OF assms(1,4,2,3)] .

lemma toy_template_run:
  "plain_target mem_os (tp_Dest toy_template) toy_site" "same_template toy_engine ''/p'' toy_template toy_site templated"
  "fst (snd (Template_Apply toy_engine mem_os no_db None ''/p'' toy_template toy_site)) = None"
  "Changed (fst (Template_Apply toy_engine mem_os no_db None ''/p'' toy_template toy_site))"
  by code_simp+

lemma toy_template_eq:
  "Template_Apply toy_engine mem_os no_db None ''/p'' toy_template toy_site =
     (fst (Template_Apply toy_engine mem_os no_db None ''/p'' toy_template toy_site), None, templated)"
  using toy_template_run(3) by (simp add: templated_def prod_eq_iff)

theorem template_second_run_skips_witness:
  "\<exists>r'. Template_Apply toy_engine mem_os no_db None ''/p'' toy_template templated = (r', None, templated) \<and>
     Skipped r' \<and> \<not> Changed r'"
  by (rule template_second_run_skips [OF memfiles.posix_files_axioms toy_template_run(1,2) toy_template_eq])

text \<open>
  C30. A \<^verbatim>\<open>template\<close> task that reports a change leaves at its destination a regular file with exactly the text that the
  template renders to under the variables of the task.
\<close>

theorem template_writes_rendered:
  assumes "posix_files os" and "plain_target os (tp_Dest c) w"
    and "Template_Apply te os db ctx parentPath c w = (r, None, w')" and "Changed r"
  shows "\<exists>t content. te_load te (path_join [parentPath, ''templates'', tp_Src c]) w = Inr t \<and>
           te_execute te t (case ctx of Some v \<Rightarrow> v | None \<Rightarrow> fmempty) = Inr content \<and>
           holds_file os (tp_Dest c) content w'"
  using posix_files.template_writes [OF assms(1,3,4,2)] .

theorem template_writes_rendered_witness:
  "\<exists>t content. te_load toy_engine (path_join [''/p'', ''templates'', tp_Src toy_template]) toy_site = Inr t \<and>
     te_execute toy_engine t (case None of Some v \<Rightarrow> v | None \<Rightarrow> fmempty) = Inr content \<and>
     holds_file mem_os (tp_Dest toy_template) content templated"
  by (rule template_writes_rendered
      [OF memfiles.posix_files_axioms toy_template_run(1) toy_template_eq toy_template_run(4)])

text \<open>
  \<^verbatim>\<open>template\<close> looks at the content only: when the destination already has the rendered text the task is skipped and
  the machine left as it is, whatever mode, owner and group the task asks for. A file whose permissions have
  drifted is never brought back.
\<close>

theorem template_overlooks_mode:
  assumes "te_load te (path_join [parentPath, ''templates'', tp_Src c]) w = Inr t"
    and "te_execute te t (case ctx of Some v \<Rightarrow> v | None \<Rightarrow> fmempty) = Inr content"
    and "holds_file os (tp_Dest c) content w"
  shows "\<exists>r. Template_Apply te os db ctx parentPath (c\<lparr>tp_Mode := m, tp_Owner := u, tp_Group := g\<rparr>) w = (r, None, w) \<and>
           Skipped r \<and> \<not> Changed r"
proof -
  let ?c = "c\<lparr>tp_Mode := m, tp_Owner := u, tp_Group := g\<rparr>"
  have "holds_file os (tp_Dest ?c) content w" using assms(3) by simp
  from Template_Apply_current [of te parentPath ?c w t ctx content, OF _ assms(2) template_current_True [OF this refl]]
    assms(1) show ?thesis by simp
qed

definition drifted :: memfs where "drifted = mem_file ''/motd'' ''hi'' toy_site"

theorem template_overlooks_mode_witness:
  "(\<exists>r. Template_Apply toy_engine mem_os no_db None ''/p''
      (toy_template\<lparr>tp_Mode := Some \<lparr> Mode_Value = ''0600'' \<rparr>, tp_Owner := [], tp_Group := []\<rparr>) drifted =
      (r, None, drifted) \<and> Skipped r \<and> \<not> Changed r) \<and>
   (case os_stat mem_os ''/motd'' drifted of Inl e \<Rightarrow> False | Inr fi \<Rightarrow> perm (fi_mode fi) = 0x1A4)"
proof (rule conjI)
  have load: "te_load toy_engine (path_join [''/p'', ''templates'', tp_Src toy_template]) drifted = Inr ''hi''"
    by code_simp
  have execute: "te_execute toy_engine ''hi'' (case None of Some v \<Rightarrow> v | None \<Rightarrow> fmempty) = Inr ''hi''"
    by (simp add: toy_engine_def)
  have "holds_file mem_os (tp_Dest toy_template) ''hi'' drifted" by code_simp
  from template_overlooks_mode [OF load execute this]
  show "\<exists>r. Template_Apply toy_engine mem_os no_db None ''/p''
      (toy_template\<lparr>tp_Mode := Some \<lparr> Mode_Value = ''0600'' \<rparr>, tp_Owner := [], tp_Group := []\<rparr>) drifted =
      (r, None, drifted) \<and> Skipped r \<and> \<not> Changed r" .
qed code_simp

section \<open>get_url\<close>

text \<open>
  The place of a download: the destination itself, or, when that is a directory, what a single name leads to from there.
\<close>

definition dest_is_dir :: "'w os \<Rightarrow> string \<Rightarrow> 'w \<Rightarrow> bool" where
  "dest_is_dir os dest w = (case os_stat os dest w of Inl e \<Rightarrow> False | Inr d \<Rightarrow> is_dir d)"

definition single_name :: "string \<Rightarrow> bool" where
  "single_name n \<longleftrightarrow> n \<noteq> [] \<and> (slash \<notin> set n \<or> n = ''/'')"

lemma path_base_single: "single_name (path_base p)"
proof -
  have "slash \<notin> set (last (split_on slash q))" for q
    using split_on_no_sep [OF last_in_set [OF split_on_ne]] .
  then have "slash \<notin> set (path_base p) \<or> path_base p = ''/''" by (auto simp: path_base_def Let_def slash_def)
  then show ?thesis using path_base_ne by (simp add: single_name_def)
qed

lemma dirDest_single:
  assumes "dirDest hc cd src dest = Inr p"
  shows "\<exists>n. single_name n \<and> p = path_join [dest, n]"
proof (cases "filenameFromHeader cd = []")
  case True
  have "single_name ''index.html''" by (simp add: single_name_def slash_def)
  with True assms path_base_single show ?thesis by (auto simp: dirDest_def Let_def split: sum.splits if_splits)
next
  case False
  then have "single_name (filenameFromHeader cd)"
    using path_base_single by (auto simp: filenameFromHeader_def split: if_splits option.splits)
  with False assms show ?thesis by (auto simp: dirDest_def Let_def)
qed

lemma url_dest_place:
  assumes "url_dest hc os g resp w = Inr p"
  shows "if dest_is_dir os (gu_Dest g) w then \<exists>n. single_name n \<and> p = path_join [gu_Dest g, n] else p = gu_Dest g"
  using assms dirDest_single by (auto simp: url_dest_def dest_is_dir_def split: sum.splits if_splits)

lemma GetURL_Apply_ok [consumes 1]:
  assumes "GetURL_Apply hc os db g w = (r, None, w')"
  obtains resp p w1 where "hc_get hc (gu_Url g) w = Inr resp" "rs_StatusCode resp = 200"
    "url_dest hc os g resp w = Inr p" "download os g resp p w = (None, w1)"
    "url_ids os db g p w1 = (None, w')" "r = CommonResult_zero"
  using assms by (auto simp: GetURL_Apply_def split: sum.splits if_splits prod.splits option.splits)

context posix_files
begin

lemma download_holds:
  assumes "download os g resp p w = (None, w')" "plain_target os p w"
  shows "rs_BodyError resp = None \<and> holds_file os p (rs_Body resp) w'"
proof -
  from assms(1) obtain h w1 where "os_create os p w = (Inr h, w1)" "os_write os h (rs_Body resp) w1 = (None, w')"
    "rs_BodyError resp = None"
    by (auto simp: download_def split: prod.splits sum.splits option.splits)
  with create_write_holds [OF assms(2)] show ?thesis by blast
qed

lemma url_ids_holds:
  "url_ids os db g p w = (None, w') \<Longrightarrow> holds_file os p d w \<Longrightarrow> holds_file os p d w'"
  by (auto simp: url_ids_def intro: ApplyModeAndIDs_holds split: if_splits sum.splits prod.splits option.splits)

lemma GetURL_downloads:
  assumes "GetURL_Apply hc os db g w = (r, None, w')"
  shows "\<exists>resp p. hc_get hc (gu_Url g) w = Inr resp \<and> rs_StatusCode resp = 200 \<and> url_dest hc os g resp w = Inr p \<and>
           (plain_target os p w \<longrightarrow> rs_BodyError resp = None \<and> holds_file os p (rs_Body resp) w')"
  using assms
proof (cases rule: GetURL_Apply_ok)
  case (1 resp p w1)
  have "plain_target os p w \<longrightarrow> rs_BodyError resp = None \<and> holds_file os p (rs_Body resp) w'"
    using download_holds [OF 1(4)] url_ids_holds [OF 1(5)] by blast
  with 1 show ?thesis by blast
qed

end

text \<open>
  C29. A \<^verbatim>\<open>get_url\<close> that succeeds got the status 200, and the place \<open>url_dest\<close> chooses holds the whole body afterwards, unless something
  else than a regular file was there before, whatever mode and owner are then set. That place is the destination itself; and when the destination is a
  directory it is the directory joined with one name without a slash: no name the server or the URL gives leads further, whatever
  the header \<^verbatim>\<open>Content-Disposition\<close> says.
\<close>

theorem get_url_downloads:
  assumes "posix_files os" and "GetURL_Apply hc os db g w = (r, None, w')"
  shows "\<exists>resp p. hc_get hc (gu_Url g) w = Inr resp \<and> rs_StatusCode resp = 200 \<and> url_dest hc os g resp w = Inr p \<and>
           (if dest_is_dir os (gu_Dest g) w then \<exists>n. single_name n \<and> p = path_join [gu_Dest g, n] else p = gu_Dest g) \<and>
           (plain_target os p w \<longrightarrow> rs_BodyError resp = None \<and> holds_file os p (rs_Body resp) w')"
proof -
  from posix_files.GetURL_downloads [OF assms] obtain resp p where
    got: "hc_get hc (gu_Url g) w = Inr resp" "rs_StatusCode resp = 200" "url_dest hc os g resp w = Inr p"
      "plain_target os p w \<longrightarrow> rs_BodyError resp = None \<and> holds_file os p (rs_Body resp) w'" by blast
  show ?thesis by (rule exI [of _ resp], rule exI [of _ p]) (intro conjI got url_dest_place [OF got(3)])
qed

definition toy_http :: "memfs http_env" where
  "toy_http =
     \<lparr> hc_get = (\<lambda>u fs. Inr \<lparr> rs_StatusCode = 200, rs_Status = ''200 OK'',
          rs_ContentDisposition = ''attachment; filename=../../etc/x'', rs_Body = ''data'', rs_BodyError = None \<rparr>),
       hc_parse = (\<lambda>u. Inr ''/a/b'') \<rparr>"

definition toy_url :: GetURL where
  "toy_url = GetURL_zero\<lparr>gu_Dest := ''/p'', gu_Url := ''http://h/a/b''\<rparr>"

definition downloaded :: memfs where
  "downloaded = snd (snd (GetURL_Apply toy_http mem_os no_db toy_url toy_site))"

theorem get_url_downloads_witness:
  "\<exists>resp n. hc_get toy_http (gu_Url toy_url) toy_site = Inr resp \<and> single_name n \<and> path_join [''/p'', n] = ''/p/x'' \<and>
     holds_file mem_os (path_join [''/p'', n]) (rs_Body resp) downloaded"
proof -
  have "fst (snd (GetURL_Apply toy_http mem_os no_db toy_url toy_site)) = None" by code_simp
  then have run: "GetURL_Apply toy_http mem_os no_db toy_url toy_site =
      (fst (GetURL_Apply toy_http mem_os no_db toy_url toy_site), None, downloaded)"
    by (simp add: downloaded_def prod_eq_iff)
  obtain resp p
    where got: "hc_get toy_http (gu_Url toy_url) toy_site = Inr resp" "url_dest toy_http mem_os toy_url resp toy_site = Inr p"
      and place: "if dest_is_dir mem_os (gu_Dest toy_url) toy_site then \<exists>n. single_name n \<and> p = path_join [gu_Dest toy_url, n]
        else p = gu_Dest toy_url"
      and holds: "plain_target mem_os p toy_site \<longrightarrow> rs_BodyError resp = None \<and> holds_file mem_os p (rs_Body resp) downloaded"
    using get_url_downloads [OF memfiles.posix_files_axioms run] by (elim exE conjE) (rule that)
  have "(case hc_get toy_http (gu_Url toy_url) toy_site of Inl e \<Rightarrow> False
      | Inr resp \<Rightarrow> url_dest toy_http mem_os toy_url resp toy_site = Inr ''/p/x'')" by code_simp
  with got have p: "p = ''/p/x''" by simp
  have "dest_is_dir mem_os (gu_Dest toy_url) toy_site" "gu_Dest toy_url = ''/p''" by code_simp+
  with place obtain n where n: "single_name n" "p = path_join [''/p'', n]" by auto
  have "plain_target mem_os ''/p/x'' toy_site" by code_simp
  with holds p n have "holds_file mem_os (path_join [''/p'', n]) (rs_Body resp) downloaded" by simp
  with got n p show ?thesis by (intro exI [of _ resp] exI [of _ n]) simp
qed

section \<open>copy\<close>

lemma comps_trailing_slash: "comps (p @ ''/'') = comps p"
  using comps_append_slash [of p "[]"] by (simp add: comps_def)

lemma join_trailing_slash:
  assumes "b \<noteq> []"
  shows "path_join [a, b, s @ ''/''] = path_join [a, b, s]"
  using assms comps_trailing_slash [of "a @ CHR ''/'' # b @ CHR ''/'' # s"] comps_trailing_slash [of "b @ CHR ''/'' # s"]
  by (simp add: path_join_def clean_def is_abs_append)

lemma base_trailing_slash: "s \<noteq> [] \<Longrightarrow> path_base (s @ ''/'') = path_base s"
  by (simp add: path_base_def trim_right_def slash_def)

lemma Copy_Apply_dir:
  assumes "cp_Content c = []" and "os_stat os (path_join [parentPath, ''files'', cp_Src c]) w = Inr f" and "is_dir f"
  shows "snd (Copy_Apply os parentPath c w) =
    (case copyDir os c (path_join [parentPath, ''files'', cp_Src c]) w of (err, w1) \<Rightarrow>
       (map_option (Wrap (''failed to copy '' @ cp_Src c @ '' to '' @ cp_Dest c)) err, w1))"
  using assms by (auto simp: Copy_Apply_def split: prod.split option.split)

text \<open>
  A slash at the end of the source directory, which should mean copying its contents only, makes no difference
  to a \<^verbatim>\<open>copy\<close>: the path is cleaned before the test for the slash, so the directory itself is always created below the
  destination.
\<close>

theorem copy_trailing_slash_ignored:
  assumes "s \<noteq> []" and "cp_Content c = []"
    and "os_stat os (path_join [parentPath, ''files'', s]) w = Inr f" and "is_dir f"
  shows "snd (snd (Copy_Apply os parentPath (c\<lparr>cp_Src := s @ ''/''\<rparr>) w)) =
         snd (snd (Copy_Apply os parentPath (c\<lparr>cp_Src := s\<rparr>) w)) \<and>
         map_option unwrapped (fst (snd (Copy_Apply os parentPath (c\<lparr>cp_Src := s @ ''/''\<rparr>) w))) =
         map_option unwrapped (fst (snd (Copy_Apply os parentPath (c\<lparr>cp_Src := s\<rparr>) w)))"
proof -
  let ?p = "path_join [parentPath, ''files'', s]"
  have join: "path_join [parentPath, ''files'', s @ ''/''] = ?p" by (rule join_trailing_slash) simp
  have dir: "snd (Copy_Apply os parentPath (c\<lparr>cp_Src := t\<rparr>) w) =
      (case copyDir os (c\<lparr>cp_Src := t\<rparr>) ?p w of (err, w1) \<Rightarrow>
         (map_option (Wrap (''failed to copy '' @ t @ '' to '' @ cp_Dest c)) err, w1))"
    if "path_join [parentPath, ''files'', t] = ?p" for t
    using that Copy_Apply_dir [of "c\<lparr>cp_Src := t\<rparr>" os parentPath w f] assms(2-4) by simp
  have same: "copyDir os (c\<lparr>cp_Src := s @ ''/''\<rparr>) ?p w = copyDir os (c\<lparr>cp_Src := s\<rparr>) ?p w"
    using assms(1) by (simp add: copyDir_def copy_dst_dir_def base_trailing_slash)
  show ?thesis unfolding dir [OF join] dir [OF refl] same
    by (simp add: option.map_comp comp_def split: prod.split)
qed

definition toy_tree :: memfs where
  "toy_tree = mem_file ''/p/files/d/a'' ''A'' (snd (mem_mkdirAll ''/p/files/d'' 0x1ED empty_fs))"

definition toy_copy :: Copy where "toy_copy = Copy_zero\<lparr>cp_Dest := ''/out''\<rparr>"

theorem copy_trailing_slash_ignored_witness:
  "snd (snd (Copy_Apply mem_os ''/p'' (toy_copy\<lparr>cp_Src := ''d'' @ ''/''\<rparr>) toy_tree)) =
     snd (snd (Copy_Apply mem_os ''/p'' (toy_copy\<lparr>cp_Src := ''d''\<rparr>) toy_tree)) \<and>
   holds_file mem_os ''/out/d/a'' ''A'' (snd (snd (Copy_Apply mem_os ''/p'' (toy_copy\<lparr>cp_Src := ''d''\<rparr>) toy_tree)))"
proof (rule conjI)
  have "\<exists>f. os_stat mem_os (path_join [''/p'', ''files'', ''d'']) toy_tree = Inr f \<and> is_dir f"
  proof -
    have "case os_stat mem_os (path_join [''/p'', ''files'', ''d'']) toy_tree of Inl e \<Rightarrow> False | Inr f \<Rightarrow> is_dir f"
      by code_simp
    then show ?thesis by (simp split: sum.splits)
  qed
  then obtain f where "os_stat mem_os (path_join [''/p'', ''files'', ''d'']) toy_tree = Inr f" "is_dir f" by blast
  from copy_trailing_slash_ignored [OF _ _ this, of toy_copy]
  show "snd (snd (Copy_Apply mem_os ''/p'' (toy_copy\<lparr>cp_Src := ''d'' @ ''/''\<rparr>) toy_tree)) =
     snd (snd (Copy_Apply mem_os ''/p'' (toy_copy\<lparr>cp_Src := ''d''\<rparr>) toy_tree))"
    by (simp add: toy_copy_def Copy_zero_def)
qed code_simp

text \<open>
  \<^verbatim>\<open>remote_src\<close> is accepted and ignored: the source is always looked up below the \<^verbatim>\<open>files\<close> directory beside the
  playbook, so an absolute source on the machine that passes validation is not found and the task fails,
  leaving the machine as it is.
\<close>

theorem copy_remote_src_ignored:
  assumes "is_abs (cp_Src c)" and "cp_Content c = []" and "cp_Dest c \<noteq> []"
    and "os_stat os (path_join [parentPath, ''files'', cp_Src c]) w = Inl e"
  shows "Copy_Validate (c\<lparr>cp_RemoteSrc := True\<rparr>) = None \<and>
         Copy_Apply os parentPath (c\<lparr>cp_RemoteSrc := True\<rparr>) w =
           (CommonResult_zero, Some (Wrap (''failed to read '' @ cp_Src c) (OsErr e)), w)"
proof -
  have "cp_Src c \<noteq> []" using assms(1) by auto
  with assms show ?thesis by (simp add: Copy_Validate_def Copy_Apply_def)
qed

theorem copy_remote_src_ignored_witness:
  "holds_file mem_os ''/motd'' ''hi'' drifted \<and>
   Copy_Validate (toy_copy\<lparr>cp_Src := ''/motd'', cp_RemoteSrc := True\<rparr>) = None \<and>
   Copy_Apply mem_os ''/p'' (toy_copy\<lparr>cp_Src := ''/motd'', cp_RemoteSrc := True\<rparr>) drifted =
     (CommonResult_zero, Some (Wrap (''failed to read '' @ ''/motd'') (OsErr ENOENT)), drifted)"
proof (rule conjI)
  let ?c = "toy_copy\<lparr>cp_Src := ''/motd''\<rparr>"
  have c: "is_abs (cp_Src ?c)" "cp_Content ?c = []" "cp_Dest ?c \<noteq> []"
    by (simp_all add: toy_copy_def Copy_zero_def)
  have "os_stat mem_os (path_join [''/p'', ''files'', cp_Src ?c]) drifted = Inl ENOENT" by code_simp
  from copy_remote_src_ignored [OF c this]
  show "Copy_Validate (toy_copy\<lparr>cp_Src := ''/motd'', cp_RemoteSrc := True\<rparr>) = None \<and>
     Copy_Apply mem_os ''/p'' (toy_copy\<lparr>cp_Src := ''/motd'', cp_RemoteSrc := True\<rparr>) drifted =
     (CommonResult_zero, Some (Wrap (''failed to read '' @ ''/motd'') (OsErr ENOENT)), drifted)"
    by simp
qed code_simp

text \<open>Where the copy of a single file goes, as the three branches of \<open>copyFile\<close> have it.\<close>

definition copy_target :: "'w os \<Rightarrow> Copy \<Rightarrow> 'w \<Rightarrow> string" where
  "copy_target os c w =
     (case os_stat os (cp_Dest c) w of
        Inl e \<Rightarrow> cp_Dest c
      | Inr d \<Rightarrow> if is_dir d then path_join [cp_Dest c, cp_Src c] else cp_Dest c)"

lemma copyFile_single:
  assumes "\<not> has_suffix (cp_Dest c) ''/''" "copyFile os c p w = (None, w')"
  shows "copySingleFile os p (copy_target os c w) w = (None, w')"
  using assms by (auto simp: copyFile_def copy_target_def split: sum.splits if_splits)

text \<open>Is the file a copy is written to another one than the source? (Two paths may name one file.)\<close>

definition distinct_files :: "'w os \<Rightarrow> string \<Rightarrow> string \<Rightarrow> 'w \<Rightarrow> bool" where
  "distinct_files os src dst w = (case os_open os src w of Inl e \<Rightarrow> True | Inr h \<Rightarrow> fst (os_create os dst w) \<noteq> Inr h)"

context posix_files
begin

lemma copySingleFile_holds:
  assumes "copySingleFile os src dst w = (None, w')" and "holds_file os src d w" and "plain_target os dst w"
  shows "holds_file os dst (if distinct_files os src dst w then d else []) w'"
proof -
  from assms(1) obtain s h w1 data where s: "os_open os src w = Inr s" and h: "os_create os dst w = (Inr h, w1)"
    and data: "os_read os s w1 = Inr data" "os_write os h data w1 = (None, w')"
    by (auto simp: copySingleFile_def Let_def split: sum.splits prod.splits option.splits)
  have "data = (if distinct_files os src dst w then d else [])"
  proof (cases "s = h")
    case True
    with create_truncates [OF assms(3) h] data(1) s h show ?thesis by (simp add: distinct_files_def)
  next
    case False
    have "os_read os s w1 = os_read os s w" by (rule create_other [OF h s False])
    also have "\<dots> = Inr d" using assms(2) readFile_open [OF s] by (auto simp: holds_file_iff)
    finally show ?thesis using data(1) s h False by (simp add: distinct_files_def)
  qed
  with create_write_holds [OF assms(3) h data(2)] show ?thesis by simp
qed

lemma Copy_file:
  assumes "Copy_Apply os parentPath c w = (r, None, w')" and "cp_Content c = []"
    and "\<not> has_suffix (cp_Dest c) ''/''"
    and "holds_file os (path_join [parentPath, ''files'', cp_Src c]) d w"
    and "plain_target os (copy_target os c w) w"
  shows "holds_file os (copy_target os c w)
           (if distinct_files os (path_join [parentPath, ''files'', cp_Src c]) (copy_target os c w) w then d else []) w' \<and>
         \<not> Changed r"
proof -
  let ?p = "path_join [parentPath, ''files'', cp_Src c]"
  from assms(4) obtain f where f: "os_stat os ?p w = Inr f" "is_regular_mode (fi_mode f)"
    by (auto simp: holds_file_iff)
  then have "\<not> is_dir f"
    by (auto simp: is_regular_mode_def is_dir_def is_dir_mode_def mode_consts dest: arg_cong [of _ _ "\<lambda>x. x AND 0x80000000"] simp: and.assoc)
  with assms(1,2) f have run: "copyFile os c ?p w = (None, w')" and r: "r = CommonResult_zero"
    by (auto simp: Copy_Apply_def split: prod.splits option.splits)
  from copySingleFile_holds [OF copyFile_single [OF assms(3) run] assms(4,5)] r show ?thesis by simp
qed

end

text \<open>
  C20. A \<^verbatim>\<open>copy\<close> of a regular file that succeeds leaves the content of the source at the target, which is the destination
  or, when that is a directory, the source's whole relative path below it; unless the target is the source itself,
  which is truncated before it is read and ends empty. Either way the task never reports a change.
\<close>

theorem copy_file_copies:
  assumes "posix_files os" and "Copy_Apply os parentPath c w = (r, None, w')" and "cp_Content c = []"
    and "\<not> has_suffix (cp_Dest c) ''/''"
    and "holds_file os (path_join [parentPath, ''files'', cp_Src c]) d w"
    and "plain_target os (copy_target os c w) w"
  shows "holds_file os (copy_target os c w)
           (if distinct_files os (path_join [parentPath, ''files'', cp_Src c]) (copy_target os c w) w then d else []) w' \<and>
         \<not> Changed r"
  using posix_files.Copy_file [OF assms] .

definition aliased :: memfs where
  "aliased = snd (mem_symlink ''/p/files/d/a'' ''/out'' toy_tree)"

lemma toy_copy_eq:
  "fst (snd (Copy_Apply mem_os p c fs)) = None \<Longrightarrow>
   Copy_Apply mem_os p c fs = (fst (Copy_Apply mem_os p c fs), None, snd (snd (Copy_Apply mem_os p c fs)))"
  by (simp add: prod_eq_iff)

theorem copy_file_copies_witness:
  "holds_file mem_os ''/out'' ''A'' (snd (snd (Copy_Apply mem_os ''/p'' (toy_copy\<lparr>cp_Src := ''d/a''\<rparr>) toy_tree))) \<and>
   holds_file mem_os ''/out'' [] (snd (snd (Copy_Apply mem_os ''/p'' (toy_copy\<lparr>cp_Src := ''d/a''\<rparr>) aliased)))"
proof -
  let ?c = "toy_copy\<lparr>cp_Src := ''d/a''\<rparr>" and ?p = "path_join [''/p'', ''files'', cp_Src (toy_copy\<lparr>cp_Src := ''d/a''\<rparr>)]"
  have ok: "fst (snd (Copy_Apply mem_os ''/p'' ?c toy_tree)) = None"
    "fst (snd (Copy_Apply mem_os ''/p'' ?c aliased)) = None" by code_simp+
  have c: "cp_Content ?c = []" "\<not> has_suffix (cp_Dest ?c) ''/''" by code_simp+
  have src: "holds_file mem_os ?p ''A'' toy_tree" "holds_file mem_os ?p ''A'' aliased" by code_simp+
  have dst: "plain_target mem_os (copy_target mem_os ?c toy_tree) toy_tree"
    "plain_target mem_os (copy_target mem_os ?c aliased) aliased" by code_simp+
  have "copy_target mem_os ?c toy_tree = ''/out''" "copy_target mem_os ?c aliased = ''/out''"
    "distinct_files mem_os ?p ''/out'' toy_tree" "\<not> distinct_files mem_os ?p ''/out'' aliased" by code_simp+
  with copy_file_copies [OF memfiles.posix_files_axioms toy_copy_eq [OF ok(1)] c src(1) dst(1)]
    copy_file_copies [OF memfiles.posix_files_axioms toy_copy_eq [OF ok(2)] c src(2) dst(2)]
  show ?thesis by simp
qed

section \<open>A directory copy comes to an end\<close>

lemma copySingleFile_ends: "fst (copySingleFile os src dst w) \<noteq> Some Diverge"
  by (auto simp: copySingleFile_def Let_def split: sum.splits prod.splits option.splits)

lemma copy_entry_ends: "fst (copy_entry os p q e d w) \<noteq> Some Diverge"
  by (simp add: copy_entry_def copySingleFile_ends lift_err_def split: option.splits)

lemma copyFile_ends: "fst (copyFile os c p w) \<noteq> Some Diverge"
  by (simp add: copyFile_def copySingleFile_ends split: prod.split option.split sum.split)

context os_dirs
begin

lemma copyDir_ends: "fst (copyDir os c p w) \<noteq> Some Diverge"
  by (simp add: copyDir_def Let_def walk_total copy_entry_ends split: prod.split option.split)

lemma Copy_ends: "fst (snd (Copy_Apply os parentPath c w)) \<noteq> Some (Wrap m Diverge)"
  using copyDir_ends [of c "path_join [parentPath, ''files'', cp_Src c]" w]
    copyFile_ends [of os c "path_join [parentPath, ''files'', cp_Src c]" w]
  by (auto simp: Copy_Apply_def Let_def copyContent_def split: sum.splits prod.splits option.splits if_splits)

end

text \<open>
  A \<^verbatim>\<open>copy\<close> comes to an end whatever tree it is given: the walk over a source directory never exhausts the bound on
  the depth of a path, so every run succeeds or ends with an error of the system.
\<close>

theorem copy_comes_to_an_end:
  assumes "os_dirs os"
  shows "\<forall>m. fst (snd (Copy_Apply os parentPath c w)) \<noteq> Some (Wrap m Diverge)"
  using os_dirs.Copy_ends [OF assms] by blast

theorem copy_comes_to_an_end_witness:
  "\<forall>m. fst (snd (Copy_Apply mem_os ''/p'' (toy_copy\<lparr>cp_Src := ''d''\<rparr>) toy_tree)) \<noteq> Some (Wrap m Diverge)"
  by (rule copy_comes_to_an_end [OF memfs.os_dirs_axioms])

end
