(* ===== verification/Jinja.thy ===== *)
theory Jinja
  imports GoStrings Inventory
begin

text \<open>
  Templates in tasks: \<^verbatim>\<open>pkg/exec/util/jinja.go\<close>. The template engine \<^verbatim>\<open>gonja\<close> is not part of the
  repository and is a record of functions. \<^verbatim>\<open>ProcessJinjaTemplates\<close> walks a Go value by reflection;
  here the value is a \<open>rval\<close>, one constructor per \<^verbatim>\<open>reflect.Kind\<close> the code distinguishes.
\<close>

section \<open>The engine\<close>

text \<open>
  \<open>g_render\<close> is \<^verbatim>\<open>FromString\<close> followed by \<^verbatim>\<open>ExecuteToString\<close>. \<open>g_single\<close> parses a template and, when
  its root has exactly one node and that is an output, evaluates its expression; the
  value is nil, a list (of the elements of \<^verbatim>\<open>ToGoSimpleType\<close>) or anything else.
\<close>

datatype jvalue = JNil | JList "val list" | JOther

record gonja =
  g_render :: "string \<Rightarrow> vars \<Rightarrow> goerr + string"
  g_single :: "string \<Rightarrow> vars \<Rightarrow> goerr + jvalue option"

section \<open>Conditions\<close>

text \<open>\<^verbatim>\<open>variables.FromContext\<close> with the empty map when there are none.\<close>

definition context_vars :: "vars option \<Rightarrow> vars" where
  "context_vars ctx = (case ctx of Some v \<Rightarrow> v | None \<Rightarrow> fmempty)"

definition when_value :: "string \<Rightarrow> bool" where
  "when_value result =
     (if result = ''True'' \<or> result = ''true'' then True
      else if result = ''False'' \<or> result = ''false'' then False
      else case atoi result of Some i \<Rightarrow> i \<noteq> 0 | None \<Rightarrow> False)"

definition JinjaProcessWhen :: "gonja \<Rightarrow> vars option \<Rightarrow> string \<Rightarrow> goerr + bool" where
  "JinjaProcessWhen g ctx cond =
     (if cond = [] then Inr True
      else case g_render g (''{{ '' @ cond @ '' }}'') (context_vars ctx) of
             Inl e \<Rightarrow> Inl e
           | Inr result \<Rightarrow> Inr (when_value result))"

section \<open>Strings that may stand for lists\<close>

fun strings_of :: "val list \<Rightarrow> string list option" where
  "strings_of [] = Some []"
| "strings_of (VString s # vs) = map_option ((#) s) (strings_of vs)"
| "strings_of (v # vs) = None"

text \<open>The result \<open>None\<close> is the nil slice.\<close>

definition renderJinjaStringToSlice :: "gonja \<Rightarrow> vars \<Rightarrow> string \<Rightarrow> goerr + string list option" where
  "renderJinjaStringToSlice g v s =
     (if s = [] then Inr (Some [[]])
      else if \<not> contains s ''{{'' then Inr (Some [s])
      else case g_single g s v of
             Inl e \<Rightarrow> Inl e
           | Inr (Some JNil) \<Rightarrow> Inr None
           | Inr (Some (JList vs)) \<Rightarrow>
               (case strings_of vs of
                  Some ss \<Rightarrow> Inr (Some ss)
                | None \<Rightarrow> Inl (ErrMsg ''found a non-string value in a jinja list, which is not supported''))
           | Inr _ \<Rightarrow>
               (case g_render g s v of Inl e \<Rightarrow> Inl e | Inr r \<Rightarrow> Inr (Some [r])))"

section \<open>Go values\<close>

text \<open>
  \<open>RString\<close>, \<open>RStrings\<close>: a string and a \<^verbatim>\<open>[]string\<close>. \<open>RStruct\<close>: the fields in order, the unexported
  ones as \<open>RHidden\<close>. \<open>RPtr\<close>: a pointer, nil or not. \<open>RIface\<close>: an interface value, nil or holding a
  value. \<open>RSlice\<close>: a slice of another element type; \<open>RScalar\<close>: anything else (numbers, booleans, maps).
  The scalars keep what they hold, for the conversions back.
\<close>

datatype rval =
    RString string
  | RStrings "string list"
  | RStruct "rval list"
  | RHidden
  | RPtr "rval option"
  | RIface "rval option"
  | RSlice "val list"
  | RScalar val

primrec is_ptr :: "rval \<Rightarrow> bool" where
  "is_ptr (RString s) = False" | "is_ptr (RStrings ss) = False" | "is_ptr (RStruct fs) = False"
| "is_ptr RHidden = False" | "is_ptr (RPtr p) = True" | "is_ptr (RIface i) = False"
| "is_ptr (RSlice vs) = False" | "is_ptr (RScalar v) = False"

text \<open>A string in place: the empty one is left alone.\<close>

definition render_string :: "gonja \<Rightarrow> vars \<Rightarrow> string \<Rightarrow> goerr + string" where
  "render_string g v s = (if s = [] then Inr [] else g_render g s v)"

text \<open>A slice of strings: an element may become several or none.\<close>

fun render_slice :: "gonja \<Rightarrow> vars \<Rightarrow> string list \<Rightarrow> goerr + string list" where
  "render_slice g v [] = Inr []"
| "render_slice g v (s # ss) =
     (case renderJinjaStringToSlice g v s of
        Inl e \<Rightarrow> Inl e
      | Inr r \<Rightarrow>
          (case render_slice g v ss of
             Inl e \<Rightarrow> Inl e
           | Inr out \<Rightarrow> Inr ((case r of None \<Rightarrow> [] | Some rs \<Rightarrow> rs) @ out)))"

text \<open>The string elements of a slice inside an interface, in place.\<close>

fun render_each :: "gonja \<Rightarrow> vars \<Rightarrow> string list \<Rightarrow> goerr + string list" where
  "render_each g v [] = Inr []"
| "render_each g v (s # ss) =
     (case render_string g v s of
        Inl e \<Rightarrow> Inl e
      | Inr r \<Rightarrow> (case render_each g v ss of Inl e \<Rightarrow> Inl e | Inr out \<Rightarrow> Inr (r # out)))"

text \<open>
  \<open>render_value\<close> is \<^verbatim>\<open>ProcessJinjaTemplates\<close> on what its argument points to: only a struct has
  anything to render. \<open>render_field\<close> is one turn of its loop. The interface case unwraps a
  rendered string, and puts what is neither a slice nor a pointer behind a new pointer.
\<close>

function (sequential) render_value :: "gonja \<Rightarrow> vars \<Rightarrow> rval \<Rightarrow> goerr + rval"
  and render_fields :: "gonja \<Rightarrow> vars \<Rightarrow> rval list \<Rightarrow> goerr + rval list"
  and render_field :: "gonja \<Rightarrow> vars \<Rightarrow> rval \<Rightarrow> goerr + rval" where
  "render_value g v (RPtr (Some x)) = map_sum id (RPtr \<circ> Some) (render_value g v x)"
| "render_value g v (RStruct fs) = map_sum id RStruct (render_fields g v fs)"
| "render_value g v x = Inr x"
| "render_fields g v [] = Inr []"
| "render_fields g v (f # fs) =
     (case render_field g v f of
        Inl e \<Rightarrow> Inl e
      | Inr f' \<Rightarrow> (case render_fields g v fs of Inl e \<Rightarrow> Inl e | Inr fs' \<Rightarrow> Inr (f' # fs')))"
| "render_field g v (RString s) = map_sum id RString (render_string g v s)"
| "render_field g v (RStrings ss) = map_sum id RStrings (render_slice g v ss)"
| "render_field g v (RStruct fs) = map_sum id RStruct (render_fields g v fs)"
| "render_field g v (RPtr (Some (RStruct fs))) = map_sum id (RPtr \<circ> Some \<circ> RStruct) (render_fields g v fs)"
| "render_field g v (RPtr (Some (RStrings ss))) = map_sum id (RPtr \<circ> Some \<circ> RStrings) (render_slice g v ss)"
| "render_field g v (RPtr (Some (RString s))) = map_sum id (RPtr \<circ> Some \<circ> RString) (render_string g v s)"
| "render_field g v (RIface (Some (RString s))) =
     (case renderJinjaStringToSlice g v s of
        Inl e \<Rightarrow> Inl e
      | Inr None \<Rightarrow> Inr (RIface (Some (RString s)))
      | Inr (Some []) \<Rightarrow> Inr (RIface (Some (RPtr (Some (RString s)))))
      | Inr (Some [r]) \<Rightarrow> Inr (RIface (Some (RString r)))
      | Inr (Some (r1 # r2 # rs)) \<Rightarrow> Inr (RIface (Some (RStrings (r1 # r2 # rs)))))"
| "render_field g v (RIface (Some (RStrings ss))) =
     map_sum id (RIface \<circ> Some \<circ> RStrings) (render_each g v ss)"
| "render_field g v (RIface (Some (RSlice vs))) = Inr (RIface (Some (RSlice vs)))"
| "render_field g v (RIface (Some (RPtr x))) = map_sum id (RIface \<circ> Some) (render_value g v (RPtr x))"
| "render_field g v (RIface (Some x)) = map_sum id (RIface \<circ> Some \<circ> RPtr \<circ> Some) (render_value g v x)"
| "render_field g v x = Inr x"
  by pat_completeness auto
termination
  by (relation "measure (\<lambda>x. case x of Inl (g, v, r) \<Rightarrow> size r
      | Inr (Inl (g, v, rs)) \<Rightarrow> size_list size rs | Inr (Inr (g, v, r)) \<Rightarrow> size r)") auto

definition ProcessJinjaTemplates :: "gonja \<Rightarrow> vars option \<Rightarrow> rval \<Rightarrow> goerr + rval" where
  "ProcessJinjaTemplates g ctx x = render_value g (context_vars ctx) x"

section \<open>Text without templates\<close>

definition literal :: "string \<Rightarrow> bool" where
  "literal s \<longleftrightarrow> CHR ''{'' \<notin> set s"

text \<open>What is asked of the engine: text without a brace renders to itself.\<close>

definition renders_literals :: "gonja \<Rightarrow> bool" where
  "renders_literals g \<longleftrightarrow> (\<forall>s v. literal s \<longrightarrow> g_render g s v = Inr s)"

lemma contains_first: "contains s (c # t) \<Longrightarrow> c \<in> set s"
  by (induction s) (auto simp: contains_def has_prefix_def split: if_splits)

lemma literal_slice: "literal s \<Longrightarrow> renderJinjaStringToSlice g v s = Inr (Some [s])"
  using contains_first [of s "CHR ''{''" "''{''"] by (auto simp: renderJinjaStringToSlice_def literal_def)

lemma literal_string: "renders_literals g \<Longrightarrow> literal s \<Longrightarrow> render_string g v s = Inr s"
  by (simp add: renders_literals_def render_string_def)

lemma literal_strings:
  assumes "list_all literal ss"
  shows "render_slice g v ss = Inr ss" "renders_literals g \<Longrightarrow> render_each g v ss = Inr ss"
  using assms by (induction ss) (simp_all add: literal_slice literal_string)

text \<open>
  A value in which every string that is rendered is literal, and every interface holds nothing, a
  string, a slice or a pointer.
\<close>

function (sequential) literal_value :: "rval \<Rightarrow> bool" and literal_field :: "rval \<Rightarrow> bool" where
  "literal_value (RPtr (Some x)) = literal_value x"
| "literal_value (RStruct fs) = list_all literal_field fs"
| "literal_value x = True"
| "literal_field (RString s) = literal s"
| "literal_field (RStrings ss) = list_all literal ss"
| "literal_field (RStruct fs) = list_all literal_field fs"
| "literal_field (RPtr (Some (RStruct fs))) = list_all literal_field fs"
| "literal_field (RPtr (Some (RStrings ss))) = list_all literal ss"
| "literal_field (RPtr (Some (RString s))) = literal s"
| "literal_field (RIface (Some (RString s))) = literal s"
| "literal_field (RIface (Some (RStrings ss))) = list_all literal ss"
| "literal_field (RIface (Some (RSlice vs))) = True"
| "literal_field (RIface (Some (RPtr x))) = literal_value (RPtr x)"
| "literal_field (RIface (Some x)) = False"
| "literal_field x = True"
  by pat_completeness auto
termination
  by (relation "measure (\<lambda>x. case x of Inl r \<Rightarrow> size r | Inr r \<Rightarrow> size r)")
    (auto simp: less_Suc_eq_le intro: size_list_estimation' le_SucI)

text \<open>
  Rendering leaves a task without templates alone: if the engine keeps text without braces,
  then a value all of whose strings are such text is returned as it is, at every depth.
\<close>

theorem render_literal_identity:
  assumes "renders_literals g" and "literal_value x"
  shows "ProcessJinjaTemplates g ctx x = Inr x"
proof -
  have "(renders_literals g \<longrightarrow> literal_value x \<longrightarrow> render_value g v x = Inr x)"
    "(renders_literals g \<longrightarrow> list_all literal_field fs \<longrightarrow> render_fields g v fs = Inr fs)"
    "(renders_literals g \<longrightarrow> literal_field f \<longrightarrow> render_field g v f = Inr f)" for v fs f
    by (induction g v x and g v fs and g v f rule: render_value_render_fields_render_field.induct)
      (auto simp: literal_string literal_strings literal_slice split: sum.split)
  with assms show ?thesis by (simp add: ProcessJinjaTemplates_def)
qed

text \<open>An engine for the examples: it knows the single reference \<^verbatim>\<open>{{ item }}\<close>.\<close>

definition value_text :: "val \<Rightarrow> string" where
  "value_text v = (case v of VString s \<Rightarrow> s | VInt i \<Rightarrow> itoa i | VBool True \<Rightarrow> ''True'' | VBool False \<Rightarrow> ''False'' | _ \<Rightarrow> [])"

definition toy_name :: "string \<Rightarrow> string option" where
  "toy_name s = (if has_prefix s ''{{ '' \<and> has_suffix s '' }}'' then Some (take (length s - 6) (drop 3 s)) else None)"

definition toy_gonja :: gonja where
  "toy_gonja =
     \<lparr> g_render = (\<lambda>s v. Inr (case toy_name s of
           None \<Rightarrow> s | Some n \<Rightarrow> (case fmlookup v n of None \<Rightarrow> [] | Some x \<Rightarrow> value_text x))),
       g_single = (\<lambda>s v. Inr (case toy_name s of
           None \<Rightarrow> None
         | Some n \<Rightarrow> Some (case fmlookup v n of None \<Rightarrow> JNil | Some (VList xs) \<Rightarrow> JList xs | Some x \<Rightarrow> JOther))) \<rparr>"

lemma toy_literals: "renders_literals toy_gonja"
proof -
  have "toy_name s = None" if "literal s" for s
  proof -
    have "\<not> has_prefix s ''{{ ''" using that by (cases s) (auto simp: literal_def has_prefix_def)
    then show ?thesis by (simp add: toy_name_def)
  qed
  then show ?thesis by (simp add: renders_literals_def toy_gonja_def)
qed

theorem render_literal_identity_witness:
  "ProcessJinjaTemplates toy_gonja None (RStruct [RHidden, RString ''a'', RIface (Some (RPtr (Some (RStruct [RStrings [''b'']]))))]) =
     Inr (RStruct [RHidden, RString ''a'', RIface (Some (RPtr (Some (RStruct [RStrings [''b'']]))))])"
  by (rule render_literal_identity [OF toy_literals]) (simp add: literal_def)

end
