(* ===== verification/Engine.thy ===== *)
theory Engine
  imports Jinja Result
begin

text \<open>
  The execution of one task: \<^verbatim>\<open>pkg/exec/task.go\<close>. What a module does is the interface
  \<^verbatim>\<open>TaskContent\<close>; here it is a record of operations over the content type \<open>'c\<close> and the world \<open>'w\<close>,
  which \<open>Modules\<close> instantiates with the modules of the program.

  The variables are one map shared by everything that runs under a context, so writing to
  them is threaded through; under a context without variables writes go to a map that is dropped.
\<close>

section \<open>Results\<close>

text \<open>
  A result of any module: the common part, and what the result struct of the module adds, as the
  entries of its YAML form.
\<close>

record Result = CommonResult +
  r_fields :: "(string \<times> val) list"

definition plain_result :: Result where
  "plain_result = CommonResult.extend CommonResult_zero (Result.fields [])"

text \<open>
  \<^verbatim>\<open>resultToMap\<close>: marshalled to YAML and back. The keys are the struct tags of \<^verbatim>\<open>CommonResult\<close>, which is
  inlined, followed by those of the module.
\<close>

definition resultToMap :: "Result \<Rightarrow> val" where
  "resultToMap r =
     VMap ([(''changed'', VBool (Changed r)), (''failed'', VBool (Failed r)), (''msg'', VString (Msg r)),
            (''rc'', VInt (RC r)), (''skipped'', VBool (Skipped r)), (''stderr'', VString (Stderr r)),
            (''stderr_lines'', VList (List.map VString (StderrLines r))), (''stdout'', VString (Stdout r)),
            (''stdout_lines'', VList (List.map VString (StdoutLines r)))] @ r_fields r)"

text \<open>\<^verbatim>\<open>LoopResult\<close>: the results of the iterations, in order.\<close>

definition LoopResult :: "CommonResult \<Rightarrow> Result list \<Rightarrow> Result" where
  "LoopResult c rs = CommonResult.extend c (Result.fields [(''results'', VList (List.map resultToMap rs))])"

section \<open>Tasks\<close>

text \<open>The loop is what the interface holds; the content is absent when the interface is nil.\<close>

record 'c Task =
  t_Name :: string
  t_When :: string
  t_Loop :: "rval option"
  t_Content :: "'c option"
  t_Register :: string

text \<open>
  \<open>tc_registered\<close> says whether the registry has an adapter for the type of the content; the
  exec struct it makes holds the same message. \<open>tc_render\<close> is the reflective rendering of the struct.
\<close>

record ('c, 'w) TaskContent =
  tc_registered :: "'c \<Rightarrow> bool"
  tc_render :: "vars \<Rightarrow> 'c \<Rightarrow> goerr + 'c"
  tc_Validate :: "'c \<Rightarrow> goerr option"
  tc_Apply :: "vars option \<Rightarrow> string \<Rightarrow> bool \<Rightarrow> 'c \<Rightarrow> 'w \<Rightarrow> Result \<times> goerr option \<times> 'w"

text \<open>The decoded message of a task, \<^verbatim>\<open>proto.Task\<close>, and its conversion.\<close>

record 'c ProtoTask =
  p_Name :: string
  p_When :: string
  p_Loop :: "val option"
  p_Register :: string
  p_Content :: "'c option"

definition AsInterface :: "val \<Rightarrow> rval option" where
  "AsInterface v =
     (case v of
        VNull \<Rightarrow> None
      | VString s \<Rightarrow> Some (RString s)
      | VList vs \<Rightarrow> Some (RSlice vs)
      | VBool b \<Rightarrow> Some (RScalar v) | VInt i \<Rightarrow> Some (RScalar v) | VFloat i \<Rightarrow> Some (RScalar v) | VMap m \<Rightarrow> Some (RScalar v))"

definition FromProto :: "('c, 'w) TaskContent \<Rightarrow> 'c ProtoTask \<Rightarrow> goerr + 'c Task" where
  "FromProto ops pt =
     (let t = \<lparr> t_Name = p_Name pt, t_When = p_When pt,
                t_Loop = (case p_Loop pt of None \<Rightarrow> None | Some l \<Rightarrow> AsInterface l),
                t_Content = None, t_Register = p_Register pt \<rparr>
      in case p_Content pt of
           None \<Rightarrow> Inr t
         | Some c \<Rightarrow>
             if \<not> tc_registered ops c then Inl (ErrMsg ''unknown proto content type'')
             else Inr (t\<lparr>t_Content := Some c\<rparr>))"

definition nil_deref :: goerr where "nil_deref = Panic ''nil pointer dereference''"

definition Task_Validate :: "('c, 'w) TaskContent \<Rightarrow> 'c Task \<Rightarrow> goerr option" where
  "Task_Validate ops t = (case t_Content t of None \<Rightarrow> Some nil_deref | Some c \<Rightarrow> tc_Validate ops c)"

definition Task_Apply ::
  "('c, 'w) TaskContent \<Rightarrow> vars option \<Rightarrow> string \<Rightarrow> bool \<Rightarrow> 'c Task \<Rightarrow> 'w \<Rightarrow> Result \<times> goerr option \<times> 'w" where
  "Task_Apply ops ctx parentPath isRole t w =
     (case t_Content t of
        None \<Rightarrow> (TaskFailed plain_result, Some nil_deref, w)
      | Some c \<Rightarrow> tc_Apply ops ctx parentPath isRole c w)"

text \<open>\<^verbatim>\<open>ProcessJinjaTemplates(ctx, &task)\<close>: the fields of the struct in their order.\<close>

definition render_loop :: "gonja \<Rightarrow> vars \<Rightarrow> rval option \<Rightarrow> goerr + rval option" where
  "render_loop g v l =
     and_then (render_field g v (RIface l)) (\<lambda>x. case x of RIface l' \<Rightarrow> Inr l' | _ \<Rightarrow> Inr l)"

definition render_content :: "('c, 'w) TaskContent \<Rightarrow> vars \<Rightarrow> 'c option \<Rightarrow> goerr + 'c option" where
  "render_content ops v c = (case c of None \<Rightarrow> Inr None | Some x \<Rightarrow> map_sum id Some (tc_render ops v x))"

definition render_task :: "gonja \<Rightarrow> ('c, 'w) TaskContent \<Rightarrow> vars option \<Rightarrow> 'c Task \<Rightarrow> goerr + 'c Task" where
  "render_task g ops ctx t =
     (let v = context_vars ctx in
      and_then (render_string g v (t_Name t)) (\<lambda>name.
      and_then (render_string g v (t_When t)) (\<lambda>cond.
      and_then (render_loop g v (t_Loop t)) (\<lambda>loop.
      and_then (render_content ops v (t_Content t)) (\<lambda>content.
      and_then (render_string g v (t_Register t)) (\<lambda>reg.
        Inr \<lparr> t_Name = name, t_When = cond, t_Loop = loop, t_Content = content, t_Register = reg \<rparr>))))))"

text \<open>
  The content is behind a pointer that the task shares with the play it comes from: the rendered
  content is part of the answer. An error makes the program end, so what it leaves half rendered
  is not kept.
\<close>

definition processAndRunTask ::
  "gonja \<Rightarrow> ('c, 'w) TaskContent \<Rightarrow> vars option \<Rightarrow> string \<Rightarrow> bool \<Rightarrow> 'c Task \<Rightarrow> 'w \<Rightarrow>
   (Result \<times> goerr option) \<times> 'c option \<times> 'w" where
  "processAndRunTask g ops ctx parentPath isRole t w =
     (case render_task g ops ctx t of
        Inl e \<Rightarrow> ((plain_result, Some (Wrap ''failed to process Jinja templating'' e)), t_Content t, w)
      | Inr task \<Rightarrow>
          (case JinjaProcessWhen g ctx (t_When task) of
             Inl e \<Rightarrow> ((plain_result, Some (Wrap ''failed to process when condition'' e)), t_Content task, w)
           | Inr False \<Rightarrow> ((plain_result, None), t_Content task, w)
           | Inr True \<Rightarrow>
               (case Task_Validate ops task of
                  Some e \<Rightarrow> ((plain_result, Some (Wrap ''validation failed'' e)), t_Content task, w)
                | None \<Rightarrow>
                    (case Task_Apply ops ctx parentPath isRole task w of
                       (r, err, w') \<Rightarrow> ((r, err), t_Content task, w')))))"

section \<open>Loops\<close>

definition loop_values :: "rval option \<Rightarrow> goerr + val list" where
  "loop_values l =
     (case l of
        Some (RSlice vs) \<Rightarrow> Inr vs
      | Some (RStrings ss) \<Rightarrow> Inr (List.map VString ss)
      | _ \<Rightarrow> Inl (ErrMsg ''loop variable is not a list''))"

text \<open>\<^verbatim>\<open>vars[name] = x\<close> in the map of the context, or in a map that nobody else sees.\<close>

definition set_var :: "string \<Rightarrow> val \<Rightarrow> vars option \<Rightarrow> vars option" where
  "set_var k x ctx = map_option (fmupd k x) ctx"

definition iter_task :: "'c Task \<Rightarrow> 'c Task" where
  "iter_task t = \<lparr> t_Name = t_Name t, t_When = [], t_Loop = None, t_Content = t_Content t, t_Register = [] \<rparr>"

definition add_flags :: "Result \<Rightarrow> CommonResult \<Rightarrow> CommonResult" where
  "add_flags r c =
     (let c1 = (if IsChanged r then TaskChanged c else c);
          c2 = (if IsSkipped r then TaskSkipped c1 else c1)
      in if IsFailed r then TaskFailed c2 else c2)"

text \<open>
  The iterations. \<^verbatim>\<open>deepCopyContent\<close> gives each its own copy of the content, which is why the
  content of the task is not changed by them (\<open>DeepCopy\<close> has the copies with their pointers); it panics on a nil content.
\<close>

fun run_loop ::
  "gonja \<Rightarrow> ('c, 'w) TaskContent \<Rightarrow> string \<Rightarrow> bool \<Rightarrow> 'c Task \<Rightarrow> val list \<Rightarrow> vars option \<Rightarrow>
   CommonResult \<times> Result list \<Rightarrow> 'w \<Rightarrow> (goerr + CommonResult \<times> Result list) \<times> vars option \<times> 'w" where
  "run_loop g ops parentPath isRole t [] ctx acc w = (Inr acc, ctx, w)"
| "run_loop g ops parentPath isRole t (item # items) ctx acc w =
     (if t_Content t = None then (Inl nil_deref, ctx, w)
      else
        (let loopCtx = Some (fmupd ''item'' item (context_vars ctx));
             ctx' = set_var ''item'' item ctx
         in case processAndRunTask g ops loopCtx parentPath isRole (iter_task t) w of
              ((r, Some e), _, w') \<Rightarrow> (Inl (Wrap ''failed to execute task'' e), ctx', w')
            | ((r, None), _, w') \<Rightarrow>
                run_loop g ops parentPath isRole t items ctx' (add_flags r (fst acc), snd acc @ [r]) w'))"

definition register_result :: "string \<Rightarrow> Result \<Rightarrow> vars option \<Rightarrow> vars option" where
  "register_result name r ctx = (if name \<noteq> [] then set_var name (resultToMap r) ctx else ctx)"

text \<open>The answer: the error, the variables, the content and the world.\<close>

definition ExecuteTask ::
  "gonja \<Rightarrow> ('c, 'w) TaskContent \<Rightarrow> vars option \<Rightarrow> string \<Rightarrow> bool \<Rightarrow> 'c Task \<Rightarrow> 'w \<Rightarrow>
   goerr option \<times> vars option \<times> 'c option \<times> 'w" where
  "ExecuteTask g ops ctx parentPath isRole t w =
     (if t_Loop t = None then
        (case processAndRunTask g ops ctx parentPath isRole t w of
           ((r, Some e), c, w') \<Rightarrow> (Some (Wrap ''failed to execute task'' e), ctx, c, w')
         | ((r, None), c, w') \<Rightarrow> (None, register_result (t_Register t) r ctx, c, w'))
      else
        (case render_loop g (context_vars ctx) (t_Loop t) of
           Inl e \<Rightarrow> (Some (Wrap ''failed to process Jinja templating for loop'' e), ctx, t_Content t, w)
         | Inr loop \<Rightarrow>
             (case loop_values loop of
                Inl e \<Rightarrow> (Some e, ctx, t_Content t, w)
              | Inr items \<Rightarrow>
                  (case run_loop g ops parentPath isRole t items ctx (CommonResult_zero, []) w of
                     (Inl e, ctx', w') \<Rightarrow> (Some e, ctx', t_Content t, w')
                   | (Inr (c, rs), ctx', w') \<Rightarrow>
                       (None, register_result (t_Register t) (LoopResult c rs) ctx', t_Content t, w')))))"

end
