(* ===== verification/EngineProps.thy ===== *)
theory EngineProps
  imports Engine
begin

text \<open>
  Properties of the task engine: a loop is the sequence of its iterations and its result sums
  theirs up; what conditions do; and where loops differ from what a playbook asks for.
\<close>

section \<open>The iterations of a loop as a relation\<close>

text \<open>
  \<open>iterations \<dots> items ctx w rs ctx' w'\<close>: the items are processed in order, each under the variables
  with \<^verbatim>\<open>item\<close> set, each without an error, with the results \<open>rs\<close>.
\<close>

inductive iterations ::
  "gonja \<Rightarrow> ('c, 'w) TaskContent \<Rightarrow> string \<Rightarrow> bool \<Rightarrow> 'c Task \<Rightarrow> val list \<Rightarrow> vars option \<Rightarrow> 'w \<Rightarrow>
   Result list \<Rightarrow> vars option \<Rightarrow> 'w \<Rightarrow> bool"
  for g ops pp role t where
  none: "iterations g ops pp role t [] ctx w [] ctx w"
| one: "t_Content t \<noteq> None \<Longrightarrow>
    processAndRunTask g ops (Some (fmupd ''item'' item (context_vars ctx))) pp role (iter_task t) w = ((r, None), c, w1) \<Longrightarrow>
    iterations g ops pp role t items (set_var ''item'' item ctx) w1 rs ctx' w' \<Longrightarrow>
    iterations g ops pp role t (item # items) ctx w (r # rs) ctx' w'"

inductive_cases iterations_Nil: "iterations g ops pp role t [] ctx w rs ctx' w'"
inductive_cases iterations_Cons: "iterations g ops pp role t (i # is) ctx w rs ctx' w'"

lemma run_loop_iterations:
  "run_loop g ops pp role t items ctx acc w = (Inr (c, out), ctx', w') \<longleftrightarrow>
   (\<exists>rs. iterations g ops pp role t items ctx w rs ctx' w' \<and> out = snd acc @ rs \<and> c = fold add_flags rs (fst acc))"
proof (induction items arbitrary: ctx acc w)
  case Nil
  show ?case by (cases acc) (auto elim: iterations_Nil intro: iterations.none)
next
  case (Cons item items)
  let ?ctx1 = "Some (fmupd ''item'' item (context_vars ctx))"
  obtain r e c1 w1 where p: "processAndRunTask g ops ?ctx1 pp role (iter_task t) w = ((r, e), c1, w1)"
    by (metis prod.exhaust)
  show ?case
  proof (cases "t_Content t = None \<or> e \<noteq> None")
    case True
    with p show ?thesis by (auto simp: Let_def elim!: iterations_Cons split: option.splits)
  next
    case False
    have ne: "t_Content t \<noteq> None" using False by (rule contrapos_nn) (rule disjI1)
    have e: "e = None" using False by (rule contrapos_np) (rule disjI2)
    have run: "run_loop g ops pp role t (item # items) ctx acc w =
        run_loop g ops pp role t items (set_var ''item'' item ctx) (add_flags r (fst acc), snd acc @ [r]) w1"
      using p ne e by (simp add: Let_def del: not_None_eq)
    have rel: "iterations g ops pp role t (item # items) ctx w rs ctx' w' \<longleftrightarrow>
        (\<exists>rs1. rs = r # rs1 \<and> iterations g ops pp role t items (set_var ''item'' item ctx) w1 rs1 ctx' w')" for rs
      using p ne e by (auto elim!: iterations_Cons intro: iterations.one)
    show ?thesis unfolding run Cons.IH rel by auto
  qed
qed

lemma iterations_length: "iterations g ops pp role t items ctx w rs ctx' w' \<Longrightarrow> length rs = length items"
  by (induction rule: iterations.induct) simp_all

lemma iterations_vars:
  "iterations g ops pp role t items ctx w rs ctx' w' \<Longrightarrow>
   ctx' = (if items = [] then ctx else set_var ''item'' (last items) ctx)"
  by (induction rule: iterations.induct) (auto simp: set_var_def option.map_comp comp_def)

text \<open>The flags of a loop are the disjunction of those of its results.\<close>

lemma add_flags_simps [task_simps]:
  "Changed (add_flags r c) \<longleftrightarrow> Changed r \<or> Changed c"
  "Failed (add_flags r c) \<longleftrightarrow> Failed r \<or> Failed c"
  "Skipped (add_flags r c) \<longleftrightarrow> Skipped r \<or> Skipped c"
  by (simp_all add: add_flags_def Let_def IsChanged_def IsFailed_def IsSkipped_def)

lemma fold_add_flags:
  "Changed (fold add_flags rs c) \<longleftrightarrow> Changed c \<or> (\<exists>r\<in>set rs. Changed r)"
  "Failed (fold add_flags rs c) \<longleftrightarrow> Failed c \<or> (\<exists>r\<in>set rs. Failed r)"
  "Skipped (fold add_flags rs c) \<longleftrightarrow> Skipped c \<or> (\<exists>r\<in>set rs. Skipped r)"
  by (induction rs arbitrary: c) (auto simp: task_simps)

lemma LoopResult_flags [simp]:
  "Changed (LoopResult c rs) = Changed c" "Failed (LoopResult c rs) = Failed c" "Skipped (LoopResult c rs) = Skipped c"
  by (simp_all add: LoopResult_def CommonResult.extend_def)

text \<open>The list a loop runs over, once its template is rendered.\<close>

definition loop_list :: "gonja \<Rightarrow> vars option \<Rightarrow> rval option \<Rightarrow> goerr + val list" where
  "loop_list g ctx l = and_then (render_loop g (context_vars ctx) l) loop_values"

lemma ExecuteTask_loop:
  assumes "t_Loop t \<noteq> None" and "ExecuteTask g ops ctx pp role t w = (None, ctx', c, w')"
  obtains items rs ctx1 where "loop_list g ctx (t_Loop t) = Inr items"
    "iterations g ops pp role t items ctx w rs ctx1 w'"
    "ctx' = register_result (t_Register t) (LoopResult (fold add_flags rs CommonResult_zero) rs) ctx1"
proof -
  obtain loop where loop: "render_loop g (context_vars ctx) (t_Loop t) = Inr loop"
    using assms by (cases "render_loop g (context_vars ctx) (t_Loop t)") (auto simp: ExecuteTask_def)
  obtain items where items: "loop_values loop = Inr items"
    using assms loop by (cases "loop_values loop") (auto simp: ExecuteTask_def)
  obtain x ctx1 w1 where x: "run_loop g ops pp role t items ctx (CommonResult_zero, []) w = (x, ctx1, w1)"
    by (metis prod.exhaust)
  with assms loop items obtain cr out where out: "x = Inr (cr, out)" "w1 = w'"
    "ctx' = register_result (t_Register t) (LoopResult cr out) ctx1"
    by (cases x) (auto simp: ExecuteTask_def split: prod.splits)
  from x [unfolded out, unfolded run_loop_iterations] obtain rs where
    "iterations g ops pp role t items ctx w rs ctx1 w'" "out = rs" "cr = fold add_flags rs CommonResult_zero" by auto
  with loop items out(3) show ?thesis by (intro that [of items rs ctx1]) (simp_all add: loop_list_def)
qed

text \<open>
  C7. A loop that succeeds ran its items in order, each once and none with an error, and what it
  registers sums them up: one result for each item, changed, failed or skipped exactly if one of
  them is.
\<close>

theorem loop_sums_up_iterations:
  assumes "t_Loop t \<noteq> None" and "ExecuteTask g ops ctx pp role t w = (None, ctx', c, w')"
  shows "\<exists>items rs ctx1 common. loop_list g ctx (t_Loop t) = Inr items \<and>
    iterations g ops pp role t items ctx w rs ctx1 w' \<and> length rs = length items \<and>
    ctx' = register_result (t_Register t) (LoopResult common rs) ctx1 \<and>
    (Changed common \<longleftrightarrow> (\<exists>r\<in>set rs. Changed r)) \<and> (Failed common \<longleftrightarrow> (\<exists>r\<in>set rs. Failed r)) \<and>
    (Skipped common \<longleftrightarrow> (\<exists>r\<in>set rs. Skipped r))"
proof -
  from ExecuteTask_loop [OF assms] obtain items rs ctx1 where run: "loop_list g ctx (t_Loop t) = Inr items"
    "iterations g ops pp role t items ctx w rs ctx1 w'"
    "ctx' = register_result (t_Register t) (LoopResult (fold add_flags rs CommonResult_zero) rs) ctx1" .
  with iterations_length [OF run(2)] show ?thesis
    by (intro exI [of _ items] exI [of _ rs] exI [of _ ctx1] exI [of _ "fold add_flags rs CommonResult_zero"])
      (simp add: fold_add_flags)
qed

text \<open>A module for the examples: its content is a text that is rendered and appended to the world.\<close>

definition toy_ops :: "(string, string list) TaskContent" where
  "toy_ops =
     \<lparr> tc_registered = (\<lambda>c. True), tc_render = render_string toy_gonja, tc_Validate = (\<lambda>c. None),
       tc_Apply = (\<lambda>ctx pp role c w. (TaskChanged plain_result, None, w @ [c])) \<rparr>"

definition toy_task :: "string Task" where
  "toy_task = \<lparr> t_Name = ''toy'', t_When = [], t_Loop = Some (RString ''{{ xs }}''),
                t_Content = Some ''{{ item }}'', t_Register = ''out'' \<rparr>"

definition toy_vars :: vars where
  "toy_vars = fmupd ''xs'' (VList [VString ''a'', VString ''b'']) fmempty"

theorem loop_sums_up_iterations_witness:
  "\<exists>rs ctx1 common.
     iterations toy_gonja toy_ops [] False toy_task [VString ''a'', VString ''b''] (Some toy_vars) [] rs ctx1 [''a'', ''b''] \<and>
     length rs = 2 \<and> (Changed (common :: CommonResult) \<longleftrightarrow> (\<exists>r\<in>set rs. Changed r))"
proof -
  let ?run = "ExecuteTask toy_gonja toy_ops (Some toy_vars) [] False toy_task []"
  have "fst ?run = None" "snd (snd (snd ?run)) = [''a'', ''b'']" by code_simp+
  then have run: "?run = (None, fst (snd ?run), fst (snd (snd ?run)), [''a'', ''b''])"
    by (simp add: prod_eq_iff)
  have l: "t_Loop toy_task \<noteq> None" by (simp add: toy_task_def)
  have items: "loop_list toy_gonja (Some toy_vars) (t_Loop toy_task) = Inr [VString ''a'', VString ''b'']"
    by code_simp
  from loop_sums_up_iterations [OF l run] obtain xs rs ctx1 common where
    xs: "loop_list toy_gonja (Some toy_vars) (t_Loop toy_task) = Inr xs"
    and it: "iterations toy_gonja toy_ops [] False toy_task xs (Some toy_vars) [] rs ctx1 [''a'', ''b'']"
      "length rs = length xs" "Changed (common :: CommonResult) \<longleftrightarrow> (\<exists>r\<in>set rs. Changed r)" by (elim exE conjE) (rule that)
  from xs items have "xs = [VString ''a'', VString ''b'']" by simp
  with it show ?thesis by (intro exI [of _ rs] exI [of _ ctx1] exI [of _ common]) simp
qed

section \<open>Conditions\<close>

text \<open>
  A task whose condition is false does nothing and is not validated, but it is not recorded as
  skipped either: what it registers says \<^verbatim>\<open>skipped: false\<close>.
\<close>

theorem false_condition_registers_not_skipped:
  assumes "t_Loop t = None" and "t_Register t \<noteq> []"
    and "render_task g ops (Some v) t = Inr task" and "JinjaProcessWhen g (Some v) (t_When task) = Inr False"
  shows "ExecuteTask g ops (Some v) pp role t w =
    (None, Some (fmupd (t_Register t) (resultToMap plain_result) v), t_Content task, w) \<and>
    \<not> IsSkipped plain_result"
  using assms
  by (simp add: ExecuteTask_def processAndRunTask_def register_result_def set_var_def IsSkipped_def
      plain_result_def CommonResult.extend_def CommonResult_zero_def)

definition never_task :: "string Task" where
  "never_task = toy_task\<lparr>t_Loop := None, t_When := ''false''\<rparr>"

theorem false_condition_registers_not_skipped_witness:
  "snd (snd (snd (ExecuteTask toy_gonja toy_ops (Some toy_vars) [] False never_task []))) = []"
proof -
  have "render_task toy_gonja toy_ops (Some toy_vars) never_task = Inr (never_task\<lparr>t_Content := Some []\<rparr>)"
    by (simp add: render_task_def never_task_def toy_task_def render_string_def toy_gonja_def toy_name_def
        has_prefix_def has_suffix_def context_vars_def render_loop_def render_content_def toy_ops_def toy_vars_def)
  moreover have "when_value [] = False" by code_simp
  then have "JinjaProcessWhen toy_gonja (Some toy_vars) (t_When (never_task\<lparr>t_Content := Some []\<rparr>)) = Inr False"
    by (simp add: JinjaProcessWhen_def never_task_def toy_gonja_def toy_name_def has_prefix_def has_suffix_def
        context_vars_def toy_vars_def)
  ultimately show ?thesis
    using false_condition_registers_not_skipped [of never_task toy_gonja toy_ops toy_vars
        "never_task\<lparr>t_Content := Some []\<rparr>" "[]" False "[]"]
    by (simp add: never_task_def toy_task_def)
qed

section \<open>Where loops are not what a playbook asks for\<close>

text \<open>
  A loop ignores the condition of its task: \<^verbatim>\<open>when\<close> is not copied to the iterations and not
  looked at elsewhere, so the items are processed even if it is false.
\<close>

theorem loop_ignores_condition:
  assumes "t_Loop t \<noteq> None"
  shows "ExecuteTask g ops ctx pp role (t\<lparr>t_When := cond\<rparr>) w = ExecuteTask g ops ctx pp role t w"
proof -
  have "iter_task (t\<lparr>t_When := cond\<rparr>) = iter_task t" by (simp add: iter_task_def)
  then have run: "run_loop g ops pp role (t\<lparr>t_When := cond\<rparr>) items ctx acc w =
      run_loop g ops pp role t items ctx acc w" for items ctx acc w
    by (induction items arbitrary: ctx acc w) (simp_all add: Let_def split: prod.split option.split)
  have sel: "t_Content (t\<lparr>t_When := cond\<rparr>) = t_Content t" "t_Loop (t\<lparr>t_When := cond\<rparr>) = t_Loop t"
    "t_Register (t\<lparr>t_When := cond\<rparr>) = t_Register t" by simp_all
  from assms obtain l where l: "t_Loop t = Some l" by blast
  show ?thesis unfolding ExecuteTask_def run sel l by simp
qed

theorem loop_ignores_condition_witness:
  "snd (snd (snd (ExecuteTask toy_gonja toy_ops (Some toy_vars) [] False (toy_task\<lparr>t_When := ''false''\<rparr>) []))) =
     [''a'', ''b'']"
proof -
  have "t_Loop toy_task \<noteq> None" by (simp add: toy_task_def)
  moreover have "snd (snd (snd (ExecuteTask toy_gonja toy_ops (Some toy_vars) [] False toy_task []))) = [''a'', ''b'']"
    by code_simp
  ultimately show ?thesis using loop_ignores_condition [of toy_task] by metis
qed

text \<open>
  The loop variable outlives the loop: afterwards \<^verbatim>\<open>item\<close> is bound to the last item in the
  variables of the play, and an \<^verbatim>\<open>item\<close> that was there before is lost.
\<close>

theorem loop_variable_leaks:
  assumes "t_Loop t \<noteq> None" and "t_Register t \<noteq> ''item''"
    and "loop_list g (Some v) (t_Loop t) = Inr items" and "items \<noteq> []"
    and "ExecuteTask g ops (Some v) pp role t w = (None, ctx', c, w')"
  shows "\<exists>v'. ctx' = Some v' \<and> fmlookup v' ''item'' = Some (last items)"
proof -
  from ExecuteTask_loop [OF assms(1,5)] obtain items' rs ctx1 where
    items': "loop_list g (Some v) (t_Loop t) = Inr items'"
    and it': "iterations g ops pp role t items' (Some v) w rs ctx1 w'"
    and ctx': "ctx' = register_result (t_Register t) (LoopResult (fold add_flags rs CommonResult_zero) rs) ctx1" .
  from items' assms(3) it' have it: "iterations g ops pp role t items (Some v) w rs ctx1 w'" by simp
  from iterations_vars [OF it] assms(4) have "ctx1 = Some (fmupd ''item'' (last items) v)" by (simp add: set_var_def)
  with ctx' assms(2) show ?thesis by (auto simp: register_result_def set_var_def)
qed

theorem loop_variable_leaks_witness:
  "\<exists>v'. fst (snd (ExecuteTask toy_gonja toy_ops (Some toy_vars) [] False toy_task [])) = Some v' \<and>
        fmlookup v' ''item'' = Some (VString ''b'')"
proof -
  let ?run = "ExecuteTask toy_gonja toy_ops (Some toy_vars) [] False toy_task []"
  have "fst ?run = None" by code_simp
  then have run: "?run = (None, fst (snd ?run), fst (snd (snd ?run)), snd (snd (snd ?run)))"
    by (simp add: prod_eq_iff)
  have items: "loop_list toy_gonja (Some toy_vars) (t_Loop toy_task) = Inr [VString ''a'', VString ''b'']"
    by code_simp
  have "t_Loop toy_task \<noteq> None" "t_Register toy_task \<noteq> ''item''" by (simp_all add: toy_task_def)
  from loop_variable_leaks [OF this items _ run] show ?thesis by simp
qed

lemma render_loop_string:
  assumes "contains s ''{{''" "g_single g s v = Inr (Some (JList vs))" "strings_of vs = Some ss"
  shows "render_loop g v (Some (RString s)) =
    Inr (Some (case ss of [] \<Rightarrow> RPtr (Some (RString s)) | [r] \<Rightarrow> RString r | _ \<Rightarrow> RStrings ss))"
proof -
  have "s \<noteq> []" using assms(1) by (auto simp: contains_def)
  with assms have "renderJinjaStringToSlice g v s = Inr (Some ss)" by (simp add: renderJinjaStringToSlice_def)
  then show ?thesis by (simp add: render_loop_def split: list.split)
qed

text \<open>
  A loop over a variable works only from two items on: when the template evaluates to an empty
  list or to a list of one string, the task fails because its loop is not a list, and nothing runs.
\<close>

theorem short_loop_fails:
  assumes "t_Loop t = Some (RString s)" and "contains s ''{{''"
    and "g_single g s (context_vars ctx) = Inr (Some (JList (List.map VString ss)))" and "length ss < 2"
  shows "ExecuteTask g ops ctx pp role t w =
    (Some (ErrMsg ''loop variable is not a list''), ctx, t_Content t, w)"
proof -
  have "strings_of (List.map VString ss) = Some ss" by (induction ss) simp_all
  from render_loop_string [OF assms(2,3) this] assms(4)
  have "\<exists>l. render_loop g (context_vars ctx) (Some (RString s)) = Inr (Some l) \<and>
      loop_values (Some l) = Inl (ErrMsg ''loop variable is not a list'')"
    by (auto simp: loop_values_def split: list.split)
  with assms(1) show ?thesis by (auto simp: ExecuteTask_def)
qed

theorem short_loop_fails_witness:
  "fst (ExecuteTask toy_gonja toy_ops (Some (fmupd ''xs'' (VList [VString ''only'']) fmempty)) [] False toy_task []) =
     Some (ErrMsg ''loop variable is not a list'')"
proof -
  let ?v = "fmupd ''xs'' (VList [VString ''only'']) fmempty"
  have "t_Loop toy_task = Some (RString ''{{ xs }}'')" by (simp add: toy_task_def)
  moreover have "contains ''{{ xs }}'' ''{{''" by code_simp
  moreover have "g_single toy_gonja ''{{ xs }}'' (context_vars (Some ?v)) = Inr (Some (JList (List.map VString [''only''])))"
    by (simp add: toy_gonja_def toy_name_def has_prefix_def has_suffix_def context_vars_def)
  ultimately show ?thesis
    using short_loop_fails [of toy_task "''{{ xs }}''" toy_gonja "Some ?v" "[''only'']" toy_ops "[]" False "[]"]
    by simp
qed

text \<open>
  Templates inside a literal list of items are not rendered: the items reach the iterations
  as they are written.
\<close>

theorem list_items_not_rendered:
  "loop_list g ctx (Some (RSlice vs)) = Inr vs"
  by (simp add: loop_list_def render_loop_def loop_values_def)

end
