(* ===== verification/Role.thy ===== *)
theory Role
  imports Engine Os
begin

text \<open>
  Roles, \<^verbatim>\<open>pkg/role\<close>: discovering them in a directory, loading their variables and tasks, and
  applying them to a play. The file system is read through \<^verbatim>\<open>fs.FS\<close>; \<open>DirFS\<close> is \<^verbatim>\<open>os.DirFS\<close>.
\<close>

section \<open>Reading a directory tree\<close>

record fsys =
  fs_Stat :: "string \<Rightarrow> errno + bool"
  fs_ReadDir :: "string \<Rightarrow> errno + (string \<times> bool) list"
  fs_ReadFile :: "string \<Rightarrow> errno + bytes"

text \<open>The booleans say whether a name is a directory.\<close>

definition in_dirfs :: "string \<Rightarrow> string \<Rightarrow> (string \<Rightarrow> errno + 'a) \<Rightarrow> errno + 'a" where
  "in_dirfs dir name f = (case dirfs_path dir name of None \<Rightarrow> Inl EINVAL | Some p \<Rightarrow> f p)"

definition DirFS :: "'w os \<Rightarrow> string \<Rightarrow> 'w \<Rightarrow> fsys" where
  "DirFS os dir w =
     \<lparr> fs_Stat = (\<lambda>n. in_dirfs dir n (\<lambda>p. map_sum id is_dir (os_stat os p w))),
       fs_ReadDir = (\<lambda>n. in_dirfs dir n (\<lambda>p. map_sum id (List.map (\<lambda>(m, fi). (m, is_dir fi))) (os_readDir os p w))),
       fs_ReadFile = (\<lambda>n. in_dirfs dir n (\<lambda>p. os_readFile os p w)) \<rparr>"

text \<open>
  \<^verbatim>\<open>fs.WalkDir\<close> with a callback that passes directories over: the files below \<open>name\<close> in lexical order,
  folded from the left. Depth is bounded by the length of a path, as for \<open>walk_dir\<close>.
\<close>

primrec walk_files ::
  "fsys \<Rightarrow> ('s \<Rightarrow> string \<Rightarrow> goerr + 's) \<Rightarrow> nat \<Rightarrow> string \<Rightarrow> bool \<Rightarrow> 's \<Rightarrow> goerr + 's" where
  "walk_files fs f 0 name d s = Inl Diverge"
| "walk_files fs f (Suc n) name d s =
     (if \<not> d then f s name
      else case fs_ReadDir fs name of
             Inl e \<Rightarrow> Inl (OsErr e)
           | Inr ents \<Rightarrow>
               fold_err (\<lambda>s (m, d1). walk_files fs f n (path_join [name, m]) d1 s) s ents)"

section \<open>Variables\<close>

text \<open>\<^verbatim>\<open>yaml.Unmarshal\<close> into a map of variables, a parameter as in \<open>LoadFromFile\<close>.\<close>

type_synonym yaml_vars = "bytes \<Rightarrow> goerr + vars"

definition merge_file :: "fsys \<Rightarrow> yaml_vars \<Rightarrow> vars \<Rightarrow> string \<Rightarrow> goerr + vars" where
  "merge_file fs yaml v name =
     (case fs_ReadFile fs name of
        Inl e \<Rightarrow> Inl (OsErr e)
      | Inr data \<Rightarrow> (case yaml data of Inl e \<Rightarrow> Inl e | Inr fileVars \<Rightarrow> Inr (Variables_Merge v fileVars)))"

definition vars_main :: "fsys \<Rightarrow> yaml_vars \<Rightarrow> string \<Rightarrow> goerr + vars" where
  "vars_main fs yaml p =
     (case fs_Stat fs p of
        Inl e \<Rightarrow> if is_not_exist e then Inr fmempty else Inl (OsErr e)
      | Inr d \<Rightarrow>
          if \<not> d then
            (case fs_ReadFile fs p of Inl e \<Rightarrow> Inl (OsErr e) | Inr data \<Rightarrow> yaml data)
          else walk_files fs (merge_file fs yaml) walk_fuel p d fmempty)"

definition processVars :: "fsys \<Rightarrow> yaml_vars \<Rightarrow> string \<Rightarrow> goerr + vars" where
  "processVars fs yaml root =
     (case fs_ReadFile fs (path_join [root, ''main.yml'']) of
        Inr data \<Rightarrow> yaml data
      | Inl e \<Rightarrow>
          if \<not> is_not_exist e then Inl (OsErr e)
          else (case fs_ReadFile fs (path_join [root, ''main.yaml'']) of
                  Inr data \<Rightarrow> yaml data
                | Inl e \<Rightarrow>
                    if \<not> is_not_exist e then Inl (OsErr e)
                    else vars_main fs yaml (path_join [root, ''main''])))"

section \<open>Tasks\<close>

type_synonym 'c yaml_tasks = "bytes \<Rightarrow> goerr + 'c ProtoTask list"

definition unmarshal_tasks :: "'c yaml_tasks \<Rightarrow> bytes \<Rightarrow> goerr + 'c ProtoTask list" where
  "unmarshal_tasks yaml data =
     (case yaml data of Inl e \<Rightarrow> Inl (Wrap ''failed to unmarshal tasks'' e) | Inr ts \<Rightarrow> Inr ts)"

definition tasks_main :: "fsys \<Rightarrow> 'c yaml_tasks \<Rightarrow> string \<Rightarrow> goerr + 'c ProtoTask list" where
  "tasks_main fs yaml p =
     (case fs_Stat fs p of
        Inl e \<Rightarrow> if is_not_exist e then Inr [] else Inl (Wrap ''failed to stat main'' (OsErr e))
      | Inr d \<Rightarrow>
          if d then Inr []
          else (case fs_ReadFile fs p of
                  Inl e \<Rightarrow> Inl (Wrap ''failed to read content of main/ directory'' (OsErr e))
                | Inr data \<Rightarrow> unmarshal_tasks yaml data))"

definition processTasks :: "fsys \<Rightarrow> 'c yaml_tasks \<Rightarrow> string \<Rightarrow> goerr + 'c ProtoTask list" where
  "processTasks fs yaml root =
     (case fs_ReadFile fs (path_join [root, ''main.yml'']) of
        Inr data \<Rightarrow> unmarshal_tasks yaml data
      | Inl e \<Rightarrow>
          if \<not> is_not_exist e then Inl (Wrap ''failed to read main.yml'' (OsErr e))
          else (case fs_ReadFile fs (path_join [root, ''main.yaml'']) of
                  Inr data \<Rightarrow> unmarshal_tasks yaml data
                | Inl e \<Rightarrow>
                    if \<not> is_not_exist e then Inl (Wrap ''failed to read main.yaml'' (OsErr e))
                    else tasks_main fs yaml (path_join [root, ''main''])))"

section \<open>Discovery\<close>

record 'c Role =
  ro_defaults :: vars
  ro_vars :: vars
  ro_tasks :: "'c ProtoTask list"

definition Role_zero :: "'c Role" where
  "Role_zero = \<lparr> ro_defaults = fmempty, ro_vars = fmempty, ro_tasks = [] \<rparr>"

text \<open>The variables in a subdirectory, if it is there.\<close>

definition maybe_vars :: "fsys \<Rightarrow> yaml_vars \<Rightarrow> string \<Rightarrow> goerr + vars option" where
  "maybe_vars fs yaml dir =
     (case fs_Stat fs dir of
        Inl e \<Rightarrow> if is_not_exist e then Inr None else Inl (OsErr e)
      | Inr d \<Rightarrow> map_sum id Some (processVars fs yaml dir))"

definition other_role_dirs :: "string list" where
  "other_role_dirs =
     [''handlers'', ''templates'', ''files'', ''meta'', ''library'', ''module_utils'', ''lookup_plugins'']"

definition role_entry ::
  "fsys \<Rightarrow> 'c yaml_tasks \<Rightarrow> string \<Rightarrow> 'c Role \<times> bool \<Rightarrow> string \<times> bool \<Rightarrow> goerr + 'c Role \<times> bool" where
  "role_entry fs ytasks name s entry =
     (case (s, entry) of ((role, isARole), (n, d)) \<Rightarrow>
        if \<not> d then Inr (role, isARole)
        else if n = ''tasks'' then
          (case processTasks fs ytasks (path_join [name, n]) of
             Inl e \<Rightarrow> Inl e
           | Inr tasks \<Rightarrow> Inr (role\<lparr>ro_tasks := tasks\<rparr>, True))
        else if n \<in> set other_role_dirs then Inr (role, True)
        else Inr (role, isARole))"

definition maybeRole :: "fsys \<Rightarrow> yaml_vars \<Rightarrow> 'c yaml_tasks \<Rightarrow> string \<Rightarrow> goerr + 'c Role \<times> bool" where
  "maybeRole fs yvars ytasks name =
     and_then (maybe_vars fs yvars (path_join [name, ''defaults''])) (\<lambda>defaults.
     and_then (maybe_vars fs yvars (path_join [name, ''vars''])) (\<lambda>vars.
       (let role = \<lparr> ro_defaults = (case defaults of None \<Rightarrow> fmempty | Some v \<Rightarrow> v),
                      ro_vars = (case vars of None \<Rightarrow> fmempty | Some v \<Rightarrow> v), ro_tasks = [] \<rparr>;
            isARole = (defaults \<noteq> None \<or> vars \<noteq> None)
        in case fs_ReadDir fs name of
             Inl e \<Rightarrow> Inl (OsErr e)
           | Inr entries \<Rightarrow> fold_err (role_entry fs ytasks name) (role, isARole) entries)))"

text \<open>The map of roles, as the list of its entries.\<close>

definition discover_entry ::
  "fsys \<Rightarrow> yaml_vars \<Rightarrow> 'c yaml_tasks \<Rightarrow> (string \<times> 'c Role) list \<Rightarrow> string \<times> bool \<Rightarrow> goerr + (string \<times> 'c Role) list" where
  "discover_entry fs yvars ytasks roles entry =
     (case entry of (n, d) \<Rightarrow>
        if \<not> d then Inr roles
        else (case maybeRole fs yvars ytasks n of
                Inl e \<Rightarrow> Inl e
              | Inr (role, ok) \<Rightarrow> Inr (if ok then roles @ [(n, role)] else roles)))"

definition DiscoverRoles :: "fsys \<Rightarrow> yaml_vars \<Rightarrow> 'c yaml_tasks \<Rightarrow> goerr + (string \<times> 'c Role) list" where
  "DiscoverRoles fs yvars ytasks =
     (case fs_ReadDir fs ''.'' of
        Inl e \<Rightarrow> Inl (Wrap ''failed to discover roles'' (OsErr e))
      | Inr entries \<Rightarrow> fold_err (discover_entry fs yvars ytasks) [] entries)"

section \<open>Running tasks\<close>

text \<open>
  A list of decoded tasks, one after the other under one context. The messages are shared with the
  list, so the answer has the tasks with the contents as rendered.
\<close>

fun execute_tasks ::
  "gonja \<Rightarrow> ('c, 'w) TaskContent \<Rightarrow> vars option \<Rightarrow> string \<Rightarrow> bool \<Rightarrow> 'c ProtoTask list \<Rightarrow> 'w \<Rightarrow>
   goerr option \<times> vars option \<times> 'c ProtoTask list \<times> 'w" where
  "execute_tasks g ops ctx parentPath isRole [] w = (None, ctx, [], w)"
| "execute_tasks g ops ctx parentPath isRole (pt # pts) w =
     (case FromProto ops pt of
        Inl e \<Rightarrow> (Some (Wrap ''failed to convert task'' e), ctx, pt # pts, w)
      | Inr t \<Rightarrow>
          (case ExecuteTask g ops ctx parentPath isRole t w of
             (Some e, ctx', c, w') \<Rightarrow>
               (Some (Wrap ''failed to execute task'' e), ctx', pt\<lparr>p_Content := c\<rparr> # pts, w')
           | (None, ctx', c, w') \<Rightarrow>
               (case execute_tasks g ops ctx' parentPath isRole pts w' of
                  (err, ctx'', pts', w'') \<Rightarrow> (err, ctx'', pt\<lparr>p_Content := c\<rparr> # pts', w''))))"

definition role_scope :: "'c Role \<Rightarrow> vars \<Rightarrow> vars" where
  "role_scope r inventoryAndPlayVars =
     Variables_Merge (Variables_Merge (Variables_Merge fmempty (ro_defaults r)) inventoryAndPlayVars) (ro_vars r)"

definition Role_Apply ::
  "gonja \<Rightarrow> ('c, 'w) TaskContent \<Rightarrow> vars option \<Rightarrow> string \<Rightarrow> 'c Role \<Rightarrow> 'w \<Rightarrow>
   goerr option \<times> vars option \<times> 'c Role \<times> 'w" where
  "Role_Apply g ops ctx parentPath r w =
     (let roleCtx = Some (role_scope r (context_vars ctx)) in
      case execute_tasks g ops roleCtx parentPath True (ro_tasks r) w of
        (Some e, _, pts, w') \<Rightarrow> (Some e, ctx, r\<lparr>ro_tasks := pts\<rparr>, w')
      | (None, _, pts, w') \<Rightarrow>
          (None, map_option (\<lambda>v. Variables_Merge v (ro_vars r)) ctx, r\<lparr>ro_tasks := pts\<rparr>, w'))"

end
