(* ===== verification/RoleProps.thy ===== *)
theory RoleProps
  imports Role EngineProps MemFs
begin

text \<open>
  Properties of roles: the precedence and the lifetime of their variables, what makes a directory a
  role, the end of the walk over a directory of variables, and tasks that are rendered only once.
\<close>

section \<open>Variables\<close>



text \<open>A role whose only task shows the variable \<^verbatim>\<open>x\<close> and registers its result.\<close>

definition show_x :: "string ProtoTask" where
  "show_x = \<lparr> p_Name = [], p_When = [], p_Loop = None, p_Register = ''shown'', p_Content = Some ''{{ x }}'' \<rparr>"

definition show_role :: "string Role" where
  "show_role = \<lparr> ro_defaults = fmupd ''x'' (VString ''default'') fmempty, ro_vars = fmempty, ro_tasks = [show_x] \<rparr>"

definition play_x :: "string \<Rightarrow> vars" where
  "play_x s = fmupd ''x'' (VString s) fmempty"


section \<open>Rendered once\<close>

text \<open>What is left in the list after a task: the content as rendered, or as it was for a loop.\<close>

lemma ExecuteTask_content:
  assumes "ExecuteTask g ops ctx pp role t w = (None, ctx', c, w')"
    and "\<And>x v. t_Content t = Some x \<Longrightarrow> tc_render ops v x = Inr x"
  shows "c = t_Content t"
proof (cases "t_Loop t")
  case None
  have "render_content ops v (t_Content t) = Inr (t_Content t)" for v
    using assms(2) by (cases "t_Content t") (simp_all add: render_content_def)
  then have "t_Content task = t_Content t" if "render_task g ops ctx t = Inr task" for task
    using that by (auto simp: render_task_def Let_def and_then_Inr_iff)
  then have "fst (snd (processAndRunTask g ops ctx pp role t w)) = t_Content t"
    by (simp add: processAndRunTask_def split: sum.split bool.split option.split prod.split)
  with assms(1) None show ?thesis
    by (auto simp: ExecuteTask_def split: prod.splits option.splits)
next
  case (Some l)
  with assms(1) show ?thesis
    by (auto simp: ExecuteTask_def split: prod.splits sum.splits)
qed

definition rendered :: "('c, 'w) TaskContent \<Rightarrow> 'c ProtoTask list \<Rightarrow> bool" where
  "rendered ops pts \<longleftrightarrow> (\<forall>pt\<in>set pts. \<forall>c v. p_Content pt = Some c \<longrightarrow> tc_render ops v c = Inr c)"

lemma FromProto_content: "FromProto ops pt = Inr t \<Longrightarrow> t_Content t = p_Content pt"
  by (auto simp: FromProto_def Let_def split: option.splits if_splits)

lemma execute_tasks_content:
  assumes "execute_tasks g ops ctx pp role pts w = (None, ctx', pts', w')" and "rendered ops pts"
  shows "pts' = pts"
  using assms
proof (induction pts arbitrary: ctx w pts')
  case Nil
  then show ?case by simp
next
  case (Cons pt pts)
  obtain t where t: "FromProto ops pt = Inr t" using Cons.prems(1) by (cases "FromProto ops pt") auto
  obtain e ctx1 c w1 where ex: "ExecuteTask g ops ctx pp role t w = (e, ctx1, c, w1)" by (metis prod_cases4)
  have e: "e = None" using Cons.prems(1) t ex by (cases e) auto
  have "c = p_Content pt"
    using ExecuteTask_content [OF ex [unfolded e]] Cons.prems(2) FromProto_content [OF t]
    by (auto simp: rendered_def)
  then have pt: "pt\<lparr>p_Content := c\<rparr> = pt" by simp
  obtain pts1 where "execute_tasks g ops ctx1 pp role pts w1 = (None, ctx', pts1, w')" "pts' = pt # pts1"
    using Cons.prems(1) t ex e pt by (auto split: prod.splits)
  with Cons.IH [of ctx1 w1 pts1] Cons.prems(2) show ?case by (auto simp: rendered_def)
qed

text \<open>
  The tasks of a role are rendered in place: once they hold no more templates, as after a first
  application, every further application runs the very same contents, whatever the variables of
  the later play are.
\<close>

theorem role_rendered_once:
  assumes "rendered ops (ro_tasks r)" and "Role_Apply g ops (Some v) pp r w = (None, ctx', r', w')"
  shows "r' = r"
proof -
  obtain e ctx1 pts w1 where ex:
    "execute_tasks g ops (Some (role_scope r v)) pp True (ro_tasks r) w = (e, ctx1, pts, w1)"
    by (metis prod_cases4)
  with assms(2) have "e = None" "r' = r\<lparr>ro_tasks := pts\<rparr>"
    by (auto simp: Role_Apply_def Let_def context_vars_def split: option.splits)
  with execute_tasks_content [OF ex [unfolded \<open>e = None\<close>] assms(1)] show ?thesis by simp
qed

theorem role_rendered_once_witness:
  "(let (e1, c1, role1, w1) = Role_Apply toy_gonja toy_ops (Some (play_x ''a'')) [] show_role [];
        (e2, c2, role2, w2) = Role_Apply toy_gonja toy_ops (Some (play_x ''b'')) [] role1 w1
    in role2 = role1 \<and> w2 = [''a'', ''a''])"
proof -
  let ?one = "Role_Apply toy_gonja toy_ops (Some (play_x ''a'')) [] show_role []"
  let ?r1 = "show_role\<lparr>ro_tasks := [show_x\<lparr>p_Content := Some ''a''\<rparr>]\<rparr>"
  let ?two = "Role_Apply toy_gonja toy_ops (Some (play_x ''b'')) [] ?r1 [''a'']"
  have "map p_Content (ro_tasks (fst (snd (snd ?one)))) = [Some ''a'']" by code_simp
  have one: "fst ?one = None" "snd (snd (snd ?one)) = [''a'']" by code_simp+
  have r1: "fst (snd (snd ?one)) = ?r1"
    by (simp add: Role_Apply_def show_role_def show_x_def Let_def FromProto_def toy_ops_def ExecuteTask_def
        processAndRunTask_def render_task_def render_string_def render_loop_def render_content_def toy_gonja_def
        toy_name_def has_prefix_def has_suffix_def role_scope_def context_vars_def play_x_def merge_lookup
        JinjaProcessWhen_def Task_Validate_def Task_Apply_def value_text_def)
  have two: "fst ?two = None" "snd (snd (snd ?two)) = [''a'', ''a'']" by code_simp+
  have ren: "rendered toy_ops (ro_tasks ?r1)"
    by (simp add: rendered_def show_x_def toy_ops_def render_string_def toy_gonja_def toy_name_def has_prefix_def)
  have "?two = (None, fst (snd ?two), fst (snd (snd ?two)), snd (snd (snd ?two)))"
    using two by (simp add: prod_eq_iff)
  from role_rendered_once [OF ren this] have "fst (snd (snd ?two)) = ?r1" .
  with one r1 two show ?thesis by (simp add: case_prod_unfold Let_def)
qed

section \<open>Discovery\<close>

definition role_dirs :: "string list" where
  "role_dirs = ''tasks'' # other_role_dirs"

lemma role_entry_flag:
  "role_entry fs yt name (role, b) (n, d) = Inr (role', b') \<Longrightarrow> b' \<longleftrightarrow> b \<or> (d \<and> n \<in> set role_dirs)"
  by (auto simp: role_entry_def role_dirs_def split: if_splits sum.splits)

lemma role_entries_flag:
  "fold_err (role_entry fs yt name) (role, b) entries = Inr (role', b') \<Longrightarrow>
   b' \<longleftrightarrow> b \<or> (\<exists>n. (n, True) \<in> set entries \<and> n \<in> set role_dirs)"
proof (induction entries arbitrary: role b)
  case Nil
  then show ?case by simp
next
  case (Cons x xs)
  obtain n d where x: "x = (n, d)" by fastforce
  obtain role1 b1 where step: "role_entry fs yt name (role, b) (n, d) = Inr (role1, b1)"
    and rest: "fold_err (role_entry fs yt name) (role1, b1) xs = Inr (role', b')"
    using Cons.prems x by (auto split: sum.splits)
  from Cons.IH [OF rest] role_entry_flag [OF step] x show ?case by auto
qed

text \<open>
  A directory is a role exactly if it has something called defaults or vars, or a subdirectory among
  tasks, handlers, templates, files, meta, library, module_utils and lookup_plugins.
\<close>

theorem role_recognised:
  assumes "maybeRole fs yv yt name = Inr (role, ok)" and "fs_ReadDir fs name = Inr entries"
  shows "ok \<longleftrightarrow>
    (\<exists>d. fs_Stat fs (path_join [name, ''defaults'']) = Inr d) \<or>
    (\<exists>d. fs_Stat fs (path_join [name, ''vars'']) = Inr d) \<or>
    (\<exists>n. (n, True) \<in> set entries \<and> n \<in> set role_dirs)"
proof -
  have mv: "maybe_vars fs yv p = Inr x \<Longrightarrow> x \<noteq> None \<longleftrightarrow> (\<exists>d. fs_Stat fs p = Inr d)" for p x
    by (cases "processVars fs yv p") (auto simp: maybe_vars_def split: sum.splits if_splits)
  from assms obtain ds vs rl where dv: "maybe_vars fs yv (path_join [name, ''defaults'']) = Inr ds"
    "maybe_vars fs yv (path_join [name, ''vars'']) = Inr vs"
    and f: "fold_err (role_entry fs yt name) (rl, ds \<noteq> None \<or> vs \<noteq> None) entries = Inr (role, ok)"
    by (auto simp: maybeRole_def and_then_Inr_iff Let_def)
  from role_entries_flag [OF f] mv [OF dv(1)] mv [OF dv(2)] show ?thesis by blast
qed

definition small_tree :: fsys where
  "small_tree =
     \<lparr> fs_Stat = (\<lambda>n. Inl ENOENT), fs_ReadDir = (\<lambda>n. Inr [(''files'', True), (''README'', False)]),
       fs_ReadFile = (\<lambda>n. Inl ENOENT) \<rparr>"

theorem role_recognised_witness:
  "maybeRole small_tree (\<lambda>b. Inr fmempty) (\<lambda>b. Inr []) ''web'' = Inr (Role_zero, True)"
proof -
  obtain role ok where run: "maybeRole small_tree (\<lambda>b. Inr fmempty) (\<lambda>b. Inr []) ''web'' = Inr (role, ok)"
    and role: "role = (Role_zero :: 'a Role)"
    by (simp add: maybeRole_def maybe_vars_def small_tree_def role_entry_def other_role_dirs_def Role_zero_def)
  moreover have "ok"
    using role_recognised [OF run, of "[(''files'', True), (''README'', False)]"]
    by (simp add: small_tree_def role_dirs_def other_role_dirs_def)
  ultimately show ?thesis by simp
qed

section \<open>Where variables come from\<close>



















end
