(* ===== verification/Archive.thy ===== *)
theory Archive
  imports Os
begin

text \<open>
  Archives: \<^verbatim>\<open>Tar\<close> and \<^verbatim>\<open>Untar\<close> of \<^verbatim>\<open>pkg/util/tar.go\<close>, which carry a playbook to a host, and the
  comparison of two archives in \<^verbatim>\<open>cmd/tardiff\<close>. An archive is the list of its entries: the encodings of
  \<^verbatim>\<open>archive/tar\<close> and \<^verbatim>\<open>compress/gzip\<close> are the standard library's.
\<close>

section \<open>Entries\<close>

datatype typeflag = TypeDir | TypeReg | TypeSymlink | TypeOther

record header =
  h_Name :: string
  h_Typeflag :: typeflag
  h_Linkname :: string
  h_Size :: nat
  h_Mode :: filemode
  h_Uid :: u32
  h_Gid :: u32
  h_Uname :: string
  h_Gname :: string

text \<open>An entry is a header and the content that follows it.\<close>

type_synonym entry = "header \<times> bytes"

section \<open>Tar\<close>

text \<open>
  \<^verbatim>\<open>tar.FileInfoHeader\<close> of the standard library: permissions, setuid, setgid and sticky in their Unix encoding;
  sockets and unknown kinds of files are refused. The names of the owner are left out: nothing reads them back.
\<close>

definition tar_mode :: "filemode \<Rightarrow> filemode" where
  "tar_mode m = perm m OR (if m AND 0x800000 \<noteq> 0 then 0x800 else 0) OR (if m AND 0x400000 \<noteq> 0 then 0x400 else 0)
     OR (if m AND 0x100000 \<noteq> 0 then 0x200 else 0)"

definition FileInfoHeader :: "fileinfo \<Rightarrow> string \<Rightarrow> goerr + header" where
  "FileInfoHeader fi link =
     (let m = fi_mode fi;
          header = (\<lambda>t size. Inr \<lparr> h_Name = [], h_Typeflag = t, h_Linkname = link, h_Size = size, h_Mode = tar_mode m,
                                    h_Uid = fi_uid fi, h_Gid = fi_gid fi, h_Uname = [], h_Gname = [] \<rparr>)
      in if is_regular_mode m then header TypeReg (fi_size fi)
         else if is_dir fi then header TypeDir 0
         else if is_link fi then header TypeSymlink 0
         else if m AND 0x6000000 \<noteq> 0 then header TypeOther 0
         else if m AND 0x1000000 \<noteq> 0 then Inl (ErrMsg ''archive/tar: sockets not supported'')
         else Inl (ErrMsg ''archive/tar: unknown file mode''))"

text \<open>
  The callback of the walk; its state is the entries written so far and the world it reads. The writer takes no more bytes
  than the header has announced; a file that shrinks between the walk and the reading is left out.
\<close>

definition tar_entry :: "'w os \<Rightarrow> string \<Rightarrow> string \<Rightarrow> fileinfo \<Rightarrow> entry list \<times> 'w \<Rightarrow> goerr option \<times> (entry list \<times> 'w)" where
  "tar_entry os src file fi s =
     (case s of (out, w) \<Rightarrow>
        (case path_rel (path_dir src) file of
           None \<Rightarrow> (Some (ErrMsg (''Rel: can'' @ [CHR 0x27] @ ''t make path relative'')), s)
         | Some headerName \<Rightarrow>
             (case (if is_link fi then os_readlink os file w else Inr []) of
                Inl e \<Rightarrow> (Some (Wrap (''could not read symlink '' @ file) (OsErr e)), s)
              | Inr link \<Rightarrow>
                  (case FileInfoHeader fi link of
                     Inl e \<Rightarrow> (Some (Wrap (''could not create header for '' @ file) e), s)
                   | Inr header \<Rightarrow>
                       (let h = header\<lparr>h_Name := headerName\<rparr> in
                        if is_dir fi \<or> is_link fi then (None, out @ [(h, [])], w)
                        else (case os_readFile os file w of
                                Inl e \<Rightarrow> (Some (Wrap (''could not open '' @ file) (OsErr e)), s)
                              | Inr data \<Rightarrow>
                                  if h_Size h < length data
                                  then (Some (Wrap (''could not copy data for '' @ file) (ErrMsg ''archive/tar: write too long'')), s)
                                  else (None, out @ [(h, data)], w)))))))"

definition Tar :: "'w os \<Rightarrow> string \<Rightarrow> 'w \<Rightarrow> goerr + entry list" where
  "Tar os src w =
     (case walk_dir os snd (tar_entry os src) src ([], w) of
        (Some e, _) \<Rightarrow> Inl e
      | (None, out, _) \<Rightarrow> Inr out)"

section \<open>Untar\<close>

definition untar_entry :: "'w os \<Rightarrow> string \<Rightarrow> entry \<Rightarrow> 'w \<Rightarrow> goerr option \<times> 'w" where
  "untar_entry os dest e w =
     (case e of (h, data) \<Rightarrow>
        (let target = path_join [dest, h_Name h] in
         case h_Typeflag h of
           TypeDir \<Rightarrow>
             (case os_mkdirAll os target (h_Mode h) w of
                (Some n, w') \<Rightarrow> (Some (Wrap (''could not create directory '' @ target) (OsErr n)), w')
              | (None, w') \<Rightarrow> (None, w'))
         | TypeReg \<Rightarrow>
             (case os_mkdirAll os (path_dir target) 0x1ED w of
                (Some n, w') \<Rightarrow> (Some (Wrap ''could not create parent directory'' (OsErr n)), w')
              | (None, w') \<Rightarrow>
                  (case os_writeFile os target data (h_Mode h) w' of
                     (Some n, w'') \<Rightarrow> (Some (Wrap (''could not create file '' @ target) (OsErr n)), w'')
                   | (None, w'') \<Rightarrow> (None, w'')))
         | TypeSymlink \<Rightarrow>
             (case os_mkdirAll os (path_dir target) 0x1ED w of
                (Some n, w') \<Rightarrow> (Some (Wrap ''could not create parent directory for symlink'' (OsErr n)), w')
              | (None, w') \<Rightarrow>
                  (case os_symlink os (h_Linkname h) target w' of
                     (Some n, w'') \<Rightarrow> (Some (Wrap (''could not create symlink '' @ target) (OsErr n)), w'')
                   | (None, w'') \<Rightarrow> (None, w'')))
         | TypeOther \<Rightarrow> (None, w)))"

text \<open>The loop over the reader; a damaged archive would end it with an error of the reader.\<close>

definition Untar :: "'w os \<Rightarrow> entry list \<Rightarrow> string \<Rightarrow> 'w \<Rightarrow> goerr option \<times> 'w" where
  "Untar os entries dest w = seq_entries (untar_entry os dest) entries w"

section \<open>Comparing archives\<close>

record diff_entry =
  d_Hash :: bytes
  d_Linkname :: string
  d_Size :: nat
  d_Mode :: filemode
  d_Uid :: u32
  d_Gid :: u32
  d_Uname :: string
  d_Gname :: string

definition filterOut :: "string \<Rightarrow> bool" where
  "filterOut name \<longleftrightarrow>
     (\<exists>p\<in>set [''tmp/sophons'', ''var/cache/ldconfig'', ''var/log'']. has_prefix name p) \<or>
     contains name ''.ansible/''"

text \<open>\<open>sha1\<close> stands for the hexadecimal digest. A later entry of the same name replaces an earlier one.\<close>

definition tarToEntries :: "(bytes \<Rightarrow> bytes) \<Rightarrow> entry list \<Rightarrow> (string \<rightharpoonup> diff_entry)" where
  "tarToEntries sha1 es =
     fold (\<lambda>(h, data) out.
             if filterOut (h_Name h) then out
             else out(''/'' @ h_Name h \<mapsto>
               \<lparr> d_Hash = sha1 data, d_Linkname = h_Linkname h, d_Size = h_Size h, d_Mode = h_Mode h,
                 d_Uid = h_Uid h, d_Gid = h_Gid h, d_Uname = h_Uname h, d_Gname = h_Gname h \<rparr>))
       es Map.empty"

text \<open>
  The main program ranges over the keys of both maps (lists here, in any order) and exits with 1 when
  it has something to report.
\<close>

definition only_in :: "string list \<Rightarrow> (string \<rightharpoonup> 'a) \<Rightarrow> string list" where
  "only_in keys other = filter (\<lambda>k. other k = None) keys"

definition differing :: "string list \<Rightarrow> (string \<rightharpoonup> 'a) \<Rightarrow> (string \<rightharpoonup> 'a) \<Rightarrow> string list" where
  "differing keys left right = filter (\<lambda>k. right k \<noteq> None \<and> left k \<noteq> right k) keys"

definition tardiff :: "string list \<Rightarrow> string list \<Rightarrow> (string \<rightharpoonup> diff_entry) \<Rightarrow> (string \<rightharpoonup> diff_entry) \<Rightarrow> nat" where
  "tardiff leftKeys rightKeys left right =
     (let onlyLeft = only_in leftKeys right;
          diff = differing leftKeys left right;
          onlyRight = only_in rightKeys left
      in if 0 < length onlyLeft \<or> 0 < length onlyRight \<or> 0 < length diff then 1 else 0)"

section \<open>Where Untar writes\<close>

text \<open>A name that stays below the directory it is joined to.\<close>

definition inside :: "string \<Rightarrow> string \<Rightarrow> bool" where
  "inside dest p \<longleftrightarrow> (\<exists>cs. p = render_path True (clean_comps True (comps dest) @ cs) \<and> ''..'' \<notin> set cs)"

lemma join_abs:
  assumes "is_abs dest"
  shows "path_join [dest, name] =
    render_path True (foldl (clean_step True) (clean_comps True (comps dest)) (comps name))"
proof -
  have ne: "dest \<noteq> []" using assms by auto
  then have "path_join [dest, name] = clean (dest @ CHR ''/'' # name)" by (simp add: path_join_def)
  moreover have "is_abs (dest @ CHR ''/'' # name)" using assms ne by (simp add: is_abs_append)
  ultimately show ?thesis by (simp add: clean_def comps_append_slash clean_comps_def)
qed

text \<open>
  An entry whose name has no dot-dot is unpacked below the destination directory.
\<close>

theorem untar_target_inside:
  assumes "is_abs dest" and "''..'' \<notin> set (comps name)"
  shows "inside dest (path_join [dest, name])"
  using assms by (auto simp: inside_def join_abs clean_comps_names)

theorem untar_target_inside_witness: "inside ''/tmp/x/'' (path_join [''/tmp/x/'', ''playbooks//a/./b''])"
proof -
  have "comps ''playbooks//a/./b'' = [''playbooks'', ''a'', ''b'']" by code_simp
  then show ?thesis by (intro untar_target_inside) simp_all
qed

lemma foldl_ups:
  assumes "list_all comp_ok out" "''..'' \<notin> set out"
  shows "foldl (clean_step True) out (replicate (length out) ''..'') = []"
  using assms
proof (induction out rule: rev_induct)
  case Nil
  then show ?case by simp
next
  case (snoc c out)
  have "c \<noteq> ''..''" using snoc.prems by auto
  then have "clean_step True (out @ [c]) ''..'' = out" by (simp add: clean_step_def)
  with snoc show ?case by simp
qed

lemma cleaned_abs: "''..'' \<notin> set (clean_comps True cs)"
  using clean_comps_cleaned [of True cs] by (auto simp: cleaned_def)

text \<open>
  \<^verbatim>\<open>Untar\<close> does not check the names it unpacks: for every destination and every absolute path there
  is an entry name, with enough dot-dots in front, that is unpacked to exactly that path.
\<close>

theorem untar_reaches_any_path:
  assumes "is_abs dest" and "list_all comp_ok cs" and "''..'' \<notin> set cs"
  shows "\<exists>n. path_join [dest, join_with ''/'' (replicate n ''..'' @ cs)] = render_path True cs"
proof -
  let ?d = "clean_comps True (comps dest)"
  let ?name = "join_with ''/'' (replicate (length ?d) ''..'' @ cs)"
  have up: "comp_ok ''..''" by (simp add: comp_ok_def slash_def)
  have ok: "list_all comp_ok (replicate (length ?d) ''..'' @ cs)" using assms(2) up by (auto simp: list_all_iff)
  have "foldl (clean_step True) ?d (replicate (length ?d) ''..'' @ cs) = cs"
    using foldl_ups [OF clean_comps_ok [OF comps_ok] cleaned_abs] assms(3)
    by (simp add: clean_comps_names)
  with comps_join [OF ok] have "path_join [dest, ?name] = render_path True cs"
    by (simp add: join_abs [OF assms(1)])
  then show ?thesis by blast
qed

theorem untar_reaches_any_path_witness:
  "\<exists>n. path_join [''/var/lib/s/data'', join_with ''/'' (replicate n ''..'' @ [''etc'', ''passwd''])] = ''/etc/passwd''"
proof -
  have "\<exists>n. path_join [''/var/lib/s/data'', join_with ''/'' (replicate n ''..'' @ [''etc'', ''passwd''])] =
      render_path True [''etc'', ''passwd'']"
    by (rule untar_reaches_any_path) (simp_all add: comp_ok_def slash_def)
  then show ?thesis by (simp add: render_path_def)
qed

section \<open>The verdict of tardiff\<close>

lemma tardiff_zero:
  assumes "set leftKeys = dom left" "set rightKeys = dom right"
  shows "tardiff leftKeys rightKeys left right = 0 \<longleftrightarrow> left = right"
proof
  assume "tardiff leftKeys rightKeys left right = 0"
  then have e: "only_in leftKeys right = []" "only_in rightKeys left = []" "differing leftKeys left right = []"
    by (auto simp: tardiff_def Let_def split: if_splits)
  show "left = right"
  proof
    fix k
    show "left k = right k"
    proof (cases "left k = None")
      case True
      have "right k = None"
      proof (rule ccontr)
        assume "right k \<noteq> None"
        then have "k \<in> set rightKeys" using assms(2) by auto
        with e(2) True show False by (auto simp: only_in_def filter_empty_conv)
      qed
      with True show ?thesis by simp
    next
      case False
      then have "k \<in> set leftKeys" using assms(1) by auto
      with e(1,3) show ?thesis by (auto simp: only_in_def differing_def filter_empty_conv)
    qed
  qed
next
  assume "left = right"
  with assms show "tardiff leftKeys rightKeys left right = 0"
    by (auto simp: tardiff_def Let_def only_in_def differing_def filter_empty_conv)
qed

text \<open>
  \<^verbatim>\<open>tardiff\<close> succeeds exactly if the two archives agree: the same names outside the ignored ones, each
  with equal metadata and digest, whatever the order in which Go ranges over its maps.
\<close>

theorem tardiff_verdict:
  assumes "set leftKeys = dom (tarToEntries sha1 a)" and "set rightKeys = dom (tarToEntries sha1 b)"
  shows "tardiff leftKeys rightKeys (tarToEntries sha1 a) (tarToEntries sha1 b) = 0 \<longleftrightarrow>
    tarToEntries sha1 a = tarToEntries sha1 b"
  by (rule tardiff_zero [OF assms])

definition root_entry :: entry where
  "root_entry = (\<lparr> h_Name = ''etc/a'', h_Typeflag = TypeReg, h_Linkname = [], h_Size = 1, h_Mode = 0x1A4,
                   h_Uid = 0, h_Gid = 0, h_Uname = [], h_Gname = [] \<rparr>, ''x'')"

theorem tardiff_verdict_witness:
  "tardiff [''/etc/a''] [''/etc/a''] (tarToEntries id [root_entry])
     (tarToEntries id [((fst root_entry)\<lparr>h_Name := ''var/log/b''\<rparr>, ''y''), root_entry]) = 0"
proof -
  let ?b = "[((fst root_entry)\<lparr>h_Name := ''var/log/b''\<rparr>, ''y''), root_entry]"
  have out: "filterOut ''var/log/b''" "\<not> filterOut ''etc/a''" by code_simp+
  then have same: "tarToEntries id ?b = tarToEntries id [root_entry]"
    by (simp add: tarToEntries_def root_entry_def)
  have dom: "set [''/etc/a''] = dom (tarToEntries id [root_entry])"
    using out by (simp add: tarToEntries_def root_entry_def)
  with same have "set [''/etc/a''] = dom (tarToEntries id ?b)" by simp
  from tardiff_verdict [OF dom this] same show ?thesis by simp
qed

end
