(* ===== verification/Executer.thy ===== *)
theory Executer
  imports Role Archive PathFacts "HOL-Library.AList"
begin

text \<open>
  The \<^verbatim>\<open>executer\<close> binary, \<^verbatim>\<open>cmd/executer/main.go\<close> with \<^verbatim>\<open>pkg/playbook\<close>: it finds the groups and the
  variables of its node, unpacks the data archive, discovers the roles and applies the plays
  of a playbook that address the node. The YAML decoders are parameters.
\<close>

section \<open>Plays\<close>

record 'c Play =
  py_Hosts :: string
  py_Roles :: "string list"
  py_Tasks :: "'c ProtoTask list"
  py_Vars :: vars
  py_VarsFiles :: "string list"

record ('c, 'w) exec_env =
  ee_os :: "'w os"
  ee_gonja :: gonja
  ee_ops :: "('c, 'w) TaskContent"
  ee_yaml_playbook :: "bytes \<Rightarrow> goerr + 'c Play list"
  ee_yaml_vars :: yaml_vars
  ee_yaml_tasks :: "'c yaml_tasks"
  ee_yaml_inventory :: "bytes \<Rightarrow> goerr + Inventory"
  ee_untar :: "bytes \<Rightarrow> goerr + entry list"

definition read_file :: "'w os \<Rightarrow> 'w \<Rightarrow> string \<Rightarrow> goerr + bytes" where
  "read_file os w p = (case os_readFile os p w of Inl e \<Rightarrow> Inl (OsErr e) | Inr b \<Rightarrow> Inr b)"

text \<open>\<^verbatim>\<open>if _, ok := groups[play.Hosts]; ok || play.Hosts == node\<close>\<close>

definition play_applies :: "string \<Rightarrow> string set \<Rightarrow> 'c Play \<Rightarrow> bool" where
  "play_applies node groups p \<longleftrightarrow> py_Hosts p \<in> groups \<or> py_Hosts p = node"

definition merge_vars_file ::
  "('c, 'w) exec_env \<Rightarrow> string \<Rightarrow> 'w \<Rightarrow> vars \<Rightarrow> string \<Rightarrow> goerr + vars" where
  "merge_vars_file e playbookPath w v varsFile =
     (let p = path_join [path_dir playbookPath, varsFile] in
      case LoadFromFile (read_file (ee_os e) w) (ee_yaml_vars e) p of
        Inl err \<Rightarrow> Inl (Wrap (''failed to load vars file '' @ p @ '' for play'') err)
      | Inr fileVars \<Rightarrow> Inr (Variables_Merge v fileVars))"

definition play_vars :: "('c, 'w) exec_env \<Rightarrow> string \<Rightarrow> vars \<Rightarrow> 'c Play \<Rightarrow> 'w \<Rightarrow> goerr + vars" where
  "play_vars e playbookPath inventoryVars p w =
     fold_err (merge_vars_file e playbookPath w)
       (Variables_Merge (Variables_Merge fmempty inventoryVars) (py_Vars p)) (py_VarsFiles p)"

section \<open>Roles of a play\<close>

text \<open>\<open>roles\<close> is the map of \<^verbatim>\<open>DiscoverRoles\<close>; applying a role renders the tasks it holds.\<close>

type_synonym 'c roles = "(string \<times> 'c Role) list"

fun apply_roles ::
  "('c, 'w) exec_env \<Rightarrow> string \<Rightarrow> string list \<Rightarrow> 'c roles \<Rightarrow> vars \<Rightarrow> 'w \<Rightarrow>
   goerr option \<times> vars \<times> 'c roles \<times> 'w" where
  "apply_roles e rolesDir [] roles v w = (None, v, roles, w)"
| "apply_roles e rolesDir (r # rs) roles v w =
     (case map_of roles r of
        None \<Rightarrow> (Some (ErrMsg (''no such role: '' @ r)), v, roles, w)
      | Some role \<Rightarrow>
          (case Role_Apply (ee_gonja e) (ee_ops e) (Some v) (path_join [rolesDir, r]) role w of
             (Some err, ctx, role', w') \<Rightarrow>
               (Some (Wrap (''failed to apply role '' @ r) err), context_vars ctx, AList.update r role' roles, w')
           | (None, ctx, role', w') \<Rightarrow>
               apply_roles e rolesDir rs (AList.update r role' roles) (context_vars ctx) w'))"

definition apply_play ::
  "('c, 'w) exec_env \<Rightarrow> string \<Rightarrow> string \<Rightarrow> vars \<Rightarrow> 'c Play \<Rightarrow> 'c roles \<Rightarrow> 'w \<Rightarrow>
   goerr option \<times> 'c roles \<times> 'w" where
  "apply_play e playbookPath rolesDir inventoryVars p roles w =
     (case play_vars e playbookPath inventoryVars p w of
        Inl err \<Rightarrow> (Some err, roles, w)
      | Inr playVars \<Rightarrow>
          (case apply_roles e rolesDir (py_Roles p) roles playVars w of
             (Some err, _, roles', w') \<Rightarrow> (Some err, roles', w')
           | (None, v, roles', w') \<Rightarrow>
               (case execute_tasks (ee_gonja e) (ee_ops e) (Some v) (path_dir playbookPath) False (py_Tasks p) w' of
                  (err, _, _, w'') \<Rightarrow> (err, roles', w''))))"

fun apply_plays ::
  "('c, 'w) exec_env \<Rightarrow> string \<Rightarrow> string \<Rightarrow> string \<Rightarrow> string set \<Rightarrow> vars \<Rightarrow> 'c Play list \<Rightarrow> 'c roles \<Rightarrow> 'w \<Rightarrow>
   goerr option \<times> 'w" where
  "apply_plays e playbookPath rolesDir node groups inventoryVars [] roles w = (None, w)"
| "apply_plays e playbookPath rolesDir node groups inventoryVars (p # ps) roles w =
     (if play_applies node groups p then
        (case apply_play e playbookPath rolesDir inventoryVars p roles w of
           (Some err, roles', w') \<Rightarrow> (Some err, w')
         | (None, roles', w') \<Rightarrow> apply_plays e playbookPath rolesDir node groups inventoryVars ps roles' w')
      else apply_plays e playbookPath rolesDir node groups inventoryVars ps roles w)"

definition playbookApply ::
  "('c, 'w) exec_env \<Rightarrow> vars option \<Rightarrow> string \<Rightarrow> string \<Rightarrow> string set \<Rightarrow> 'c roles \<Rightarrow> string \<Rightarrow> 'w \<Rightarrow>
   goerr option \<times> 'w" where
  "playbookApply e ctx playbookPath node groups roles rolesDir w =
     (case read_file (ee_os e) w playbookPath of
        Inl err \<Rightarrow> (Some (Wrap (''failed to read playbook from '' @ playbookPath) err), w)
      | Inr data \<Rightarrow>
          (case ee_yaml_playbook e data of
             Inl err \<Rightarrow> (Some (Wrap (''failed to unmarshal playbook from '' @ playbookPath) err), w)
           | Inr plays \<Rightarrow>
               apply_plays e playbookPath rolesDir node groups (context_vars ctx) plays roles w))"

section \<open>The main program\<close>

record flags =
  fl_inventoryPath :: string
  fl_dataArchive :: string
  fl_playbooksDirName :: string
  fl_node :: string
  fl_args :: "string list"

text \<open>
  \<^verbatim>\<open>flag.Parse\<close> for the four string flags of the binary: \<^verbatim>\<open>-x v\<close>, \<^verbatim>\<open>-x=v\<close>, one dash or two, up to the first
  argument that is not a flag. An error stands for the usage message the package prints before it exits.
\<close>

definition flags_default :: flags where
  "flags_default =
     \<lparr> fl_inventoryPath = [], fl_dataArchive = [], fl_playbooksDirName = [], fl_node = ''localhost'', fl_args = [] \<rparr>"

definition set_flag :: "string \<Rightarrow> (string \<Rightarrow> flags \<Rightarrow> flags) option" where
  "set_flag name =
     (if name = ''i'' then Some (\<lambda>v f. f\<lparr>fl_inventoryPath := v\<rparr>)
      else if name = ''d'' then Some (\<lambda>v f. f\<lparr>fl_dataArchive := v\<rparr>)
      else if name = ''p'' then Some (\<lambda>v f. f\<lparr>fl_playbooksDirName := v\<rparr>)
      else if name = ''n'' then Some (\<lambda>v f. f\<lparr>fl_node := v\<rparr>)
      else None)"

definition flag_name :: "string \<Rightarrow> string option" where
  "flag_name a =
     (let name = (if length a \<ge> 2 \<and> a ! 1 = CHR ''-'' then drop 2 a else drop 1 a) in
      if name = [] \<or> hd name = CHR ''-'' \<or> hd name = CHR ''='' then None else Some name)"

fun parse_flags :: "string list \<Rightarrow> flags \<Rightarrow> goerr + flags" where
  "parse_flags [] f = Inr f"
| "parse_flags (a # as) f =
     (if length a < 2 \<or> hd a \<noteq> CHR ''-'' then Inr (f\<lparr>fl_args := a # as\<rparr>)
      else if a = ''--'' then Inr (f\<lparr>fl_args := as\<rparr>)
      else case flag_name a of
             None \<Rightarrow> Inl (ErrMsg (''bad flag syntax: '' @ a))
           | Some s \<Rightarrow>
               (let name = takeWhile (\<lambda>c. c \<noteq> CHR ''='') s in
                case set_flag name of
                  None \<Rightarrow> Inl (ErrMsg (''flag provided but not defined: -'' @ name))
                | Some put \<Rightarrow>
                    if CHR ''='' \<in> set s then parse_flags as (put (drop (Suc (length name)) s) f)
                    else (case as of
                            [] \<Rightarrow> Inl (ErrMsg (''flag needs an argument: -'' @ name))
                          | v # as' \<Rightarrow> parse_flags as' (put v f))))"

text \<open>\<open>Fatal\<close> ends the program with status 1; the error it logs is kept.\<close>

datatype exit_status = Done | Fatal string "goerr option"

definition groups_and_vars :: "('c, 'w) exec_env \<Rightarrow> flags \<Rightarrow> 'w \<Rightarrow> exit_status + string set \<times> vars" where
  "groups_and_vars e f w =
     (if fl_inventoryPath f \<noteq> [] then
        (case read_file (ee_os e) w (fl_inventoryPath f) of
           Inl err \<Rightarrow> Inl (Fatal ''failed to read inventory'' (Some err))
         | Inr data \<Rightarrow>
             (case ee_yaml_inventory e data of
                Inl err \<Rightarrow> Inl (Fatal ''failed to unmarshal inventory'' (Some err))
              | Inr inventory \<Rightarrow>
                  Inr (Inventory_Find inventory (fl_node f), Inventory_NodeVars inventory (fl_node f))))
      else Inr ({''all''}, fmempty))"

text \<open>Unpacking reads the archive, then writes its entries; the directory the roles are below.\<close>

definition unpack :: "('c, 'w) exec_env \<Rightarrow> flags \<Rightarrow> string \<Rightarrow> 'w \<Rightarrow> (exit_status + string) \<times> 'w" where
  "unpack e f arg w =
     (if fl_dataArchive f \<noteq> [] then
        (let dest = path_dir (fl_dataArchive f) in
         case and_then (read_file (ee_os e) w (fl_dataArchive f)) (ee_untar e) of
           Inl err \<Rightarrow> (Inl (Fatal ''failed to untar archive'' (Some err)), w)
         | Inr entries \<Rightarrow>
             (case Untar (ee_os e) entries dest w of
                (Some err, w') \<Rightarrow> (Inl (Fatal ''failed to untar archive'' (Some err)), w')
              | (None, w') \<Rightarrow> (Inr (path_join [dest, fl_playbooksDirName f]), w')))
      else (Inr (path_dir arg), w))"

definition executer_main :: "('c, 'w) exec_env \<Rightarrow> flags \<Rightarrow> 'w \<Rightarrow> exit_status \<times> 'w" where
  "executer_main e f w =
     (case fl_args f of
        [arg] \<Rightarrow>
          if fl_dataArchive f \<noteq> [] \<and> fl_playbooksDirName f = [] \<or> fl_dataArchive f = [] \<and> fl_playbooksDirName f \<noteq> []
          then (Fatal ''when either -d or -p is set, both flags must be set'' None, w)
          else (case groups_and_vars e f w of
                  Inl s \<Rightarrow> (s, w)
                | Inr (groups, vars) \<Rightarrow>
                    (case unpack e f arg w of
                       (Inl s, w') \<Rightarrow> (s, w')
                     | (Inr playbookDir, w') \<Rightarrow>
                         (let rolesDir = path_join [playbookDir, ''roles''] in
                          case DiscoverRoles (DirFS (ee_os e) rolesDir w') (ee_yaml_vars e) (ee_yaml_tasks e) of
                            Inl err \<Rightarrow> (Fatal ''failed to discover roles'' (Some err), w')
                          | Inr roles \<Rightarrow>
                              (case playbookApply e (Some vars) arg (fl_node f) groups roles rolesDir w' of
                                 (Some err, w'') \<Rightarrow> (Fatal ''failed to run playbook'' (Some err), w'')
                               | (None, w'') \<Rightarrow> (Done, w'')))))
      | _ \<Rightarrow> (Fatal ''usage: executer spec.yaml'' None, w))"

end
