(* ===== verification/ExecuterProps.thy ===== *)
theory ExecuterProps
  imports Executer EngineProps MemFs
begin

text \<open>
  Properties of the \<^verbatim>\<open>executer\<close>: which plays it runs on a node, that it stops at the first error, and when
  it gives up before it has touched anything.
\<close>

section \<open>Fail-stop\<close>

lemma execute_tasks_append:
  "execute_tasks g ops ctx pp role (xs @ ys) w =
     (case execute_tasks g ops ctx pp role xs w of
        (Some e, ctx', xs', w') \<Rightarrow> (Some e, ctx', xs' @ ys, w')
      | (None, ctx', xs', w') \<Rightarrow>
          (case execute_tasks g ops ctx' pp role ys w' of
             (e, ctx'', ys', w'') \<Rightarrow> (e, ctx'', xs' @ ys', w'')))"
proof (induction xs arbitrary: ctx w)
  case Nil
  then show ?case by (simp add: case_prod_unfold)
next
  case (Cons x xs)
  show ?case
  proof (cases "FromProto ops x")
    case (Inl e)
    then show ?thesis by simp
  next
    case (Inr t)
    obtain e ctx1 c w1 where ex: "ExecuteTask g ops ctx pp role t w = (e, ctx1, c, w1)" by (metis prod_cases4)
    with Inr Cons.IH [of ctx1 w1] show ?thesis
      by (auto split: option.split prod.split)
  qed
qed

text \<open>
  C6. Execution stops at the first task that fails: what comes after it in the list has no influence on
  the error, on the variables or on the machine, and is left as it was.
\<close>

theorem tasks_stop_at_first_error:
  assumes "execute_tasks g ops ctx pp role xs w = (Some e, ctx', xs', w')"
  shows "execute_tasks g ops ctx pp role (xs @ ys) w = (Some e, ctx', xs' @ ys, w')"
  by (simp add: execute_tasks_append assms)

definition bad_loop :: "string ProtoTask" where
  "bad_loop = \<lparr> p_Name = [], p_When = [], p_Loop = Some (VInt 3), p_Register = [], p_Content = Some ''c'' \<rparr>"

theorem tasks_stop_at_first_error_witness:
  "snd (snd (snd (execute_tasks toy_gonja toy_ops (Some fmempty) [] False
     ([bad_loop\<lparr>p_Loop := None\<rparr>, bad_loop] @ [bad_loop\<lparr>p_Loop := None\<rparr>]) []))) = [''c'']"
proof -
  let ?xs = "[bad_loop\<lparr>p_Loop := None\<rparr>, bad_loop]"
  let ?run = "execute_tasks toy_gonja toy_ops (Some fmempty) [] False ?xs []"
  obtain e where e: "fst ?run = Some e"
  proof -
    have "fst ?run \<noteq> None" by code_simp
    then show ?thesis using that by blast
  qed
  have w: "snd (snd (snd ?run)) = [''c'']" by code_simp
  have "?run = (Some e, fst (snd ?run), fst (snd (snd ?run)), snd (snd (snd ?run)))"
    using e by (simp add: prod_eq_iff)
  from tasks_stop_at_first_error [OF this, of "[bad_loop\<lparr>p_Loop := None\<rparr>]"] w show ?thesis by simp
qed

section \<open>Which plays run\<close>

lemma apply_plays_filter:
  "apply_plays e pb rd nd groups v plays roles w =
   apply_plays e pb rd nd groups v (filter (play_applies nd groups) plays) roles w"
proof (induction plays arbitrary: roles w)
  case Nil
  then show ?case by simp
next
  case (Cons p ps)
  obtain err roles1 w1 where p: "apply_play e pb rd v p roles w = (err, roles1, w1)" by (metis prod_cases3)
  with Cons.IH show ?case by (cases err) auto
qed

text \<open>The groups a play can name to address a node of an inventory.\<close>

definition addresses :: "Inventory \<Rightarrow> string \<Rightarrow> string \<Rightarrow> bool" where
  "addresses i nd h \<longleftrightarrow>
     h = ''all'' \<or> h = nd \<or> (\<exists>m g g'. (m, g) \<in> set (Groups i) \<and> subgroup (m, g) (h, g') \<and> nd \<in> Group_All g')"

text \<open>
  C5. Of a playbook exactly those plays run that address the node: by \<^verbatim>\<open>all\<close>, by its name, or by a group
  that has it as a member at any depth. The others have no influence at all.
\<close>

theorem executer_runs_addressed_plays:
  "apply_plays e pb rd nd (Inventory_Find i nd) v plays roles w =
   apply_plays e pb rd nd (Inventory_Find i nd) v (filter (\<lambda>p. addresses i nd (py_Hosts p)) plays) roles w"
proof -
  have eq: "play_applies nd (Inventory_Find i nd) p \<longleftrightarrow> addresses i nd (py_Hosts p)" if "p \<in> set plays" for p
    unfolding play_applies_def Inventory_Find_spec addresses_def by blast
  have "filter (play_applies nd (Inventory_Find i nd)) plays =
      filter (\<lambda>p. addresses i nd (py_Hosts p)) plays" by (rule filter_cong [OF refl]) (rule eq)
  then show ?thesis using apply_plays_filter by metis
qed

section \<open>Giving up\<close>

definition default_flags :: "string \<Rightarrow> flags" where
  "default_flags playbook =
     \<lparr> fl_inventoryPath = [], fl_dataArchive = [], fl_playbooksDirName = [], fl_node = ''localhost'',
       fl_args = [playbook] \<rparr>"

lemma dirfs_root:
  assumes "d \<noteq> []" "comp_ok c" "c \<noteq> ''..''"
  shows "dirfs_path (path_join [d, c]) ''.'' = Some (path_join [d, c] @ ''/.'')"
proof -
  have c: "comps c = [c]" using comps_join [of "[c]"] assms(2) by simp
  have "path_join [d, c] = clean (d @ CHR ''/'' # c)" using assms(1) by (simp add: path_join_def)
  also have "\<dots> = render_path (is_abs (d @ CHR ''/'' # c)) (clean_comps (is_abs (d @ CHR ''/'' # c)) (comps d) @ [c])"
    using c assms(3) by (simp add: clean_def comps_append_slash clean_comps_def clean_step_def)
  finally obtain r cs where eq: "path_join [d, c] = render_path r (cs @ [c])" by blast
  have ne: "c \<noteq> []" using assms(2) by (simp add: comp_ok_def)
  have "last c \<noteq> slash" using assms(2) last_in_set [OF ne] unfolding comp_ok_def by metis
  note ne = ne this
  then have "last (path_join [d, c]) = last c" "path_join [d, c] \<noteq> []"
    by (auto simp: eq render_path_def join_with_snoc)
  with ne show ?thesis by (simp add: dirfs_path_def valid_path_def)
qed

text \<open>
  Running the binary as the README does, with a playbook and nothing else, needs a directory \<^verbatim>\<open>roles\<close>
  beside it: without one the program ends with an error and runs no play, even if the playbook
  uses no role.
\<close>

theorem executer_needs_roles_directory:
  assumes "os_readDir (ee_os e) (path_join [path_dir playbook, ''roles''] @ ''/.'') w = Inl ENOENT"
  shows "executer_main e (default_flags playbook) w =
    (Fatal ''failed to discover roles'' (Some (Wrap ''failed to discover roles'' (OsErr ENOENT))), w)"
proof -
  have "path_dir playbook \<noteq> []"
    by (simp add: path_dir_def clean_ne)
  then have "dirfs_path (path_join [path_dir playbook, ''roles'']) ''.'' =
      Some (path_join [path_dir playbook, ''roles''] @ ''/.'')"
    by (rule dirfs_root) (simp_all add: comp_ok_def slash_def)
  with assms show ?thesis
    by (simp add: executer_main_def default_flags_def groups_and_vars_def unpack_def Let_def DiscoverRoles_def
        DirFS_def in_dirfs_def)
qed

definition toy_exec_env :: "(string, memfs) exec_env" where
  "toy_exec_env =
     \<lparr> ee_os = mem_os, ee_gonja = toy_gonja,
       ee_ops = \<lparr> tc_registered = (\<lambda>c. True), tc_render = (\<lambda>v c. Inr c), tc_Validate = (\<lambda>c. None),
                  tc_Apply = (\<lambda>ctx pp role c w. (plain_result, None, w)) \<rparr>,
       ee_yaml_playbook = (\<lambda>b. Inr []), ee_yaml_vars = (\<lambda>b. Inr fmempty), ee_yaml_tasks = (\<lambda>b. Inr []),
       ee_yaml_inventory = (\<lambda>b. Inr \<lparr> Groups = [] \<rparr>), ee_untar = (\<lambda>b. Inr []) \<rparr>"

theorem executer_needs_roles_directory_witness:
  "fst (executer_main toy_exec_env (default_flags ''/site.yaml'') empty_fs) \<noteq> Done"
proof -
  have p: "path_join [path_dir ''/site.yaml'', ''roles''] @ ''/.'' = ''/roles/.''" by code_simp
  have "mem_readDir ''/roles/.'' empty_fs = Inl ENOENT" by code_simp
  then have "os_readDir (ee_os toy_exec_env) (path_join [path_dir ''/site.yaml'', ''roles''] @ ''/.'') empty_fs = Inl ENOENT"
    unfolding p by (simp add: toy_exec_env_def mem_os_sel)
  from executer_needs_roles_directory [OF this] show ?thesis by simp
qed

end
