(* ===== verification/Messages.thy ===== *)
theory Messages
  imports FileModule CommandModule AptModule FileTransfer Jinja
begin

text \<open>
  The messages of the modules (\<^verbatim>\<open>pkg/proto/*.pb.go\<close>) as the reflective rendering sees them: the field list of
  each struct in its order, and how a message is read back from a rendered field list. A generated
  struct has the unexported fields \<^verbatim>\<open>state\<close>, \<^verbatim>\<open>unknownFields\<close> and \<^verbatim>\<open>sizeCache\<close> around its own.
\<close>

section \<open>The remaining messages and zero values\<close>

record ImportTasks =
  im_File :: string

record IncludeTasks =
  in_ApplyKeywords :: "val option"
  in_File :: string

definition AptRepository_zero :: AptRepository where
  "AptRepository_zero =
     \<lparr> rp_Codename = [], rp_Filename = [], rp_InstallPythonApt = False, rp_Mode = [], rp_Repo = [],
       rp_State = [], rp_UpdateCache = None, rp_UpdateCacheRetries = 0, rp_UpdateCacheRetryMaxDelay = 0,
       rp_ValidateCerts = None \<rparr>"

definition Shell_zero :: Shell where
  "Shell_zero =
     \<lparr> sh_Argv = [], sh_Chdir = [], sh_Cmd = [], sh_Creates = [], sh_Executable = [], sh_Removes = [],
       sh_Stdin = [], sh_StdinAddNewline = None \<rparr>"

definition ImportTasks_zero :: ImportTasks where
  "ImportTasks_zero =
     \<lparr> im_File = [] \<rparr>"

definition IncludeTasks_zero :: IncludeTasks where
  "IncludeTasks_zero =
     \<lparr> in_ApplyKeywords = None, in_File = [] \<rparr>"

section \<open>Writing fields\<close>

definition message :: "rval list \<Rightarrow> rval" where
  "message fs = RStruct (RHidden # fs @ [RHidden, RHidden])"

definition w_bool :: "bool \<Rightarrow> rval" where "w_bool b = RScalar (VBool b)"
definition w_nat :: "nat \<Rightarrow> rval" where "w_nat n = RScalar (VInt (int n))"
definition w_obool :: "bool option \<Rightarrow> rval" where "w_obool x = RPtr (map_option w_bool x)"
definition w_onat :: "nat option \<Rightarrow> rval" where "w_onat x = RPtr (map_option w_nat x)"
definition w_mode :: "Mode option \<Rightarrow> rval" where
  "w_mode x = RPtr (map_option (\<lambda>m. message [RString (Mode_Value m)]) x)"
definition w_items :: "PackageList option \<Rightarrow> rval" where
  "w_items x = RPtr (map_option (\<lambda>l. message [RStrings (pl_Items l)]) x)"
definition w_headers :: "(string \<times> string) list \<Rightarrow> rval" where
  "w_headers h = RScalar (VMap (List.map (\<lambda>(k, x). (k, VString x)) h))"
definition w_struct :: "val option \<Rightarrow> rval" where
  "w_struct x = RPtr (map_option (\<lambda>v. message [RScalar v]) x)"

lemmas w_defs = message_def w_bool_def w_nat_def w_obool_def w_onat_def w_mode_def w_items_def w_headers_def w_struct_def

definition apt_fields :: "Apt \<Rightarrow> rval list" where
  "apt_fields c =
     [w_bool (ap_AllowChangeHeldPackages c), w_bool (ap_AllowDowngrade c),
      w_bool (ap_AllowUnauthenticated c), w_obool (ap_AutoInstallModuleDeps c), w_bool (ap_Autoclean c),
      w_bool (ap_Autoremove c), w_onat (ap_CacheValidTime c), w_bool (ap_Clean c), RString (ap_Deb c),
      RString (ap_DefaultRelease c), RString (ap_DpkgOptions c), w_bool (ap_FailOnAutoremove c),
      w_bool (ap_Force c), w_bool (ap_ForceAptGet c), w_bool (ap_InstallRecommends c),
      RScalar (VInt (ap_LockTimeout c)), w_items (ap_Name c), w_bool (ap_OnlyUpgrade c),
      RScalar (VInt (ap_PolicyRcD c)), w_bool (ap_Purge c), RString (ap_State c), w_obool (ap_UpdateCache c),
      w_nat (ap_UpdateCacheRetries c), w_nat (ap_UpdateCacheRetryMaxDelay c), RString (ap_Upgrade c)]"

definition apt_repository_fields :: "AptRepository \<Rightarrow> rval list" where
  "apt_repository_fields c =
     [RString (rp_Codename c), RString (rp_Filename c), w_bool (rp_InstallPythonApt c), RString (rp_Mode c),
      RString (rp_Repo c), RString (rp_State c), w_obool (rp_UpdateCache c), w_nat (rp_UpdateCacheRetries c),
      w_nat (rp_UpdateCacheRetryMaxDelay c), w_obool (rp_ValidateCerts c)]"

definition command_fields :: "Command \<Rightarrow> rval list" where
  "command_fields c =
     [RString (cm_Cmd c), RStrings (cm_Argv c), RString (cm_Creates c), RString (cm_Removes c),
      RString (cm_Chdir c), w_bool (cm_ExpandArgumentVars c), RString (cm_Stdin c),
      w_obool (cm_StdinAddNewline c), w_obool (cm_StripEmptyEnds c)]"

definition copy_fields :: "Copy \<Rightarrow> rval list" where
  "copy_fields c =
     [RString (cp_Content c), w_bool (cp_RemoteSrc c), RString (cp_Src c), RString (cp_Dest c),
      RString (cp_Attributes c), w_bool (cp_Backup c), RString (cp_Checksum c), w_obool (cp_Decrypt c),
      RString (cp_DirectoryMode c), w_bool (cp_Follow c), w_obool (cp_Force c), RString (cp_Group c),
      w_bool (cp_LocalFollow c), RString (cp_Mode c), RString (cp_Owner c), RString (cp_Selevel c),
      RString (cp_Serole c), RString (cp_Setype c), RString (cp_Seuser c), w_bool (cp_UnsafeWrites c),
      RString (cp_Validate c)]"

definition file_fields :: "File \<Rightarrow> rval list" where
  "file_fields c =
     [RString (f_Path c), w_obool (f_Follow c), RString (f_Group c), w_mode (f_Mode c), RString (f_Owner c),
      w_bool (f_Recurse c), RString (f_Src c), RString (f_State c), RString (f_AccessTime c),
      RString (f_AccessTimeFormat c), RString (f_Attributes c), w_bool (f_Force c),
      RString (f_ModificationTime c), RString (f_ModificationTimeFormat c), RString (f_Selevel c),
      RString (f_Serole c), RString (f_Setype c), RString (f_Seuser c), w_bool (f_UnsafeWrites c)]"

definition get_url_fields :: "GetURL \<Rightarrow> rval list" where
  "get_url_fields c =
     [RString (gu_Dest c), RString (gu_Url c), RString (gu_Group c), w_mode (gu_Mode c),
      RString (gu_Owner c), RString (gu_Attributes c), w_bool (gu_Backup c), RString (gu_Checksum c),
      RStrings (gu_Ciphers c), RString (gu_ClientCert c), RString (gu_ClientKey c),
      w_obool (gu_Decompress c), w_obool (gu_Force c), w_bool (gu_ForceBasicAuth c),
      w_headers (gu_Headers c), RString (gu_Selevel c), RString (gu_Serole c), RString (gu_Setype c),
      RString (gu_Seuser c), w_nat (gu_Timeout c), RString (gu_TmpDest c),
      RStrings (gu_UnredirectedHeaders c), w_bool (gu_UnsafeWrites c), RString (gu_UrlPassword c),
      RString (gu_UrlUsername c), w_bool (gu_UseGssapi c), w_obool (gu_UseNetrc c), w_obool (gu_UseProxy c),
      w_obool (gu_ValidateCerts c)]"

definition import_tasks_fields :: "ImportTasks \<Rightarrow> rval list" where
  "import_tasks_fields c =
     [RString (im_File c)]"

definition include_tasks_fields :: "IncludeTasks \<Rightarrow> rval list" where
  "include_tasks_fields c =
     [w_struct (in_ApplyKeywords c), RString (in_File c)]"

definition shell_fields :: "Shell \<Rightarrow> rval list" where
  "shell_fields c =
     [RStrings (sh_Argv c), RString (sh_Chdir c), RString (sh_Cmd c), RString (sh_Creates c),
      RString (sh_Executable c), RString (sh_Removes c), RString (sh_Stdin c),
      w_obool (sh_StdinAddNewline c)]"

definition template_fields :: "Template \<Rightarrow> rval list" where
  "template_fields c =
     [RString (tp_Dest c), RString (tp_Group c), w_mode (tp_Mode c), RString (tp_Owner c),
      RString (tp_Src c), RString (tp_Attributes c), w_bool (tp_Backup c), RString (tp_BlockEndString c),
      RString (tp_BlockStartString c), RString (tp_CommentEndString c), RString (tp_CommentStartString c),
      w_bool (tp_Follow c), w_obool (tp_Force c), w_bool (tp_LstripBlocks c), RString (tp_NewlineSequence c),
      RString (tp_OutputEncoding c), RString (tp_Selevel c), RString (tp_Serole c), RString (tp_Setype c),
      RString (tp_Seuser c), w_obool (tp_TrimBlocks c), w_bool (tp_UnsafeWrites c), RString (tp_Validate c),
      RString (tp_VariableEndString c), RString (tp_VariableStartString c)]"

section \<open>Reading fields\<close>

type_synonym 'a reader = "rval list \<Rightarrow> ('a \<times> rval list) option"

definition rd_return :: "'a \<Rightarrow> 'a reader" where "rd_return a fs = Some (a, fs)"

definition rd_then :: "'a reader \<Rightarrow> ('a \<Rightarrow> 'b reader) \<Rightarrow> 'b reader" where
  "rd_then r k fs = (case r fs of None \<Rightarrow> None | Some (a, fs') \<Rightarrow> k a fs')"

text \<open>One field, by what is expected of it.\<close>

definition rd_one :: "(rval \<Rightarrow> 'a option) \<Rightarrow> 'a reader" where
  "rd_one f fs = (case fs of [] \<Rightarrow> None | x # fs' \<Rightarrow> map_option (\<lambda>a. (a, fs')) (f x))"

text \<open>What is behind a pointer, if it is not nil.\<close>

definition at_ptr :: "(rval \<Rightarrow> 'a option) \<Rightarrow> rval \<Rightarrow> 'a option option" where
  "at_ptr f x = (case x of RPtr None \<Rightarrow> Some None | RPtr (Some y) \<Rightarrow> map_option Some (f y) | _ \<Rightarrow> None)"

definition at_message :: "(rval \<Rightarrow> 'a option) \<Rightarrow> rval \<Rightarrow> 'a option" where
  "at_message f x = (case x of RStruct [RHidden, y, RHidden, RHidden] \<Rightarrow> f y | _ \<Rightarrow> None)"

definition at_string :: "rval \<Rightarrow> string option" where
  "at_string x = (case x of RString s \<Rightarrow> Some s | _ \<Rightarrow> None)"
definition at_strings :: "rval \<Rightarrow> string list option" where
  "at_strings x = (case x of RStrings ss \<Rightarrow> Some ss | _ \<Rightarrow> None)"
definition at_scalar :: "rval \<Rightarrow> val option" where
  "at_scalar x = (case x of RScalar v \<Rightarrow> Some v | _ \<Rightarrow> None)"
definition at_bool :: "rval \<Rightarrow> bool option" where
  "at_bool x = (case at_scalar x of Some (VBool b) \<Rightarrow> Some b | _ \<Rightarrow> None)"
definition at_int :: "rval \<Rightarrow> int option" where
  "at_int x = (case at_scalar x of Some (VInt i) \<Rightarrow> Some i | _ \<Rightarrow> None)"

fun header_strings :: "(string \<times> val) list \<Rightarrow> (string \<times> string) list option" where
  "header_strings [] = Some []"
| "header_strings ((k, VString s) # h) = map_option ((#) (k, s)) (header_strings h)"
| "header_strings (x # h) = None"

definition at_headers :: "rval \<Rightarrow> (string \<times> string) list option" where
  "at_headers x = (case at_scalar x of Some (VMap h) \<Rightarrow> header_strings h | _ \<Rightarrow> None)"

definition rd_string :: "string reader" where "rd_string = rd_one at_string"
definition rd_strings :: "string list reader" where "rd_strings = rd_one at_strings"
definition rd_bool :: "bool reader" where "rd_bool = rd_one at_bool"
definition rd_int :: "int reader" where "rd_int = rd_one at_int"
definition rd_nat :: "nat reader" where "rd_nat = rd_one (map_option nat \<circ> at_int)"
definition rd_obool :: "bool option reader" where "rd_obool = rd_one (at_ptr at_bool)"
definition rd_onat :: "nat option reader" where "rd_onat = rd_one (at_ptr (map_option nat \<circ> at_int))"
definition rd_mode :: "Mode option reader" where
  "rd_mode = rd_one (at_ptr (map_option (\<lambda>s. \<lparr> Mode_Value = s \<rparr>) \<circ> at_message at_string))"
definition rd_items :: "PackageList option reader" where
  "rd_items = rd_one (at_ptr (map_option (\<lambda>ss. \<lparr> pl_Items = ss \<rparr>) \<circ> at_message at_strings))"
definition rd_headers :: "(string \<times> string) list reader" where "rd_headers = rd_one at_headers"
definition rd_struct :: "val option reader" where "rd_struct = rd_one (at_ptr (at_message at_scalar))"

lemmas rd_defs = rd_string_def rd_strings_def rd_bool_def rd_int_def rd_nat_def rd_obool_def rd_onat_def
  rd_mode_def rd_items_def rd_headers_def rd_struct_def

definition apt_of :: "Apt reader" where
  "apt_of =
     rd_then rd_bool (\<lambda>x0. rd_then rd_bool (\<lambda>x1. rd_then rd_bool (\<lambda>x2.
     rd_then rd_obool (\<lambda>x3. rd_then rd_bool (\<lambda>x4. rd_then rd_bool (\<lambda>x5.
     rd_then rd_onat (\<lambda>x6. rd_then rd_bool (\<lambda>x7. rd_then rd_string (\<lambda>x8.
     rd_then rd_string (\<lambda>x9. rd_then rd_string (\<lambda>x10. rd_then rd_bool (\<lambda>x11.
     rd_then rd_bool (\<lambda>x12. rd_then rd_bool (\<lambda>x13. rd_then rd_bool (\<lambda>x14.
     rd_then rd_int (\<lambda>x15. rd_then rd_items (\<lambda>x16. rd_then rd_bool (\<lambda>x17.
     rd_then rd_int (\<lambda>x18. rd_then rd_bool (\<lambda>x19. rd_then rd_string (\<lambda>x20.
     rd_then rd_obool (\<lambda>x21. rd_then rd_nat (\<lambda>x22. rd_then rd_nat (\<lambda>x23.
     rd_then rd_string (\<lambda>x24.
     rd_return
       \<lparr> ap_AllowChangeHeldPackages = x0, ap_AllowDowngrade = x1, ap_AllowUnauthenticated = x2,
          ap_AutoInstallModuleDeps = x3, ap_Autoclean = x4, ap_Autoremove = x5, ap_CacheValidTime = x6,
          ap_Clean = x7, ap_Deb = x8, ap_DefaultRelease = x9, ap_DpkgOptions = x10, ap_FailOnAutoremove = x11,
          ap_Force = x12, ap_ForceAptGet = x13, ap_InstallRecommends = x14, ap_LockTimeout = x15, ap_Name = x16,
          ap_OnlyUpgrade = x17, ap_PolicyRcD = x18, ap_Purge = x19, ap_State = x20, ap_UpdateCache = x21,
          ap_UpdateCacheRetries = x22, ap_UpdateCacheRetryMaxDelay = x23, ap_Upgrade = x24 \<rparr>)))))))))))))))))))))))))"

definition apt_repository_of :: "AptRepository reader" where
  "apt_repository_of =
     rd_then rd_string (\<lambda>x0. rd_then rd_string (\<lambda>x1. rd_then rd_bool (\<lambda>x2.
     rd_then rd_string (\<lambda>x3. rd_then rd_string (\<lambda>x4. rd_then rd_string (\<lambda>x5.
     rd_then rd_obool (\<lambda>x6. rd_then rd_nat (\<lambda>x7. rd_then rd_nat (\<lambda>x8.
     rd_then rd_obool (\<lambda>x9.
     rd_return
       \<lparr> rp_Codename = x0, rp_Filename = x1, rp_InstallPythonApt = x2, rp_Mode = x3, rp_Repo = x4,
          rp_State = x5, rp_UpdateCache = x6, rp_UpdateCacheRetries = x7, rp_UpdateCacheRetryMaxDelay = x8,
          rp_ValidateCerts = x9 \<rparr>))))))))))"

definition command_of :: "Command reader" where
  "command_of =
     rd_then rd_string (\<lambda>x0. rd_then rd_strings (\<lambda>x1. rd_then rd_string (\<lambda>x2.
     rd_then rd_string (\<lambda>x3. rd_then rd_string (\<lambda>x4. rd_then rd_bool (\<lambda>x5.
     rd_then rd_string (\<lambda>x6. rd_then rd_obool (\<lambda>x7. rd_then rd_obool (\<lambda>x8.
     rd_return
       \<lparr> cm_Cmd = x0, cm_Argv = x1, cm_Creates = x2, cm_Removes = x3, cm_Chdir = x4, cm_ExpandArgumentVars = x5,
          cm_Stdin = x6, cm_StdinAddNewline = x7, cm_StripEmptyEnds = x8 \<rparr>)))))))))"

definition copy_of :: "Copy reader" where
  "copy_of =
     rd_then rd_string (\<lambda>x0. rd_then rd_bool (\<lambda>x1. rd_then rd_string (\<lambda>x2.
     rd_then rd_string (\<lambda>x3. rd_then rd_string (\<lambda>x4. rd_then rd_bool (\<lambda>x5.
     rd_then rd_string (\<lambda>x6. rd_then rd_obool (\<lambda>x7. rd_then rd_string (\<lambda>x8.
     rd_then rd_bool (\<lambda>x9. rd_then rd_obool (\<lambda>x10. rd_then rd_string (\<lambda>x11.
     rd_then rd_bool (\<lambda>x12. rd_then rd_string (\<lambda>x13. rd_then rd_string (\<lambda>x14.
     rd_then rd_string (\<lambda>x15. rd_then rd_string (\<lambda>x16. rd_then rd_string (\<lambda>x17.
     rd_then rd_string (\<lambda>x18. rd_then rd_bool (\<lambda>x19. rd_then rd_string (\<lambda>x20.
     rd_return
       \<lparr> cp_Content = x0, cp_RemoteSrc = x1, cp_Src = x2, cp_Dest = x3, cp_Attributes = x4, cp_Backup = x5,
          cp_Checksum = x6, cp_Decrypt = x7, cp_DirectoryMode = x8, cp_Follow = x9, cp_Force = x10,
          cp_Group = x11, cp_LocalFollow = x12, cp_Mode = x13, cp_Owner = x14, cp_Selevel = x15, cp_Serole = x16,
          cp_Setype = x17, cp_Seuser = x18, cp_UnsafeWrites = x19, cp_Validate = x20 \<rparr>)))))))))))))))))))))"

definition file_of :: "File reader" where
  "file_of =
     rd_then rd_string (\<lambda>x0. rd_then rd_obool (\<lambda>x1. rd_then rd_string (\<lambda>x2.
     rd_then rd_mode (\<lambda>x3. rd_then rd_string (\<lambda>x4. rd_then rd_bool (\<lambda>x5.
     rd_then rd_string (\<lambda>x6. rd_then rd_string (\<lambda>x7. rd_then rd_string (\<lambda>x8.
     rd_then rd_string (\<lambda>x9. rd_then rd_string (\<lambda>x10. rd_then rd_bool (\<lambda>x11.
     rd_then rd_string (\<lambda>x12. rd_then rd_string (\<lambda>x13. rd_then rd_string (\<lambda>x14.
     rd_then rd_string (\<lambda>x15. rd_then rd_string (\<lambda>x16. rd_then rd_string (\<lambda>x17.
     rd_then rd_bool (\<lambda>x18.
     rd_return
       \<lparr> f_Path = x0, f_Follow = x1, f_Group = x2, f_Mode = x3, f_Owner = x4, f_Recurse = x5, f_Src = x6,
          f_State = x7, f_AccessTime = x8, f_AccessTimeFormat = x9, f_Attributes = x10, f_Force = x11,
          f_ModificationTime = x12, f_ModificationTimeFormat = x13, f_Selevel = x14, f_Serole = x15,
          f_Setype = x16, f_Seuser = x17, f_UnsafeWrites = x18 \<rparr>)))))))))))))))))))"

definition get_url_of :: "GetURL reader" where
  "get_url_of =
     rd_then rd_string (\<lambda>x0. rd_then rd_string (\<lambda>x1. rd_then rd_string (\<lambda>x2.
     rd_then rd_mode (\<lambda>x3. rd_then rd_string (\<lambda>x4. rd_then rd_string (\<lambda>x5.
     rd_then rd_bool (\<lambda>x6. rd_then rd_string (\<lambda>x7. rd_then rd_strings (\<lambda>x8.
     rd_then rd_string (\<lambda>x9. rd_then rd_string (\<lambda>x10. rd_then rd_obool (\<lambda>x11.
     rd_then rd_obool (\<lambda>x12. rd_then rd_bool (\<lambda>x13. rd_then rd_headers (\<lambda>x14.
     rd_then rd_string (\<lambda>x15. rd_then rd_string (\<lambda>x16. rd_then rd_string (\<lambda>x17.
     rd_then rd_string (\<lambda>x18. rd_then rd_nat (\<lambda>x19. rd_then rd_string (\<lambda>x20.
     rd_then rd_strings (\<lambda>x21. rd_then rd_bool (\<lambda>x22. rd_then rd_string (\<lambda>x23.
     rd_then rd_string (\<lambda>x24. rd_then rd_bool (\<lambda>x25. rd_then rd_obool (\<lambda>x26.
     rd_then rd_obool (\<lambda>x27. rd_then rd_obool (\<lambda>x28.
     rd_return
       \<lparr> gu_Dest = x0, gu_Url = x1, gu_Group = x2, gu_Mode = x3, gu_Owner = x4, gu_Attributes = x5,
          gu_Backup = x6, gu_Checksum = x7, gu_Ciphers = x8, gu_ClientCert = x9, gu_ClientKey = x10,
          gu_Decompress = x11, gu_Force = x12, gu_ForceBasicAuth = x13, gu_Headers = x14, gu_Selevel = x15,
          gu_Serole = x16, gu_Setype = x17, gu_Seuser = x18, gu_Timeout = x19, gu_TmpDest = x20,
          gu_UnredirectedHeaders = x21, gu_UnsafeWrites = x22, gu_UrlPassword = x23, gu_UrlUsername = x24,
          gu_UseGssapi = x25, gu_UseNetrc = x26, gu_UseProxy = x27, gu_ValidateCerts = x28 \<rparr>)))))))))))))))))))))))))))))"

definition import_tasks_of :: "ImportTasks reader" where
  "import_tasks_of =
     rd_then rd_string (\<lambda>x0.
     rd_return
       \<lparr> im_File = x0 \<rparr>)"

definition include_tasks_of :: "IncludeTasks reader" where
  "include_tasks_of =
     rd_then rd_struct (\<lambda>x0. rd_then rd_string (\<lambda>x1.
     rd_return
       \<lparr> in_ApplyKeywords = x0, in_File = x1 \<rparr>))"

definition shell_of :: "Shell reader" where
  "shell_of =
     rd_then rd_strings (\<lambda>x0. rd_then rd_string (\<lambda>x1. rd_then rd_string (\<lambda>x2.
     rd_then rd_string (\<lambda>x3. rd_then rd_string (\<lambda>x4. rd_then rd_string (\<lambda>x5.
     rd_then rd_string (\<lambda>x6. rd_then rd_obool (\<lambda>x7.
     rd_return
       \<lparr> sh_Argv = x0, sh_Chdir = x1, sh_Cmd = x2, sh_Creates = x3, sh_Executable = x4, sh_Removes = x5,
          sh_Stdin = x6, sh_StdinAddNewline = x7 \<rparr>))))))))"

definition template_of :: "Template reader" where
  "template_of =
     rd_then rd_string (\<lambda>x0. rd_then rd_string (\<lambda>x1. rd_then rd_mode (\<lambda>x2.
     rd_then rd_string (\<lambda>x3. rd_then rd_string (\<lambda>x4. rd_then rd_string (\<lambda>x5.
     rd_then rd_bool (\<lambda>x6. rd_then rd_string (\<lambda>x7. rd_then rd_string (\<lambda>x8.
     rd_then rd_string (\<lambda>x9. rd_then rd_string (\<lambda>x10. rd_then rd_bool (\<lambda>x11.
     rd_then rd_obool (\<lambda>x12. rd_then rd_bool (\<lambda>x13. rd_then rd_string (\<lambda>x14.
     rd_then rd_string (\<lambda>x15. rd_then rd_string (\<lambda>x16. rd_then rd_string (\<lambda>x17.
     rd_then rd_string (\<lambda>x18. rd_then rd_string (\<lambda>x19. rd_then rd_obool (\<lambda>x20.
     rd_then rd_bool (\<lambda>x21. rd_then rd_string (\<lambda>x22. rd_then rd_string (\<lambda>x23.
     rd_then rd_string (\<lambda>x24.
     rd_return
       \<lparr> tp_Dest = x0, tp_Group = x1, tp_Mode = x2, tp_Owner = x3, tp_Src = x4, tp_Attributes = x5,
          tp_Backup = x6, tp_BlockEndString = x7, tp_BlockStartString = x8, tp_CommentEndString = x9,
          tp_CommentStartString = x10, tp_Follow = x11, tp_Force = x12, tp_LstripBlocks = x13,
          tp_NewlineSequence = x14, tp_OutputEncoding = x15, tp_Selevel = x16, tp_Serole = x17, tp_Setype = x18,
          tp_Seuser = x19, tp_TrimBlocks = x20, tp_UnsafeWrites = x21, tp_Validate = x22,
          tp_VariableEndString = x23, tp_VariableStartString = x24 \<rparr>)))))))))))))))))))))))))"

section \<open>Reading what was written\<close>

lemma header_strings_write [simp]: "header_strings (List.map (\<lambda>(k, x). (k, VString x)) h) = Some h"
  by (induction h) auto

lemma rd_write:
  "rd_string (RString s # fs) = Some (s, fs)" "rd_strings (RStrings ss # fs) = Some (ss, fs)"
  "rd_bool (w_bool b # fs) = Some (b, fs)" "rd_int (RScalar (VInt i) # fs) = Some (i, fs)"
  "rd_nat (w_nat n # fs) = Some (n, fs)" "rd_obool (w_obool ob # fs) = Some (ob, fs)"
  "rd_onat (w_onat on # fs) = Some (on, fs)" "rd_mode (w_mode m # fs) = Some (m, fs)"
  "rd_items (w_items l # fs) = Some (l, fs)" "rd_headers (w_headers h # fs) = Some (h, fs)"
  "rd_struct (w_struct st # fs) = Some (st, fs)"
  by (simp_all add: rd_defs rd_one_def at_string_def at_strings_def at_bool_def at_int_def at_scalar_def
      at_headers_def at_ptr_def at_message_def w_defs option.map_comp comp_def split: option.split)

lemma rd_simps:
  "rd_return a fs = Some (a, fs)"
  "rd_then rd_string k (RString s # fs) = k s fs" "rd_then rd_strings k' (RStrings ss # fs) = k' ss fs"
  "rd_then rd_bool kb (w_bool b # fs) = kb b fs" "rd_then rd_int ki (RScalar (VInt i) # fs) = ki i fs"
  "rd_then rd_nat kn (w_nat n # fs) = kn n fs" "rd_then rd_obool ko (w_obool ob # fs) = ko ob fs"
  "rd_then rd_onat kp (w_onat on # fs) = kp on fs" "rd_then rd_mode km (w_mode m # fs) = km m fs"
  "rd_then rd_items kl (w_items l # fs) = kl l fs" "rd_then rd_headers kh (w_headers h # fs) = kh h fs"
  "rd_then rd_struct ks (w_struct st # fs) = ks st fs"
  by (simp_all add: rd_then_def rd_write rd_return_def)

lemma apt_of_fields: "apt_of (apt_fields c) = Some (c, [])"
  by (simp add: apt_of_def apt_fields_def rd_simps)

lemma apt_repository_of_fields: "apt_repository_of (apt_repository_fields c) = Some (c, [])"
  by (simp add: apt_repository_of_def apt_repository_fields_def rd_simps)

lemma command_of_fields: "command_of (command_fields c) = Some (c, [])"
  by (simp add: command_of_def command_fields_def rd_simps)

lemma copy_of_fields: "copy_of (copy_fields c) = Some (c, [])"
  by (simp add: copy_of_def copy_fields_def rd_simps)

lemma file_of_fields: "file_of (file_fields c) = Some (c, [])"
  by (simp add: file_of_def file_fields_def rd_simps)

lemma get_url_of_fields: "get_url_of (get_url_fields c) = Some (c, [])"
  by (simp add: get_url_of_def get_url_fields_def rd_simps)

lemma import_tasks_of_fields: "import_tasks_of (import_tasks_fields c) = Some (c, [])"
  by (simp add: import_tasks_of_def import_tasks_fields_def rd_simps)

lemma include_tasks_of_fields: "include_tasks_of (include_tasks_fields c) = Some (c, [])"
  by (simp add: include_tasks_of_def include_tasks_fields_def rd_simps)

lemma shell_of_fields: "shell_of (shell_fields c) = Some (c, [])"
  by (simp add: shell_of_def shell_fields_def rd_simps)

lemma template_of_fields: "template_of (template_fields c) = Some (c, [])"
  by (simp add: template_of_def template_fields_def rd_simps)

end
