(* ===== verification/Registry.thy ===== *)
theory Registry
  imports Messages Engine "HOL-Library.Multiset"
begin

text \<open>
  Which modules there are, and how a task file becomes tasks: \<^verbatim>\<open>pkg/registry/registry.go\<close>, the \<^verbatim>\<open>init\<close> functions of
  \<^verbatim>\<open>pkg/exec\<close>, and \<^verbatim>\<open>pkg/proto/task_yaml.go\<close> with \<^verbatim>\<open>file_yaml.go\<close>. The YAML library is a record of decoders.
\<close>

section \<open>The content of a task\<close>

text \<open>
  The cases of the oneof \<^verbatim>\<open>isTask_Content\<close> with their messages, which are also what the exec structs wrap;
  \<open>module_kind\<close> is the type of the wrapper, the key of \<^verbatim>\<open>TypeRegistry\<close>.
\<close>

datatype content =
    CApt Apt
  | CAptRepository AptRepository
  | CCommand Command
  | CCopy Copy
  | CFile File
  | CGetURL GetURL
  | CImportTasks ImportTasks
  | CIncludeTasks IncludeTasks
  | CShell Shell
  | CTemplate Template

datatype module_kind =
    ModApt | ModAptRepository | ModCommand | ModCopy | ModFile
  | ModGetURL | ModImportTasks | ModIncludeTasks | ModShell | ModTemplate

instantiation module_kind :: enum
begin

definition "enum_module_kind = [ModApt, ModAptRepository, ModCommand, ModCopy, ModFile, ModGetURL, ModImportTasks, ModIncludeTasks, ModShell, ModTemplate]"
definition "enum_all_module_kind P \<longleftrightarrow> list_all P (enum_class.enum :: module_kind list)"
definition "enum_ex_module_kind P \<longleftrightarrow> list_ex P (enum_class.enum :: module_kind list)"

instance
proof
  have all: "k \<in> set (enum_class.enum :: module_kind list)" for k
    by (cases k) (simp_all add: enum_module_kind_def)
  then show "UNIV = set (enum_class.enum :: module_kind list)" by auto
  show "distinct (enum_class.enum :: module_kind list)" by (simp add: enum_module_kind_def)
  show "enum_class.enum_all P \<longleftrightarrow> Ball UNIV P" for P :: "module_kind \<Rightarrow> bool"
    using all by (auto simp: enum_all_module_kind_def list_all_iff)
  show "enum_class.enum_ex P \<longleftrightarrow> Bex UNIV P" for P :: "module_kind \<Rightarrow> bool"
    using all by (auto simp: enum_ex_module_kind_def list_ex_iff)
qed

end

fun content_kind :: "content \<Rightarrow> module_kind" where
  "content_kind (CApt m) = ModApt"
| "content_kind (CAptRepository m) = ModAptRepository"
| "content_kind (CCommand m) = ModCommand"
| "content_kind (CCopy m) = ModCopy"
| "content_kind (CFile m) = ModFile"
| "content_kind (CGetURL m) = ModGetURL"
| "content_kind (CImportTasks m) = ModImportTasks"
| "content_kind (CIncludeTasks m) = ModIncludeTasks"
| "content_kind (CShell m) = ModShell"
| "content_kind (CTemplate m) = ModTemplate"

fun zero_content :: "module_kind \<Rightarrow> content" where
  "zero_content ModApt = CApt Apt_zero"
| "zero_content ModAptRepository = CAptRepository AptRepository_zero"
| "zero_content ModCommand = CCommand Command_zero"
| "zero_content ModCopy = CCopy Copy_zero"
| "zero_content ModFile = CFile File_zero"
| "zero_content ModGetURL = CGetURL GetURL_zero"
| "zero_content ModImportTasks = CImportTasks ImportTasks_zero"
| "zero_content ModIncludeTasks = CIncludeTasks IncludeTasks_zero"
| "zero_content ModShell = CShell Shell_zero"
| "zero_content ModTemplate = CTemplate Template_zero"

lemma kind_zero [simp]: "content_kind (zero_content k) = k"
  by (cases k) simp_all

section \<open>The registries\<close>

text \<open>
  A registration: what the factory makes, and the wrapper and the adapter, whose type assertions fail on
  a value of another type (the wrapper then panics, the adapter answers nil).
\<close>

record TaskRegistration =
  ProtoFactory :: content
  ProtoWrapper :: "content \<Rightarrow> content option"
  ExecAdapter :: "content \<Rightarrow> content option"

record registries =
  NameRegistry :: "string \<rightharpoonup> TaskRegistration"
  TypeRegistry :: "module_kind \<rightharpoonup> TaskRegistration"

definition Register :: "string \<Rightarrow> TaskRegistration \<Rightarrow> module_kind option \<Rightarrow> registries \<Rightarrow> registries" where
  "Register name reg example s =
     (let s1 = s\<lparr>NameRegistry := (NameRegistry s)(name \<mapsto> reg)\<rparr>
      in case example of None \<Rightarrow> s1 | Some t \<Rightarrow> s1\<lparr>TypeRegistry := (TypeRegistry s1)(t \<mapsto> reg)\<rparr>)"

definition registration :: "module_kind \<Rightarrow> TaskRegistration" where
  "registration k =
     \<lparr> ProtoFactory = zero_content k,
       ProtoWrapper = (\<lambda>msg. if content_kind msg = k then Some msg else None),
       ExecAdapter = (\<lambda>c. if content_kind c = k then Some c else None) \<rparr>"

definition register_both :: "string \<Rightarrow> module_kind \<Rightarrow> registries \<Rightarrow> registries" where
  "register_both name k s =
     Register (''ansible.builtin.'' @ name) (registration k) (Some k) (Register name (registration k) (Some k) s)"

text \<open>The \<^verbatim>\<open>init\<close> functions, which Go runs in the order of the files of the package.\<close>

definition init_apt :: "registries \<Rightarrow> registries" where "init_apt = register_both ''apt'' ModApt"
definition init_apt_repository :: "registries \<Rightarrow> registries" where "init_apt_repository = register_both ''apt_repository'' ModAptRepository"
definition init_command :: "registries \<Rightarrow> registries" where "init_command = register_both ''command'' ModCommand"
definition init_copy :: "registries \<Rightarrow> registries" where "init_copy = register_both ''copy'' ModCopy"
definition init_file :: "registries \<Rightarrow> registries" where "init_file = register_both ''file'' ModFile"
definition init_get_url :: "registries \<Rightarrow> registries" where "init_get_url = register_both ''get_url'' ModGetURL"
definition init_import_tasks :: "registries \<Rightarrow> registries" where "init_import_tasks = register_both ''import_tasks'' ModImportTasks"
definition init_include_tasks :: "registries \<Rightarrow> registries" where "init_include_tasks = register_both ''include_tasks'' ModIncludeTasks"
definition init_shell :: "registries \<Rightarrow> registries" where "init_shell = register_both ''shell'' ModShell"
definition init_template :: "registries \<Rightarrow> registries" where "init_template = register_both ''template'' ModTemplate"

fun init_module :: "module_kind \<Rightarrow> registries \<Rightarrow> registries" where
  "init_module ModApt = init_apt"
| "init_module ModAptRepository = init_apt_repository"
| "init_module ModCommand = init_command"
| "init_module ModCopy = init_copy"
| "init_module ModFile = init_file"
| "init_module ModGetURL = init_get_url"
| "init_module ModImportTasks = init_import_tasks"
| "init_module ModIncludeTasks = init_include_tasks"
| "init_module ModShell = init_shell"
| "init_module ModTemplate = init_template"

definition no_registries :: registries where
  "no_registries = \<lparr> NameRegistry = Map.empty, TypeRegistry = Map.empty \<rparr>"

definition registered :: registries where
  "registered = fold init_module enum_class.enum no_registries"

lemmas init_defs = init_apt_def init_apt_repository_def init_command_def init_copy_def init_file_def init_get_url_def init_import_tasks_def init_include_tasks_def init_shell_def init_template_def

section \<open>Decoding tasks\<close>

text \<open>
  The decoders of \<^verbatim>\<open>goccy/go-yaml\<close>: into the plain struct of each message, and into the auxiliary structs of
  the aliases. A message of a type with an \<^verbatim>\<open>UnmarshalYAML\<close> is decoded through it.
\<close>

record raw_task =
  ut_Name :: string
  ut_When :: string
  ut_Loop :: "val option"
  ut_Register :: string
  ut_RawContent :: "(string \<times> bytes) list"

record yaml_env =
  y_raw :: "bytes \<Rightarrow> goerr + raw_task list"
  y_apt :: "bytes \<Rightarrow> goerr + Apt"
  y_apt_repository :: "bytes \<Rightarrow> goerr + AptRepository"
  y_command :: "bytes \<Rightarrow> goerr + Command"
  y_copy :: "bytes \<Rightarrow> goerr + Copy"
  y_file :: "bytes \<Rightarrow> goerr + File"
  y_get_url :: "bytes \<Rightarrow> goerr + GetURL"
  y_import_tasks :: "bytes \<Rightarrow> goerr + ImportTasks"
  y_include_tasks :: "bytes \<Rightarrow> goerr + IncludeTasks"
  y_shell :: "bytes \<Rightarrow> goerr + Shell"
  y_template :: "bytes \<Rightarrow> goerr + Template"
  y_apt_aux :: "bytes \<Rightarrow> goerr + apt_aux"
  y_apt_repository_aux :: "bytes \<Rightarrow> goerr + bool option"
  y_file_aux :: "bytes \<Rightarrow> goerr + string \<times> string"

definition File_UnmarshalYAML ::
  "(bytes \<Rightarrow> goerr + File) \<Rightarrow> (bytes \<Rightarrow> goerr + string \<times> string) \<Rightarrow> bytes \<Rightarrow> goerr + File" where
  "File_UnmarshalYAML y_plain y_aux b =
     (case y_plain b of
        Inl e \<Rightarrow> Inl e
      | Inr f \<Rightarrow>
          (case y_aux b of
             Inl e \<Rightarrow> Inl e
           | Inr (dest, name) \<Rightarrow>
               Inr (if f_Path f = [] then
                      (if dest \<noteq> [] then f\<lparr>f_Path := dest\<rparr> else if name \<noteq> [] then f\<lparr>f_Path := name\<rparr> else f)
                    else f)))"

text \<open>\<^verbatim>\<open>yaml.NodeToValue\<close> into the message of a factory.\<close>

fun decode_message :: "yaml_env \<Rightarrow> module_kind \<Rightarrow> bytes \<Rightarrow> goerr + content" where
  "decode_message y ModApt node = map_sum id CApt (Apt_UnmarshalYAML (y_apt y) (y_apt_aux y) node)"
| "decode_message y ModAptRepository node = map_sum id CAptRepository (AptRepository_UnmarshalYAML (y_apt_repository y) (y_apt_repository_aux y) node)"
| "decode_message y ModCommand node = map_sum id CCommand (y_command y node)"
| "decode_message y ModCopy node = map_sum id CCopy (y_copy y node)"
| "decode_message y ModFile node = map_sum id CFile (File_UnmarshalYAML (y_file y) (y_file_aux y) node)"
| "decode_message y ModGetURL node = map_sum id CGetURL (y_get_url y node)"
| "decode_message y ModImportTasks node = map_sum id CImportTasks (y_import_tasks y node)"
| "decode_message y ModIncludeTasks node = map_sum id CIncludeTasks (y_include_tasks y node)"
| "decode_message y ModShell node = map_sum id CShell (y_shell y node)"
| "decode_message y ModTemplate node = map_sum id CTemplate (y_template y node)"

text \<open>
  \<^verbatim>\<open>structpb.NewValue\<close>: every number becomes a \<^verbatim>\<open>float64\<close> (its rounding above \<open>2\<^sup>5\<^sup>3\<close> is left out).
\<close>

fun NewValue :: "val \<Rightarrow> val" where
  "NewValue (VInt i) = VFloat i"
| "NewValue (VList vs) = VList (List.map NewValue vs)"
| "NewValue (VMap m) = VMap (List.map (\<lambda>(k, v). (k, NewValue v)) m)"
| "NewValue v = v"

text \<open>
  The keys of a task in the order of one iteration over the Go map: the first that names a module gives the
  content, all others are passed over.
\<close>

fun task_content :: "registries \<Rightarrow> yaml_env \<Rightarrow> (string \<times> bytes) list \<Rightarrow> goerr + content option" where
  "task_content s y [] = Inr None"
| "task_content s y ((moduleName, node) # raw) =
     (case NameRegistry s moduleName of
        None \<Rightarrow> task_content s y raw
      | Some reg \<Rightarrow>
          (case decode_message y (content_kind (ProtoFactory reg)) node of
             Inl e \<Rightarrow> Inl (Wrap (''failed to unmarshal '' @ moduleName @ '' module'') e)
           | Inr protoMsg \<Rightarrow>
               (case ProtoWrapper reg protoMsg of
                  None \<Rightarrow> Inl (Panic ''interface conversion'')
                | Some c \<Rightarrow> Inr (Some c))))"

definition unmarshal_task :: "registries \<Rightarrow> yaml_env \<Rightarrow> raw_task \<Rightarrow> goerr + content ProtoTask" where
  "unmarshal_task s y task =
     (case task_content s y (ut_RawContent task) of
        Inl e \<Rightarrow> Inl e
      | Inr None \<Rightarrow> Inl (ErrMsg (''task '' @ ut_Name task @ '' has no recognized module content''))
      | Inr (Some c) \<Rightarrow>
          Inr \<lparr> p_Name = ut_Name task, p_When = ut_When task, p_Loop = map_option NewValue (ut_Loop task),
                p_Register = ut_Register task, p_Content = Some c \<rparr>)"

definition tasksUnmarshalYAML :: "registries \<Rightarrow> yaml_env \<Rightarrow> bytes \<Rightarrow> goerr + content ProtoTask list" where
  "tasksUnmarshalYAML s y b =
     (case y_raw y b of
        Inl e \<Rightarrow> Inl e
      | Inr raw \<Rightarrow> fold_err (\<lambda>out task. map_sum id (\<lambda>t. out @ [t]) (unmarshal_task s y task)) [] raw)"

end
