(* ===== verification/Shapes.thy ===== *)
theory Shapes
  imports Messages
begin

text \<open>
  Rendering keeps the type of a Go value: the shape of a value, that \<open>render_value\<close> preserves it, and that the
  readers of \<open>Messages\<close> succeed on every value of the right shape.
\<close>

section \<open>Shapes\<close>

inductive same_shape :: "rval \<Rightarrow> rval \<Rightarrow> bool" where
  "same_shape (RString s) (RString t)"
| "same_shape (RStrings ss) (RStrings ts)"
| "list_all2 same_shape fs gs \<Longrightarrow> same_shape (RStruct fs) (RStruct gs)"
| "same_shape RHidden RHidden"
| "same_shape (RPtr None) (RPtr None)"
| "same_shape x y \<Longrightarrow> same_shape (RPtr (Some x)) (RPtr (Some y))"
| "same_shape (RIface i) (RIface j)"
| "same_shape (RSlice vs) (RSlice vs)"
| "same_shape (RScalar v) (RScalar v)"

inductive_simps same_shape_simps [simp]:
  "same_shape (RString s) y" "same_shape (RStrings ss) y" "same_shape (RStruct fs) y" "same_shape RHidden y"
  "same_shape (RPtr None) y" "same_shape (RPtr (Some x)) y" "same_shape (RIface i) y"
  "same_shape (RSlice vs) y" "same_shape (RScalar v) y"

lemma same_shape_refl [simp]: "same_shape x x"
proof (induction x)
  case (RStruct fs)
  then show ?case by (simp add: list_all2_same)
next
  case (RPtr x)
  then show ?case by (cases x) simp_all
qed simp_all

lemma map_sum_Inr_iff: "map_sum id f x = Inr y \<longleftrightarrow> (\<exists>z. x = Inr z \<and> y = f z)"
  by (cases x) auto

lemma render_same_shape:
  "render_value g v x = Inr x' \<Longrightarrow> same_shape x x'"
  "render_fields g v fs = Inr fs' \<Longrightarrow> list_all2 same_shape fs fs'"
  "render_field g v f = Inr f' \<Longrightarrow> same_shape f f'"
  by (induction g v x and g v fs and g v f arbitrary: x' and fs' and f'
      rule: render_value_render_fields_render_field.induct)
    (auto simp: map_sum_Inr_iff split: sum.splits option.splits list.splits)

section \<open>Readers\<close>

definition keeps_shape :: "'a reader \<Rightarrow> 'b reader \<Rightarrow> bool" where
  "keeps_shape r r' \<longleftrightarrow>
     (\<forall>fs gs. list_all2 same_shape fs gs \<longrightarrow>
        (case r fs of
           None \<Rightarrow> True
         | Some (a, fs') \<Rightarrow> \<exists>b gs'. r' gs = Some (b, gs') \<and> list_all2 same_shape fs' gs'))"

lemma keeps_shape_return: "keeps_shape (rd_return a) (rd_return b)"
  by (simp add: keeps_shape_def rd_return_def)

lemma keeps_shape_then:
  assumes "keeps_shape r r'" and "\<And>a b. keeps_shape (k a) (k' b)"
  shows "keeps_shape (rd_then r k) (rd_then r' k')"
  unfolding keeps_shape_def
proof (intro allI impI)
  fix fs gs assume fg: "list_all2 same_shape fs gs"
  show "case rd_then r k fs of None \<Rightarrow> True
    | Some (a, fs') \<Rightarrow> \<exists>b gs'. rd_then r' k' gs = Some (b, gs') \<and> list_all2 same_shape fs' gs'"
  proof (cases "r fs")
    case None
    then show ?thesis by (simp add: rd_then_def)
  next
    case (Some p)
    obtain a fs' where p: "p = (a, fs')" by fastforce
    obtain b gs' where "r' gs = Some (b, gs')" "list_all2 same_shape fs' gs'"
      using assms(1) [unfolded keeps_shape_def, rule_format, OF fg] Some p by auto
    with assms(2) [of a b, unfolded keeps_shape_def, rule_format, of fs' gs'] Some p
    show ?thesis by (auto simp: rd_then_def split: option.splits)
  qed
qed

text \<open>A test of one field that depends on its shape only.\<close>

definition by_shape :: "(rval \<Rightarrow> 'a option) \<Rightarrow> bool" where
  "by_shape f \<longleftrightarrow> (\<forall>x y a. same_shape x y \<longrightarrow> f x = Some a \<longrightarrow> (\<exists>b. f y = Some b))"

lemma by_shapeD: "by_shape f \<Longrightarrow> same_shape x y \<Longrightarrow> f x = Some a \<Longrightarrow> \<exists>b. f y = Some b"
  by (simp add: by_shape_def)

lemma keeps_shape_one:
  assumes "by_shape f"
  shows "keeps_shape (rd_one f) (rd_one f)"
  unfolding keeps_shape_def
proof (intro allI impI)
  fix fs gs assume fg: "list_all2 same_shape fs gs"
  show "case rd_one f fs of None \<Rightarrow> True
    | Some (a, fs') \<Rightarrow> \<exists>b gs'. rd_one f gs = Some (b, gs') \<and> list_all2 same_shape fs' gs'"
  proof (cases fs)
    case Nil
    then show ?thesis by (simp add: rd_one_def)
  next
    case (Cons x fs')
    with fg obtain y gs' where gs: "gs = y # gs'" "same_shape x y" "list_all2 same_shape fs' gs'"
      by (auto simp: list_all2_Cons1)
    show ?thesis
    proof (cases "f x")
      case None
      with Cons show ?thesis by (simp add: rd_one_def)
    next
      case (Some a)
      with by_shapeD [OF assms gs(2)] obtain b where "f y = Some b" by blast
      with Cons Some gs show ?thesis by (simp add: rd_one_def)
    qed
  qed
qed

lemma at_scalar_same: "same_shape x y \<Longrightarrow> at_scalar x = Some v \<Longrightarrow> at_scalar y = Some v"
  by (cases x) (auto simp: at_scalar_def)

lemma by_shape_basic:
  "by_shape at_string" "by_shape at_strings" "by_shape at_scalar" "by_shape at_bool" "by_shape at_int"
  "by_shape at_headers"
proof -
  show "by_shape at_string" "by_shape at_strings" "by_shape at_scalar"
    by (auto simp: by_shape_def at_string_def at_strings_def at_scalar_def split: rval.splits)
  show "by_shape at_bool" "by_shape at_int" "by_shape at_headers"
    by (auto simp: by_shape_def at_bool_def at_int_def at_headers_def dest: at_scalar_same
        split: option.splits val.splits)
qed

lemma by_shape_map: "by_shape f \<Longrightarrow> by_shape (map_option g \<circ> f)"
  by (auto simp: by_shape_def)

lemma by_shape_ptr:
  assumes "by_shape f"
  shows "by_shape (at_ptr f)"
  unfolding by_shape_def
proof (intro allI impI)
  fix x y a assume xy: "same_shape x y" "at_ptr f x = Some a"
  from xy(2) consider "x = RPtr None" | z b where "x = RPtr (Some z)" "f z = Some b"
    by (auto simp: at_ptr_def split: rval.splits option.splits)
  then show "\<exists>b. at_ptr f y = Some b"
  proof cases
    case 1
    with xy(1) show ?thesis by (simp add: at_ptr_def)
  next
    case (2 z b)
    with xy(1) obtain z' where "y = RPtr (Some z')" "same_shape z z'" by auto
    with by_shapeD [OF assms _ 2(2)] show ?thesis by (fastforce simp: at_ptr_def)
  qed
qed

lemma by_shape_message:
  assumes "by_shape f"
  shows "by_shape (at_message f)"
  unfolding by_shape_def
proof (intro allI impI)
  fix x y a assume xy: "same_shape x y" "at_message f x = Some a"
  from xy(2) obtain z where x: "x = RStruct [RHidden, z, RHidden, RHidden]" "f z = Some a"
    by (auto simp: at_message_def split: rval.splits list.splits)
  with xy(1) obtain z' where "y = RStruct [RHidden, z', RHidden, RHidden]" "same_shape z z'"
    by (auto simp: list_all2_Cons1)
  with by_shapeD [OF assms _ x(2)] show "\<exists>b. at_message f y = Some b" by (fastforce simp: at_message_def)
qed

lemmas by_shape_intros = by_shape_ptr by_shape_map by_shape_message by_shape_basic

lemma keeps_shape_fields:
  "keeps_shape rd_string rd_string" "keeps_shape rd_strings rd_strings" "keeps_shape rd_bool rd_bool"
  "keeps_shape rd_int rd_int" "keeps_shape rd_nat rd_nat" "keeps_shape rd_headers rd_headers"
  "keeps_shape rd_obool rd_obool" "keeps_shape rd_onat rd_onat" "keeps_shape rd_mode rd_mode"
  "keeps_shape rd_items rd_items" "keeps_shape rd_struct rd_struct"
  unfolding rd_defs by (intro keeps_shape_one by_shape_intros)+

lemmas keeps_shape_intros = keeps_shape_then keeps_shape_return keeps_shape_fields

lemma apt_of_shape: "keeps_shape apt_of apt_of"
  unfolding apt_of_def by (intro keeps_shape_intros)

lemma apt_repository_of_shape: "keeps_shape apt_repository_of apt_repository_of"
  unfolding apt_repository_of_def by (intro keeps_shape_intros)

lemma command_of_shape: "keeps_shape command_of command_of"
  unfolding command_of_def by (intro keeps_shape_intros)

lemma copy_of_shape: "keeps_shape copy_of copy_of"
  unfolding copy_of_def by (intro keeps_shape_intros)

lemma file_of_shape: "keeps_shape file_of file_of"
  unfolding file_of_def by (intro keeps_shape_intros)

lemma get_url_of_shape: "keeps_shape get_url_of get_url_of"
  unfolding get_url_of_def by (intro keeps_shape_intros)

lemma import_tasks_of_shape: "keeps_shape import_tasks_of import_tasks_of"
  unfolding import_tasks_of_def by (intro keeps_shape_intros)

lemma include_tasks_of_shape: "keeps_shape include_tasks_of include_tasks_of"
  unfolding include_tasks_of_def by (intro keeps_shape_intros)

lemma shell_of_shape: "keeps_shape shell_of shell_of"
  unfolding shell_of_def by (intro keeps_shape_intros)

lemma template_of_shape: "keeps_shape template_of template_of"
  unfolding template_of_def by (intro keeps_shape_intros)

end
