(* ===== verification/Modules.thy ===== *)
theory Modules
  imports Registry Shapes Executer
begin

text \<open>
  The modules of the program as the interface \<^verbatim>\<open>TaskContent\<close> of \<open>Engine\<close>: rendering, validation and application of
  every content, \<^verbatim>\<open>import_tasks\<close> and \<^verbatim>\<open>include_tasks\<close> (\<^verbatim>\<open>pkg/exec/import_tasks.go\<close>, \<^verbatim>\<open>include_tasks.go\<close>), and the
  executer with all of them.

  A task file may name itself, and the program then does not return: the nesting of task files is bounded by a
  number of levels, and using it up is the error \<open>Diverge\<close>. \<open>ModulesProps\<close> shows when a bound is enough.
\<close>

section \<open>Rendering\<close>

text \<open>
  An exec struct embeds the pointer to its message, before its unexported fields; the interface of a task holds
  a pointer to it.
\<close>

definition exec_struct :: "nat \<Rightarrow> rval list \<Rightarrow> rval" where
  "exec_struct hidden fs = RPtr (Some (RStruct (RPtr (Some (message fs)) # replicate hidden RHidden)))"

fun content_value :: "content \<Rightarrow> rval" where
  "content_value (CApt m) = exec_struct 2 (apt_fields m)"
| "content_value (CAptRepository m) = exec_struct 1 (apt_repository_fields m)"
| "content_value (CCommand m) = exec_struct 1 (command_fields m)"
| "content_value (CCopy m) = exec_struct 0 (copy_fields m)"
| "content_value (CFile m) = exec_struct 0 (file_fields m)"
| "content_value (CGetURL m) = exec_struct 0 (get_url_fields m)"
| "content_value (CImportTasks m) = exec_struct 0 (import_tasks_fields m)"
| "content_value (CIncludeTasks m) = exec_struct 0 (include_tasks_fields m)"
| "content_value (CShell m) = exec_struct 1 (shell_fields m)"
| "content_value (CTemplate m) = exec_struct 0 (template_fields m)"

text \<open>The fields of the message in an exec struct, and the content they make.\<close>

definition message_fields :: "rval \<Rightarrow> rval list" where
  "message_fields x =
     (case x of RPtr (Some (RStruct (RPtr (Some (RStruct fs)) # _))) \<Rightarrow> butlast (butlast (tl fs)) | _ \<Rightarrow> [])"

definition read_as :: "('a \<Rightarrow> content) \<Rightarrow> 'a reader \<Rightarrow> rval \<Rightarrow> content option" where
  "read_as f r x = map_option (f \<circ> fst) (r (message_fields x))"

fun content_of :: "module_kind \<Rightarrow> rval \<Rightarrow> content option" where
  "content_of ModApt = read_as CApt apt_of"
| "content_of ModAptRepository = read_as CAptRepository apt_repository_of"
| "content_of ModCommand = read_as CCommand command_of"
| "content_of ModCopy = read_as CCopy copy_of"
| "content_of ModFile = read_as CFile file_of"
| "content_of ModGetURL = read_as CGetURL get_url_of"
| "content_of ModImportTasks = read_as CImportTasks import_tasks_of"
| "content_of ModIncludeTasks = read_as CIncludeTasks include_tasks_of"
| "content_of ModShell = read_as CShell shell_of"
| "content_of ModTemplate = read_as CTemplate template_of"

text \<open>The struct is rendered in place, so the content is what is read back from it.\<close>

definition content_render :: "gonja \<Rightarrow> vars \<Rightarrow> content \<Rightarrow> goerr + content" where
  "content_render g v c =
     (case render_value g v (content_value c) of
        Inl e \<Rightarrow> Inl e
      | Inr x \<Rightarrow> (case content_of (content_kind c) x of None \<Rightarrow> Inl (Panic ''reflect: wrong type'') | Some c' \<Rightarrow> Inr c'))"

section \<open>The machine\<close>

text \<open>
  Everything outside the program that a task may use; \<open>mc_time\<close> and \<open>mc_duration\<close> are how times and durations are
  printed in YAML.
\<close>

record ('t, 'w) machine =
  mc_os :: "'w os"
  mc_db :: userdb
  mc_host :: "'w host"
  mc_apt :: "'w apt_env"
  mc_parse_url :: "string \<Rightarrow> goerr + string \<times> string"
  mc_gonja :: gonja
  mc_template :: "('t, 'w) template_env"
  mc_http :: "'w http_env"
  mc_yaml :: yaml_env
  mc_time :: "int \<Rightarrow> string"
  mc_duration :: "int \<Rightarrow> string"

definition yaml_tasks :: "('t, 'w) machine \<Rightarrow> content yaml_tasks" where
  "yaml_tasks mc = tasksUnmarshalYAML registered (mc_yaml mc)"

section \<open>Results\<close>

text \<open>The result of a module as the engine sees it, with the entries its own fields have in YAML.\<close>

definition to_result :: "(string \<times> val) list \<Rightarrow> 'a CommonResult_scheme \<Rightarrow> Result" where
  "to_result fs c = CommonResult.extend (CommonResult.truncate c) (Result.fields fs)"

definition as_result ::
  "('a CommonResult_scheme \<Rightarrow> (string \<times> val) list) \<Rightarrow> 'a CommonResult_scheme \<times> goerr option \<times> 'w \<Rightarrow>
   Result \<times> goerr option \<times> 'w" where
  "as_result f x = (case x of (r, err, w) \<Rightarrow> (to_result (f r) r, err, w))"

definition apt_entries :: "('t, 'w) machine \<Rightarrow> AptResult \<Rightarrow> (string \<times> val) list" where
  "apt_entries mc r =
     [(''cache_update_time'', VString (mc_time mc (ar_CacheUpdateTime r))), (''cache_updated'', VBool (ar_CacheUpdated r))]"

definition command_entries :: "('t, 'w) machine \<Rightarrow> CommandResult \<Rightarrow> (string \<times> val) list" where
  "command_entries mc r =
     [(''cmd'', VList (List.map VString (cr_Cmd r))), (''delta'', VString (mc_duration mc (cr_Delta r))),
      (''end'', VString (mc_time mc (cr_End r))), (''start'', VString (mc_time mc (cr_Start r)))]"

definition shell_entries :: "('t, 'w) machine \<Rightarrow> ShellResult \<Rightarrow> (string \<times> val) list" where
  "shell_entries mc r =
     [(''cmd'', VString (sr_Cmd r)), (''delta'', VString (mc_duration mc (sr_Delta r))),
      (''end'', VString (mc_time mc (sr_End r))), (''start'', VString (mc_time mc (sr_Start r)))]"

definition file_entries :: "FileResult \<Rightarrow> (string \<times> val) list" where
  "file_entries r =
     [(''dest'', VString (fr_Dest r)), (''uid'', VInt (uint (fr_Uid r))), (''gid'', VInt (uint (fr_Gid r))),
      (''owner'', VString (fr_Owner r)), (''group'', VString (fr_Group r)), (''mode'', VString (fr_Mode r)),
      (''path'', VString (fr_Path r)), (''state'', VString (fr_State r)), (''size'', VInt (int (fr_Size r)))]"

definition template_entries :: "TemplateResult \<Rightarrow> (string \<times> val) list" where
  "template_entries r =
     [(''checksum'', VString (tr_Checksum r)), (''dest'', VString (tr_Dest r)), (''gid'', VInt (uint (tr_Gid r))),
      (''group'', VString (tr_Group r)), (''md5sum'', VString (tr_MD5Sum r)), (''mode'', VString (tr_Mode r)),
      (''owner'', VString (tr_Owner r)), (''size'', VInt (int (tr_Size r))), (''uid'', VInt (uint (tr_Uid r)))]"

section \<open>Tasks from files\<close>

definition ImportTasks_Validate :: "ImportTasks \<Rightarrow> goerr option" where
  "ImportTasks_Validate it = (if im_File it = [] then Some (ErrMsg ''file is required'') else None)"

definition IncludeTasks_Validate :: "IncludeTasks \<Rightarrow> goerr option" where
  "IncludeTasks_Validate it = (if in_File it = [] then Some (ErrMsg ''file is required'') else None)"

definition task_path :: "string \<Rightarrow> bool \<Rightarrow> string \<Rightarrow> string" where
  "task_path parentPath isRole f = (if isRole then path_join [parentPath, ''tasks'', f] else path_join [parentPath, f])"

text \<open>
  The tasks of a file, one after the other: each is rendered, validated and applied, with no regard for its
  condition, its loop or the name it is registered under.
\<close>

definition read_failed :: "string \<Rightarrow> goerr \<Rightarrow> goerr" where
  "read_failed taskPath = Wrap (''failed to read tasks from '' @ taskPath)"
definition parse_failed :: "string \<Rightarrow> goerr \<Rightarrow> goerr" where
  "parse_failed taskPath = Wrap (''failed to parse tasks from '' @ taskPath)"
definition apply_failed :: "string \<Rightarrow> goerr \<Rightarrow> goerr" where
  "apply_failed taskPath = Wrap (''failed to apply task from '' @ taskPath)"

definition prepare_imported ::
  "gonja \<Rightarrow> ('c, 'w) TaskContent \<Rightarrow> vars option \<Rightarrow> string \<Rightarrow> 'c ProtoTask \<Rightarrow> goerr + 'c Task" where
  "prepare_imported g ops ctx taskPath protoTask =
     (case FromProto ops protoTask of
        Inl e \<Rightarrow> Inl (Wrap (''failed to convert task from '' @ taskPath) e)
      | Inr task \<Rightarrow>
          (case render_task g ops ctx task of
             Inl e \<Rightarrow> Inl (Wrap (''failed to render Jinja templating from '' @ taskPath) e)
           | Inr task' \<Rightarrow>
               (case Task_Validate ops task' of
                  Some e \<Rightarrow> Inl (Wrap (''failed to validate task from '' @ taskPath) e)
                | None \<Rightarrow> Inr task')))"

fun apply_imported ::
  "gonja \<Rightarrow> ('c, 'w) TaskContent \<Rightarrow> vars option \<Rightarrow> string \<Rightarrow> bool \<Rightarrow> string \<Rightarrow> 'c ProtoTask list \<Rightarrow> 'w \<Rightarrow>
   goerr option \<times> 'w" where
  "apply_imported g ops ctx parentPath isRole taskPath [] w = (None, w)"
| "apply_imported g ops ctx parentPath isRole taskPath (protoTask # pts) w =
     (case prepare_imported g ops ctx taskPath protoTask of
        Inl e \<Rightarrow> (Some e, w)
      | Inr task \<Rightarrow>
          (case Task_Apply ops ctx parentPath isRole task w of
             (r, Some e, w1) \<Rightarrow> (Some (apply_failed taskPath e), w1)
           | (r, None, w1) \<Rightarrow> apply_imported g ops ctx parentPath isRole taskPath pts w1))"

definition run_task_file ::
  "('t, 'w) machine \<Rightarrow> (content, 'w) TaskContent \<Rightarrow> vars option \<Rightarrow> string \<Rightarrow> bool \<Rightarrow> string \<Rightarrow> 'w \<Rightarrow> goerr option \<times> 'w" where
  "run_task_file mc ops ctx parentPath isRole f w =
     (let taskPath = task_path parentPath isRole f in
      case os_readFile (mc_os mc) taskPath w of
        Inl e \<Rightarrow> (Some (read_failed taskPath (OsErr e)), w)
      | Inr taskData \<Rightarrow>
          (case yaml_tasks mc taskData of
             Inl e \<Rightarrow> (Some (parse_failed taskPath e), w)
           | Inr protoTasks \<Rightarrow> apply_imported (mc_gonja mc) ops ctx parentPath isRole taskPath protoTasks w))"

definition ImportTasks_Apply ::
  "('t, 'w) machine \<Rightarrow> (content, 'w) TaskContent \<Rightarrow> vars option \<Rightarrow> string \<Rightarrow> bool \<Rightarrow> ImportTasks \<Rightarrow> 'w \<Rightarrow>
   CommonResult \<times> goerr option \<times> 'w" where
  "ImportTasks_Apply mc ops ctx parentPath isRole it w =
     (CommonResult_zero, run_task_file mc ops ctx parentPath isRole (im_File it) w)"

definition IncludeTasks_Apply ::
  "('t, 'w) machine \<Rightarrow> (content, 'w) TaskContent \<Rightarrow> vars option \<Rightarrow> string \<Rightarrow> bool \<Rightarrow> IncludeTasks \<Rightarrow> 'w \<Rightarrow>
   CommonResult \<times> goerr option \<times> 'w" where
  "IncludeTasks_Apply mc ops ctx parentPath isRole it w =
     (CommonResult_zero, run_task_file mc ops ctx parentPath isRole (in_File it) w)"

section \<open>All modules\<close>

fun content_Validate :: "('t, 'w) machine \<Rightarrow> content \<Rightarrow> goerr option" where
  "content_Validate mc (CApt m) = Apt_Validate m"
| "content_Validate mc (CAptRepository m) = AptRepository_Validate m"
| "content_Validate mc (CCommand m) = Command_Validate m"
| "content_Validate mc (CCopy m) = Copy_Validate m"
| "content_Validate mc (CFile m) = File_Validate m"
| "content_Validate mc (CGetURL m) = GetURL_Validate (mc_http mc) m"
| "content_Validate mc (CImportTasks m) = ImportTasks_Validate m"
| "content_Validate mc (CIncludeTasks m) = IncludeTasks_Validate m"
| "content_Validate mc (CShell m) = Shell_Validate m"
| "content_Validate mc (CTemplate m) = Template_Validate m"

text \<open>\<open>ops\<close> is what a nested task is run with.\<close>

fun content_Apply ::
  "('t, 'w) machine \<Rightarrow> (content, 'w) TaskContent \<Rightarrow> vars option \<Rightarrow> string \<Rightarrow> bool \<Rightarrow> content \<Rightarrow> 'w \<Rightarrow>
   Result \<times> goerr option \<times> 'w" where
  "content_Apply mc ops ctx pp role (CApt m) w =
     as_result (apt_entries mc) (Apt_Apply (mc_apt mc) m w)"
| "content_Apply mc ops ctx pp role (CAptRepository m) w =
     as_result (\<lambda>r. []) (AptRepository_Apply (mc_apt mc) (mc_parse_url mc) m w)"
| "content_Apply mc ops ctx pp role (CCommand m) w =
     as_result (command_entries mc) (Command_Apply (mc_host mc) m w)"
| "content_Apply mc ops ctx pp role (CCopy m) w =
     as_result (\<lambda>r. []) (Copy_Apply (mc_os mc) pp m w)"
| "content_Apply mc ops ctx pp role (CFile m) w =
     as_result file_entries (File_Apply (mc_os mc) (mc_db mc) m w)"
| "content_Apply mc ops ctx pp role (CGetURL m) w =
     as_result (\<lambda>r. []) (GetURL_Apply (mc_http mc) (mc_os mc) (mc_db mc) m w)"
| "content_Apply mc ops ctx pp role (CImportTasks m) w =
     as_result (\<lambda>r. []) (ImportTasks_Apply mc ops ctx pp role m w)"
| "content_Apply mc ops ctx pp role (CIncludeTasks m) w =
     as_result (\<lambda>r. []) (IncludeTasks_Apply mc ops ctx pp role m w)"
| "content_Apply mc ops ctx pp role (CShell m) w =
     as_result (shell_entries mc) (Shell_Apply (mc_host mc) m w)"
| "content_Apply mc ops ctx pp role (CTemplate m) w =
     as_result template_entries (Template_Apply (mc_template mc) (mc_os mc) (mc_db mc) ctx pp m w)"

definition content_ops ::
  "('t, 'w) machine \<Rightarrow> (vars option \<Rightarrow> string \<Rightarrow> bool \<Rightarrow> content \<Rightarrow> 'w \<Rightarrow> Result \<times> goerr option \<times> 'w) \<Rightarrow>
   (content, 'w) TaskContent" where
  "content_ops mc ap =
     \<lparr> tc_registered = (\<lambda>c. TypeRegistry registered (content_kind c) \<noteq> None),
       tc_render = content_render (mc_gonja mc), tc_Validate = content_Validate mc, tc_Apply = ap \<rparr>"

primrec module_ops :: "('t, 'w) machine \<Rightarrow> nat \<Rightarrow> (content, 'w) TaskContent" where
  "module_ops mc 0 = content_ops mc (\<lambda>ctx pp role c w. (plain_result, Some Diverge, w))"
| "module_ops mc (Suc n) = content_ops mc (content_Apply mc (module_ops mc n))"

section \<open>The executer with its modules\<close>

definition sophons ::
  "('t, 'w) machine \<Rightarrow> nat \<Rightarrow> (bytes \<Rightarrow> goerr + content Play list) \<Rightarrow> yaml_vars \<Rightarrow> (bytes \<Rightarrow> goerr + Inventory) \<Rightarrow>
   (bytes \<Rightarrow> goerr + entry list) \<Rightarrow> (content, 'w) exec_env" where
  "sophons mc levels yaml_playbook yaml_vars yaml_inventory untar =
     \<lparr> ee_os = mc_os mc, ee_gonja = mc_gonja mc, ee_ops = module_ops mc levels, ee_yaml_playbook = yaml_playbook,
       ee_yaml_vars = yaml_vars, ee_yaml_tasks = yaml_tasks mc, ee_yaml_inventory = yaml_inventory,
       ee_untar = untar \<rparr>"

end
