(* ===== verification/NestedTasks.thy ===== *)
theory NestedTasks
  imports Modules
begin

text \<open>
  Task files that name other task files: a big-step account of \<^verbatim>\<open>import_tasks\<close> and \<^verbatim>\<open>include_tasks\<close> without a bound on the
  nesting, and its agreement with the modules of \<open>Modules\<close>, which count levels.
\<close>

section \<open>Running out of levels\<close>

definition diverges :: "goerr option \<Rightarrow> bool" where
  "diverges err \<longleftrightarrow> (case err of None \<Rightarrow> False | Some e \<Rightarrow> unwrapped e = Diverge)"

lemma diverges_simps [simp]:
  "\<not> diverges None" "diverges (Some (Wrap m e)) = diverges (Some e)" "diverges (Some Diverge)"
  "diverges (Some (read_failed p e)) = diverges (Some e)" "diverges (Some (parse_failed p e)) = diverges (Some e)"
  "diverges (Some (apply_failed p e)) = diverges (Some e)"
  by (simp_all add: diverges_def read_failed_def parse_failed_def apply_failed_def)

text \<open>The file a content takes its tasks from.\<close>

fun task_file :: "content \<Rightarrow> string option" where
  "task_file (CImportTasks m) = Some (im_File m)"
| "task_file (CIncludeTasks m) = Some (in_File m)"
| "task_file c = None"

declare module_ops.simps [simp del]

lemma ops_fields [simp]:
  "tc_registered (module_ops mc n) = (\<lambda>c. TypeRegistry registered (content_kind c) \<noteq> None)"
  "tc_render (module_ops mc n) = content_render (mc_gonja mc)"
  "tc_Validate (module_ops mc n) = content_Validate mc"
  "tc_Apply (module_ops mc 0) ctx pp role c w = (plain_result, Some Diverge, w)"
  "tc_Apply (module_ops mc (Suc n)) = content_Apply mc (module_ops mc n)"
  by (cases n; simp add: module_ops.simps content_ops_def)+

lemma prepare_ops: "prepare_imported g (module_ops mc n) ctx p pt = prepare_imported g (module_ops mc 0) ctx p pt"
proof -
  have "FromProto (module_ops mc n) pt = FromProto (module_ops mc 0) pt"
    unfolding FromProto_def ops_fields(1) ..
  moreover have "render_task g (module_ops mc n) ctx t = render_task g (module_ops mc 0) ctx t"
    "Task_Validate (module_ops mc n) t = Task_Validate (module_ops mc 0) t" for t
    unfolding render_task_def render_content_def Task_Validate_def ops_fields(2,3) by (rule refl)+
  ultimately show ?thesis unfolding prepare_imported_def by presburger
qed

text \<open>A content that takes no tasks from a file is applied without regard to the nested modules.\<close>

lemma leaf_Apply: "task_file c = None \<Longrightarrow> content_Apply mc ops ctx pp role c w = content_Apply mc ops' ctx pp role c w"
  by (cases c) simp_all

lemma file_Apply:
  "task_file c = Some f \<Longrightarrow> content_Apply mc ops ctx pp role c w =
     (case run_task_file mc ops ctx pp role f w of (err, w') \<Rightarrow> (to_result [] CommonResult_zero, err, w'))"
  by (cases c) (auto simp: ImportTasks_Apply_def IncludeTasks_Apply_def as_result_def split: prod.split)

section \<open>Big steps\<close>

inductive nested ::
    "('t, 'w) machine \<Rightarrow> vars option \<Rightarrow> string \<Rightarrow> bool \<Rightarrow> content \<Rightarrow> 'w \<Rightarrow> Result \<times> goerr option \<times> 'w \<Rightarrow> bool"
  and nested_list ::
    "('t, 'w) machine \<Rightarrow> vars option \<Rightarrow> string \<Rightarrow> bool \<Rightarrow> string \<Rightarrow> content ProtoTask list \<Rightarrow> 'w \<Rightarrow> goerr option \<times> 'w \<Rightarrow> bool"
  for mc ctx pp role
where
  Leaf: "task_file c = None \<Longrightarrow> content_Apply mc (module_ops mc 0) ctx pp role c w = res \<Longrightarrow>
    nested mc ctx pp role c w res"
| Unread: "task_file c = Some f \<Longrightarrow> os_readFile (mc_os mc) (task_path pp role f) w = Inl e \<Longrightarrow>
    nested mc ctx pp role c w (to_result [] CommonResult_zero,
      Some (read_failed (task_path pp role f) (OsErr e)), w)"
| Unparsed: "task_file c = Some f \<Longrightarrow> os_readFile (mc_os mc) (task_path pp role f) w = Inr data \<Longrightarrow>
    yaml_tasks mc data = Inl err \<Longrightarrow>
    nested mc ctx pp role c w (to_result [] CommonResult_zero,
      Some (parse_failed (task_path pp role f) err), w)"
| Tasks: "task_file c = Some f \<Longrightarrow> os_readFile (mc_os mc) (task_path pp role f) w = Inr data \<Longrightarrow>
    yaml_tasks mc data = Inr pts \<Longrightarrow> nested_list mc ctx pp role (task_path pp role f) pts w (err, w') \<Longrightarrow>
    nested mc ctx pp role c w (to_result [] CommonResult_zero, err, w')"
| Done: "nested_list mc ctx pp role p [] w (None, w)"
| Unprepared: "prepare_imported (mc_gonja mc) (module_ops mc 0) ctx p pt = Inl e \<Longrightarrow>
    nested_list mc ctx pp role p (pt # pts) w (Some e, w)"
| NoContent: "prepare_imported (mc_gonja mc) (module_ops mc 0) ctx p pt = Inr t \<Longrightarrow> t_Content t = None \<Longrightarrow>
    nested_list mc ctx pp role p (pt # pts) w (Some (apply_failed p nil_deref), w)"
| Stop: "prepare_imported (mc_gonja mc) (module_ops mc 0) ctx p pt = Inr t \<Longrightarrow> t_Content t = Some c \<Longrightarrow>
    nested mc ctx pp role c w (r, Some e, w1) \<Longrightarrow>
    nested_list mc ctx pp role p (pt # pts) w (Some (apply_failed p e), w1)"
| Next: "prepare_imported (mc_gonja mc) (module_ops mc 0) ctx p pt = Inr t \<Longrightarrow> t_Content t = Some c \<Longrightarrow>
    nested mc ctx pp role c w (r, None, w1) \<Longrightarrow> nested_list mc ctx pp role p pts w1 (err, w2) \<Longrightarrow>
    nested_list mc ctx pp role p (pt # pts) w (err, w2)"

inductive_cases nested_listE: "nested_list mc ctx pp role p (pt # pts) w res"

section \<open>More levels change nothing once the run ends\<close>

lemma imported_mono:
  assumes ap: "\<And>c w r err w'. tc_Apply (module_ops mc n) ctx pp role c w = (r, err, w') \<Longrightarrow> \<not> diverges err \<Longrightarrow>
      tc_Apply (module_ops mc m) ctx pp role c w = (r, err, w')"
    and "apply_imported (mc_gonja mc) (module_ops mc n) ctx pp role p pts w = (err, w')" and "\<not> diverges err"
  shows "apply_imported (mc_gonja mc) (module_ops mc m) ctx pp role p pts w = (err, w')"
  using assms(2,3)
proof (induction pts arbitrary: w)
  case Nil
  then show ?case by simp
next
  case (Cons pt pts)
  note prep = prepare_ops [of _ mc n] prepare_ops [of _ mc m]
  show ?case
  proof (cases "prepare_imported (mc_gonja mc) (module_ops mc 0) ctx p pt")
    case (Inl e)
    with Cons.prems show ?thesis by (simp add: prep)
  next
    case (Inr t)
    show ?thesis
    proof (cases "t_Content t")
      case None
      with Inr Cons.prems show ?thesis by (simp add: prep Task_Apply_def)
    next
      case (Some c)
      obtain r e w1 where run: "tc_Apply (module_ops mc n) ctx pp role c w = (r, e, w1)" by (metis prod_cases3)
      have "\<not> diverges e" using Cons.prems Inr Some run by (cases e) (auto simp: prep Task_Apply_def)
      from ap [OF run this] show ?thesis
        using Cons Inr Some run by (cases e) (auto simp: prep Task_Apply_def)
    qed
  qed
qed

lemma ops_mono:
  "tc_Apply (module_ops mc n) ctx pp role c w = (r, err, w') \<Longrightarrow> \<not> diverges err \<Longrightarrow> n \<le> m \<Longrightarrow>
   tc_Apply (module_ops mc m) ctx pp role c w = (r, err, w')"
proof (induction n arbitrary: c w r err w' m)
  case 0
  then show ?case by auto
next
  case (Suc n)
  then obtain m' where m: "m = Suc m'" "n \<le> m'" by (cases m) auto
  show ?case
  proof (cases "task_file c")
    case None
    with Suc.prems leaf_Apply [OF None, of mc "module_ops mc n" ctx pp role w "module_ops mc m'"] m show ?thesis by simp
  next
    case (Some f)
    have ap: "tc_Apply (module_ops mc m') ctx pp role c w = (r, err, w')"
      if "tc_Apply (module_ops mc n) ctx pp role c w = (r, err, w')" "\<not> diverges err" for c w r err w'
      using Suc.IH [OF that m(2)] .
    show ?thesis
      using Suc.prems Some m imported_mono [OF ap]
      by (auto simp: file_Apply run_task_file_def Let_def split: prod.splits sum.splits)
  qed
qed

section \<open>Counting levels is the big-step account\<close>

lemma imported_nested:
  assumes ap: "\<And>c w r err w'. tc_Apply (module_ops mc n) ctx pp role c w = (r, err, w') \<Longrightarrow> \<not> diverges err \<Longrightarrow>
      nested mc ctx pp role c w (r, err, w')"
    and "apply_imported (mc_gonja mc) (module_ops mc n) ctx pp role p pts w = (err, w')" and "\<not> diverges err"
  shows "nested_list mc ctx pp role p pts w (err, w')"
  using assms(2,3)
proof (induction pts arbitrary: w)
  case Nil
  then show ?case by (auto intro: nested_nested_list.intros)
next
  case (Cons pt pts)
  note prep = prepare_ops [of _ mc n]
  show ?case
  proof (cases "prepare_imported (mc_gonja mc) (module_ops mc 0) ctx p pt")
    case (Inl e)
    with Cons.prems show ?thesis by (auto simp: prep intro: Unprepared)
  next
    case (Inr t)
    show ?thesis
    proof (cases "t_Content t")
      case None
      with Inr Cons.prems show ?thesis by (auto simp: prep Task_Apply_def intro: NoContent)
    next
      case (Some c)
      obtain r e w1 where run: "tc_Apply (module_ops mc n) ctx pp role c w = (r, e, w1)" by (metis prod_cases3)
      have "\<not> diverges e" using Cons.prems Inr Some run by (cases e) (auto simp: prep Task_Apply_def)
      from ap [OF run this] Cons Inr Some run show ?thesis
        by (cases e) (auto simp: prep Task_Apply_def intro: Stop Next)
    qed
  qed
qed

lemma levels_nested:
  "tc_Apply (module_ops mc n) ctx pp role c w = (r, err, w') \<Longrightarrow> \<not> diverges err \<Longrightarrow>
   nested mc ctx pp role c w (r, err, w')"
proof (induction n arbitrary: c w r err w')
  case 0
  then show ?case by auto
next
  case (Suc n)
  show ?case
  proof (cases "task_file c")
    case None
    with Suc.prems leaf_Apply [OF None, of mc "module_ops mc n" ctx pp role w "module_ops mc 0"]
    show ?thesis by (simp add: Leaf)
  next
    case (Some f)
    then show ?thesis using Suc.prems imported_nested [OF Suc.IH]
      by (auto simp: file_Apply run_task_file_def Let_def intro: Unread Unparsed Tasks split: prod.splits sum.splits)
  qed
qed

lemma nested_levels:
  "nested mc ctx pp role c w res \<Longrightarrow> \<exists>n. \<forall>m\<ge>n. tc_Apply (module_ops mc m) ctx pp role c w = res"
  "nested_list mc ctx pp role p pts w lres \<Longrightarrow>
   \<exists>n. \<forall>m\<ge>n. apply_imported (mc_gonja mc) (module_ops mc m) ctx pp role p pts w = lres"
proof (induction rule: nested_nested_list.inducts)
  case (Leaf c w res)
  have "tc_Apply (module_ops mc m) ctx pp role c w = res" if "1 \<le> m" for m
    using that Leaf leaf_Apply [OF Leaf(1)] by (cases m) auto
  then show ?case by blast
next
  case (Unread c f w e)
  have "tc_Apply (module_ops mc m) ctx pp role c w = (to_result [] CommonResult_zero,
      Some (read_failed (task_path pp role f) (OsErr e)), w)" if "1 \<le> m" for m
    using that Unread by (cases m) (auto simp: file_Apply run_task_file_def Let_def)
  then show ?case by blast
next
  case (Unparsed c f w data err)
  have "tc_Apply (module_ops mc m) ctx pp role c w = (to_result [] CommonResult_zero,
      Some (parse_failed (task_path pp role f) err), w)" if "1 \<le> m" for m
    using that Unparsed by (cases m) (auto simp: file_Apply run_task_file_def Let_def)
  then show ?case by blast
next
  case (Tasks c f w data pts err w')
  then obtain n where n: "\<And>m. n \<le> m \<Longrightarrow>
      apply_imported (mc_gonja mc) (module_ops mc m) ctx pp role (task_path pp role f) pts w = (err, w')" by blast
  have "tc_Apply (module_ops mc m) ctx pp role c w = (to_result [] CommonResult_zero, err, w')" if "Suc n \<le> m" for m
    using that Tasks n by (cases m) (auto simp: file_Apply run_task_file_def Let_def)
  then show ?case by blast
next
  case (Stop p pt t c w r e w1 pts)
  then obtain n where n: "\<And>m. n \<le> m \<Longrightarrow> tc_Apply (module_ops mc m) ctx pp role c w = (r, Some e, w1)" by blast
  have "apply_imported (mc_gonja mc) (module_ops mc m) ctx pp role p (pt # pts) w =
      (Some (apply_failed p e), w1)" if "n \<le> m" for m
    using Stop n [OF that] by (simp add: prepare_ops [of _ mc m] Task_Apply_def)
  then show ?case by blast
next
  case (Next p pt t c w r w1 pts err w2)
  then obtain n1 n2 where n: "\<And>m. n1 \<le> m \<Longrightarrow> tc_Apply (module_ops mc m) ctx pp role c w = (r, None, w1)"
    "\<And>m. n2 \<le> m \<Longrightarrow> apply_imported (mc_gonja mc) (module_ops mc m) ctx pp role p pts w1 = (err, w2)" by blast
  have "apply_imported (mc_gonja mc) (module_ops mc m) ctx pp role p (pt # pts) w = (err, w2)"
    if "max n1 n2 \<le> m" for m
    using Next n [of m] that by (simp add: prepare_ops [of _ mc m] Task_Apply_def)
  then show ?case by blast
next
  case (Done p w)
  then show ?case by simp
next
  case (Unprepared p pt e pts w)
  have "apply_imported (mc_gonja mc) (module_ops mc m) ctx pp role p (pt # pts) w = (Some e, w)" for m
    using Unprepared by (simp add: prepare_ops [of _ mc m])
  then show ?case by blast
next
  case (NoContent p pt t pts w)
  have "apply_imported (mc_gonja mc) (module_ops mc m) ctx pp role p (pt # pts) w = (Some (apply_failed p nil_deref), w)"
    for m using NoContent by (simp add: prepare_ops [of _ mc m] Task_Apply_def)
  then show ?case by blast
qed

end
