(* ===== verification/ModulesProps.thy ===== *)
theory ModulesProps
  imports NestedTasks AptProps CommandProps TransferProps
begin

text \<open>
  The modules together: the registry, what decoding and rendering keep of a task, and task files that name task files.
\<close>

section \<open>The registry\<close>

text \<open>The name a module has in a playbook, with and without the prefix of its collection.\<close>

fun ansible_name :: "module_kind \<Rightarrow> string" where
  "ansible_name ModApt = ''apt''" | "ansible_name ModAptRepository = ''apt_repository''"
| "ansible_name ModCommand = ''command''" | "ansible_name ModCopy = ''copy''" | "ansible_name ModFile = ''file''"
| "ansible_name ModGetURL = ''get_url''" | "ansible_name ModImportTasks = ''import_tasks''"
| "ansible_name ModIncludeTasks = ''include_tasks''" | "ansible_name ModShell = ''shell''"
| "ansible_name ModTemplate = ''template''"

definition names_module :: "string \<Rightarrow> module_kind \<Rightarrow> bool" where
  "names_module s k \<longleftrightarrow> s = ansible_name k \<or> s = ''ansible.builtin.'' @ ansible_name k"

lemma init_module_name: "init_module k = register_both (ansible_name k) k"
  by (cases k) (simp_all add: init_defs)

lemma names_module_unique: "names_module s k \<Longrightarrow> names_module s l \<Longrightarrow> k = l"
  by (cases k; cases l) (auto simp: names_module_def)

lemma register_both_fields:
  "NameRegistry (register_both (ansible_name k) k s) x = (if names_module x k then Some (registration k) else NameRegistry s x)"
  "TypeRegistry (register_both (ansible_name k) k s) l = (if l = k then Some (registration k) else TypeRegistry s l)"
  by (auto simp: register_both_def Register_def Let_def names_module_def)

lemma registries_eqI:
  fixes r s :: registries
  shows "(\<And>x. NameRegistry r x = NameRegistry s x) \<Longrightarrow> (\<And>k. TypeRegistry r k = TypeRegistry s k) \<Longrightarrow> r = s"
  by (simp add: fun_eq_iff)

lemma fold_init:
  "NameRegistry (fold init_module ks s) x =
     (if \<exists>k\<in>set ks. names_module x k then Some (registration (THE k. names_module x k)) else NameRegistry s x)"
  "TypeRegistry (fold init_module ks s) l = (if l \<in> set ks then Some (registration l) else TypeRegistry s l)"
proof -
  have the: "(THE k. names_module x k) = k" if "names_module x k" for x k
    using that names_module_unique by (intro the_equality) auto
  show "NameRegistry (fold init_module ks s) x =
     (if \<exists>k\<in>set ks. names_module x k then Some (registration (THE k. names_module x k)) else NameRegistry s x)"
    by (induction ks arbitrary: s) (auto simp: init_module_name register_both_fields the)
  show "TypeRegistry (fold init_module ks s) l = (if l \<in> set ks then Some (registration l) else TypeRegistry s l)"
    by (induction ks arbitrary: s) (auto simp: init_module_name register_both_fields)
qed

lemma fold_init_set: "set ks = set ls \<Longrightarrow> fold init_module ks s = fold init_module ls s"
  by (rule registries_eqI) (simp_all add: fold_init)

lemma kind_in_enum: "k \<in> set (enum_class.enum :: module_kind list)"
  by (cases k) (simp_all add: enum_module_kind_def)

lemma registered_type [simp]: "TypeRegistry registered k = Some (registration k)"
  by (simp add: registered_def fold_init kind_in_enum)

lemma registered_name: "NameRegistry registered x = Some reg \<longleftrightarrow> (\<exists>k. names_module x k \<and> reg = registration k)"
proof -
  have the: "(THE k. names_module x k) = k" if "names_module x k" for k
    using that names_module_unique by (intro the_equality) auto
  have "NameRegistry registered x = Some reg \<longleftrightarrow>
      (\<exists>k. names_module x k) \<and> reg = registration (THE k. names_module x k)"
    by (auto simp: registered_def fold_init no_registries_def kind_in_enum)
  with the show ?thesis by metis
qed

text \<open>
  C37. The registry does not depend on the order in which Go runs the \<^verbatim>\<open>init\<close> functions: any order, with any
  repetitions, gives the same two maps. A name is known exactly when it is the name of a module, plain or with the
  prefix of the collection, and it then leads to the registration of that module, and so does the type of its content.
\<close>

theorem registry_of_any_order:
  assumes "set order = set enum_class.enum"
  shows "fold init_module order no_registries = registered \<and>
    (NameRegistry registered x = Some reg \<longleftrightarrow> (\<exists>k. names_module x k \<and> reg = registration k)) \<and>
    TypeRegistry registered k = Some (registration k)"
  using fold_init_set [OF assms] registered_name by (simp add: registered_def [symmetric])

theorem registry_of_any_order_witness:
  "fold init_module (rev enum_class.enum) no_registries = registered"
  using registry_of_any_order [of "rev enum_class.enum"] by simp

section \<open>Decoding a task\<close>

lemma decode_kind: "decode_message y k b = Inr c \<Longrightarrow> content_kind c = k"
  by (cases k) (auto simp: map_sum_Inr_iff)

lemma task_content_Inr:
  "task_content registered y raw = Inr oc \<Longrightarrow>
     (case oc of
        None \<Rightarrow> \<forall>(x, b)\<in>set raw. \<forall>k. \<not> names_module x k
      | Some c \<Rightarrow> \<exists>x b. (x, b) \<in> set raw \<and> names_module x (content_kind c) \<and> decode_message y (content_kind c) b = Inr c)"
proof (induction raw)
  case Nil
  then show ?case by auto
next
  case (Cons p raw)
  obtain x b where p: "p = (x, b)" by fastforce
  show ?case
  proof (cases "NameRegistry registered x")
    case None
    then have "\<not> names_module x k" for k using registered_name [of x "registration k"] by auto
    moreover have "task_content registered y raw = Inr oc" using Cons.prems p None by simp
    note Cons.IH [OF this]
    ultimately show ?thesis using p by (auto split: option.splits)
  next
    case (Some reg)
    then obtain k where k: "names_module x k" "reg = registration k" by (auto simp: registered_name)
    from Cons.prems p Some k(2) obtain c where c: "decode_message y k b = Inr c" "oc = Some c"
      by (auto simp: registration_def split: sum.splits if_splits)
    with decode_kind [OF c(1)] k(1) p show ?thesis by auto
  qed
qed

lemma unmarshal_list:
  "fold_err (\<lambda>out task. map_sum id (\<lambda>t. out @ [t]) (f task)) acc raw = Inr ts \<Longrightarrow>
     \<exists>ts'. ts = acc @ ts' \<and> list_all2 (\<lambda>task t. f task = Inr t) raw ts'"
proof (induction raw arbitrary: acc)
  case Nil
  then show ?case by simp
next
  case (Cons task raw)
  show ?case
  proof (cases "f task")
    case (Inl e)
    with Cons.prems show ?thesis by simp
  next
    case (Inr t)
    with Cons.prems have "fold_err (\<lambda>out task. map_sum id (\<lambda>t. out @ [t]) (f task)) (acc @ [t]) raw = Inr ts"
      by (simp add: id_def)
    from Cons.IH [OF this] Inr show ?thesis by (auto intro: exI [of _ "t # _"])
  qed
qed

text \<open>What a decoded task looks like: its content is that of one of its keys, decoded as the module the key names.\<close>

definition decoded_as :: "yaml_env \<Rightarrow> raw_task \<Rightarrow> content ProtoTask \<Rightarrow> bool" where
  "decoded_as y task pt \<longleftrightarrow>
     p_Name pt = ut_Name task \<and> p_When pt = ut_When task \<and> p_Register pt = ut_Register task \<and>
     p_Loop pt = map_option NewValue (ut_Loop task) \<and>
     (\<exists>c x b. p_Content pt = Some c \<and> (x, b) \<in> set (ut_RawContent task) \<and> names_module x (content_kind c) \<and>
        decode_message y (content_kind c) b = Inr c)"

lemma unmarshal_decoded: "unmarshal_task registered y task = Inr pt \<Longrightarrow> decoded_as y task pt"
  using task_content_Inr [of y "ut_RawContent task"]
  by (fastforce simp: unmarshal_task_def decoded_as_def split: sum.splits option.splits)

text \<open>
  C24. A task file that decodes gives one task for each of its entries, in order. Each has the name, the condition and
  the registered name of its entry and the content of one of its keys, decoded as the module that key names; and the
  engine takes every one of them: the conversion succeeds and the content is never nil.
\<close>

theorem decoded_tasks_convert:
  assumes "tasksUnmarshalYAML registered y b = Inr pts"
  shows "\<exists>raw. y_raw y b = Inr raw \<and>
    list_all2 (\<lambda>task pt. decoded_as y task pt \<and>
      (\<exists>t. FromProto (module_ops mc n) pt = Inr t \<and> t_Content t = p_Content pt \<and> t_Content t \<noteq> None)) raw pts"
proof -
  obtain raw where raw: "y_raw y b = Inr raw"
    "fold_err (\<lambda>out task. map_sum id (\<lambda>t. out @ [t]) (unmarshal_task registered y task)) [] raw = Inr pts"
    using assms by (auto simp: tasksUnmarshalYAML_def split: sum.splits)
  have "list_all2 (\<lambda>task pt. unmarshal_task registered y task = Inr pt) raw pts"
    using unmarshal_list [OF raw(2)] by simp
  moreover have "decoded_as y task pt \<and>
      (\<exists>t. FromProto (module_ops mc n) pt = Inr t \<and> t_Content t = p_Content pt \<and> t_Content t \<noteq> None)"
    if "unmarshal_task registered y task = Inr pt" for task pt
    using unmarshal_decoded [OF that] by (auto simp: decoded_as_def FromProto_def)
  ultimately have "list_all2 (\<lambda>task pt. decoded_as y task pt \<and>
      (\<exists>t. FromProto (module_ops mc n) pt = Inr t \<and> t_Content t = p_Content pt \<and> t_Content t \<noteq> None)) raw pts"
    by (rule list_all2_mono)
  with raw(1) show ?thesis by blast
qed

section \<open>Rendering\<close>

lemma message_fields_shape:
  assumes "same_shape (exec_struct n fs) x"
  shows "\<exists>gs. message_fields x = gs \<and> list_all2 same_shape fs gs"
proof -
  from assms obtain ys where "x = RPtr (Some (RStruct ys))"
    "list_all2 same_shape (RPtr (Some (message fs)) # replicate n RHidden) ys"
    by (auto simp: exec_struct_def)
  then obtain y zs where x: "x = RPtr (Some (RStruct (y # zs)))" "same_shape (RPtr (Some (message fs))) y"
    by (cases ys) auto
  then obtain gs where "y = RPtr (Some (RStruct gs))" "list_all2 same_shape (RHidden # fs @ [RHidden, RHidden]) gs"
    by (auto simp: message_def)
  then obtain a hs b c where "y = RPtr (Some (RStruct (a # hs @ [b, c])))" "list_all2 same_shape fs hs"
    by (auto simp: list_all2_Cons1 list_all2_append1)
  with x show ?thesis by (simp add: message_fields_def butlast_append)
qed

lemma message_fields_struct [simp]: "message_fields (exec_struct n fs) = fs"
  by (simp add: message_fields_def exec_struct_def message_def butlast_append)

lemma read_as_shape:
  assumes "keeps_shape r r" and "r fs = Some (a, fs')" and "same_shape (exec_struct n fs) x"
  shows "\<exists>b. read_as f r x = Some (f b)"
proof -
  obtain gs where gs: "message_fields x = gs" "list_all2 same_shape fs gs"
    using message_fields_shape [OF assms(3)] by blast
  from assms(1) [unfolded keeps_shape_def, rule_format, OF gs(2)] assms(2) gs(1)
  show ?thesis by (auto simp: read_as_def)
qed

lemmas reader_shapes =
  read_as_shape [OF apt_of_shape apt_of_fields] read_as_shape [OF apt_repository_of_shape apt_repository_of_fields]
  read_as_shape [OF command_of_shape command_of_fields] read_as_shape [OF copy_of_shape copy_of_fields]
  read_as_shape [OF file_of_shape file_of_fields] read_as_shape [OF get_url_of_shape get_url_of_fields]
  read_as_shape [OF import_tasks_of_shape import_tasks_of_fields]
  read_as_shape [OF include_tasks_of_shape include_tasks_of_fields]
  read_as_shape [OF shell_of_shape shell_of_fields] read_as_shape [OF template_of_shape template_of_fields]

text \<open>What a value of the shape of a content reads back to: a content of the same module.\<close>

lemma content_of_shape:
  assumes "same_shape (content_value c) x"
  shows "\<exists>c'. content_of (content_kind c) x = Some c' \<and> content_kind c' = content_kind c"
proof -
  have kind: "\<exists>c'. read_as f r y = Some c' \<and> content_kind c' = k"
    if "\<exists>b. read_as f r y = Some (f b)" "\<And>b. content_kind (f b) = k" for f r y k
    using that by auto
  show ?thesis using assms by (cases c) (auto intro!: kind dest: reader_shapes)
qed

lemma content_of_value: "content_of (content_kind c) (content_value c) = Some c"
  by (cases c) (simp_all add: read_as_def apt_of_fields apt_repository_of_fields command_of_fields copy_of_fields
      file_of_fields get_url_of_fields import_tasks_of_fields include_tasks_of_fields shell_of_fields template_of_fields)

text \<open>
  C25. Rendering is type safe. For a content of any module, the reflective walk over its struct either fails with the error
  of the template engine, or gives a struct that is again a message of that module, with every string and every list
  of strings in its place: no assignment of a value of the wrong type is ever tried.
\<close>

theorem rendering_keeps_type:
  "case content_render g v c of
     Inl e \<Rightarrow> render_value g v (content_value c) = Inl e
   | Inr c' \<Rightarrow> content_kind c' = content_kind c \<and>
       (\<exists>x. render_value g v (content_value c) = Inr x \<and> same_shape (content_value c) x \<and>
          content_of (content_kind c) x = Some c')"
proof (cases "render_value g v (content_value c)")
  case (Inl e)
  then show ?thesis by (simp add: content_render_def)
next
  case (Inr x)
  note shape = render_same_shape(1) [OF Inr]
  from content_of_shape [OF shape] Inr shape show ?thesis by (auto simp: content_render_def)
qed

end
