(* ===== verification/NestedProps.thy ===== *)
theory NestedProps
  imports ModulesProps
begin

text \<open>
  Task files that name task files: the levels of \<open>Modules\<close> against the unbounded account of \<open>NestedTasks\<close>, when a run
  ends and when it cannot, and what is ignored of an imported task. The examples run on the in-memory file system.
\<close>

section \<open>Levels and big steps\<close>

text \<open>
  C14. Counting levels is adequate. That a task file ends with some result other than using up its levels is the same
  for the unbounded account, for some number of levels, and for every number from some point on; so which number is
  chosen only decides whether the answer is found, never which answer it is.
\<close>

theorem nesting_adequate:
  "(\<not> diverges err \<and> nested mc ctx pp role c w (r, err, w') \<longleftrightarrow>
      \<not> diverges err \<and> (\<exists>n. tc_Apply (module_ops mc n) ctx pp role c w = (r, err, w'))) \<and>
   (\<not> diverges err \<and> nested mc ctx pp role c w (r, err, w') \<longleftrightarrow>
      \<not> diverges err \<and> (\<exists>n. \<forall>k. tc_Apply (module_ops mc (n + k)) ctx pp role c w = (r, err, w')))"
proof -
  let ?ap = "\<lambda>n. tc_Apply (module_ops mc n) ctx pp role c w = (r, err, w')"
  have "nested mc ctx pp role c w (r, err, w')" if "?ap n" "\<not> diverges err" for n
    using levels_nested [OF that] .
  moreover have "\<exists>n. \<forall>k. ?ap (n + k)" if "nested mc ctx pp role c w (r, err, w')"
    using nested_levels(1) [OF that] le_add1 by blast
  moreover have "\<exists>n. ?ap n" if "\<exists>n. \<forall>k. ?ap (n + k)" using that by blast
  ultimately show ?thesis by blast
qed

section \<open>Runs that end\<close>

text \<open>A content that some task of a file has, in one of the worlds \<open>W\<close>, once it is rendered and validated.\<close>

definition task_in ::
  "('t, 'w) machine \<Rightarrow> vars option \<Rightarrow> string \<Rightarrow> bool \<Rightarrow> 'w set \<Rightarrow> string \<Rightarrow> content \<Rightarrow> bool" where
  "task_in mc ctx pp role W f c \<longleftrightarrow>
     (\<exists>w\<in>W. \<exists>data pts pt t. os_readFile (mc_os mc) (task_path pp role f) w = Inr data \<and> yaml_tasks mc data = Inr pts \<and>
        pt \<in> set pts \<and> prepare_imported (mc_gonja mc) (module_ops mc 0) ctx (task_path pp role f) pt = Inr t \<and>
        t_Content t = Some c)"

text \<open>A module that takes no tasks from a file stays within \<open>W\<close>.\<close>

definition stays :: "('t, 'w) machine \<Rightarrow> vars option \<Rightarrow> string \<Rightarrow> bool \<Rightarrow> 'w set \<Rightarrow> content \<Rightarrow> bool" where
  "stays mc ctx pp role W c \<longleftrightarrow> (\<forall>w\<in>W. snd (snd (content_Apply mc (module_ops mc 0) ctx pp role c w)) \<in> W)"

lemma nested_list_ends:
  assumes "\<And>pt t c w. pt \<in> set pts \<Longrightarrow> prepare_imported (mc_gonja mc) (module_ops mc 0) ctx p pt = Inr t \<Longrightarrow>
      t_Content t = Some c \<Longrightarrow> w \<in> W \<Longrightarrow> \<exists>r err w'. nested mc ctx pp role c w (r, err, w') \<and> w' \<in> W"
    and "w \<in> W"
  shows "\<exists>err w'. nested_list mc ctx pp role p pts w (err, w') \<and> w' \<in> W"
  using assms
proof (induction pts arbitrary: w)
  case Nil
  from nested_nested_list.Done [of mc ctx pp role p w] Nil(2) show ?case by blast
next
  case (Cons pt pts)
  show ?case
  proof (cases "prepare_imported (mc_gonja mc) (module_ops mc 0) ctx p pt")
    case (Inl e)
    from Unprepared [OF Inl] Cons.prems(2) show ?thesis by blast
  next
    case (Inr t)
    show ?thesis
    proof (cases "t_Content t")
      case None
      from NoContent [OF Inr None] Cons.prems(2) show ?thesis by blast
    next
      case (Some c)
      from Cons.prems(1) [OF _ Inr Some Cons.prems(2)] obtain r err w1
        where one: "nested mc ctx pp role c w (r, err, w1)" "w1 \<in> W" by auto
      show ?thesis
      proof (cases err)
        case None
        have "\<exists>err w'. nested_list mc ctx pp role p pts w1 (err, w') \<and> w' \<in> W"
          by (rule Cons.IH [OF _ one(2)]) (rule Cons.prems(1), auto)
        with Next [OF Inr Some] one(1) None show ?thesis by blast
      next
        case (Some e)
        with Stop [OF Inr \<open>t_Content t = Some c\<close>] one show ?thesis by blast
      qed
    qed
  qed
qed

text \<open>The files \<open>F\<close> import only files of \<open>F\<close> of a lower rank, and their other tasks stay within \<open>W\<close>.\<close>

definition descends ::
  "('t, 'w) machine \<Rightarrow> vars option \<Rightarrow> string \<Rightarrow> bool \<Rightarrow> 'w set \<Rightarrow> string set \<Rightarrow> (string \<Rightarrow> nat) \<Rightarrow> bool" where
  "descends mc ctx pp role W F rank \<longleftrightarrow>
     (\<forall>f\<in>F. \<forall>c. task_in mc ctx pp role W f c \<longrightarrow>
        (case task_file c of Some g \<Rightarrow> g \<in> F \<and> rank g < rank f | None \<Rightarrow> stays mc ctx pp role W c))"

lemma ranked_ends:
  assumes "descends mc ctx pp role W F rank"
  shows "task_file c = Some f \<Longrightarrow> f \<in> F \<Longrightarrow> w \<in> W \<Longrightarrow> \<exists>r err w'. nested mc ctx pp role c w (r, err, w') \<and> w' \<in> W"
proof (induction "rank f" arbitrary: c f w rule: less_induct)
  case less
  note f = less.prems(1) and F = less.prems(2) and W = less.prems(3)
  show ?case
  proof (cases "os_readFile (mc_os mc) (task_path pp role f) w")
    case (Inl e)
    from Unread [OF f Inl] W show ?thesis by blast
  next
    case (Inr data)
    note data = Inr
    show ?thesis
    proof (cases "yaml_tasks mc data")
      case (Inl e)
      from Unparsed [OF f data Inl] W show ?thesis by blast
    next
      case (Inr pts)
      have "\<exists>r err w'. nested mc ctx pp role c' v (r, err, w') \<and> w' \<in> W"
        if "pt \<in> set pts" "prepare_imported (mc_gonja mc) (module_ops mc 0) ctx (task_path pp role f) pt = Inr t"
          "t_Content t = Some c'" "v \<in> W" for pt t c' v
      proof -
        have c': "task_in mc ctx pp role W f c'" using that data Inr W unfolding task_in_def by blast
        show ?thesis
        proof (cases "task_file c'")
          case None
          with assms F c' have stays: "stays mc ctx pp role W c'" by (force simp: descends_def)
          obtain res where run: "content_Apply mc (module_ops mc 0) ctx pp role c' v = res" by blast
          from stays run that(4) have "snd (snd res) \<in> W" by (auto simp: stays_def)
          with Leaf [OF None run] show ?thesis by (metis prod.collapse)
        next
          case (Some g)
          from assms F c' Some have "g \<in> F" "rank g < rank f" by (force simp: descends_def)+
          with less.hyps [of g c' v] Some that(4) show ?thesis by blast
        qed
      qed
      then have "\<exists>err w'. nested_list mc ctx pp role (task_path pp role f) pts w (err, w') \<and> w' \<in> W"
        by (rule nested_list_ends [OF _ W])
      with Tasks [OF f data Inr, of ctx] show ?thesis by blast
    qed
  qed
qed

text \<open>
  C15. Task files end when they do not go round in circles: if the files a run can reach have ranks that every import
  lowers, and the other modules keep to the worlds for which that is so, then importing or including a file ends, with
  the same result for every number of levels from some point on.
\<close>

theorem acyclic_imports_end:
  assumes "descends mc ctx pp role W F rank" and "task_file c = Some f" "f \<in> F" "w \<in> W"
  shows "\<exists>n r err w'. w' \<in> W \<and> (\<forall>k. tc_Apply (module_ops mc (n + k)) ctx pp role c w = (r, err, w'))"
proof -
  obtain r err w' where "nested mc ctx pp role c w (r, err, w')" "w' \<in> W"
    using ranked_ends [OF assms] by blast
  with nested_levels(1) le_add1 show ?thesis by meson
qed

section \<open>A run that does not end\<close>

text \<open>
  A task file whose first task imports or includes the file itself never ends: no result is reached in the unbounded
  account, and every number of levels is used up with nothing done (the Go program recurses until its stack is
  exhausted). Nothing in the program looks for such a cycle.
\<close>

theorem self_import_never_ends:
  assumes "os_readFile (mc_os mc) (task_path pp role f) w = Inr data" and "yaml_tasks mc data = Inr (pt # pts)"
    and "prepare_imported (mc_gonja mc) (module_ops mc 0) ctx (task_path pp role f) pt = Inr t"
    and "t_Content t = Some c" and "task_file c = Some f"
  shows "(\<forall>n. \<exists>r e. tc_Apply (module_ops mc n) ctx pp role c w = (r, Some e, w) \<and> diverges (Some e)) \<and>
    (\<forall>r err w'. nested mc ctx pp role c w (r, err, w') \<longrightarrow> diverges err)"
proof -
  have levels: "\<exists>r e. tc_Apply (module_ops mc n) ctx pp role c w = (r, Some e, w) \<and> diverges (Some e)" for n
  proof (induction n)
    case 0
    then show ?case by simp
  next
    case (Suc n)
    then obtain r e where run: "tc_Apply (module_ops mc n) ctx pp role c w = (r, Some e, w)" "diverges (Some e)" by blast
    with assms show ?case
      by (simp add: file_Apply run_task_file_def Let_def prepare_ops [of _ mc n] Task_Apply_def)
  qed
  moreover have "diverges err" if nested: "nested mc ctx pp role c w (r, err, w')" for r err w'
  proof -
    obtain n where "tc_Apply (module_ops mc n) ctx pp role c w = (r, err, w')" using nested_levels(1) [OF nested] by blast
    with levels [of n] show ?thesis by auto
  qed
  ultimately show ?thesis by blast
qed

section \<open>What is ignored of an imported task\<close>

lemma prepared_content:
  assumes "prepare_imported g ops ctx p pt = Inr t"
  shows "render_content ops (context_vars ctx) (p_Content pt) = Inr (t_Content t)"
proof -
  obtain task where task: "FromProto ops pt = Inr task" "render_task g ops ctx task = Inr t"
    using assms by (auto simp: prepare_imported_def split: sum.splits option.splits)
  have "t_Content task = p_Content pt"
    using task(1) by (auto simp: FromProto_def Let_def split: option.splits if_splits)
  with task(2) show ?thesis by (auto simp: render_task_def Let_def and_then_Inr_iff)
qed

text \<open>
  The condition, the loop and the registered name of an imported task are ignored: two tasks that differ only in
  them, and that both render and validate, do exactly the same, and so do the tasks after them. In particular a task
  whose \<^verbatim>\<open>when\<close> is false is applied.
\<close>

theorem imported_tasks_ignore_control:
  assumes "prepare_imported g ops ctx p pt = Inr t"
    and "prepare_imported g ops ctx p (pt\<lparr>p_When := cond, p_Loop := loop, p_Register := name\<rparr>) = Inr t'"
  shows "apply_imported g ops ctx pp role p (pt\<lparr>p_When := cond, p_Loop := loop, p_Register := name\<rparr> # pts) w =
    apply_imported g ops ctx pp role p (pt # pts) w"
proof -
  have "t_Content t = t_Content t'"
    using prepared_content [OF assms(1)] prepared_content [OF assms(2)] by simp
  with assms show ?thesis by (simp add: Task_Apply_def)
qed

section \<open>Examples\<close>

text \<open>
  A machine on the in-memory file system. In its format of task files a file holds the name of the file to
  import, or is empty, or holds a text with a slash, which is the path of a directory to create, or one with a blank,
  which is a command.
\<close>

definition quiet_apt :: "'w apt_env" where
  "quiet_apt =
     \<lparr> ae_client = \<lparr> ac_CheckForUpdates = (\<lambda>w. (None, w)), ac_Clean = (\<lambda>w. (None, w)), ac_DistUpgrade = (\<lambda>w. (None, w)),
         ac_Install = (\<lambda>ps w. (None, w)), ac_ListInstalled = (\<lambda>w. Inr []), ac_Remove = (\<lambda>ps w. (None, w)),
         ac_UpgradeAll = (\<lambda>w. (None, w)), ac_ParseAPTConfigFolder = (\<lambda>p w. Inr []), ac_ParseAPTConfigLine = (\<lambda>l. None),
         ac_AddRepository = (\<lambda>r p f w. (None, w)), ac_RemoveRepository = (\<lambda>r p w. (None, w)), ac_Find = (\<lambda>rs r. None) \<rparr>,
       ae_lists = (\<lambda>w. Inl ENOENT), ae_now = (\<lambda>w. 0) \<rparr>"

definition quiet_host :: "'w host" where
  "quiet_host = \<lparr> h_glob = (\<lambda>p w. Inr []), h_run = (\<lambda>c w. (([], [], None), w)), h_getenv = (\<lambda>v. []), h_now = (\<lambda>w. 0) \<rparr>"

definition toy_raw :: "bytes \<Rightarrow> raw_task list" where
  "toy_raw b =
     (if b = [] then []
      else [\<lparr> ut_Name = [], ut_When = ''false'', ut_Loop = None, ut_Register = [],
              ut_RawContent = [(if CHR ''/'' \<in> set b then ''file'' else if CHR '' '' \<in> set b then ''command'' else ''import_tasks'', b)] \<rparr>])"

definition toy_yaml :: yaml_env where
  "toy_yaml =
     \<lparr> y_raw = (\<lambda>b. Inr (toy_raw b)), y_apt = (\<lambda>b. Inr Apt_zero), y_apt_repository = (\<lambda>b. Inr AptRepository_zero),
       y_command = (\<lambda>b. Inr (Command_zero\<lparr>cm_Cmd := b\<rparr>)), y_copy = (\<lambda>b. Inr Copy_zero),
       y_file = (\<lambda>b. Inr (File_zero\<lparr>f_Path := b, f_State := ''directory''\<rparr>)), y_get_url = (\<lambda>b. Inr GetURL_zero),
       y_import_tasks = (\<lambda>b. Inr \<lparr> im_File = b \<rparr>), y_include_tasks = (\<lambda>b. Inr IncludeTasks_zero),
       y_shell = (\<lambda>b. Inr Shell_zero), y_template = (\<lambda>b. Inr Template_zero),
       y_apt_aux = (\<lambda>b. Inl InvalidMode), y_apt_repository_aux = (\<lambda>b. Inr None), y_file_aux = (\<lambda>b. Inr ([], [])) \<rparr>"

definition toy_machine :: "(bytes, memfs) machine" where
  "toy_machine =
     \<lparr> mc_os = mem_os, mc_db = no_db, mc_host = quiet_host, mc_apt = quiet_apt, mc_parse_url = (\<lambda>u. Inl InvalidMode),
       mc_gonja = toy_gonja, mc_template = toy_engine, mc_http = toy_http, mc_yaml = toy_yaml,
       mc_time = (\<lambda>t. []), mc_duration = (\<lambda>d. []) \<rparr>"

definition import_of :: "string \<Rightarrow> content" where
  "import_of f = CImportTasks \<lparr> im_File = f \<rparr>"

definition task_site :: memfs where
  "task_site =
     mem_file ''/p/a'' ''b''  (mem_file ''/p/b'' ''uptime -p'' (mem_file ''/p/loop'' ''loop''
       (snd (mem_mkdirAll ''/p'' 0x1ED empty_fs))))"

definition toy_pt :: "content \<Rightarrow> content ProtoTask" where
  "toy_pt c = \<lparr> p_Name = [], p_When = ''false'', p_Loop = None, p_Register = [], p_Content = Some c \<rparr>"

definition toy_t :: "content \<Rightarrow> content Task" where
  "toy_t c = \<lparr> t_Name = [], t_When = ''false'', t_Loop = None, t_Content = Some c, t_Register = [] \<rparr>"

definition make_d :: content where
  "make_d = CFile (File_zero\<lparr>f_Path := ''/d'', f_State := ''directory''\<rparr>)"

definition uptime :: content where
  "uptime = CCommand (Command_zero\<lparr>cm_Cmd := ''uptime -p''\<rparr>)"

lemma toy_files:
  "os_readFile (mc_os toy_machine) (task_path ''/p'' False ''a'') task_site = Inr ''b''"
  "os_readFile (mc_os toy_machine) (task_path ''/p'' False ''b'') task_site = Inr ''uptime -p''"
  "os_readFile (mc_os toy_machine) (task_path ''/p'' False ''loop'') task_site = Inr ''loop''"
  by code_simp+

lemma toy_decoded:
  "yaml_tasks toy_machine ''b'' = Inr [toy_pt (import_of ''b'')]"
  "yaml_tasks toy_machine ''/d'' = Inr [toy_pt make_d]"
  "yaml_tasks toy_machine ''uptime -p'' = Inr [toy_pt uptime]"
  "yaml_tasks toy_machine ''loop'' = Inr [toy_pt (import_of ''loop'')]"
  by code_simp+

lemma toy_prepared:
  "prepare_imported toy_gonja (module_ops toy_machine 0) None p (toy_pt (import_of ''b'')) = Inr (toy_t (import_of ''b''))"
  "prepare_imported toy_gonja (module_ops toy_machine 0) None p (toy_pt (import_of ''loop'')) = Inr (toy_t (import_of ''loop''))"
  "prepare_imported toy_gonja (module_ops toy_machine 0) None p (toy_pt make_d) = Inr (toy_t make_d)"
  "prepare_imported toy_gonja (module_ops toy_machine 0) None p (toy_pt uptime) = Inr (toy_t uptime)"
  by code_simp+

lemma toy_sel [simp]:
  "mc_gonja toy_machine = toy_gonja" "mc_host toy_machine = quiet_host" "t_Content (toy_t c) = Some c"
  "task_file (import_of f) = Some f" "task_file uptime = None"
  by (simp_all add: toy_machine_def toy_t_def import_of_def uptime_def)

lemma quiet_command: "snd (snd (Command_Apply quiet_host c w)) = w"
  by (auto simp: Command_Apply_def quiet_host_def Let_def ApplyCommand_def split: sum.split bool.split prod.split option.split)

lemma toy_stays: "snd (snd (content_Apply toy_machine (module_ops toy_machine 0) None ''/p'' False uptime w)) = w"
  using quiet_command [of "Command_zero\<lparr>cm_Cmd := ''uptime -p''\<rparr>" w]
  by (cases "Command_Apply quiet_host (Command_zero\<lparr>cm_Cmd := ''uptime -p''\<rparr>) w") (simp add: uptime_def as_result_def)

lemma toy_descends:
  "descends toy_machine None ''/p'' False {task_site} {''a'', ''b''} (\<lambda>f. if f = ''a'' then 1 else 0)"
  by (auto simp: descends_def task_in_def toy_files toy_decoded toy_prepared stays_def toy_stays)

theorem acyclic_imports_end_witness:
  "\<exists>n r err w'. w' \<in> {task_site} \<and>
    (\<forall>k. tc_Apply (module_ops toy_machine (n + k)) None ''/p'' False (import_of ''a'') task_site = (r, err, w'))"
  by (rule acyclic_imports_end [OF toy_descends, of _ "''a''"]) simp_all

theorem self_import_never_ends_witness:
  "\<forall>n. \<exists>r e. tc_Apply (module_ops toy_machine n) None ''/p'' False (import_of ''loop'') task_site = (r, Some e, task_site) \<and>
    diverges (Some e)"
proof -
  have "prepare_imported (mc_gonja toy_machine) (module_ops toy_machine 0) None (task_path ''/p'' False ''loop'')
      (toy_pt (import_of ''loop'')) = Inr (toy_t (import_of ''loop''))"
    by (simp add: toy_prepared)
  from self_import_never_ends [OF toy_files(3) toy_decoded(4) this] show ?thesis by simp
qed

text \<open>The directory is made although the condition of its task is \<open>''false''\<close>.\<close>

theorem imported_tasks_ignore_control_witness:
  "apply_imported toy_gonja (module_ops toy_machine 1) None ''/p'' False ''/p/b''
       [(toy_pt make_d)\<lparr>p_When := [], p_Loop := None, p_Register := ''r''\<rparr>] task_site =
     apply_imported toy_gonja (module_ops toy_machine 1) None ''/p'' False ''/p/b'' [toy_pt make_d] task_site \<and>
   (case mem_stat ''/d'' (snd (apply_imported toy_gonja (module_ops toy_machine 1) None ''/p'' False ''/p/b''
       [toy_pt make_d] task_site)) of Inl e \<Rightarrow> False | Inr fi \<Rightarrow> is_dir fi)"
proof
  have "prepare_imported toy_gonja (module_ops toy_machine 1) None p
      ((toy_pt make_d)\<lparr>p_When := [], p_Loop := None, p_Register := ''r''\<rparr>) =
        Inr ((toy_t make_d)\<lparr>t_When := [], t_Register := ''r''\<rparr>)" for p
    by code_simp
  moreover have "prepare_imported toy_gonja (module_ops toy_machine 1) None p (toy_pt make_d) = Inr (toy_t make_d)" for p
    using toy_prepared(3) prepare_ops [of toy_gonja toy_machine 1] by simp
  ultimately show "apply_imported toy_gonja (module_ops toy_machine 1) None ''/p'' False ''/p/b''
       [(toy_pt make_d)\<lparr>p_When := [], p_Loop := None, p_Register := ''r''\<rparr>] task_site =
     apply_imported toy_gonja (module_ops toy_machine 1) None ''/p'' False ''/p/b'' [toy_pt make_d] task_site"
    by (intro imported_tasks_ignore_control)
  show "case mem_stat ''/d'' (snd (apply_imported toy_gonja (module_ops toy_machine 1) None ''/p'' False ''/p/b''
       [toy_pt make_d] task_site)) of Inl e \<Rightarrow> False | Inr fi \<Rightarrow> is_dir fi"
    by code_simp
qed

theorem decoded_tasks_convert_witness:
  "\<exists>raw. y_raw toy_yaml ''b'' = Inr raw \<and> list_all2 (\<lambda>task pt. decoded_as toy_yaml task pt \<and>
     (\<exists>t. FromProto (module_ops toy_machine 0) pt = Inr t \<and> t_Content t = p_Content pt \<and> t_Content t \<noteq> None))
     raw [toy_pt (import_of ''b'')]"
proof -
  have "tasksUnmarshalYAML registered toy_yaml ''b'' = Inr [toy_pt (import_of ''b'')]"
    using toy_decoded(1) by (simp add: yaml_tasks_def toy_machine_def)
  then show ?thesis by (rule decoded_tasks_convert)
qed

end
