(* ===== verification/DeepCopy.thy ===== *)
theory DeepCopy
  imports Engine
begin

text \<open>
  \<^verbatim>\<open>deepCopyContent\<close> of \<^verbatim>\<open>pkg/exec/task.go\<close>, with the aliasing it is about: contents are structs whose fields point to messages
  in a store. \<open>Engine\<close> gives every iteration of a loop the content by value; this theory shows that the copies justify it.
\<close>

section \<open>The store\<close>

text \<open>Messages by address; \<open>hp_next\<close> is the first address that was never handed out.\<close>

record 'm heap =
  hp_next :: nat
  hp_cell :: "nat \<rightharpoonup> 'm"

definition new_cell :: "'m \<Rightarrow> 'm heap \<Rightarrow> nat \<times> 'm heap" where
  "new_cell x h = (hp_next h, h\<lparr>hp_next := Suc (hp_next h), hp_cell := (hp_cell h)(hp_next h \<mapsto> x)\<rparr>)"

definition store :: "nat \<Rightarrow> 'm \<Rightarrow> 'm heap \<Rightarrow> 'm heap" where
  "store a x h = h\<lparr>hp_cell := (hp_cell h)(a \<mapsto> x)\<rparr>"

text \<open>
  The fields of a struct as reflection sees them: a pointer to a message, another pointer, or a value of another
  kind, which is \<open>None\<close> where it is the zero of its type; the flag is \<^verbatim>\<open>CanInterface\<close>.
\<close>

datatype 'v go_field = MessageField bool "nat option" | PointerField bool "nat option" | PlainField "'v option"

fun zero_field :: "'v go_field \<Rightarrow> 'v go_field" where
  "zero_field (MessageField x p) = MessageField x None"
| "zero_field (PointerField x p) = PointerField x None"
| "zero_field (PlainField v) = PlainField None"

text \<open>The message a pointer leads to.\<close>

definition target :: "nat option \<Rightarrow> 'm heap \<Rightarrow> 'm option" where
  "target p h = (case p of None \<Rightarrow> None | Some a \<Rightarrow> hp_cell h a)"

section \<open>Copying\<close>

text \<open>\<^verbatim>\<open>proto.Clone\<close> of a nil message is nil.\<close>

fun clone_field :: "'v go_field \<Rightarrow> 'm heap \<Rightarrow> 'v go_field \<times> 'm heap" where
  "clone_field (MessageField x p) h =
     (if \<not> x then (MessageField x None, h)
      else case target p h of
             None \<Rightarrow> (MessageField x None, h)
           | Some m \<Rightarrow> (case new_cell m h of (q, h') \<Rightarrow> (MessageField x (Some q), h')))"
| "clone_field f h = (zero_field f, h)"

fun clone_fields :: "'v go_field list \<Rightarrow> 'm heap \<Rightarrow> 'v go_field list \<times> 'm heap" where
  "clone_fields [] h = ([], h)"
| "clone_fields (f # fs) h =
     (case clone_field f h of (g, h1) \<Rightarrow> (case clone_fields fs h1 of (gs, h2) \<Rightarrow> (g # gs, h2)))"

text \<open>The element type of no content at all does not exist: reflection panics.\<close>

definition deepCopyContent :: "'v go_field list option \<Rightarrow> 'm heap \<Rightarrow> (goerr + 'v go_field list) \<times> 'm heap" where
  "deepCopyContent content h =
     (case content of
        None \<Rightarrow> (Inl nil_deref, h)
      | Some fs \<Rightarrow> (case clone_fields fs h of (gs, h') \<Rightarrow> (Inr gs, h')))"

section \<open>Copies are independent\<close>

definition heap_ok :: "'m heap \<Rightarrow> bool" where
  "heap_ok h \<longleftrightarrow> (\<forall>a. hp_cell h a \<noteq> None \<longrightarrow> a < hp_next h)"

fun field_addr :: "'v go_field \<Rightarrow> nat option" where
  "field_addr (MessageField x p) = p"
| "field_addr f = None"

definition addrs :: "'v go_field list \<Rightarrow> nat set" where
  "addrs fs = {a. \<exists>f\<in>set fs. field_addr f = Some a}"

text \<open>What is read through the fields, and what of it a copy keeps.\<close>

definition message_of :: "'m heap \<Rightarrow> 'v go_field \<Rightarrow> 'm option" where
  "message_of h f = target (field_addr f) h"

fun exported :: "'v go_field \<Rightarrow> bool" where
  "exported (MessageField x p) = x"
| "exported f = True"

lemma clone_field_spec:
  assumes "heap_ok h" "clone_field f h = (g, h')"
  shows "heap_ok h' \<and> hp_next h \<le> hp_next h' \<and> (\<forall>a<hp_next h. hp_cell h' a = hp_cell h a) \<and>
    message_of h' g = (if exported f then message_of h f else None) \<and> (\<forall>a. field_addr g = Some a \<longrightarrow> hp_next h \<le> a \<and> a < hp_next h')"
  using assms
  by (cases f) (auto simp: heap_ok_def target_def new_cell_def message_of_def less_SucI split: if_splits option.splits)

lemma clone_fields_spec:
  assumes "heap_ok h" "clone_fields fs h = (gs, h')" "\<forall>a\<in>addrs fs. a < hp_next h"
  shows "heap_ok h' \<and> hp_next h \<le> hp_next h' \<and> (\<forall>a<hp_next h. hp_cell h' a = hp_cell h a) \<and>
    map (message_of h') gs = map (\<lambda>f. if exported f then message_of h f else None) fs \<and> (\<forall>a\<in>addrs gs. hp_next h \<le> a \<and> a < hp_next h')"
  using assms
proof (induction fs arbitrary: h gs)
  case Nil
  then show ?case by (simp add: addrs_def)
next
  case (Cons f fs)
  obtain g h1 gs' where g: "clone_field f h = (g, h1)" "clone_fields fs h1 = (gs', h')" "gs = g # gs'"
    using Cons.prems(2) by (auto split: prod.splits)
  note one = clone_field_spec [OF Cons.prems(1) g(1)]
  have below: "\<forall>a\<in>addrs fs. a < hp_next h" "\<forall>a. field_addr f = Some a \<longrightarrow> a < hp_next h"
    using Cons.prems(3) by (auto simp: addrs_def)
  with one have IH: "heap_ok h' \<and> hp_next h1 \<le> hp_next h' \<and> (\<forall>a<hp_next h1. hp_cell h' a = hp_cell h1 a) \<and>
      map (message_of h') gs' = map (\<lambda>f. if exported f then message_of h1 f else None) fs \<and>
      (\<forall>a\<in>addrs gs'. hp_next h1 \<le> a \<and> a < hp_next h')"
    using Cons.IH [OF _ g(2)] by fastforce
  have "message_of h1 f' = message_of h f'" if "f' \<in> set fs" for f'
    using one below(1) that by (cases "field_addr f'") (auto simp: target_def addrs_def message_of_def)
  then have "map (\<lambda>f. if exported f then message_of h1 f else None) fs = map (\<lambda>f. if exported f then message_of h f else None) fs" by simp
  moreover have "message_of h' g = message_of h1 g"
    using one IH by (cases "field_addr g") (auto simp: target_def message_of_def)
  ultimately show ?case using one IH g(3) by (auto simp: addrs_def)
qed

text \<open>
  C8. The iterations of a loop do not share their contents. Copying a content never fails; the copy reads as the content does in
  every field that can be copied; and whatever is written through the copy, the content it was made from reads as
  before, as does everything else that was in the store.
\<close>

theorem loop_copies_are_independent:
  assumes "heap_ok h" "\<forall>a\<in>addrs fs. a < hp_next h" "\<forall>f\<in>set fs. exported f"
  shows "\<exists>gs h'. deepCopyContent (Some fs) h = (Inr gs, h') \<and> heap_ok h' \<and>
    map (message_of h') gs = map (message_of h) fs \<and>
    (\<forall>a\<in>addrs gs. \<forall>x. map (message_of (store a x h')) fs = map (message_of h) fs \<and>
      (\<forall>b<hp_next h. hp_cell (store a x h') b = hp_cell h b))"
proof -
  obtain gs h' where c: "clone_fields fs h = (gs, h')" by fastforce
  note spec = clone_fields_spec [OF assms(1) c assms(2)]
  have keep: "hp_cell (store a x h') b = hp_cell h b" if "a \<in> addrs gs" "b < hp_next h" for a x b
    using spec that by (auto simp: store_def)
  then have "message_of (store a x h') f = message_of h f" if "a \<in> addrs gs" "f \<in> set fs" for a x f
  proof (cases "field_addr f")
    case (Some b)
    with that(2) assms(2) have "b < hp_next h" by (auto simp: addrs_def)
    with keep [OF that(1)] Some show ?thesis by (simp add: message_of_def target_def)
  qed (simp add: message_of_def target_def)
  moreover have "map (message_of h') gs = map (message_of h) fs" using spec assms(3) by auto
  ultimately show ?thesis using c spec keep by (simp add: deepCopyContent_def)
qed

text \<open>A command: its message, and the factory for processes that tests put there, which a copy does not keep.\<close>

definition two_cells :: "string heap" where
  "two_cells = \<lparr> hp_next = 2, hp_cell = [0 \<mapsto> ''echo {{ item }}'', 1 \<mapsto> ''other''] \<rparr>"

definition a_command :: "string go_field list" where
  "a_command = [MessageField True (Some 0), PlainField (Some ''factory'')]"

theorem loop_copies_are_independent_witness:
  "deepCopyContent (Some a_command) two_cells =
     (Inr [MessageField True (Some 2), PlainField None], \<lparr> hp_next = 3, hp_cell = (hp_cell two_cells)(2 \<mapsto> ''echo {{ item }}'') \<rparr>) \<and>
   hp_cell (store 2 ''echo a'' (snd (deepCopyContent (Some a_command) two_cells))) 0 = Some ''echo {{ item }}''"
proof -
  have run: "deepCopyContent (Some a_command) two_cells =
     (Inr [MessageField True (Some 2), PlainField None], \<lparr> hp_next = 3, hp_cell = (hp_cell two_cells)(2 \<mapsto> ''echo {{ item }}'') \<rparr>)"
    by (simp add: deepCopyContent_def a_command_def two_cells_def target_def new_cell_def)
  have "heap_ok two_cells" "\<forall>a\<in>addrs a_command. a < hp_next two_cells" "\<forall>f\<in>set a_command. exported f"
    by (auto simp: heap_ok_def two_cells_def addrs_def a_command_def split: if_splits)
  from loop_copies_are_independent [OF this] run
  have "\<forall>b<2. hp_cell (store 2 ''echo a'' (snd (deepCopyContent (Some a_command) two_cells))) b = hp_cell two_cells b"
    by (auto simp: addrs_def two_cells_def)
  with run show ?thesis by (simp add: two_cells_def)
qed

end
