(* ===== verification/Dialer.thy ===== *)
theory Dialer
  imports Executer
begin

text \<open>
  The \<^verbatim>\<open>dialer\<close> binary: \<^verbatim>\<open>pkg/dialer/dialer.go\<close> and \<^verbatim>\<open>cmd/dialer/main.go\<close>. It copies the executer, the
  inventory and an archive of the playbook's directory to every host of the inventory over SSH, and runs the
  executer there. The SSH and SFTP clients are records of operations on the remote world \<open>'r\<close>; \<open>'l\<close> is the local
  machine. An error of \<^verbatim>\<open>fmt.Errorf\<close> with \<open>%v\<close> is a \<open>Wrap\<close> too: nothing asks for its cause.
\<close>

section \<open>Connections\<close>

record 'r ssh_client =
  sc_Mkdir :: "string \<Rightarrow> 'r \<Rightarrow> goerr option \<times> 'r"
  sc_RemoveAll :: "string \<Rightarrow> 'r \<Rightarrow> goerr option \<times> 'r"
  sc_Create :: "string \<Rightarrow> 'r \<Rightarrow> goerr option \<times> 'r"
  sc_Write :: "string \<Rightarrow> bytes \<Rightarrow> 'r \<Rightarrow> goerr option \<times> 'r"
  sc_Chmod :: "string \<Rightarrow> filemode \<Rightarrow> 'r \<Rightarrow> goerr option \<times> 'r"
  sc_NewSession :: "'r \<Rightarrow> goerr option \<times> 'r"
  sc_CombinedOutput :: "string \<Rightarrow> 'r \<Rightarrow> (string \<times> goerr option) \<times> 'r"
  sc_Close :: "'r \<Rightarrow> 'r"

datatype 'h hostkeys = InsecureIgnoreHostKey | KnownHosts 'h

record ('k, 'h) ClientConfig =
  cc_User :: string
  cc_Auth :: "'k list"
  cc_HostKeyCallback :: "'h hostkeys"
  cc_Timeout :: nat

text \<open>
  What else the program takes from its libraries: random numbers, temporary files, the encoding of an archive,
  keys and known hosts, and connections (\<open>de_sftp\<close> opens the SFTP session of a connection).
\<close>

record ('l, 'r, 'k, 'h) dial_env =
  de_os :: "'l os"
  de_rand :: "'l \<Rightarrow> (goerr + nat) \<times> 'l"
  de_CreateTemp :: "'l \<Rightarrow> (goerr + string) \<times> 'l"
  de_targz :: "entry list \<Rightarrow> bytes"
  de_ParsePrivateKey :: "bytes \<Rightarrow> goerr + 'k"
  de_knownhosts :: "string \<Rightarrow> 'l \<Rightarrow> goerr + 'h"
  de_Dial :: "string \<Rightarrow> ('k, 'h) ClientConfig \<Rightarrow> 'r \<Rightarrow> (goerr + 'r ssh_client) \<times> 'r"
  de_sftp :: "'r ssh_client \<Rightarrow> 'r \<Rightarrow> goerr option \<times> 'r"
  de_yaml_inventory :: "bytes \<Rightarrow> goerr + Inventory"

section \<open>dialer.go\<close>

definition temp_name :: "nat \<Rightarrow> string" where
  "temp_name n = ''sophons-'' @ itoa (int n)"

definition tempDirName :: "('l, 'r, 'k, 'h) dial_env \<Rightarrow> 'l \<Rightarrow> (goerr + string) \<times> 'l" where
  "tempDirName e l =
     (case de_rand e l of
        (Inl err, l') \<Rightarrow> (Inl (Wrap ''failed to generate random number for temp dir'' err), l')
      | (Inr n, l') \<Rightarrow> (Inr (temp_name n), l'))"

definition NewDialer ::
  "('l, 'r, 'k, 'h) dial_env \<Rightarrow> string \<Rightarrow> string \<Rightarrow> ('k, 'h) ClientConfig \<Rightarrow> 'r \<Rightarrow> (goerr + 'r ssh_client) \<times> 'r" where
  "NewDialer e host port config r =
     (case de_Dial e (host @ '':'' @ port) config r of
        (Inl err, r') \<Rightarrow> (Inl (Wrap (''failed to dial '' @ host) err), r')
      | (Inr client, r') \<Rightarrow>
          (case de_sftp e client r' of
             (Some err, r'') \<Rightarrow> (Inl (Wrap ''failed to create sftp client'' err), r'')
           | (None, r'') \<Rightarrow> (Inr client, r'')))"

definition dialer_runCommand :: "'r ssh_client \<Rightarrow> string \<Rightarrow> 'r \<Rightarrow> (string \<times> goerr option) \<times> 'r" where
  "dialer_runCommand d command r =
     (case sc_NewSession d r of
        (Some err, r') \<Rightarrow> (([], Some err), r')
      | (None, r') \<Rightarrow> sc_CombinedOutput d command r')"

definition getRemoteOS :: "'r ssh_client \<Rightarrow> 'r \<Rightarrow> (string \<times> goerr option) \<times> 'r" where
  "getRemoteOS d = dialer_runCommand d ''uname -s''"

definition getRemoteArch :: "'r ssh_client \<Rightarrow> 'r \<Rightarrow> (string \<times> goerr option) \<times> 'r" where
  "getRemoteArch d = dialer_runCommand d ''uname -m''"

definition executerBinName :: "'r ssh_client \<Rightarrow> 'r \<Rightarrow> (goerr + string) \<times> 'r" where
  "executerBinName d r =
     (case getRemoteOS d r of
        ((_, Some err), r') \<Rightarrow> (Inr [], r')
      | ((out, None), r') \<Rightarrow>
          (let os = to_lower (trim_space out) in
           if os \<noteq> ''linux'' \<and> os \<noteq> ''darwin'' then (Inl (ErrMsg (''unsupported OS: '' @ os)), r')
           else (case getRemoteArch d r' of
                   ((_, Some err), r'') \<Rightarrow> (Inr [], r'')
                 | ((a, None), r'') \<Rightarrow>
                     (let arch = trim_space a in
                      if arch = ''amd64'' \<or> arch = ''x86_64'' then (Inr (''executer-'' @ os @ ''-x86_64''), r'')
                      else if arch = ''arm64'' \<or> arch = ''aarch64'' then (Inr (''executer-'' @ os @ ''-arm64''), r'')
                      else (Inl (ErrMsg ''unsupported architecture''), r'')))))"

text \<open>The remote file is created before the local one is looked at.\<close>

definition dialer_copyFile ::
  "'l os \<Rightarrow> 'r ssh_client \<Rightarrow> string \<Rightarrow> string \<Rightarrow> bool \<Rightarrow> 'l \<Rightarrow> 'r \<Rightarrow> goerr option \<times> 'r" where
  "dialer_copyFile os d localPath remotePath executable l r =
     (case sc_Create d remotePath r of
        (Some err, r1) \<Rightarrow> (Some err, r1)
      | (None, r1) \<Rightarrow>
          (case os_open os localPath l of
             Inl n \<Rightarrow> (Some (OsErr n), r1)
           | Inr srcFile \<Rightarrow>
               (case os_read os srcFile l of
                  Inl n \<Rightarrow> (Some (OsErr n), r1)
                | Inr data \<Rightarrow>
                    (case sc_Write d remotePath data r1 of
                       (Some err, r2) \<Rightarrow> (Some err, r2)
                     | (None, r2) \<Rightarrow> if executable then sc_Chmod d remotePath 0x1ED r2 else (None, r2)))))"

definition copyExecuterBinary ::
  "'l os \<Rightarrow> 'r ssh_client \<Rightarrow> string \<Rightarrow> string \<Rightarrow> 'l \<Rightarrow> 'r \<Rightarrow> goerr option \<times> 'r" where
  "copyExecuterBinary os d localDir remoteDir l r =
     (case executerBinName d r of
        (Inl err, r') \<Rightarrow> (Some err, r')
      | (Inr binName, r') \<Rightarrow>
          dialer_copyFile os d (path_join [localDir, binName]) (path_join [remoteDir, ''executer'']) True l r')"

text \<open>\<^verbatim>\<open>util.Tar\<close> with the temporary file it writes the archive to; what it has written when the walk fails is left out.\<close>

definition TarFile :: "('l, 'r, 'k, 'h) dial_env \<Rightarrow> string \<Rightarrow> 'l \<Rightarrow> (goerr + string) \<times> 'l" where
  "TarFile e src l =
     (case de_CreateTemp e l of
        (Inl err, l1) \<Rightarrow> (Inl (Wrap ''could not create target file'' err), l1)
      | (Inr f, l1) \<Rightarrow>
          (case Tar (de_os e) src l1 of
             Inl err \<Rightarrow> (Inl err, l1)
           | Inr entries \<Rightarrow>
               (case os_writeFile (de_os e) f (de_targz e entries) 0x180 l1 of
                  (Some n, l2) \<Rightarrow> (Inl (OsErr n), l2)
                | (None, l2) \<Rightarrow> (Inr f, l2))))"

definition command_line :: "string \<Rightarrow> string \<Rightarrow> string \<Rightarrow> string" where
  "command_line dirPath host playbook =
     (let playbookFileName = path_base playbook; playbookDirName = path_base (path_dir playbook) in
      path_join [dirPath, ''executer''] @
      '' -i '' @ path_join [dirPath, ''inventory.yaml''] @
      '' -d '' @ path_join [dirPath, ''data.tar.gz''] @
      '' -p '' @ playbookDirName @
      '' -n '' @ host @ '' '' @ path_join [dirPath, playbookDirName, playbookFileName])"

text \<open>\<open>Execute\<close> between the creation of the remote directory and its deferred removal.\<close>

definition execute_in ::
  "('l, 'r, 'k, 'h) dial_env \<Rightarrow> 'r ssh_client \<Rightarrow> string \<Rightarrow> string \<Rightarrow> string \<Rightarrow> string \<Rightarrow> string \<Rightarrow> 'l \<Rightarrow> 'r \<Rightarrow>
   (string \<times> goerr option) \<times> 'l \<times> 'r" where
  "execute_in e d dirPath host binDir inventory playbook l r =
     (case copyExecuterBinary (de_os e) d binDir dirPath l r of
        (Some err, r1) \<Rightarrow> (([], Some err), l, r1)
      | (None, r1) \<Rightarrow>
          (case dialer_copyFile (de_os e) d inventory (path_join [dirPath, ''inventory.yaml'']) False l r1 of
             (Some err, r2) \<Rightarrow> (([], Some (Wrap ''failed to copy inventory to target host'' err)), l, r2)
           | (None, r2) \<Rightarrow>
               (case TarFile e (path_dir playbook) l of
                  (Inl err, l1) \<Rightarrow>
                    (([], Some (Wrap (''failed to archive and copy '' @ path_dir playbook @ '' to target host'') err)), l1, r2)
                | (Inr archivePath, l1) \<Rightarrow>
                    (case dialer_copyFile (de_os e) d archivePath (path_join [dirPath, ''data.tar.gz'']) False l1 r2 of
                       (Some err, r3) \<Rightarrow>
                         (([], Some (Wrap (''failed to copy data from '' @ archivePath @ '' to target host'') err)), l1, r3)
                     | (None, r3) \<Rightarrow>
                         (case sc_NewSession d r3 of
                            (Some err, r4) \<Rightarrow> (([], Some (Wrap ''failed to create session'' err)), l1, r4)
                          | (None, r4) \<Rightarrow>
                              (case dialer_runCommand d (command_line dirPath host playbook) r4 of
                                 (out, r5) \<Rightarrow> (out, l1, r5)))))))"

definition Execute ::
  "('l, 'r, 'k, 'h) dial_env \<Rightarrow> 'r ssh_client \<Rightarrow> string \<Rightarrow> string \<Rightarrow> string \<Rightarrow> string \<Rightarrow> 'l \<Rightarrow> 'r \<Rightarrow>
   (string \<times> goerr option) \<times> 'l \<times> 'r" where
  "Execute e d host binDir inventory playbook l r =
     (case tempDirName e l of
        (Inl err, l1) \<Rightarrow>
          (([], Some (Wrap ''failed to generate temporary directory name for execution'' err)), l1, r)
      | (Inr td, l1) \<Rightarrow>
          (let dirPath = path_join [''/tmp'', td] in
           case sc_Mkdir d dirPath r of
             (Some err, r1) \<Rightarrow>
               (([], Some (Wrap ''failed to create temporary directory on target host'' err)), l1, r1)
           | (None, r1) \<Rightarrow>
               (case execute_in e d dirPath host binDir inventory playbook l1 r1 of
                  (out, l2, r2) \<Rightarrow> (out, l2, snd (sc_RemoveAll d dirPath r2)))))"

section \<open>cmd/dialer\<close>

definition sshConfig ::
  "('l, 'r, 'k, 'h) dial_env \<Rightarrow> bool \<Rightarrow> string \<Rightarrow> string \<Rightarrow> string \<Rightarrow> 'l \<Rightarrow> goerr + ('k, 'h) ClientConfig" where
  "sshConfig e insecure u k knownHosts l =
     (case os_readFile (de_os e) k l of
        Inl n \<Rightarrow> Inl (Wrap (''failed reading private key '' @ k) (OsErr n))
      | Inr key \<Rightarrow>
          (case de_ParsePrivateKey e key of
             Inl err \<Rightarrow> Inl (Wrap ''failed parsing private key'' err)
           | Inr signer \<Rightarrow>
               (case (if insecure then Inr InsecureIgnoreHostKey else map_sum id KnownHosts (de_knownhosts e knownHosts l)) of
                  Inl err \<Rightarrow> Inl (Wrap (''could not create hostkey callback from '' @ knownHosts) err)
                | Inr callback \<Rightarrow>
                    Inr \<lparr> cc_User = u, cc_Auth = [signer], cc_HostKeyCallback = callback, cc_Timeout = 10 \<rparr>)))"

record dialer_flags =
  df_username :: string
  df_keyPath :: string
  df_inventoryPath :: string
  df_sshPort :: string
  df_binDir :: string
  df_knownHostsPath :: string
  df_insecure :: bool
  df_args :: "string list"

text \<open>The hosts in the order of one iteration over the Go map; what is printed for each is collected.\<close>

fun run_hosts ::
  "('l, 'r, 'k, 'h) dial_env \<Rightarrow> dialer_flags \<Rightarrow> string \<Rightarrow> ('k, 'h) ClientConfig \<Rightarrow> string list \<Rightarrow> 'l \<Rightarrow> 'r \<Rightarrow>
   exit_status \<times> string list \<times> 'l \<times> 'r" where
  "run_hosts e f playbook config [] l r = (Done, [], l, r)"
| "run_hosts e f playbook config (host # hosts) l r =
     (case NewDialer e host (df_sshPort f) config r of
        (Inl err, r1) \<Rightarrow> (Fatal ''failed to create dialer'' (Some err), [], l, r1)
      | (Inr dialer, r1) \<Rightarrow>
          (case Execute e dialer host (df_binDir f) (df_inventoryPath f) playbook l r1 of
             ((out, Some err), l2, r2) \<Rightarrow>
               (Fatal ''running sophons against host failed'' (Some err), [out], l2, sc_Close dialer r2)
           | ((out, None), l2, r2) \<Rightarrow>
               (case run_hosts e f playbook config hosts l2 (sc_Close dialer r2) of
                  (s, outs, l3, r3) \<Rightarrow> (s, out # outs, l3, r3))))"

definition dialer_main ::
  "('l, 'r, 'k, 'h) dial_env \<Rightarrow> dialer_flags \<Rightarrow> (string set \<Rightarrow> string list) \<Rightarrow> 'l \<Rightarrow> 'r \<Rightarrow>
   exit_status \<times> string list \<times> 'l \<times> 'r" where
  "dialer_main e f order l r =
     (case df_args f of
        [playbook] \<Rightarrow>
          if df_binDir f = [] then (Fatal ''`-b` flag is required'' None, [], l, r)
          else if df_inventoryPath f = [] then (Fatal ''`-i` flag is required'' None, [], l, r)
          else (case read_file (de_os e) l (df_inventoryPath f) of
                  Inl err \<Rightarrow> (Fatal ''failed to read inventory'' (Some err), [], l, r)
                | Inr data \<Rightarrow>
                    (case de_yaml_inventory e data of
                       Inl err \<Rightarrow> (Fatal ''failed to unmarshal inventory'' (Some err), [], l, r)
                     | Inr inventory \<Rightarrow>
                         (case sshConfig e (df_insecure f) (df_username f) (df_keyPath f) (df_knownHostsPath f) l of
                            Inl err \<Rightarrow> (Fatal ''failed to create SSH config'' (Some err), [], l, r)
                          | Inr config \<Rightarrow> run_hosts e f playbook config (order (Inventory_All inventory)) l r)))
      | _ \<Rightarrow> (Fatal ''missing playbook path. Usage: dialer -b binary-directory -i inventory.yaml playbook.yaml'' None, [], l, r))"

end
