(* ===== verification/DialerProps.thy ===== *)
theory DialerProps
  imports Dialer MemFs
begin

text \<open>
  What the dialer leaves on a host, what it runs there, and that the executer is started with the flags and the files
  that the dialer has put in place.
\<close>

section \<open>Nothing is left behind\<close>

text \<open>What a run may do on a host: create, write and change files of \<open>P\<close>, and open sessions and run commands.\<close>

inductive remote_steps :: "'r ssh_client \<Rightarrow> string set \<Rightarrow> 'r \<Rightarrow> 'r \<Rightarrow> bool" for d P where
  Stay: "remote_steps d P r r"
| Creates: "remote_steps d P r r' \<Longrightarrow> p \<in> P \<Longrightarrow> remote_steps d P r (snd (sc_Create d p r'))"
| Writes: "remote_steps d P r r' \<Longrightarrow> p \<in> P \<Longrightarrow> remote_steps d P r (snd (sc_Write d p data r'))"
| Chmods: "remote_steps d P r r' \<Longrightarrow> p \<in> P \<Longrightarrow> remote_steps d P r (snd (sc_Chmod d p m r'))"
| Sessions: "remote_steps d P r r' \<Longrightarrow> remote_steps d P r (snd (sc_NewSession d r'))"
| Commands: "remote_steps d P r r' \<Longrightarrow> remote_steps d P r (snd (sc_CombinedOutput d command r'))"

lemma remote_steps_trans: "remote_steps d P r1 r2 \<Longrightarrow> remote_steps d P r r1 \<Longrightarrow> remote_steps d P r r2"
  by (induction r1 r2 rule: remote_steps.induct) (auto intro: remote_steps.intros)

text \<open>The same as equations on the results.\<close>

lemma step_eqs:
  "sc_Create d p r1 = (x, r2) \<Longrightarrow> p \<in> P \<Longrightarrow> remote_steps d P r r1 \<Longrightarrow> remote_steps d P r r2"
  "sc_Write d p data r1 = (x, r2) \<Longrightarrow> p \<in> P \<Longrightarrow> remote_steps d P r r1 \<Longrightarrow> remote_steps d P r r2"
  "sc_Chmod d p m r1 = (x, r2) \<Longrightarrow> p \<in> P \<Longrightarrow> remote_steps d P r r1 \<Longrightarrow> remote_steps d P r r2"
  "sc_NewSession d r1 = (x, r2) \<Longrightarrow> remote_steps d P r r1 \<Longrightarrow> remote_steps d P r r2"
  "sc_CombinedOutput d command r1 = (y, r2) \<Longrightarrow> remote_steps d P r r1 \<Longrightarrow> remote_steps d P r r2"
  using Creates [of d P r r1 p] Writes [of d P r r1 p data] Chmods [of d P r r1 p m] Sessions [of d P r r1]
    Commands [of d P r r1 command] by auto

lemma runCommand_steps:
  "dialer_runCommand d command r1 = (x, r2) \<Longrightarrow> remote_steps d P r r1 \<Longrightarrow> remote_steps d P r r2"
  by (auto simp: dialer_runCommand_def split: prod.splits option.splits intro: step_eqs)

lemma executerBinName_steps:
  "executerBinName d r1 = (x, r2) \<Longrightarrow> remote_steps d P r r1 \<Longrightarrow> remote_steps d P r r2"
  by (auto simp: executerBinName_def getRemoteOS_def getRemoteArch_def Let_def split: prod.splits option.splits if_splits
      intro: runCommand_steps)

lemma copyFile_steps:
  "dialer_copyFile os d localPath p ex l r1 = (x, r2) \<Longrightarrow> p \<in> P \<Longrightarrow> remote_steps d P r r1 \<Longrightarrow> remote_steps d P r r2"
  by (auto simp: dialer_copyFile_def split: prod.splits option.splits sum.splits if_splits) (blast intro: step_eqs)+

text \<open>The files of a run below its directory.\<close>

definition run_files :: "string \<Rightarrow> string set" where
  "run_files dirPath = (\<lambda>f. path_join [dirPath, f]) ` {''executer'', ''inventory.yaml'', ''data.tar.gz''}"

lemma run_files_mem:
  "path_join [dir, ''executer''] \<in> run_files dir" "path_join [dir, ''inventory.yaml''] \<in> run_files dir"
  "path_join [dir, ''data.tar.gz''] \<in> run_files dir"
  by (simp_all add: run_files_def)

lemma binary_steps:
  "copyExecuterBinary os d bin dir l r1 = (x, r2) \<Longrightarrow> remote_steps d (run_files dir) r r1 \<Longrightarrow>
   remote_steps d (run_files dir) r r2"
  unfolding copyExecuterBinary_def
  by (split prod.splits, split sum.splits) (auto intro: executerBinName_steps copyFile_steps run_files_mem)

lemma execute_in_steps:
  "execute_in e d dir host bin inventory playbook l r1 = (x, l', r2) \<Longrightarrow> remote_steps d (run_files dir) r r1 \<Longrightarrow>
   remote_steps d (run_files dir) r r2"
  unfolding execute_in_def
  by (auto split: prod.splits option.splits sum.splits)
    (blast intro: binary_steps copyFile_steps run_files_mem runCommand_steps step_eqs(4))+

text \<open>The directory of a run, for the number that was drawn.\<close>

definition remote_dir :: "nat \<Rightarrow> string" where
  "remote_dir n = path_join [''/tmp'', temp_name n]"

lemma Execute_drawn:
  "de_rand e l = (Inr n, l1) \<Longrightarrow> Execute e d host bin inventory playbook l r =
     (case sc_Mkdir d (remote_dir n) r of
        (Some err, r1) \<Rightarrow>
          (([], Some (Wrap ''failed to create temporary directory on target host'' err)), l1, r1)
      | (None, r1) \<Rightarrow>
          (case execute_in e d (remote_dir n) host bin inventory playbook l1 r1 of
             (out, l2, r2) \<Rightarrow> (out, l2, snd (sc_RemoveAll d (remote_dir n) r2))))"
  unfolding Execute_def tempDirName_def remote_dir_def Let_def by simp

text \<open>
  C11. A run leaves nothing of its own on a host. Unless no directory could be made, the last thing \<^verbatim>\<open>Execute\<close> does on the host,
  on every path and whatever has failed, is to remove the directory it made; and before that it has created, written or
  changed nothing itself but the three files in that directory, and otherwise only opened sessions and run commands.
\<close>

theorem dialer_leaves_nothing:
  "case Execute e d host bin inventory playbook l r of (res, l', r') \<Rightarrow>
     (\<exists>err. fst (de_rand e l) = Inl err \<and> r' = r \<and> snd res \<noteq> None) \<or>
     (\<exists>n. fst (de_rand e l) = Inr n \<and>
        (fst (sc_Mkdir d (remote_dir n) r) \<noteq> None \<and> r' = snd (sc_Mkdir d (remote_dir n) r) \<and> snd res \<noteq> None \<or>
         fst (sc_Mkdir d (remote_dir n) r) = None \<and>
           (\<exists>r1. remote_steps d (run_files (remote_dir n)) (snd (sc_Mkdir d (remote_dir n) r)) r1 \<and>
              r' = snd (sc_RemoveAll d (remote_dir n) r1))))"
proof (cases "fst (de_rand e l)")
  case (Inl err)
  then show ?thesis by (auto simp: Execute_def tempDirName_def split: prod.split)
next
  case (Inr n)
  then have rand: "de_rand e l = (Inr n, snd (de_rand e l))" by (simp add: prod_eq_iff)
  note ex = Execute_drawn [OF rand, of d host bin inventory playbook r]
  show ?thesis
  proof (cases "fst (sc_Mkdir d (remote_dir n) r)")
    case (Some err)
    then have "sc_Mkdir d (remote_dir n) r = (Some err, snd (sc_Mkdir d (remote_dir n) r))" by (simp add: prod_eq_iff)
    with Inr Some ex show ?thesis by (auto split: prod.split)
  next
    case None
    then have mk: "sc_Mkdir d (remote_dir n) r = (None, snd (sc_Mkdir d (remote_dir n) r))" by (simp add: prod_eq_iff)
    obtain x l2 r2 where run: "execute_in e d (remote_dir n) host bin inventory playbook (snd (de_rand e l))
        (snd (sc_Mkdir d (remote_dir n) r)) = (x, l2, r2)"
      by (rule prod_cases3)
    have "Execute e d host bin inventory playbook l r = (x, l2, snd (sc_RemoveAll d (remote_dir n) r2))"
      unfolding ex by (subst mk) (simp add: run)
    with execute_in_steps [OF run Stay] None Inr show ?thesis by auto
  qed
qed

text \<open>On the local machine the archive is left: nothing removes the temporary file.\<close>

lemma execute_in_local:
  "execute_in e d dir host bin inventory playbook l r = (x, l', r') \<Longrightarrow> l' = l \<or> l' = snd (TarFile e (path_dir playbook) l)"
  by (auto simp: execute_in_def split: prod.splits option.splits sum.splits)

lemma local_archive_stays:
  assumes "Execute e d host bin inventory playbook l r = ((out, None), l', r')"
  shows "\<exists>l1 archive. TarFile e (path_dir playbook) l1 = (Inr archive, l')"
proof -
  have step: "\<exists>a. TarFile e (path_dir playbook) l1 = (Inr a, l2)"
    if "execute_in e d dir host bin inventory playbook l1 r1 = ((out, None), l2, r2)" for dir l1 r1 l2 r2
    using that by (auto simp: execute_in_def split: prod.splits option.splits sum.splits)
  from assms obtain n l1 r1 x where "execute_in e d (remote_dir n) host bin inventory playbook l1 r1 = ((out, None), l', x)"
    by (cases "de_rand e l")
      (auto simp: Execute_def tempDirName_def remote_dir_def Let_def split: prod.splits option.splits sum.splits)
  from step [OF this] show ?thesis by blast
qed

section \<open>The binary for the host\<close>

text \<open>
  Which executer is copied. If a name comes back it is one of the four that are built, for the system and the
  architecture the host reports, or it is empty, and that exactly when one of the two commands that ask the host has
  failed; every other system or architecture is an error.
\<close>

theorem executer_binary:
  "case fst (executerBinName d r) of
     Inl err \<Rightarrow> unwrapped err = err \<and> snd (fst (getRemoteOS d r)) = None
   | Inr name \<Rightarrow>
       if snd (fst (getRemoteOS d r)) = None \<and> snd (fst (getRemoteArch d (snd (getRemoteOS d r)))) = None
       then name \<in> {''executer-linux-x86_64'', ''executer-linux-arm64'', ''executer-darwin-x86_64'', ''executer-darwin-arm64''}
       else name = []"
  by (auto simp: executerBinName_def Let_def split: prod.splits option.splits sum.splits)

lemma path_join_empty: "d \<noteq> [] \<Longrightarrow> path_join [d, []] = clean d"
  using path_join_comps [of d "[[]]"] by (simp add: clean_def) (simp add: comps_def)

text \<open>
  A host that cannot be asked for its system is not reported as such: the error of \<^verbatim>\<open>uname\<close> is dropped, and the dialer
  goes on with an empty name, that is, it copies the directory of the binaries itself to the host as its executer.
\<close>

theorem uname_error_dropped:
  assumes "snd (fst (getRemoteOS d r)) = Some err" and "bin \<noteq> []"
  shows "copyExecuterBinary os d bin dir l r =
    dialer_copyFile os d (clean bin) (path_join [dir, ''executer'']) True l (snd (getRemoteOS d r))"
proof -
  have "executerBinName d r = (Inr [], snd (getRemoteOS d r))"
    using assms(1) by (cases "getRemoteOS d r") (auto simp: executerBinName_def)
  with path_join_empty [OF assms(2)] show ?thesis by (simp add: copyExecuterBinary_def)
qed

text \<open>A host that refuses every session; its world counts the operations.\<close>

definition deaf_host :: "nat ssh_client" where
  "deaf_host =
     \<lparr> sc_Mkdir = (\<lambda>p n. (None, Suc n)), sc_RemoveAll = (\<lambda>p n. (None, Suc n)), sc_Create = (\<lambda>p n. (None, Suc n)),
       sc_Write = (\<lambda>p b n. (None, Suc n)), sc_Chmod = (\<lambda>p m n. (None, Suc n)),
       sc_NewSession = (\<lambda>n. (Some (ErrMsg ''refused''), Suc n)), sc_CombinedOutput = (\<lambda>c n. (([], None), Suc n)),
       sc_Close = Suc \<rparr>"

theorem uname_error_dropped_witness:
  "copyExecuterBinary mem_os deaf_host ''bin/'' ''/tmp/sophons-1'' empty_fs 0 =
    dialer_copyFile mem_os deaf_host (clean ''bin/'') (path_join [''/tmp/sophons-1'', ''executer'']) True empty_fs (Suc 0)"
proof -
  have "getRemoteOS deaf_host 0 = (([], Some (ErrMsg ''refused'')), Suc 0)" by code_simp
  with uname_error_dropped [of deaf_host 0 "ErrMsg ''refused''" "''bin/''"] show ?thesis by simp
qed

section \<open>The executer is started as it expects\<close>

lemma token_append: "a \<noteq> [] \<or> b \<noteq> [] \<Longrightarrow> token (a @ b) \<longleftrightarrow> (a = [] \<or> token a) \<and> (b = [] \<or> token b)"
  by (auto simp: token_def)

lemma fields_acc_token: "list_all (\<lambda>c. \<not> is_space c) t \<Longrightarrow> fields_acc acc (t @ s) = fields_acc (rev t @ acc) s"
  by (induction t arbitrary: acc) auto

lemma fields_Cons: "token t \<Longrightarrow> GoStrings.fields (t @ '' '' @ s) = t # GoStrings.fields s"
  by (simp add: GoStrings.fields_def token_def fields_acc_token is_space_def)

lemma fields_one: "token t \<Longrightarrow> GoStrings.fields t = [t]"
  using fields_acc_token [of t "[]" "[]"] by (simp add: GoStrings.fields_def token_def)

text \<open>Joining and cleaning make no blanks.\<close>

definition no_blank :: "string \<Rightarrow> bool" where
  "no_blank s \<longleftrightarrow> (\<forall>c\<in>set s. \<not> is_space c)"

lemma no_blank_simps [simp]: "no_blank []" "no_blank (c # s) \<longleftrightarrow> \<not> is_space c \<and> no_blank s" "no_blank (s @ t) \<longleftrightarrow> no_blank s \<and> no_blank t"
  by (auto simp: no_blank_def)

lemma token_iff: "token t \<longleftrightarrow> t \<noteq> [] \<and> no_blank t"
  by (simp add: token_def no_blank_def list_all_iff)

lemma split_on_chars: "c \<in> set t \<Longrightarrow> t \<in> set (split_on d s) \<Longrightarrow> c \<in> set s"
proof (induction s arbitrary: t)
  case Nil
  then show ?case by simp
next
  case (Cons x s)
  obtain u us where "split_on d s = u # us" by (meson neq_Nil_conv split_on_ne)
  note u = this
  have IH: "c \<in> set s" if "t \<in> set (u # us)" "c \<in> set t" for t using Cons.IH [of t] that u by simp
  from Cons.prems u IH [of u] IH show ?case by (auto split: if_splits)
qed

lemma no_blank_comps: "no_blank p \<Longrightarrow> c \<in> set (comps p) \<Longrightarrow> no_blank c"
  using split_on_chars by (fastforce simp: no_blank_def comps_def)

lemma clean_comps_set: "c \<in> set (foldl (clean_step r) out cs) \<Longrightarrow> c \<in> set out \<or> c \<in> set cs \<or> c = ''..''"
proof (induction cs arbitrary: out)
  case Nil
  then show ?case by simp
next
  case (Cons x cs)
  from Cons.IH [of "clean_step r out x"] Cons.prems show ?case
    by (auto simp: clean_step_def dest: in_set_butlastD split: if_splits)
qed

lemma no_blank_join: "\<forall>c\<in>set cs. no_blank c \<Longrightarrow> no_blank (join_with ''/'' cs)"
  by (induction cs rule: induct_list012) (auto simp: is_space_def)

lemma no_blank_render: "\<forall>c\<in>set cs. no_blank c \<Longrightarrow> no_blank (render_path r cs)"
  by (auto simp: render_path_def no_blank_join is_space_def)

lemma no_blank_clean: "no_blank p \<Longrightarrow> no_blank (clean p)"
proof -
  assume p: "no_blank p"
  have "no_blank c" if "c \<in> set (clean_comps r (comps p))" for c r
    using clean_comps_set [OF that [unfolded clean_comps_def]] no_blank_comps [OF p] by (auto simp: is_space_def)
  then show ?thesis unfolding clean_def by (intro no_blank_render) blast
qed

lemma no_blank_path_join: "\<forall>e\<in>set es. no_blank e \<Longrightarrow> no_blank (path_join es)"
  by (auto simp: path_join_def Let_def intro!: no_blank_clean no_blank_join dest: set_dropWhileD)

lemma no_blank_dir: "no_blank p \<Longrightarrow> no_blank (path_dir p)"
  unfolding path_dir_def by (rule no_blank_clean) (auto simp: no_blank_def dest: set_dropWhileD)

lemma no_blank_base: "no_blank p \<Longrightarrow> no_blank (path_base p)"
proof -
  assume p: "no_blank p"
  let ?q = "trim_right (\<lambda>c. c = slash) p"
  have "no_blank ?q" using p by (auto simp: no_blank_def trim_right_def trim_left_def dest: set_dropWhileD)
  moreover have "last (split_on slash ?q) \<in> set (split_on slash ?q)" by simp
  ultimately have "no_blank (last (split_on slash ?q))" using split_on_chars unfolding no_blank_def by metis
  then show ?thesis by (simp add: path_base_def Let_def is_space_def)
qed

text \<open>The words a shell makes of the command line: it splits plain text at its blanks.\<close>

definition executable_of :: "string \<Rightarrow> string" where "executable_of dir = path_join [dir, ''executer'']"
definition playbook_arg :: "string \<Rightarrow> string \<Rightarrow> string" where
  "playbook_arg dir playbook = path_join [dir, path_base (path_dir playbook), path_base playbook]"

lemma command_words:
  assumes "token dir" "token host" "no_blank playbook"
  shows "GoStrings.fields (command_line dir host playbook) =
    [executable_of dir, ''-i'', path_join [dir, ''inventory.yaml''], ''-d'', path_join [dir, ''data.tar.gz''],
     ''-p'', path_base (path_dir playbook), ''-n'', host, playbook_arg dir playbook]"
proof -
  have dir: "dir \<noteq> []" "no_blank dir" using assms(1) by (auto simp: token_iff)
  have join: "token (path_join (dir # es))" if "\<forall>e\<in>set es. no_blank e" for es
    using that dir no_blank_path_join [of "dir # es"] path_join_ne by (simp add: token_iff)
  have base: "no_blank (path_base playbook)" "no_blank (path_base (path_dir playbook))"
    using assms(3) by (simp_all add: no_blank_base no_blank_dir)
  have tokens: "token (executable_of dir)" "token (path_join [dir, ''inventory.yaml''])" "token (path_join [dir, ''data.tar.gz''])"
    "token (path_base (path_dir playbook))" "token (playbook_arg dir playbook)" "token ''-i''" "token ''-d''" "token ''-p''" "token ''-n''"
    using base path_base_ne by (simp_all add: executable_of_def playbook_arg_def join is_space_def token_iff [of "path_base _"] token_iff [of "_ # _"])
  have line: "command_line dir host playbook =
      executable_of dir @ '' '' @ ''-i'' @ '' '' @ path_join [dir, ''inventory.yaml''] @ '' '' @ ''-d'' @ '' '' @
      path_join [dir, ''data.tar.gz''] @ '' '' @ ''-p'' @ '' '' @ path_base (path_dir playbook) @ '' '' @ ''-n'' @ '' '' @
      host @ '' '' @ playbook_arg dir playbook"
    by (simp add: command_line_def Let_def executable_of_def playbook_arg_def)
  show ?thesis unfolding line by (simp only: fields_Cons fields_one tokens assms(2))
qed

lemma path_join_abs: "is_abs d \<Longrightarrow> is_abs (path_join (d # es))"
proof -
  assume d: "is_abs d"
  then have "d \<noteq> []" by auto
  with d show ?thesis by (simp add: path_join_comps render_path_def)
qed

lemma abs_not_flag: "is_abs p \<Longrightarrow> hd p \<noteq> CHR ''-''"
  by (cases p) auto

lemma command_parses:
  assumes "token dir" "is_abs dir" "token host" "no_blank playbook"
  shows "\<exists>args. GoStrings.fields (command_line dir host playbook) = path_join [dir, ''executer''] # args \<and>
    parse_flags args flags_default =
      Inr \<lparr> fl_inventoryPath = path_join [dir, ''inventory.yaml''], fl_dataArchive = path_join [dir, ''data.tar.gz''],
            fl_playbooksDirName = path_base (path_dir playbook), fl_node = host, fl_args = [playbook_arg dir playbook] \<rparr>"
  using abs_not_flag [OF path_join_abs [OF assms(2)], of "[path_base (path_dir playbook), path_base playbook]"]
  by (simp add: command_words [OF assms(1,3,4)] executable_of_def playbook_arg_def flag_name_def set_flag_def flags_default_def)

text \<open>
  C26. The executer understands what the dialer starts. If neither the directory, nor the host, nor the path of the playbook
  has a blank in it, then the words of the command line are the executable that was copied followed by arguments that the
  executer's own flags parse to: the inventory and the archive that were copied, the name of the playbook's directory, the
  host as the node, and one argument, the playbook in the unpacked directory.
\<close>

theorem dialer_starts_executer:
  assumes "token dir" "is_abs dir" "token host" "no_blank playbook"
  shows "\<exists>args. GoStrings.fields (command_line dir host playbook) = path_join [dir, ''executer''] # args \<and>
    parse_flags args flags_default =
      Inr \<lparr> fl_inventoryPath = path_join [dir, ''inventory.yaml''], fl_dataArchive = path_join [dir, ''data.tar.gz''],
            fl_playbooksDirName = path_base (path_dir playbook), fl_node = host,
            fl_args = [path_join [dir, path_base (path_dir playbook), path_base playbook]] \<rparr>"
  using command_parses [OF assms] by (simp add: playbook_arg_def)

theorem dialer_starts_executer_witness:
  "\<exists>args. GoStrings.fields (command_line ''/tmp/sophons-42'' ''web1'' ''site/play.yaml'') = ''/tmp/sophons-42/executer'' # args \<and>
    (case parse_flags args flags_default of Inl e \<Rightarrow> False
     | Inr f \<Rightarrow> fl_node f = ''web1'' \<and> fl_args f = [''/tmp/sophons-42/site/play.yaml''])"
proof -
  have "token ''/tmp/sophons-42''" "is_abs ''/tmp/sophons-42''" "token ''web1''" "no_blank ''site/play.yaml''"
    by (simp_all add: token_iff is_space_def)
  from dialer_starts_executer [OF this]
  obtain args where "GoStrings.fields (command_line ''/tmp/sophons-42'' ''web1'' ''site/play.yaml'') =
      path_join [''/tmp/sophons-42'', ''executer''] # args"
    "parse_flags args flags_default =
      Inr \<lparr> fl_inventoryPath = path_join [''/tmp/sophons-42'', ''inventory.yaml''],
        fl_dataArchive = path_join [''/tmp/sophons-42'', ''data.tar.gz''],
        fl_playbooksDirName = path_base (path_dir ''site/play.yaml''), fl_node = ''web1'',
        fl_args = [path_join [''/tmp/sophons-42'', path_base (path_dir ''site/play.yaml''), path_base ''site/play.yaml'']] \<rparr>"
    by blast
  moreover have "path_join [''/tmp/sophons-42'', ''executer''] = ''/tmp/sophons-42/executer''"
    "path_join [''/tmp/sophons-42'', path_base (path_dir ''site/play.yaml''), path_base ''site/play.yaml''] =
       ''/tmp/sophons-42/site/play.yaml''"
    by code_simp+
  ultimately show ?thesis by simp
qed

section \<open>The playbook is where the executer looks for it\<close>

lemma path_dir_join:
  assumes "d \<noteq> []" "comp_ok f" "f \<noteq> ''..''"
  shows "path_dir (path_join [d, f]) = clean d"
proof -
  let ?cs = "clean_comps (is_abs d) (comps d)"
  have f: "comps f = [f]" using comps_join [of "[f]"] assms(2) by simp
  have cl: "cleaned (is_abs d) (?cs @ [f])" using cleaned_snoc [OF clean_comps_cleaned assms(3)] .
  have ok: "list_all comp_ok (?cs @ [f])" using assms(2) clean_comps_ok [OF comps_ok] by simp
  have "path_join [d, f] = render_path (is_abs d) (?cs @ [f])"
    using assms f by (simp add: path_join_comps clean_comps_def clean_step_def)
  with path_dir_render [OF ok cl] show ?thesis by (simp add: clean_def)
qed

lemma path_join_clean_first: "d \<noteq> [] \<Longrightarrow> path_join (clean d # es) = path_join (d # es)"
proof -
  assume d: "d \<noteq> []"
  have ok: "list_all comp_ok (clean_comps r (comps d))" for r by (intro clean_comps_ok comps_ok)
  have "clean_comps r (clean_comps r (comps d) @ cs) = clean_comps r (comps d @ cs)" for r cs
    using clean_comps_fixed [OF clean_comps_cleaned [of r "comps d"]] by (simp add: clean_comps_def)
  moreover have "is_abs (clean d) = is_abs d" "comps (clean d) = clean_comps (is_abs d) (comps d)"
    using ok by (simp_all add: clean_def is_abs_render comps_render)
  ultimately show ?thesis using d by (simp add: path_join_comps clean_ne)
qed

lemma playbook_entry:
  assumes "comp_ok (path_base playbook)" "path_base playbook \<noteq> ''..''" "dir \<noteq> []"
    and "is_regular_mode (fi_mode fi)" "\<not> is_link fi" "\<not> is_dir fi"
    and "os_readFile os (path_join [path_dir playbook, path_base playbook]) w = Inr data" "length data = fi_size fi"
  shows "\<exists>h. tar_entry os (path_dir playbook) (path_join [path_dir playbook, path_base playbook]) fi (out, w) =
      (None, out @ [(h, data)], w) \<and> h_Typeflag h = TypeReg \<and>
    path_join [path_dir (path_join [dir, ''data.tar.gz'']), h_Name h] = playbook_arg dir playbook"
proof -
  obtain name where name: "path_rel (path_dir (path_dir playbook)) (path_join [path_dir playbook, path_base playbook]) = Some name"
    "path_join [dir, name] = path_join [dir, path_base (path_dir playbook), path_base playbook]"
    using rel_to_parent [OF assms(1,2,3)] by blast
  have "path_dir (path_join [dir, ''data.tar.gz'']) = clean dir"
    using path_dir_join [OF assms(3), of "''data.tar.gz''"] by (simp add: comp_ok_def slash_def)
  with name assms(4-8) path_join_clean_first [OF assms(3)] show ?thesis
    by (simp add: tar_entry_def FileInfoHeader_def Let_def playbook_arg_def)
qed

lemma untar_regular:
  assumes "h_Typeflag h = TypeReg"
  shows "untar_entry os dest (h, data) w = (None, w') \<longleftrightarrow>
    (\<exists>w1. os_mkdirAll os (path_dir (path_join [dest, h_Name h])) 0x1ED w = (None, w1) \<and>
      os_writeFile os (path_join [dest, h_Name h]) data (h_Mode h) w1 = (None, w'))"
  using assms by (auto simp: untar_entry_def Let_def split: prod.splits option.splits)

text \<open>
  C27. The playbook is unpacked where the executer is told to find it, wherever it is: in the root, in the current directory
  or above it, relative or absolute. \<^verbatim>\<open>Tar\<close> gives the playbook's file an entry \<open>(h, data)\<close> with its content; the words of the
  command line parse to flags \<open>f\<close> with one argument \<open>arg\<close>; and to unpack that entry in the directory of the archive
  \<^verbatim>\<open>Untar\<close> makes the directory of \<open>arg\<close> and writes the content to \<open>arg\<close>, and does nothing else. The directory of the run is absolute and, as
  the host and the playbook, has no blank in it.
\<close>

theorem playbook_is_unpacked_where_run:
  assumes "comp_ok (path_base playbook)" "path_base playbook \<noteq> ''..''"
    and "token dir" "is_abs dir" "token host" "no_blank playbook"
    and "is_regular_mode (fi_mode fi)" "\<not> is_link fi" "\<not> is_dir fi"
    and "os_readFile os (path_join [path_dir playbook, path_base playbook]) w = Inr data" "length data = fi_size fi"
  shows "\<exists>h exe args f arg.
    tar_entry os (path_dir playbook) (path_join [path_dir playbook, path_base playbook]) fi (out, w) =
      (None, out @ [(h, data)], w) \<and>
    GoStrings.fields (command_line dir host playbook) = exe # args \<and>
    parse_flags args flags_default = Inr f \<and> fl_args f = [arg] \<and>
    (\<forall>w1 w2. untar_entry host_os (path_dir (fl_dataArchive f)) (h, data) w1 = (None, w2) \<longleftrightarrow>
      (\<exists>w3. os_mkdirAll host_os (path_dir arg) 0x1ED w1 = (None, w3) \<and>
        os_writeFile host_os arg data (h_Mode h) w3 = (None, w2)))"
proof -
  have ne: "dir \<noteq> []" using assms(4) by auto
  from playbook_entry [OF assms(1,2) ne assms(7-11), of out] obtain h
    where h: "tar_entry os (path_dir playbook) (path_join [path_dir playbook, path_base playbook]) fi (out, w) =
        (None, out @ [(h, data)], w)" "h_Typeflag h = TypeReg"
      "path_join [path_dir (path_join [dir, ''data.tar.gz'']), h_Name h] = playbook_arg dir playbook" by blast
  from command_parses [OF assms(3-6)] obtain args f where f: "GoStrings.fields (command_line dir host playbook) = path_join [dir, ''executer''] # args"
    "parse_flags args flags_default = Inr f" "fl_dataArchive f = path_join [dir, ''data.tar.gz'']" "fl_args f = [playbook_arg dir playbook]"
    by auto
  show ?thesis
    by (rule exI [of _ h], rule exI [of _ "path_join [dir, ''executer'']"], rule exI [of _ args], rule exI [of _ f],
        rule exI [of _ "playbook_arg dir playbook"]) (simp add: h f untar_regular)
qed

definition one_playbook :: memfs where
  "one_playbook = snd (mem_writeFile ''/play.yaml'' ''- hosts: all'' 0x1A4 empty_fs)"

definition plain_info :: fileinfo where
  "plain_info = \<lparr> fi_mode = 0x1A4, fi_uid = 0, fi_gid = 0, fi_nlink = 1, fi_size = 12, fi_mtime = 0 \<rparr>"

theorem playbook_is_unpacked_where_run_witness:
  "\<exists>h exe args f arg. tar_entry mem_os ''/'' ''/play.yaml'' plain_info ([], one_playbook) =
      (None, [(h, ''- hosts: all'')], one_playbook) \<and>
    GoStrings.fields (command_line ''/tmp/sophons-1'' ''web1'' ''/play.yaml'') = exe # args \<and>
    parse_flags args flags_default = Inr f \<and> fl_args f = [arg] \<and>
    (\<exists>w3. os_mkdirAll mem_os (path_dir arg) 0x1ED empty_fs = (None, w3) \<and>
      os_writeFile mem_os arg ''- hosts: all'' (h_Mode h) w3 =
        (None, snd (untar_entry mem_os (path_dir (fl_dataArchive f)) (h, ''- hosts: all'') empty_fs)))"
proof -
  have paths: "path_dir ''/play.yaml'' = ''/''" "path_base ''/play.yaml'' = ''play.yaml''"
    "path_join [''/'', ''play.yaml''] = ''/play.yaml''" by code_simp+
  have kind: "is_regular_mode (fi_mode plain_info)" "\<not> is_link plain_info" "\<not> is_dir plain_info" by code_simp+
  have tokens: "token ''/tmp/sophons-1''" "is_abs ''/tmp/sophons-1''" "token ''web1''" "no_blank ''/play.yaml''"
    by (simp_all add: token_iff is_space_def)
  have base: "comp_ok (path_base ''/play.yaml'')" "path_base ''/play.yaml'' \<noteq> ''..''" by (simp_all add: paths comp_ok_def slash_def)
  have data: "os_readFile mem_os (path_join [path_dir ''/play.yaml'', path_base ''/play.yaml'']) one_playbook = Inr ''- hosts: all''"
    by code_simp
  have size: "length ''- hosts: all'' = fi_size plain_info" by code_simp
  let ?h = "fst (hd (fst (snd (tar_entry mem_os ''/'' ''/play.yaml'' plain_info ([], one_playbook)))))"
  let ?line = "GoStrings.fields (command_line ''/tmp/sophons-1'' ''web1'' ''/play.yaml'')"
  let ?f = "projr (parse_flags (tl ?line) flags_default)"
  have "fst (untar_entry mem_os (path_dir (fl_dataArchive ?f)) (?h, ''- hosts: all'') empty_fs) = None" by code_simp
  then have run: "untar_entry mem_os (path_dir (fl_dataArchive ?f)) (?h, ''- hosts: all'') empty_fs =
      (None, snd (untar_entry mem_os (path_dir (fl_dataArchive ?f)) (?h, ''- hosts: all'') empty_fs))" by (simp add: prod_eq_iff)
  from playbook_is_unpacked_where_run [OF base tokens kind data size, of "[]" mem_os] obtain h exe args f arg
    where h: "tar_entry mem_os ''/'' ''/play.yaml'' plain_info ([], one_playbook) = (None, [(h, ''- hosts: all'')], one_playbook)"
      and f: "?line = exe # args" "parse_flags args flags_default = Inr f" "fl_args f = [arg]"
      and un: "\<forall>w1 w2. untar_entry mem_os (path_dir (fl_dataArchive f)) (h, ''- hosts: all'') w1 = (None, w2) \<longleftrightarrow>
        (\<exists>w3. os_mkdirAll mem_os (path_dir arg) 0x1ED w1 = (None, w3) \<and> os_writeFile mem_os arg ''- hosts: all'' (h_Mode h) w3 = (None, w2))"
    unfolding paths append_Nil by (elim exE conjE) (rule that)
  have "?h = h" "?f = f" using h f(1,2) by simp_all
  with run un have "\<exists>w3. os_mkdirAll mem_os (path_dir arg) 0x1ED empty_fs = (None, w3) \<and>
      os_writeFile mem_os arg ''- hosts: all'' (h_Mode h) w3 =
        (None, snd (untar_entry mem_os (path_dir (fl_dataArchive f)) (h, ''- hosts: all'') empty_fs))" by metis
  with h f show ?thesis by blast
qed

text \<open>
  A playbook in a directory that is named by dot-dots only is unpacked outside the directory of the run, next to it: what is
  unpacked there is not removed after the run, and the executer looks for roles in the directory above.
\<close>

theorem playbook_above_escapes:
  assumes "path_base (path_dir playbook) = ''..''" "comp_ok (path_base playbook)" "path_base playbook \<noteq> ''..''"
    and "is_abs dir" "comp_ok c" "c \<noteq> ''..''"
  shows "path_join [path_join [dir, c], path_base (path_dir playbook), path_base playbook] = path_join [dir, path_base playbook]"
proof -
  let ?f = "path_base playbook"
  let ?ds = "clean_comps True (comps dir)"
  have one: "comps c = [c]" "comps ?f = [?f]" if "comp_ok c" for c
    using comps_join [of "[c]"] comps_join [of "[?f]"] that assms(2) by simp_all
  have up: "comps ''..'' = [''..'']" by (simp add: comps_def slash_def)
  have dir: "dir \<noteq> []" using assms(4) by auto
  have below: "path_join [dir, x] = render_path True (?ds @ [x])" if "comp_ok x" "x \<noteq> ''..''" for x
    using that one dir assms(4) comps_join [of "[x]"] by (simp add: path_join_comps clean_comps_def clean_step_def)
  have ok: "list_all comp_ok (?ds @ [c])" using assms(5) clean_comps_ok [OF comps_ok] by simp
  have "clean_comps True (?ds @ [c]) = ?ds @ [c]"
    by (rule clean_comps_fixed [OF cleaned_snoc [OF clean_comps_cleaned assms(6)]])
  then have "clean_comps True ((?ds @ [c]) @ [''..'', ?f]) = ?ds @ [?f]"
    using assms(3,6) by (simp add: clean_comps_def clean_step_def)
  moreover have "path_join [path_join [dir, c], ''..'', ?f] = render_path True (clean_comps True ((?ds @ [c]) @ [''..'', ?f]))"
    using path_join_comps [OF path_join_ne [OF dir], of "[c]" "[''..'', ?f]"] ok one [OF assms(5)] up
    by (simp add: below [OF assms(5,6)] comps_render is_abs_render)
  ultimately show ?thesis using below [OF assms(2,3)] assms(1) by simp
qed

theorem playbook_above_escapes_witness:
  "path_join [path_join [''/tmp'', ''sophons-7''], path_base (path_dir ''../site.yaml''), path_base ''../site.yaml''] = ''/tmp/site.yaml''"
proof -
  have p: "path_base (path_dir ''../site.yaml'') = ''..''" "path_base ''../site.yaml'' = ''site.yaml''"
    "path_join [''/tmp'', ''site.yaml''] = ''/tmp/site.yaml''" by code_simp+
  show ?thesis using playbook_above_escapes [of "''../site.yaml''" "''/tmp''" "''sophons-7''"] p
    by (simp add: comp_ok_def slash_def)
qed

section \<open>All hosts\<close>

lemma run_hosts_append_done:
  "run_hosts e f playbook config (hs @ hs') l r =
     (case run_hosts e f playbook config hs l r of
        (Done, outs, l1, r1) \<Rightarrow>
          (case run_hosts e f playbook config hs' l1 r1 of (s, outs', l2, r2) \<Rightarrow> (s, outs @ outs', l2, r2))
      | (Fatal m err, outs, l1, r1) \<Rightarrow> (Fatal m err, outs, l1, r1))"
proof (induction hs arbitrary: l r)
  case Nil
  then show ?case by (simp split: prod.split)
next
  case (Cons h hs)
  then show ?case by (auto split: prod.splits sum.splits option.splits exit_status.splits)
qed

text \<open>
  The hosts are taken one after the other: running a list of hosts is running its first part and then, if nothing has failed
  there, the second on what the first has left. So the run stops at the first host that fails, and no host after it is
  touched; and a run that ends well has one output for each host.
\<close>

theorem hosts_one_after_the_other:
  "run_hosts e f playbook config (hs @ hs') l r =
     (case run_hosts e f playbook config hs l r of
        (Done, outs, l1, r1) \<Rightarrow>
          (case run_hosts e f playbook config hs' l1 r1 of (s, outs', l2, r2) \<Rightarrow> (s, outs @ outs', l2, r2))
      | (Fatal m err, outs, l1, r1) \<Rightarrow> (Fatal m err, outs, l1, r1)) \<and>
   length (fst (snd (run_hosts e f playbook config hs l r))) \<le> length hs \<and>
   (case run_hosts e f playbook config hs l r of (Done, outs, x) \<Rightarrow> length outs = length hs | (Fatal m err, x) \<Rightarrow> True)"
proof -
  have "run_hosts e f playbook config hs l r = (s, outs, x) \<Longrightarrow> length outs \<le> length hs \<and> (s = Done \<longrightarrow> length outs = length hs)"
    for s outs x
    by (induction hs arbitrary: l r outs) (fastforce split: prod.splits sum.splits option.splits)+
  then show ?thesis using run_hosts_append_done [of e f playbook config hs hs' l r]
    by (cases "run_hosts e f playbook config hs l r") (auto split: exit_status.split)
qed

text \<open>The keys of a connection: the callback that accepts every host key is used exactly on request.\<close>

lemma sshConfig_keys:
  "sshConfig e insecure u k knownHosts l = Inr c \<Longrightarrow>
     cc_User c = u \<and> cc_Timeout c = 10 \<and> (cc_HostKeyCallback c = InsecureIgnoreHostKey \<longleftrightarrow> insecure) \<and>
     (\<exists>key signer. os_readFile (de_os e) k l = Inr key \<and> de_ParsePrivateKey e key = Inr signer \<and> cc_Auth c = [signer])"
  by (auto simp: sshConfig_def map_sum_def split: sum.splits if_splits)

end
