(* ===== verification/ArchiveProps.thy ===== *)
theory ArchiveProps
  imports Archive Trees
begin

text \<open>
  An archive carries a directory from one machine to another: \<^verbatim>\<open>Tar\<close> lists exactly the contents of the directory, \<^verbatim>\<open>Untar\<close>
  plants what the archive lists, and together they copy the tree. Both are stated on the view of a file system as a tree,
  under the laws of \<open>Trees\<close>.
\<close>

section \<open>What an entry stands for\<close>

definition entry_item :: "entry \<Rightarrow> item" where
  "entry_item e =
     (case h_Typeflag (fst e) of TypeDir \<Rightarrow> Folder | TypeReg \<Rightarrow> Document (snd e)
      | TypeSymlink \<Rightarrow> Pointer (h_Linkname (fst e)) | TypeOther \<Rightarrow> Special)"

text \<open>The place of an entry below the destination, and what comes there.\<close>

definition planned :: "string list \<Rightarrow> entry \<Rightarrow> string list \<times> item" where
  "planned ds e = (ds @ comps (h_Name (fst e)), entry_item e)"

section \<open>Planting\<close>

fun plant :: "string list \<Rightarrow> string list \<times> item \<Rightarrow> filetree \<Rightarrow> filetree" where
  "plant base (q, Folder) t = fill t base q"
| "plant base (q, Special) t = t"
| "plant base (q, it) t = (fill t base (butlast q))(base @ q \<mapsto> it)"

fun fits :: "filetree \<Rightarrow> string list \<Rightarrow> string list \<times> item \<Rightarrow> bool" where
  "fits t base (q, Special) \<longleftrightarrow> True"
| "fits t base (q, it) \<longleftrightarrow>
     (\<forall>r. strict_prefix r q \<longrightarrow> vacant t (base @ r)) \<and>
     (if it = Folder then vacant t (base @ q) else t (base @ q) = None \<and> q \<noteq> [])"

text \<open>An entry that is unpacked without an error.\<close>

lemma untar_dir:
  assumes "untar_entry os dest (h, data) w = (None, w')" "h_Typeflag h = TypeDir"
  shows "os_mkdirAll os (path_join [dest, h_Name h]) (h_Mode h) w = (None, w')"
  using assms by (simp add: untar_entry_def Let_def split: prod.splits option.splits)

lemma untar_file:
  assumes "untar_entry os dest (h, data) w = (None, w')" "h_Typeflag h = TypeReg"
  obtains w1 where "os_mkdirAll os (path_dir (path_join [dest, h_Name h])) 0x1ED w = (None, w1)"
    "os_writeFile os (path_join [dest, h_Name h]) data (h_Mode h) w1 = (None, w')"
  using assms by (simp add: untar_entry_def Let_def split: prod.splits option.splits)

lemma untar_link:
  assumes "untar_entry os dest (h, data) w = (None, w')" "h_Typeflag h = TypeSymlink"
  obtains w1 where "os_mkdirAll os (path_dir (path_join [dest, h_Name h])) 0x1ED w = (None, w1)"
    "os_symlink os (h_Linkname h) (path_join [dest, h_Name h]) w1 = (None, w')"
  using assms by (simp add: untar_entry_def Let_def split: prod.splits option.splits)

context tree_os
begin

text \<open>\<^verbatim>\<open>MkdirAll\<close> of the parent, after which the way is clear.\<close>

lemma parent_made:
  assumes "list_all simple q" "q \<noteq> []" "\<forall>r. strict_prefix r q \<longrightarrow> vacant (view w) (origin a (dir w) @ r)"
    and "view w (origin a (dir w)) = Some Folder" "os_mkdirAll os (path_dir (render_path a q)) m w = (None, w')"
  shows "view w' = fill (view w) (origin a (dir w)) (butlast q)" "dir w' = dir w"
    "clear_to (view w') (origin a (dir w')) q" "view w (origin a (dir w) @ q) = None \<Longrightarrow> view w' (origin a (dir w') @ q) = None"
proof -
  obtain p c where q: "q = p @ [c]" using assms(2) by (metis rev_exhaust)
  have vac: "prefix r p \<Longrightarrow> vacant (view w) (origin a (dir w) @ r)" for r using assms(3) q by (simp add: strict_prefix_snoc)
  have "os_mkdirAll os (render_path a p) m w = (None, w')" using assms(1,2,5) q by (simp add: path_dir_simple)
  from mkdirAll_view [OF _ vac assms(4) this] assms(1) q
  have *: "view w' = fill (view w) (origin a (dir w)) p" "dir w' = dir w" by simp_all
  with q show "view w' = fill (view w) (origin a (dir w)) (butlast q)" "dir w' = dir w" by simp_all
  show "clear_to (view w') (origin a (dir w')) q"
    unfolding * clear_to_def using q vac by (auto simp: strict_prefix_snoc intro: fill_way)
  show "view w' (origin a (dir w') @ q) = None" if "view w (origin a (dir w) @ q) = None"
  proof -
    have "\<not> prefix (p @ [c]) p" using prefix_length_le by fastforce
    with that fill_other [of p "origin a (dir w) @ q" "origin a (dir w)" "view w"] show ?thesis unfolding * q by fastforce
  qed
qed

text \<open>One entry is planted.\<close>

lemma untar_entry_view:
  assumes ds: "list_all simple ds" and name: "list_all simple (comps (h_Name (fst e)))"
    and root: "view w (origin a (dir w)) = Some Folder" and fits: "fits (view w) (origin a (dir w)) (planned ds e)"
    and run: "untar_entry os (render_path a ds) e w = (None, w')"
  shows "view w' = plant (origin a (dir w)) (planned ds e) (view w) \<and> dir w' = dir w"
proof -
  obtain h data where e: "e = (h, data)" by fastforce
  let ?q = "ds @ comps (h_Name h)"
  have q: "list_all simple ?q" using ds name e by simp
  have run': "untar_entry os (render_path a ds) (h, data) w = (None, w')" using run e by simp
  have target: "path_join [render_path a ds, h_Name h] = render_path a ?q" using path_join_simple ds name e by simp
  show ?thesis
  proof (cases "h_Typeflag h")
    case TypeDir
    then have mk: "os_mkdirAll os (render_path a ?q) (h_Mode h) w = (None, w')"
      using untar_dir [OF run' TypeDir] target by simp
    have plan: "planned ds e = (?q, Folder)" using e TypeDir by (simp add: planned_def entry_item_def)
    from fits have "\<forall>r. strict_prefix r ?q \<longrightarrow> vacant (view w) (origin a (dir w) @ r)" "vacant (view w) (origin a (dir w) @ ?q)"
      unfolding plan fits.simps by simp_all
    then have "vacant (view w) (origin a (dir w) @ r)" if "prefix r ?q" for r
      using that by (cases "r = ?q") (simp_all add: strict_prefix_def)
    from mkdirAll_view [OF q this root mk] show ?thesis by (simp add: plan)
  next
    case TypeReg
    have plan: "planned ds e = (?q, Document data)" using e TypeReg by (simp add: planned_def entry_item_def)
    from fits have ne: "?q \<noteq> []" "view w (origin a (dir w) @ ?q) = None"
      and before: "\<forall>r. strict_prefix r ?q \<longrightarrow> vacant (view w) (origin a (dir w) @ r)"
      unfolding plan fits.simps by (simp_all split: if_splits)
    obtain w1 where w1: "os_mkdirAll os (path_dir (render_path a ?q)) 0x1ED w = (None, w1)"
      and wr: "os_writeFile os (render_path a ?q) data (h_Mode h) w1 = (None, w')"
      using untar_file [OF run' TypeReg] target by metis
    note made = parent_made [OF q ne(1) before root w1]
    from writeFile_view [OF q made(3) made(4) [OF ne(2)] wr] made(1,2) show ?thesis by (simp add: plan)
  next
    case TypeSymlink
    have plan: "planned ds e = (?q, Pointer (h_Linkname h))" using e TypeSymlink by (simp add: planned_def entry_item_def)
    from fits have ne: "?q \<noteq> []" "view w (origin a (dir w) @ ?q) = None"
      and before: "\<forall>r. strict_prefix r ?q \<longrightarrow> vacant (view w) (origin a (dir w) @ r)"
      unfolding plan fits.simps by (simp_all split: if_splits)
    obtain w1 where w1: "os_mkdirAll os (path_dir (render_path a ?q)) 0x1ED w = (None, w1)"
      and sy: "os_symlink os (h_Linkname h) (render_path a ?q) w1 = (None, w')"
      using untar_link [OF run' TypeSymlink] target by metis
    note made = parent_made [OF q ne(1) before root w1]
    from symlink_view [OF q made(3) made(4) [OF ne(2)] sy] made(1,2) show ?thesis by (simp add: plan)
  next
    case TypeOther
    with run e show ?thesis by (simp add: untar_entry_def planned_def entry_item_def Let_def)
  qed
qed

end

section \<open>Planting many\<close>

text \<open>
  The tree after the entries of \<open>D\<close> are planted: each is at its place with directories on the way, and everything else
  is as it was.
\<close>

definition grown :: "filetree \<Rightarrow> string list \<Rightarrow> (string list \<times> item) set \<Rightarrow> filetree \<Rightarrow> bool" where
  "grown t0 base D t \<longleftrightarrow>
     (\<forall>q it. (q, it) \<in> D \<longrightarrow> it \<noteq> Special \<longrightarrow>
        t (base @ q) = Some it \<and> (\<forall>r. strict_prefix r q \<longrightarrow> t (base @ r) = Some Folder)) \<and>
     (\<forall>x. (\<forall>q it r. (q, it) \<in> D \<longrightarrow> it \<noteq> Special \<longrightarrow> prefix r q \<longrightarrow> x \<noteq> base @ r) \<longrightarrow> t x = t0 x)"

text \<open>Entries that can be planted in any order: they fit the first tree, and only directories have anything below them.\<close>

definition orderly :: "filetree \<Rightarrow> string list \<Rightarrow> (string list \<times> item) set \<Rightarrow> bool" where
  "orderly t0 base P \<longleftrightarrow>
     (\<forall>p\<in>P. fits t0 base p) \<and> (\<forall>q it r it'. (q, it) \<in> P \<longrightarrow> (r, it') \<in> P \<longrightarrow> strict_prefix r q \<longrightarrow> it' = Folder)"

lemma fits_iff:
  "it \<noteq> Special \<Longrightarrow> fits t base (q, it) \<longleftrightarrow>
     (\<forall>r. strict_prefix r q \<longrightarrow> vacant t (base @ r)) \<and>
     (if it = Folder then vacant t (base @ q) else t (base @ q) = None \<and> q \<noteq> [])"
  by (cases it) auto

lemma plant_iff:
  "it \<noteq> Special \<Longrightarrow> plant base (q, it) t = (if it = Folder then fill t base q else (fill t base (butlast q))(base @ q \<mapsto> it))"
  by (cases it) auto

lemma strict_prefix_butlast: "strict_prefix r q \<Longrightarrow> prefix r (butlast q)"
  by (cases q rule: rev_cases) (auto simp: strict_prefix_snoc)

lemma prefix_butlast_strict: "q \<noteq> [] \<Longrightarrow> prefix r (butlast q) \<Longrightarrow> strict_prefix r q"
  by (cases q rule: rev_cases) (auto simp: strict_prefix_snoc)

lemma grown_vacant:
  assumes g: "grown t0 base D t" and o: "orderly t0 base (insert (q, it) D)" and "it \<noteq> Special" "strict_prefix r q"
  shows "vacant t (base @ r)"
proof (cases "\<exists>q' it'. (q', it') \<in> D \<and> it' \<noteq> Special \<and> prefix r q'")
  case True
  then obtain q' it' where D: "(q', it') \<in> D" "it' \<noteq> Special" "prefix r q'" by blast
  show ?thesis
  proof (cases "r = q'")
    case True
    with D o assms(4) have "it' = Folder" unfolding orderly_def by blast
    with g D True show ?thesis unfolding grown_def vacant_def by blast
  next
    case False
    with D(3) have "strict_prefix r q'" by (simp add: strict_prefix_def)
    with g D show ?thesis unfolding grown_def vacant_def by blast
  qed
next
  case False
  then have "t (base @ r) = t0 (base @ r)" using g unfolding grown_def by (metis append_same_eq same_append_eq)
  moreover have "vacant t0 (base @ r)" using o assms(3,4) unfolding orderly_def by (auto simp: fits_iff)
  ultimately show ?thesis by (simp add: vacant_def)
qed

lemma grown_fits:
  assumes g: "grown t0 base D t" and o: "orderly t0 base (insert (q, it) D)" and "q \<notin> fst ` D"
  shows "fits t base (q, it)"
proof (cases "it = Special")
  case True
  then show ?thesis by simp
next
  case False
  have own: "if it = Folder then vacant t0 (base @ q) else t0 (base @ q) = None \<and> q \<noteq> []"
    using o False unfolding orderly_def by (auto simp: fits_iff)
  have "if it = Folder then vacant t (base @ q) else t (base @ q) = None \<and> q \<noteq> []"
  proof (cases "\<exists>q' it'. (q', it') \<in> D \<and> it' \<noteq> Special \<and> prefix q q'")
    case True
    then obtain q' it' where D: "(q', it') \<in> D" "it' \<noteq> Special" "prefix q q'" by blast
    with assms(3) have "strict_prefix q q'" by (force simp: strict_prefix_def)
    with D o g have "it = Folder" "t (base @ q) = Some Folder" unfolding orderly_def grown_def by blast+
    then show ?thesis by (simp add: vacant_def)
  next
    case False
    then have "t (base @ q) = t0 (base @ q)" using g unfolding grown_def by (metis same_append_eq)
    with own show ?thesis by (simp add: vacant_def split: if_splits)
  qed
  then show ?thesis using grown_vacant [OF g o False] by (simp add: fits_iff False)
qed

lemma plant_keeps:
  assumes "fits t base (q, it)" "t x = Some i" "x \<noteq> base @ q \<or> i = Folder \<and> it = Folder"
  shows "plant base (q, it) t x = Some i"
  using assms by (cases it) (auto simp: fill_keep fits_iff)

lemma plant_here: "fits t base (q, it) \<Longrightarrow> it \<noteq> Special \<Longrightarrow> plant base (q, it) t (base @ q) = Some it"
  by (auto simp: plant_iff fits_iff fill_way)

lemma plant_way:
  assumes "fits t base (q, it)" "it \<noteq> Special" "strict_prefix r q"
  shows "plant base (q, it) t (base @ r) = Some Folder"
proof -
  have "r \<noteq> q" "prefix r q" using assms(3) by (auto simp: strict_prefix_def)
  with assms strict_prefix_butlast [OF assms(3)] show ?thesis by (auto simp: plant_iff fits_iff fill_way)
qed

lemma plant_off:
  assumes "it \<noteq> Special \<Longrightarrow> \<forall>r. prefix r q \<longrightarrow> x \<noteq> base @ r"
  shows "plant base (q, it) t x = t x"
proof (cases "it = Special")
  case False
  then have off: "x \<noteq> base @ r" if "prefix r q" for r using assms that by blast
  moreover have "prefix (butlast q) q" by (simp add: prefixeq_butlast)
  ultimately have "fill t base (butlast q) x = t x" "fill t base q x = t x"
    by (intro fill_other, metis prefix_order.trans)+
  with False off [of q] show ?thesis by (simp add: plant_iff)
qed simp

lemma grown_step:
  assumes g: "grown t0 base D t" and o: "orderly t0 base (insert (q, it) D)" and new: "q \<notin> fst ` D"
  shows "grown t0 base (insert (q, it) D) (plant base (q, it) t)"
  unfolding grown_def
proof (intro conjI allI impI)
  note fit = grown_fits [OF assms]
  fix q' it' assume D: "(q', it') \<in> insert (q, it) D" "it' \<noteq> Special"
  show "plant base (q, it) t (base @ q') = Some it'"
  proof (cases "(q', it') = (q, it)")
    case True
    with plant_here [OF fit] D(2) show ?thesis by simp
  next
    case False
    with D new have "(q', it') \<in> D" "q' \<noteq> q" by force+
    with g D(2) fit show ?thesis unfolding grown_def by (intro plant_keeps) auto
  qed
  fix r assume r: "strict_prefix r q'"
  show "plant base (q, it) t (base @ r) = Some Folder"
  proof (cases "(q', it') = (q, it)")
    case True
    with plant_way [OF fit] D(2) r show ?thesis by simp
  next
    case False
    with D have "(q', it') \<in> D" by blast
    moreover have "it = Folder" if "r = q" using o D(1) r that unfolding orderly_def by blast
    ultimately show ?thesis using g D(2) r fit unfolding grown_def by (intro plant_keeps) auto
  qed
next
  fix x assume x: "\<forall>q' it' r. (q', it') \<in> insert (q, it) D \<longrightarrow> it' \<noteq> Special \<longrightarrow> prefix r q' \<longrightarrow> x \<noteq> base @ r"
  then have "plant base (q, it) t x = t x" by (intro plant_off) blast
  also have "\<dots> = t0 x" using g x unfolding grown_def by blast
  finally show "plant base (q, it) t x = t0 x" .
qed

lemma grown_start: "grown t0 base {} t0"
  by (simp add: grown_def)

lemma grown_base:
  assumes "grown t0 base D t" "orderly t0 base D" "t0 base = Some Folder"
  shows "t base = Some Folder"
proof (cases "\<exists>q it. (q, it) \<in> D \<and> it \<noteq> Special")
  case True
  then obtain q it where D: "(q, it) \<in> D" "it \<noteq> Special" by blast
  show ?thesis
  proof (cases "q = []")
    case True
    with D assms(2) have "it = Folder" unfolding orderly_def by (fastforce simp: fits_iff split: if_splits)
    with D True assms(1) show ?thesis unfolding grown_def by (metis append_Nil2)
  next
    case False
    then have "strict_prefix [] q" by (simp add: strict_prefix_def)
    with D assms(1) show ?thesis unfolding grown_def by (metis append_Nil2)
  qed
next
  case False
  with assms show ?thesis unfolding grown_def by metis
qed

lemma orderly_subset: "orderly t0 base P \<Longrightarrow> Q \<subseteq> P \<Longrightarrow> orderly t0 base Q"
  unfolding orderly_def by blast

context tree_os
begin

text \<open>All entries are planted, in whatever order the archive has them.\<close>

lemma untar_loop:
  assumes "Untar os es (render_path a ds) w = (None, w')" and ds: "list_all simple ds"
    and "\<forall>e\<in>set es. list_all simple (comps (h_Name (fst e)))"
    and "orderly t0 (origin a (dir w)) (D \<union> planned ds ` set es)" "distinct (map (fst \<circ> planned ds) es)"
    and "fst ` D \<inter> (fst \<circ> planned ds) ` set es = {}"
    and "grown t0 (origin a (dir w)) D (view w)" "t0 (origin a (dir w)) = Some Folder"
  shows "grown t0 (origin a (dir w)) (D \<union> planned ds ` set es) (view w') \<and> dir w' = dir w"
  using assms(1,3-)
proof (induction es arbitrary: w D)
  case Nil
  then show ?case by (simp add: Untar_def)
next
  case (Cons e es)
  let ?o = "origin a (dir w)"
  obtain q it where p: "planned ds e = (q, it)" by fastforce
  from Cons.prems(1) obtain w1 where step: "untar_entry os (render_path a ds) e w = (None, w1)"
    and rest: "Untar os es (render_path a ds) w1 = (None, w')"
    by (auto simp: Untar_def split: prod.splits option.splits)
  have ord: "orderly t0 ?o (insert (q, it) D)" using Cons.prems(3) p by (auto elim: orderly_subset)
  have "orderly t0 ?o D" using ord by (auto elim: orderly_subset)
  then have root: "view w ?o = Some Folder" using grown_base Cons.prems(6,7) by blast
  have new: "q \<notin> fst ` D" using Cons.prems(5) p by auto
  have "fits (view w) ?o (planned ds e)" using grown_fits [OF Cons.prems(6) ord new] p by simp
  with untar_entry_view [OF ds _ root _ step] Cons.prems(2)
  have w1: "view w1 = plant ?o (q, it) (view w)" "dir w1 = dir w" using p by simp_all
  have "grown t0 (origin a (dir w1)) (insert (q, it) D) (view w1)"
    using grown_step [OF Cons.prems(6) ord new] w1 by simp
  moreover have "fst ` insert (q, it) D \<inter> (fst \<circ> planned ds) ` set es = {}"
    using Cons.prems(4,5) p by (auto simp: image_iff)
  ultimately have "grown t0 (origin a (dir w1)) (insert (q, it) D \<union> planned ds ` set es) (view w') \<and> dir w' = dir w1"
    using Cons.prems w1 p by (intro Cons.IH [OF rest]) simp_all
  then show ?case using w1 p by simp
qed

end

section \<open>What Tar lists\<close>

text \<open>The name of the directory itself, with which the names in its archive begin.\<close>

definition base_name :: "string list \<Rightarrow> string list" where
  "base_name cs = (if cs = [] then [] else [last cs])"

lemma rel_below:
  assumes "list_all simple cs" "list_all simple q"
  shows "path_rel (path_dir (render_path a cs)) (render_path a (cs @ q)) = Some (render_path False (base_name cs @ q))"
proof (cases cs rule: rev_cases)
  case Nil
  have "drop_common [] q = ([], q)" by (cases q) simp_all
  with Nil assms(2) show ?thesis
    by (simp add: path_dir_root path_rel_def is_abs_render comps_render simple_ok clean_comps_fixed simple_cleaned base_name_def
        clean_comps_fixed [of _ "[]"] cleanedI [of _ 0 "[]"])
next
  case (snoc p c)
  have p: "list_all simple p" "list_all simple (cs @ q)" using assms snoc by simp_all
  have "path_dir (render_path a cs) = render_path a p" using path_dir_simple [OF assms(1)] snoc by simp
  moreover have "drop_common p (cs @ q) = ([], c # q)" using drop_common_prefix [of p "c # q"] snoc by simp
  ultimately show ?thesis
    using is_abs_render [OF simple_ok [OF p(1)], of a] is_abs_render [OF simple_ok [OF p(2)], of a]
      comps_render [OF simple_ok [OF p(1)], of a] comps_render [OF simple_ok [OF p(2)], of a]
      clean_comps_fixed [OF simple_cleaned [OF p(1)], of a] clean_comps_fixed [OF simple_cleaned [OF p(2)], of a]
    by (simp add: path_rel_def Let_def base_name_def) (simp add: snoc)
qed

lemma simple_base_name: "list_all simple cs \<Longrightarrow> list_all simple (base_name cs)"
  by (cases cs rule: rev_cases) (auto simp: base_name_def)

context tree_os
begin

lemma tar_entry_view:
  assumes "list_all simple cs" "list_all simple q" and clear: "clear_to (view w) (origin a (dir w)) (cs @ q)"
    and it: "view w (origin a (dir w) @ cs @ q) = Some it" "describes fi it"
    and run: "tar_entry os (render_path a cs) (render_path a (cs @ q)) fi (out, w) = (None, s')"
  shows "\<exists>e. s' = (out @ [e], w) \<and> planned [] e = (base_name cs @ q, it)"
proof -
  have sim: "list_all simple (cs @ q)" "list_all comp_ok (base_name cs @ q)"
    using assms(1,2) simple_base_name [OF assms(1)] simple_ok by simp_all
  have name: "comps (render_path False (base_name cs @ q)) = base_name cs @ q" by (rule comps_render [OF sim(2)])
  obtain link h where link: "(if is_link fi then os_readlink os (render_path a (cs @ q)) w else Inr []) = Inr link"
    and h: "FileInfoHeader fi link = Inr h"
    using run by (auto simp: tar_entry_def rel_below [OF assms(1,2)] split: sum.splits)
  show ?thesis
  proof (cases it)
    case Folder
    with it(2) have fi: "is_dir fi" "\<not> is_link fi" "\<not> is_regular_mode (fi_mode fi)" by (auto simp: describes_def)
    with h have "h_Typeflag h = TypeDir" by (auto simp: FileInfoHeader_def Let_def)
    with run link h fi Folder name show ?thesis
      by (auto simp: tar_entry_def rel_below [OF assms(1,2)] Let_def planned_def entry_item_def)
  next
    case (Document d)
    with it(2) have fi: "\<not> is_dir fi" "\<not> is_link fi" "is_regular_mode (fi_mode fi)" by (auto simp: describes_def)
    with h have "h_Typeflag h = TypeReg" by (auto simp: FileInfoHeader_def Let_def)
    moreover have "d' = d" if "os_readFile os (render_path a (cs @ q)) w = Inr d'" for d'
      using readFile_view [OF sim(1) clear _ that] it(1) Document by simp
    ultimately show ?thesis using run link h fi Document name
      by (auto simp: tar_entry_def rel_below [OF assms(1,2)] Let_def planned_def entry_item_def split: sum.splits if_splits)
  next
    case (Pointer l)
    with it(2) have fi: "\<not> is_dir fi" "is_link fi" "\<not> is_regular_mode (fi_mode fi)" by (auto simp: describes_def)
    with h have "h_Typeflag h = TypeSymlink" "h_Linkname h = link" by (auto simp: FileInfoHeader_def Let_def)
    moreover have "link = l" using readlink_view [OF sim(1) clear _ ] it(1) Pointer link fi by simp
    ultimately show ?thesis using run link h fi Pointer name
      by (auto simp: tar_entry_def rel_below [OF assms(1,2)] Let_def planned_def entry_item_def)
  next
    case Special
    with it(2) have fi: "\<not> is_dir fi" "\<not> is_link fi" "\<not> is_regular_mode (fi_mode fi)" by (auto simp: describes_def)
    with h have "h_Typeflag h = TypeOther" by (auto simp: FileInfoHeader_def Let_def split: if_splits)
    with run link h fi Special name show ?thesis
      by (auto simp: tar_entry_def rel_below [OF assms(1,2)] Let_def planned_def entry_item_def split: sum.splits if_splits)
  qed
qed

end

text \<open>What the entries of a list stand for, with no two for the same place.\<close>

definition lists :: "entry list \<Rightarrow> (string list \<times> item) set \<Rightarrow> bool" where
  "lists es K \<longleftrightarrow> planned [] ` set es = K \<and> distinct (map (fst \<circ> planned []) es)"

lemma lists_append:
  assumes "lists es K" "lists fs L" "fst ` K \<inter> fst ` L = {}"
  shows "lists (es @ fs) (K \<union> L)"
  using assms by (auto simp: lists_def image_comp)

lemma seq_lists:
  assumes "\<forall>c fi out s'. (c, fi) \<in> set ents \<longrightarrow> f (c, fi) (out, w) = (None, s') \<longrightarrow> (\<exists>es. s' = (out @ es, w) \<and> lists es (K c))"
    and "distinct (map fst ents)" and "\<forall>c d. c \<noteq> d \<longrightarrow> fst ` K c \<inter> fst ` K d = {}"
    and "seq_entries f ents (out, w) = (None, s')"
  shows "\<exists>es. s' = (out @ es, w) \<and> lists es (\<Union>c\<in>fst ` set ents. K c)"
  using assms(1,2,4)
proof (induction ents arbitrary: out)
  case Nil
  then show ?case by (simp add: lists_def)
next
  case (Cons x ents)
  obtain c fi where x: "x = (c, fi)" by fastforce
  from Cons.prems(3) obtain s1 where s1: "f (c, fi) (out, w) = (None, s1)" "seq_entries f ents s1 = (None, s')"
    unfolding x by (auto split: prod.splits option.splits)
  have "(c, fi) \<in> set (x # ents)" using x by simp
  with Cons.prems(1) s1(1) obtain es where es: "s1 = (out @ es, w)" "lists es (K c)" by blast
  have "\<exists>fs. s' = ((out @ es) @ fs, w) \<and> lists fs (\<Union>c\<in>fst ` set ents. K c)"
  proof (rule Cons.IH)
    show "\<forall>d fi1 out1 t. (d, fi1) \<in> set ents \<longrightarrow> f (d, fi1) (out1, w) = (None, t) \<longrightarrow>
        (\<exists>es. t = (out1 @ es, w) \<and> lists es (K d))"
      using Cons.prems(1) by (meson list.set_intros(2))
  qed (use s1(2) es(1) Cons.prems(2) in simp_all)
  then obtain fs where fs: "s' = ((out @ es) @ fs, w)" "lists fs (\<Union>c\<in>fst ` set ents. K c)" by blast
  have "fst ` K c \<inter> fst ` (\<Union>d\<in>fst ` set ents. K d) = {}"
  proof -
    have "d \<noteq> c" if "d \<in> fst ` set ents" for d using that Cons.prems(2) x by auto
    then have "\<forall>d\<in>fst ` set ents. fst ` K c \<inter> fst ` K d = {}" using assms(3) by metis
    then show ?thesis unfolding image_UN Int_UN_distrib by blast
  qed
  from lists_append [OF es(2) fs(2) this] have "lists (es @ fs) (\<Union>c\<in>fst ` set (x # ents). K c)" by (simp add: x)
  with fs(1) show ?case by (intro exI [of _ "es @ fs"]) simp
qed

context tree_os
begin

lemma walk_lists:
  assumes "list_all simple cs"
    and "list_all simple q" "clear_to (view w) (origin a (dir w)) (cs @ q)"
    and "view w (origin a (dir w) @ cs @ q) = Some it" "describes fi it"
    and "walk_dir_fuel os snd (tar_entry os (render_path a cs)) n (render_path a (cs @ q)) fi (out, w) = (None, s')"
  shows "\<exists>es. s' = (out @ es, w) \<and>
    lists es ((\<lambda>(r, i). (base_name cs @ q @ r, i)) ` contents (view w) (origin a (dir w) @ cs @ q))"
  using assms(2-)
proof (induction n arbitrary: q fi it out s')
  case 0
  then show ?case by simp
next
  case (Suc n)
  let ?o = "origin a (dir w)"
  let ?f = "tar_entry os (render_path a cs)"
  from Suc.prems(5) obtain s1 where s1: "?f (render_path a (cs @ q)) fi (out, w) = (None, s1)"
    by (auto split: prod.splits option.splits)
  from tar_entry_view [OF assms(1) Suc.prems(1-4) s1] obtain e where e: "s1 = (out @ [e], w)" "planned [] e = (base_name cs @ q, it)"
    by blast
  show ?case
  proof (cases "it = Folder")
    case False
    with Suc.prems(4) have "\<not> is_dir_mode (fi_mode fi)" by (auto simp: describes_def is_dir_def)
    with Suc.prems(5) s1 e have "s' = (out @ [e], w)" by simp
    with contents_leaf [of "view w" "?o @ cs @ q", OF Suc.prems(3) False] e(2) show ?thesis
      by (intro exI [of _ "[e]"]) (simp add: lists_def)
  next
    case True
    let ?K = "\<lambda>c. (\<lambda>(r, i). (base_name cs @ q @ c # r, i)) ` contents (view w) (?o @ cs @ q @ [c])"
    let ?g = "\<lambda>(name, fi1). walk_dir_fuel os snd ?f n (path_join [render_path a (cs @ q), name]) fi1"
    from Suc.prems(4) True have "is_dir_mode (fi_mode fi)" by (auto simp: describes_def is_dir_def)
    with Suc.prems(5) s1 e obtain ents where ents: "os_readDir os (render_path a (cs @ q)) w = Inr ents"
      and seq: "seq_entries ?g ents (out @ [e], w) = (None, s')"
      by (auto split: sum.splits)
    have sim: "list_all simple (cs @ q)" using assms(1) Suc.prems(1) by simp
    from readDir_view [OF sim Suc.prems(2) _ ents] Suc.prems(3) True
    have d: "distinct (map fst ents)" and names: "\<And>c. c \<in> fst ` set ents \<longleftrightarrow> simple c \<and> view w (?o @ cs @ q @ [c]) \<noteq> None"
      and infos: "\<And>c fi. (c, fi) \<in> set ents \<Longrightarrow> \<exists>it. view w (?o @ cs @ q @ [c]) = Some it \<and> describes fi it"
      by auto
    have step: "\<exists>es. s2 = (out2 @ es, w) \<and> lists es (?K c)"
      if c: "(c, fi1) \<in> set ents" and run: "?g (c, fi1) (out2, w) = (None, s2)" for c fi1 out2 s2
    proof -
      have "c \<in> fst ` set ents" using c by force
      then have sc: "simple c" using names by blast
      then have "comps c = [c]" using comps_join [of "[c]"] by (simp add: simple_def)
      then have "path_join [render_path a (cs @ q), c] = render_path a (cs @ (q @ [c]))"
        using path_join_simple [OF sim, of c a] sc by simp
      moreover have "clear_to (view w) ?o (cs @ (q @ [c]))"
        using Suc.prems(2,3) True clear_to_snoc [of "view w" ?o "cs @ q" c] by simp
      moreover obtain it1 where "view w (?o @ cs @ (q @ [c])) = Some it1" "describes fi1 it1" using infos [OF c] by auto
      ultimately show ?thesis using Suc.IH [of "q @ [c]" it1 fi1 out2 s2] sc Suc.prems(1) run by simp
    qed
    have steps: "\<forall>c fi1 out2 s2. (c, fi1) \<in> set ents \<longrightarrow> ?g (c, fi1) (out2, w) = (None, s2) \<longrightarrow>
        (\<exists>es. s2 = (out2 @ es, w) \<and> lists es (?K c))"
      using step by blast
    have disj: "\<forall>c d. c \<noteq> d \<longrightarrow> fst ` ?K c \<inter> fst ` ?K d = {}" by auto
    from seq_lists [OF steps d disj seq]
    obtain es where es: "s' = ((out @ [e]) @ es, w)" "lists es (\<Union>c\<in>fst ` set ents. ?K c)" by blast
    have one: "lists [e] {(base_name cs @ q, it)}" using e(2) by (simp add: lists_def)
    have "fst ` {(base_name cs @ q, it)} \<inter> fst ` (\<Union>c\<in>fst ` set ents. ?K c) = {}" by auto
    from lists_append [OF one es(2) this]
    have "lists (e # es) (insert (base_name cs @ q, it) (\<Union>c\<in>fst ` set ents. ?K c))" by simp
    moreover have "(\<lambda>(r, i). (base_name cs @ q @ r, i)) ` contents (view w) (?o @ cs @ q) =
        insert (base_name cs @ q, it) (\<Union>c\<in>fst ` set ents. ?K c)"
    proof -
      have "fst ` set ents = {c. simple c \<and> view w ((?o @ cs @ q) @ [c]) \<noteq> None}" using names by auto
      then show ?thesis using contents_folder [of "view w" "?o @ cs @ q"] Suc.prems(3) True
        by (simp add: image_UN image_image case_prod_unfold)
    qed
    ultimately show ?thesis using es(1) by (intro exI [of _ "e # es"]) simp
  qed
qed

lemma Tar_lists:
  assumes "list_all simple cs" "clear_to (view w) (origin a (dir w)) cs" "Tar os (render_path a cs) w = Inr es"
  shows "lists es ((\<lambda>(q, i). (base_name cs @ q, i)) ` contents (view w) (origin a (dir w) @ cs))"
proof -
  from assms(3) obtain fi s' where fi: "os_lstat os (render_path a cs) w = Inr fi"
    and run: "walk_dir_fuel os snd (tar_entry os (render_path a cs)) walk_fuel (render_path a (cs @ [])) fi ([], w) = (None, s')"
    and es: "fst s' = es"
    by (auto simp: Tar_def walk_dir_def split: sum.splits prod.splits option.splits)
  from lstat_view [OF assms(1,2) fi] obtain it where it: "view w (origin a (dir w) @ cs @ []) = Some it" "describes fi it" by auto
  from walk_lists [OF assms(1) _ _ it run] assms(2) es show ?thesis by auto
qed

end

section \<open>The copy\<close>

text \<open>What is found under a name below a directory, going through directories only.\<close>

definition found :: "filetree \<Rightarrow> string list \<Rightarrow> string list \<Rightarrow> item option" where
  "found t base q = (if list_all simple q \<and> clear_to t base q then t (base @ q) else None)"

lemma contents_found: "(q, it) \<in> contents t base \<longleftrightarrow> found t base q = Some it"
  by (auto simp: contents_def found_def)

lemma found_above:
  assumes "found t base q = Some it" "strict_prefix r q"
  shows "found t base r = Some Folder"
proof -
  from assms(1) have q: "list_all simple q" "clear_to t base q" by (auto simp: found_def split: if_splits)
  then have "list_all simple r" using assms(2) set_mono_prefix [of r q] by (auto simp: list_all_iff strict_prefix_def)
  moreover have "clear_to t base r" "t (base @ r) = Some Folder"
    using q(2) assms(2) prefix_order.less_trans by (auto simp: clear_to_def)
  ultimately show ?thesis by (simp add: found_def)
qed

text \<open>The entries of a listed directory can be planted where there is room for them.\<close>

lemma orderly_listed:
  assumes "\<forall>r. prefix r p \<longrightarrow> vacant t0 (base @ r)"
    and "\<forall>q it. found t src q = Some it \<longrightarrow> it \<noteq> Special \<longrightarrow>
      t0 (base @ p @ q) = None \<or> it = Folder \<and> t0 (base @ p @ q) = Some Folder"
    and "t src = Some Folder"
  shows "orderly t0 base ((\<lambda>(q, it). (p @ q, it)) ` contents t src)"
  unfolding orderly_def
proof (intro conjI ballI allI impI)
  fix x assume "x \<in> (\<lambda>(q, it). (p @ q, it)) ` contents t src"
  then obtain q it where x: "x = (p @ q, it)" "found t src q = Some it" by (auto simp: contents_found)
  have "vacant t0 (base @ r)" if r: "strict_prefix r (p @ q)" for r
  proof (cases "prefix r p")
    case False
    with r obtain s where s: "r = p @ s" "strict_prefix s q" by (auto simp: strict_prefix_def prefix_append)
    with found_above [OF x(2) s(2)] assms(2) show ?thesis by (fastforce simp: vacant_def)
  qed (use assms(1) in blast)
  moreover have "q \<noteq> [] \<or> it = Folder" using x(2) assms(3) by (auto simp: found_def)
  ultimately show "fits t0 base x" using x assms(2) by (cases "it = Special") (auto simp: fits_iff vacant_def)
next
  fix q it r it'
  assume "(q, it) \<in> (\<lambda>(q, it). (p @ q, it)) ` contents t src" "(r, it') \<in> (\<lambda>(q, it). (p @ q, it)) ` contents t src"
    and r: "strict_prefix r q"
  then obtain q' r' where "q = p @ q'" "r = p @ r'" "found t src q' = Some it" "found t src r' = Some it'"
    by (auto simp: contents_found)
  with r found_above [of t src q' it r'] show "it' = Folder" by (auto simp: strict_prefix_def)
qed

lemma grown_listed:
  assumes "grown t0 base ((\<lambda>(q, it). (p @ q, it)) ` contents t src) t'" "t src = Some Folder"
    and "\<forall>r. prefix r p \<longrightarrow> vacant t0 (base @ r)"
  shows "t' (base @ p @ q) = (case found t src q of None \<Rightarrow> t0 (base @ p @ q) | Some Special \<Rightarrow> t0 (base @ p @ q) | Some it \<Rightarrow> Some it)"
    and "\<forall>q. x \<noteq> base @ p @ q \<Longrightarrow> t' x = fill t0 base p x"
proof -
  note planted = assms(1) [unfolded grown_def, THEN conjunct1]
  note rest = assms(1) [unfolded grown_def, THEN conjunct2]
  have there: "(p @ r, it) \<in> (\<lambda>(q, it). (p @ q, it)) ` contents t src" if "found t src r = Some it" for r it
    using that by (force simp: contents_found)
  have none: "t' (base @ p @ q) = t0 (base @ p @ q)" if "found t src q = None \<or> found t src q = Some Special"
  proof -
    have "p @ q \<noteq> r" if m: "(q', it) \<in> (\<lambda>(q, it). (p @ q, it)) ` contents t src" "it \<noteq> Special" "prefix r q'" for q' it r
    proof
      assume "p @ q = r"
      with m obtain s where s: "found t src s = Some it" "prefix q s" by (auto simp: contents_found)
      with found_above [OF s(1), of q] \<open>found t src q = None \<or> found t src q = Some Special\<close> m(2) show False
        by (cases "q = s") (auto simp: strict_prefix_def)
    qed
    with rest show ?thesis by (metis same_append_eq)
  qed
  show "t' (base @ p @ q) = (case found t src q of None \<Rightarrow> t0 (base @ p @ q) | Some Special \<Rightarrow> t0 (base @ p @ q) | Some it \<Rightarrow> Some it)"
  proof (cases "found t src q")
    case (Some it)
    with planted there [OF Some] none show ?thesis by (cases it) auto
  qed (use none in simp)
  have top: "found t src [] = Some Folder" using assms(2) by (simp add: found_def)
  show "t' x = fill t0 base p x" if x: "\<forall>q. x \<noteq> base @ p @ q"
  proof (cases "\<exists>r. prefix r p \<and> x = base @ r")
    case True
    then obtain r where r: "prefix r p" "x = base @ r" by blast
    moreover have "r \<noteq> p" using x r by (metis append_Nil2)
    ultimately have "strict_prefix r (p @ [])" by (simp add: strict_prefix_def)
    with planted there [OF top] r have "t' x = Some Folder" by blast
    with fill_way [of t0 base r p] assms(3) r show ?thesis by simp
  next
    case False
    have "x \<noteq> base @ r" if m: "(q', it) \<in> (\<lambda>(q, it). (p @ q, it)) ` contents t src" "prefix r q'" for q' it r
    proof
      assume e: "x = base @ r"
      from m obtain s where "prefix r (p @ s)" by auto
      then have "prefix r p \<or> (\<exists>u. r = p @ u)" by (auto simp: prefix_append)
      with e x False show False by auto
    qed
    with rest have "t' x = t0 x" by metis
    moreover have "fill t0 base p x = t0 x" using False by (intro fill_other) auto
    ultimately show ?thesis by simp
  qed
qed

lemma archive_grown:
  assumes "tree_os os1 view1 dir1" "tree_os os2 view2 dir2"
    and "list_all simple cs" "clear_to (view1 w1) (origin a (dir1 w1)) cs" "view1 w1 (origin a (dir1 w1) @ cs) = Some Folder"
    and "Tar os1 (render_path a cs) w1 = Inr es"
    and "list_all simple ds" "view2 w2 (origin b (dir2 w2)) = Some Folder"
    and "\<forall>r. prefix r (ds @ base_name cs) \<longrightarrow> vacant (view2 w2) (origin b (dir2 w2) @ r)"
    and "\<forall>q it. found (view1 w1) (origin a (dir1 w1) @ cs) q = Some it \<longrightarrow> it \<noteq> Special \<longrightarrow>
      view2 w2 (origin b (dir2 w2) @ (ds @ base_name cs) @ q) = None \<or>
      it = Folder \<and> view2 w2 (origin b (dir2 w2) @ (ds @ base_name cs) @ q) = Some Folder"
    and "Untar os2 es (render_path b ds) w2 = (None, w2')"
  shows "grown (view2 w2) (origin b (dir2 w2)) ((\<lambda>(q, i). ((ds @ base_name cs) @ q, i)) ` contents (view1 w1) (origin a (dir1 w1) @ cs))
    (view2 w2') \<and> dir2 w2' = dir2 w2"
proof -
  let ?S = "origin a (dir1 w1) @ cs" and ?p = "ds @ base_name cs"
  have l: "lists es ((\<lambda>(q, i). (base_name cs @ q, i)) ` contents (view1 w1) ?S)"
    by (rule tree_os.Tar_lists [OF assms(1,3,4,6)])
  have "planned ds = (\<lambda>(q, i). (ds @ q, i)) \<circ> planned []" by (simp add: fun_eq_iff planned_def)
  then have "planned ds ` set es = (\<lambda>(q, i). (ds @ q, i)) ` planned [] ` set es" by (simp add: image_comp)
  also have "\<dots> = (\<lambda>(q, i). (?p @ q, i)) ` contents (view1 w1) ?S"
    using l by (simp add: lists_def image_image case_prod_unfold)
  finally have P: "planned ds ` set es = (\<lambda>(q, i). (?p @ q, i)) ` contents (view1 w1) ?S" .
  have names: "\<forall>e\<in>set es. list_all simple (comps (h_Name (fst e)))"
  proof
    fix e assume "e \<in> set es"
    then have "planned [] e \<in> (\<lambda>(q, i). (base_name cs @ q, i)) ` contents (view1 w1) ?S" using l unfolding lists_def by blast
    then show "list_all simple (comps (h_Name (fst e)))"
      using simple_base_name [OF assms(3)] by (auto simp: planned_def contents_def)
  qed
  have "map (fst \<circ> planned ds) es = map ((@) ds) (map (fst \<circ> planned []) es)" by (simp add: planned_def)
  moreover have "distinct (map (fst \<circ> planned []) es)" using l by (simp add: lists_def)
  ultimately have dist: "distinct (map (fst \<circ> planned ds) es)" by (simp only: distinct_map [of "(@) ds"]) (simp add: inj_on_def)
  have "orderly (view2 w2) (origin b (dir2 w2)) ({} \<union> planned ds ` set es)"
    using orderly_listed [of ?p "view2 w2" "origin b (dir2 w2)" "view1 w1" ?S] assms(5,9,10) P by simp
  from tree_os.untar_loop [OF assms(2,11,7) names this dist _ grown_start assms(8)]
  show ?thesis using P by simp
qed

text \<open>
  C12. The directory of the playbook arrives as it was. If \<^verbatim>\<open>Tar\<close> of a directory succeeds on one machine and \<^verbatim>\<open>Untar\<close> of what
  it returned succeeds on another, with nothing in the way of what is unpacked, then below the destination and the name of
  the directory is found, under every name, what was found under that name in the directory: the same directories, files
  with the same bytes, links with the same targets. What is no file, directory or link is left out; and apart
  from directories that were missing on the way to the destination nothing else has changed.
\<close>

theorem archive_copies_directory:
  assumes "tree_os os1 view1 dir1" "tree_os os2 view2 dir2"
    and "list_all simple cs" "clear_to (view1 w1) (origin a (dir1 w1)) cs" "view1 w1 (origin a (dir1 w1) @ cs) = Some Folder"
    and "Tar os1 (render_path a cs) w1 = Inr es"
    and "list_all simple ds" "view2 w2 (origin b (dir2 w2)) = Some Folder"
    and "\<forall>r. prefix r (ds @ base_name cs) \<longrightarrow> vacant (view2 w2) (origin b (dir2 w2) @ r)"
    and "\<forall>q it. found (view1 w1) (origin a (dir1 w1) @ cs) q = Some it \<longrightarrow> it \<noteq> Special \<longrightarrow>
      view2 w2 (origin b (dir2 w2) @ (ds @ base_name cs) @ q) = None \<or>
      it = Folder \<and> view2 w2 (origin b (dir2 w2) @ (ds @ base_name cs) @ q) = Some Folder"
    and "Untar os2 es (render_path b ds) w2 = (None, w2')"
  shows "(\<forall>q. view2 w2' (origin b (dir2 w2) @ (ds @ base_name cs) @ q) =
      (case found (view1 w1) (origin a (dir1 w1) @ cs) q of
         None \<Rightarrow> view2 w2 (origin b (dir2 w2) @ (ds @ base_name cs) @ q)
       | Some Special \<Rightarrow> view2 w2 (origin b (dir2 w2) @ (ds @ base_name cs) @ q)
       | Some it \<Rightarrow> Some it)) \<and>
    (\<forall>x. (\<forall>q. x \<noteq> origin b (dir2 w2) @ (ds @ base_name cs) @ q) \<longrightarrow>
      view2 w2' x = fill (view2 w2) (origin b (dir2 w2)) (ds @ base_name cs) x)"
  using grown_listed [OF archive_grown [OF assms, THEN conjunct1] assms(5,9)] by blast

text \<open>A directory with a playbook, a role below it and a link, and the machine it is copied to.\<close>

definition site_fs :: memfs where
  "site_fs = snd (mem_symlink ''play.yaml'' ''/site/main.yaml'' (snd (mem_writeFile ''/site/roles/main.yaml'' ''[]'' 0x1A4
     (snd (mem_mkdirAll ''/site/roles'' 0x1ED (snd (mem_writeFile ''/site/play.yaml'' ''- hosts: all'' 0x1A4
       (snd (mem_mkdirAll ''/site'' 0x1ED empty_fs)))))))))"

definition target_fs :: memfs where
  "target_fs = snd (mem_mkdirAll ''/tmp/s'' 0x1C0 empty_fs)"

theorem archive_copies_directory_witness:
  "\<exists>es. Tar mem_os ''/site'' site_fs = Inr es \<and>
    mem_view (snd (Untar mem_os es ''/tmp/s'' target_fs)) [''tmp'', ''s'', ''site'', ''play.yaml''] = Some (Document ''- hosts: all'') \<and>
    mem_view (snd (Untar mem_os es ''/tmp/s'' target_fs)) [''tmp'', ''s'', ''site'', ''main.yaml''] = Some (Pointer ''play.yaml'')"
proof -
  let ?es = "projr (Tar mem_os ''/site'' site_fs)"
  have tar: "Tar mem_os ''/site'' site_fs = Inr ?es" by code_simp
  have "fst (Untar mem_os ?es ''/tmp/s'' target_fs) = None" by code_simp
  then have untar: "Untar mem_os ?es ''/tmp/s'' target_fs = (None, snd (Untar mem_os ?es ''/tmp/s'' target_fs))"
    by (simp add: prod_eq_iff)
  have here: "mem_view site_fs [] = Some Folder" "mem_view site_fs [''site''] = Some Folder"
    "mem_view site_fs [''site'', ''play.yaml''] = Some (Document ''- hosts: all'')"
    "mem_view site_fs [''site'', ''main.yaml''] = Some (Pointer ''play.yaml'')"
    by code_simp+
  have there: "mem_view target_fs [] = Some Folder" "mem_view target_fs [''tmp''] = Some Folder"
    "mem_view target_fs [''tmp'', ''s''] = Some Folder" by code_simp+
  have "map fst (fs_names target_fs) = [[''tmp'', ''s''], [''tmp''], []]" by code_simp
  then have "map_of (fs_names target_fs) ([''tmp'', ''s'', ''site''] @ q) = None" for q
    by (simp add: map_of_eq_None_iff image_set)
  then have free: "mem_view target_fs (''tmp'' # ''s'' # ''site'' # q) = None" for q
    by (simp add: mem_view_def node_def)
  have sim: "list_all simple [''site'']" "list_all simple [''tmp'', ''s'']" "simple ''play.yaml''" "simple ''main.yaml''"
    by code_simp+
  have paths: "''/site'' = render_path True [''site'']" "''/tmp/s'' = render_path True [''tmp'', ''s'']" by code_simp+
  have "\<forall>r. prefix r [''tmp'', ''s'', ''site''] \<longrightarrow> vacant (mem_view target_fs) r"
    using there free [of "[]"] by (auto simp: vacant_def prefix_Cons)
  with archive_copies_directory [OF memtree.tree_os_axioms memtree.tree_os_axioms sim(1) _ _ tar [unfolded paths] sim(2) _ _ _
      untar [unfolded paths]] here there free
  have "mem_view (snd (Untar mem_os ?es ''/tmp/s'' target_fs)) (''tmp'' # ''s'' # ''site'' # q) =
      (case found (mem_view site_fs) [''site''] q of None \<Rightarrow> None | Some Special \<Rightarrow> None | Some it \<Rightarrow> Some it)" for q
    by (simp add: origin_def base_name_def clear_to_Cons paths split: option.split item.split)
  moreover have "found (mem_view site_fs) [''site''] [''play.yaml''] = Some (Document ''- hosts: all'')"
    "found (mem_view site_fs) [''site''] [''main.yaml''] = Some (Pointer ''play.yaml'')"
    using here sim by (simp_all add: found_def clear_to_Cons)
  ultimately have "mem_view (snd (Untar mem_os ?es ''/tmp/s'' target_fs)) [''tmp'', ''s'', ''site'', ''play.yaml''] = Some (Document ''- hosts: all'')"
    "mem_view (snd (Untar mem_os ?es ''/tmp/s'' target_fs)) [''tmp'', ''s'', ''site'', ''main.yaml''] = Some (Pointer ''play.yaml'')"
    by simp_all
  with tar show ?thesis by blast
qed

end
