(* ===== verification/Deploy.thy ===== *)
theory Deploy
  imports DialerProps ArchiveProps ExecuterProps
begin

text \<open>
  The dialer and the executer together: what the executer unpacks and reads on the host is what the dialer has archived.
\<close>

lemma comps_base_name:
  assumes "list_all simple cs"
  shows "comps (path_base (render_path a cs)) = base_name cs"
proof (cases cs rule: rev_cases)
  case Nil
  then show ?thesis
    by (cases a) (simp_all add: base_name_def render_path_def path_base_def trim_right_def trim_left_def slash_def comps_def)
next
  case (snoc p c)
  then have "list_all comp_ok (p @ [c])" using simple_ok [OF assms] by simp
  from path_base_render [OF this, of a] snoc comps_join [of "[c]"] \<open>list_all comp_ok (p @ [c])\<close>
  show ?thesis by (simp add: base_name_def)
qed

lemma simple_clean: "list_all simple q \<Longrightarrow> clean (render_path a q) = render_path a q"
  by (simp add: clean_def is_abs_render comps_render simple_ok clean_comps_fixed simple_cleaned)

lemma playbook_arg_place:
  assumes "list_all simple ds" "ds \<noteq> []" "list_all simple (cs @ [p])"
  shows "playbook_arg (render_path True ds) (render_path a (cs @ [p])) = render_path True ((ds @ base_name cs) @ [p])"
proof -
  have cs: "list_all simple cs" "simple p" using assms(3) by simp_all
  have base: "path_base (render_path a (cs @ [p])) = p" using path_base_render simple_ok [OF assms(3)] by blast
  have dir: "path_dir (render_path a (cs @ [p])) = render_path a cs" using path_dir_simple [OF assms(3)] by simp
  have sim: "list_all simple ((ds @ base_name cs) @ [p])" using assms(1) cs simple_base_name by simp
  have "comps p = [p]" using cs(2) comps_join [of "[p]"] by (simp add: simple_def)
  then show ?thesis
    using clean_comps_fixed [OF simple_cleaned [OF sim], of True] path_join_comps [of "render_path True ds" "[path_base (render_path a cs), p]"]
    by (simp add: playbook_arg_def base dir comps_base_name [OF cs(1)] is_abs_render comps_render simple_ok [OF assms(1)])
      (simp add: render_path_def)
qed

text \<open>
  C13. The executer reads the playbook the dialer was given. The dialer archives the directory of a playbook on one machine; the
  archive comes to the directory of the run on a host, where nothing is in the way of what it holds; and the executer is
  started with the command line of the dialer. If it gets through unpacking, then what it reads as its playbook
  is what the playbook file holds on the first machine, and it looks for roles below the directory that was unpacked.
\<close>

theorem executer_reads_the_playbook:
  assumes "tree_os os1 view1 dir1" "tree_os (ee_os e) view2 dir2"
    and "list_all simple (cs @ [p])" "clear_to (view1 l) (origin a (dir1 l)) (cs @ [p])"
    and "view1 l (origin a (dir1 l) @ cs @ [p]) = Some (Document d)"
    and "Tar os1 (path_dir (render_path a (cs @ [p]))) l = Inr es"
    and "list_all simple ds" "ds \<noteq> []" "view2 w [] = Some Folder"
    and "\<forall>r. prefix r (ds @ base_name cs) \<longrightarrow> vacant (view2 w) r"
    and "\<forall>q it. found (view1 l) (origin a (dir1 l) @ cs) q = Some it \<longrightarrow> it \<noteq> Special \<longrightarrow>
      view2 w ((ds @ base_name cs) @ q) = None \<or> it = Folder \<and> view2 w ((ds @ base_name cs) @ q) = Some Folder"
    and "token (render_path True ds)" "token host" "no_blank (render_path a (cs @ [p]))"
    and "parse_flags (tl (GoStrings.fields (command_line (render_path True ds) host (render_path a (cs @ [p]))))) flags_default = Inr f"
    and "and_then (read_file (ee_os e) w (fl_dataArchive f)) (ee_untar e) = Inr es"
    and "unpack e f (hd (fl_args f)) w = (Inr playbookDir, w')"
    and "read_file (ee_os e) w' (hd (fl_args f)) = Inr data"
  shows "data = d \<and> playbookDir = path_join [render_path True ds, path_base (path_dir (render_path a (cs @ [p])))]"
proof -
  let ?dir = "render_path True ds" and ?pb = "render_path a (cs @ [p])" and ?q = "(ds @ base_name cs) @ [p]"
  have cs: "list_all simple cs" "simple p" using assms(3) by simp_all
  have src: "path_dir ?pb = render_path a cs" using path_dir_simple [OF assms(3)] by simp
  have abs: "is_abs ?dir" by (simp add: render_path_def)
  then have ne: "?dir \<noteq> []" by auto
  have o: "origin True c = []" for c by (simp add: origin_def)
  from command_parses [OF assms(12) abs assms(13,14)] assms(15)
  have f: "fl_dataArchive f = path_join [?dir, ''data.tar.gz'']" "fl_playbooksDirName f = path_base (path_dir ?pb)"
    "fl_args f = [playbook_arg ?dir ?pb]" by auto
  have dest: "path_dir (fl_dataArchive f) = ?dir"
    using path_dir_join [OF ne, of "''data.tar.gz''"] simple_clean [OF assms(7)] f(1) by (simp add: comp_ok_def slash_def)
  have un: "Untar (ee_os e) es ?dir w = (None, w')" "playbookDir = path_join [?dir, path_base (path_dir ?pb)]"
    using assms(16,17) path_join_ne [OF ne, of "[''data.tar.gz'']"] dest f
    by (auto simp: unpack_def Let_def split: prod.splits option.splits)
  have S: "clear_to (view1 l) (origin a (dir1 l)) cs" "view1 l (origin a (dir1 l) @ cs) = Some Folder"
    using assms(4) by (simp_all add: clear_to_snoc)
  have grown: "grown (view2 w) [] ((\<lambda>(q, i). ((ds @ base_name cs) @ q, i)) ` contents (view1 l) (origin a (dir1 l) @ cs)) (view2 w')"
    using archive_grown [OF assms(1,2) cs(1) S assms(6) [unfolded src] assms(7) _ _ _ un(1)] assms(9,10,11) by (simp add: o)
  have "([p], Document d) \<in> contents (view1 l) (origin a (dir1 l) @ cs)"
    using cs assms(5) S(2) by (simp add: contents_def clear_to_Cons)
  then have "(?q, Document d) \<in> (\<lambda>(q, i). ((ds @ base_name cs) @ q, i)) ` contents (view1 l) (origin a (dir1 l) @ cs)" by force
  with grown have here: "view2 w' ([] @ ?q) = Some (Document d)" "clear_to (view2 w') [] ?q"
    unfolding grown_def clear_to_def by blast+
  have "list_all simple ?q" using assms(7) cs simple_base_name by simp
  from tree_os.readFile_view [OF assms(2) this, of w' True d data] here assms(18) f(3) playbook_arg_place [OF assms(7,8,3)]
  have "data = d" by (simp add: o read_file_def split: sum.splits)
  with un(2) show ?thesis by simp
qed

definition host_fs :: memfs where
  "host_fs = snd (mem_writeFile ''/tmp/s/data.tar.gz'' ''tgz'' 0x1A4 target_fs)"

definition site_archive :: "entry list" where
  "site_archive = projr (Tar mem_os ''/site'' site_fs)"

definition host_env :: "(string, memfs) exec_env" where
  "host_env = toy_exec_env\<lparr>ee_untar := (\<lambda>b. Inr site_archive)\<rparr>"

definition host_flags :: flags where
  "host_flags = projr (parse_flags (tl (GoStrings.fields (command_line ''/tmp/s'' ''web1'' ''/site/play.yaml''))) flags_default)"

definition host_after :: memfs where
  "host_after = snd (unpack host_env host_flags (hd (fl_args host_flags)) host_fs)"

theorem executer_reads_the_playbook_witness:
  "\<exists>data. read_file mem_os host_after (hd (fl_args host_flags)) = Inr data \<and> data = ''- hosts: all''"
proof -
  have tar: "Tar mem_os ''/site'' site_fs = Inr site_archive" unfolding site_archive_def by code_simp
  have flags: "parse_flags (tl (GoStrings.fields (command_line ''/tmp/s'' ''web1'' ''/site/play.yaml''))) flags_default = Inr host_flags"
    unfolding host_flags_def by code_simp
  have "fst (unpack host_env host_flags (hd (fl_args host_flags)) host_fs) = Inr ''/tmp/s/site''" by code_simp
  then have un: "unpack host_env host_flags (hd (fl_args host_flags)) host_fs = (Inr ''/tmp/s/site'', host_after)"
    by (simp add: host_after_def prod_eq_iff)
  have arch: "and_then (read_file (ee_os host_env) host_fs (fl_dataArchive host_flags)) (ee_untar host_env) = Inr site_archive"
  proof -
    have "fl_dataArchive host_flags = ''/tmp/s/data.tar.gz''" "mem_readFile ''/tmp/s/data.tar.gz'' host_fs = Inr ''tgz''" by code_simp+
    then show ?thesis by (simp add: host_env_def toy_exec_env_def read_file_def mem_os_sel)
  qed
  define data where "data = projr (read_file mem_os host_after (hd (fl_args host_flags)))"
  have rd: "read_file mem_os host_after (hd (fl_args host_flags)) = Inr data" unfolding data_def by code_simp
  have here: "mem_view site_fs [] = Some Folder" "mem_view site_fs [''site''] = Some Folder"
    "mem_view site_fs [''site'', ''play.yaml''] = Some (Document ''- hosts: all'')" by code_simp+
  have there: "mem_view host_fs [] = Some Folder" "mem_view host_fs [''tmp''] = Some Folder" "mem_view host_fs [''tmp'', ''s''] = Some Folder"
    by code_simp+
  have "map fst (fs_names host_fs) = [[''tmp'', ''s'', ''data.tar.gz''], [''tmp'', ''s''], [''tmp''], []]" by code_simp
  then have "map_of (fs_names host_fs) ([''tmp'', ''s'', ''site''] @ q) = None" for q
    by (simp add: map_of_eq_None_iff image_set)
  then have free: "mem_view host_fs (''tmp'' # ''s'' # ''site'' # q) = None" for q
    by (simp add: mem_view_def node_def)
  have vac: "\<forall>r. prefix r [''tmp'', ''s'', ''site''] \<longrightarrow> vacant (mem_view host_fs) r"
    using there free [of "[]"] by (auto simp: vacant_def prefix_Cons)
  have sim: "list_all simple ([''site''] @ [''play.yaml''])" "list_all simple [''tmp'', ''s'']" by code_simp+
  have paths: "render_path True ([''site''] @ [''play.yaml'']) = ''/site/play.yaml''" "render_path True [''tmp'', ''s''] = ''/tmp/s''"
    "path_dir ''/site/play.yaml'' = ''/site''" by code_simp+
  have tok: "token ''/tmp/s''" "token ''web1''" "no_blank ''/site/play.yaml''" by (simp_all add: token_iff is_space_def)
  have os: "ee_os host_env = mem_os" by (simp add: host_env_def toy_exec_env_def)
  have "data = ''- hosts: all''"
    using executer_reads_the_playbook [of mem_os mem_view fs_cwd host_env mem_view fs_cwd "[''site'']" "''play.yaml''" site_fs True
        "''- hosts: all''" site_archive "[''tmp'', ''s'']" host_fs "''web1''" host_flags "''/tmp/s/site''" host_after data]
      memtree.tree_os_axioms sim here there free vac tar flags arch un rd tok
    unfolding os paths by (simp add: origin_def base_name_def clear_to_Cons)
  with rd show ?thesis by blast
qed

end
