(* ===== verification/Conformance.thy ===== *)
theory Conformance
  imports Os "HOL-Library.Multiset"
begin

text \<open>
  The conformance tests, \<^verbatim>\<open>cmd/conformance/main.go\<close>: which playbooks are run, one test in its container, and the pool of
  goroutines that runs them. Processes, connections and the clock are a record of operations; the pool is a
  step relation, whose steps are those of the scheduler.
\<close>

section \<open>Which playbooks\<close>

definition select_playbooks :: "string \<Rightarrow> string list \<Rightarrow> goerr + string list" where
  "select_playbooks only playbooks =
     (if only \<noteq> [] then
        (let allowedNames = trim_space ` set (split_on (CHR '','') only);
             filteredPlaybooks = filter (\<lambda>playbook. path_base playbook \<in> allowedNames) playbooks
         in if length filteredPlaybooks = 0 then Inl (ErrMsg (''no playbooks matched the -only filter: '' @ only))
            else Inr filteredPlaybooks)
      else Inr playbooks)"

text \<open>What \<^verbatim>\<open>-list\<close> prints for the playbooks.\<close>

definition list_tests :: "string list \<Rightarrow> string list" where
  "list_tests playbooks =
     (''Available tests ('' @ itoa (int (length playbooks)) @ ''):'') # List.map (\<lambda>p. ''  '' @ path_base p) playbooks"

datatype run_plan = Listing "string list" | Tests "string list"

definition plan_run :: "goerr + string list \<Rightarrow> bool \<Rightarrow> string \<Rightarrow> goerr + run_plan" where
  "plan_run found listing only =
     (case found of
        Inl err \<Rightarrow> Inl (Wrap ''failed to find playbooks'' err)
      | Inr playbooks \<Rightarrow>
          if listing then Inr (Listing (list_tests playbooks)) else map_sum id Tests (select_playbooks only playbooks))"

section \<open>Processes and containers\<close>

text \<open>
  \<open>ce_exec\<close> runs a process with additional variables, or with the inherited environment, and gives its combined
  output; \<open>ce_ssh\<close> dials an address and gives the text of its error, if any.
\<close>

record 'w conf_env =
  ce_os :: "'w os"
  ce_exec :: "(string \<times> string) list option \<Rightarrow> string \<Rightarrow> string list \<Rightarrow> 'w \<Rightarrow> (bytes \<times> goerr option) \<times> 'w"
  ce_MkdirTemp :: "string \<Rightarrow> string \<Rightarrow> 'w \<Rightarrow> (goerr + string) \<times> 'w"
  ce_ssh :: "string \<Rightarrow> 'w \<Rightarrow> string option \<times> 'w"
  ce_Sleep :: "'w \<Rightarrow> 'w"

definition conf_host :: string where "conf_host = ''127.0.0.1''"
definition basePort :: nat where "basePort = 2222"

text \<open>The output of the process follows its error in the text; it is left out.\<close>

definition run_command ::
  "'w conf_env \<Rightarrow> (string \<times> string) list option \<Rightarrow> string \<Rightarrow> string list \<Rightarrow> 'w \<Rightarrow> goerr option \<times> 'w" where
  "run_command e env name arg w =
     (case ce_exec e env name arg w of
        ((output, Some err), w') \<Rightarrow>
          (Some (Wrap (''failed to run command '' @ [CHR 0x27] @ name @ '' '' @ join_with '' '' arg @ [CHR 0x27]) err), w')
      | ((output, None), w') \<Rightarrow> (None, w'))"

definition containerCleanup :: "'w conf_env \<Rightarrow> string \<Rightarrow> 'w \<Rightarrow> 'w" where
  "containerCleanup e sha w =
     snd (run_command e None ''docker'' [''rm'', sha] (snd (run_command e None ''docker'' [''stop'', sha] w)))"

text \<open>\<open>await_ssh n\<close> is \<^verbatim>\<open>for range n\<close>.\<close>

primrec await_ssh :: "'w conf_env \<Rightarrow> string \<Rightarrow> nat \<Rightarrow> 'w \<Rightarrow> bool \<times> 'w" where
  "await_ssh e address 0 w = (False, w)"
| "await_ssh e address (Suc n) w =
     (case ce_ssh e address w of
        (None, w') \<Rightarrow> (True, w')
      | (Some msg, w') \<Rightarrow>
          if contains msg ''unable to authenticate'' then (True, w')
          else await_ssh e address n (ce_Sleep e w'))"

definition startContainer :: "'w conf_env \<Rightarrow> string \<Rightarrow> string \<Rightarrow> 'w \<Rightarrow> (goerr + string) \<times> 'w" where
  "startContainer e img port w =
     (case ce_exec e None ''docker'' [''run'', ''-d'', ''-p'', ''127.0.0.1:'' @ port @ '':22'', img] w of
        ((output, Some err), w') \<Rightarrow> (Inl (Wrap ''failed to start container'' err), w')
      | ((output, None), w') \<Rightarrow>
          (let outputLines = split_on (CHR 0x0A) (trim_space output);
               sha = last outputLines;
               address = ''127.0.0.1:'' @ port
           in case await_ssh e address 20 w' of
                (True, w'') \<Rightarrow> (Inr sha, w'')
              | (False, w'') \<Rightarrow>
                  (Inl (ErrMsg (''could not connect to container'' @ [CHR 0x27] @ ''s SSH server at '' @ address)),
                   containerCleanup e sha w'')))"

text \<open>
  \<^verbatim>\<open>bufio.Scanner\<close> with \<^verbatim>\<open>ScanLines\<close>: the lines without their ends; a line that fills its buffer of 64 KiB is an error.
\<close>

definition drop_cr :: "string \<Rightarrow> string" where
  "drop_cr s = (if s \<noteq> [] \<and> last s = CHR 0x0D then butlast s else s)"

definition scan_lines :: "bytes \<Rightarrow> goerr + string list" where
  "scan_lines b =
     (let ls = split_on (CHR 0x0A) b;
          lines = (if last ls = [] then butlast ls else ls)
      in if \<exists>l\<in>set lines. 65536 \<le> length l then Inl (ErrMsg ''bufio.Scanner: token too long'')
         else Inr (List.map drop_cr lines))"

definition known_hosts_line :: "string \<Rightarrow> string \<Rightarrow> string" where
  "known_hosts_line port line =
     (if has_prefix line (conf_host @ '' '')
      then ''['' @ conf_host @ '']:'' @ port @ '' '' @ drop (length (conf_host @ '' '')) line else line)"

definition setupKnownHosts :: "'w conf_env \<Rightarrow> string \<Rightarrow> string \<Rightarrow> 'w \<Rightarrow> goerr option \<times> 'w" where
  "setupKnownHosts e knownHostsPath port w =
     (case ce_exec e None ''ssh-keyscan'' [''-p'', port, conf_host] w of
        ((output, Some err), w') \<Rightarrow> (Some (Wrap ''failed to run ssh-keyscan'' err), w')
      | ((output, None), w') \<Rightarrow>
          (case scan_lines output of
             Inl err \<Rightarrow> (Some (Wrap ''error scanning ssh-keyscan output'' err), w')
           | Inr lines \<Rightarrow>
               (case os_writeFile (ce_os e) knownHostsPath
                       (concat (List.map (\<lambda>line. known_hosts_line port line @ [CHR 0x0A]) lines)) 0x1A4 w' of
                  (Some n, w'') \<Rightarrow> (Some (OsErr n), w'')
                | (None, w'') \<Rightarrow> (None, w''))))"

section \<open>One playbook\<close>

definition run_dialer :: "'w conf_env \<Rightarrow> string \<Rightarrow> string \<Rightarrow> string \<Rightarrow> string \<Rightarrow> 'w \<Rightarrow> goerr option \<times> 'w" where
  "run_dialer e port sshKeyPath knownHostsPath playbook =
     run_command e None ''./bin/dialer''
       [''-p'', port, ''-b'', ''bin/'', ''-i'', ''data/inventory-testing.yaml'', ''-k'', sshKeyPath, ''-u'', ''root'',
        ''--known-hosts'', knownHostsPath, playbook]"

definition run_ansible :: "'w conf_env \<Rightarrow> string \<Rightarrow> string \<Rightarrow> string \<Rightarrow> string \<Rightarrow> string \<Rightarrow> 'w \<Rightarrow> goerr option \<times> 'w" where
  "run_ansible e dir port sshKeyPath knownHostsPath playbook w =
     (let controlPathDir = path_join [dir, ''ansible-cp''] in
      case os_mkdir (ce_os e) controlPathDir 0x1ED w of
        (Some n, w') \<Rightarrow> (Some (OsErr n), w')
      | (None, w') \<Rightarrow>
          run_command e (Some [(''ANSIBLE_SSH_CONTROL_PATH_DIR'', controlPathDir)]) ''ansible-playbook''
            [''--key-file'', sshKeyPath, ''-u'', ''root'', ''-i'', ''data/inventory-testing.yaml'',
             ''--ssh-common-args=-p '' @ port @ '' -o UserKnownHostsFile='' @ knownHostsPath, playbook] w')"

text \<open>A list of steps of which the first error ends the run.\<close>

fun run_steps :: "('w \<Rightarrow> goerr option \<times> 'w) list \<Rightarrow> 'w \<Rightarrow> goerr option \<times> 'w" where
  "run_steps [] w = (None, w)"
| "run_steps (f # fs) w = (case f w of (Some err, w') \<Rightarrow> (Some err, w') | (None, w') \<Rightarrow> run_steps fs w')"

definition in_container ::
  "'w conf_env \<Rightarrow> string \<Rightarrow> string \<Rightarrow> string \<Rightarrow> string \<Rightarrow> string \<Rightarrow> string \<Rightarrow> string \<Rightarrow> ('w \<Rightarrow> goerr option \<times> 'w) list" where
  "in_container e dir sshKeyPath playbook tarPath mode port sha =
     (let knownHostsPath = path_join [dir, ''known_hosts''] in
      [setupKnownHosts e knownHostsPath port,
       run_command e None ''docker'' [''cp'', sshKeyPath @ ''.pub'', sha @ '':/root/.ssh/authorized_keys''],
       run_command e None ''docker'' [''exec'', sha, ''chown'', ''root:root'', ''/root/.ssh/authorized_keys''],
       (if mode = ''sophons'' then run_dialer e port sshKeyPath knownHostsPath playbook
        else if mode = ''ansible'' then run_ansible e dir port sshKeyPath knownHostsPath playbook
        else (\<lambda>w. (Some (ErrMsg (''unknown mode: '' @ mode)), w))),
       run_command e None ''docker'' [''export'', ''-o'', tarPath, sha]])"

definition runPlaybook ::
  "'w conf_env \<Rightarrow> string \<Rightarrow> string \<Rightarrow> string \<Rightarrow> string \<Rightarrow> string \<Rightarrow> string \<Rightarrow> string \<Rightarrow> 'w \<Rightarrow> goerr option \<times> 'w" where
  "runPlaybook e img dir sshKeyPath playbook tarPath mode port w =
     (case startContainer e img port w of
        (Inl err, w') \<Rightarrow> (Some err, w')
      | (Inr sha, w') \<Rightarrow>
          (case run_steps (in_container e dir sshKeyPath playbook tarPath mode port sha) w' of
             (err, w'') \<Rightarrow> (err, containerCleanup e sha w'')))"

definition in_temp_dir :: "'w conf_env \<Rightarrow> string \<Rightarrow> nat \<Rightarrow> string \<Rightarrow> string \<Rightarrow> ('w \<Rightarrow> goerr option \<times> 'w) list" where
  "in_temp_dir e img port playbook dir =
     (let sshKeyPath = path_join [dir, ''testing'']; portStr = itoa (int port);
          sophonsTarPath = path_join [dir, ''sophons.tar'']; ansibleTarPath = path_join [dir, ''ansible.tar'']
      in [run_command e None ''ssh-keygen'' [''-f'', sshKeyPath, ''-N'', []],
          runPlaybook e img dir sshKeyPath playbook sophonsTarPath ''sophons'' portStr,
          runPlaybook e img dir sshKeyPath playbook ansibleTarPath ''ansible'' portStr,
          run_command e None ''./bin/tardiff'' [ansibleTarPath, sophonsTarPath]])"

definition runConformanceTest :: "'w conf_env \<Rightarrow> string \<Rightarrow> nat \<Rightarrow> string \<Rightarrow> 'w \<Rightarrow> goerr option \<times> 'w" where
  "runConformanceTest e img port playbook w =
     (case ce_MkdirTemp e ''/tmp'' ''sophons-conformance'' w of
        (Inl err, w') \<Rightarrow> (Some (Wrap ''failed to create temp dir'' err), w')
      | (Inr dir, w') \<Rightarrow>
          (case run_steps (in_temp_dir e img port playbook dir) w' of
             (err, w'') \<Rightarrow> (err, snd (os_removeAll (ce_os e) dir w''))))"

section \<open>The pool\<close>

text \<open>
  The goroutines of the workers, and \<open>run\<close> itself, which hands out the playbooks over an unbuffered channel, closes it
  and waits; the errors go into a buffered channel. A test takes the answer \<open>T\<close> allows on its port.
\<close>

datatype worker = Idle | Busy string | Reporting goerr | Exited

record pool =
  po_todo :: "string list"
  po_closed :: bool
  po_workers :: "worker list"
  po_errCh :: "goerr list"
  po_ran :: "(string \<times> nat \<times> goerr option) list"

definition worker_port :: "nat \<Rightarrow> nat" where "worker_port workerID = basePort + workerID"

definition test_failed :: "string \<Rightarrow> goerr \<Rightarrow> goerr" where
  "test_failed playbook = Wrap (''test failed for playbook '' @ playbook)"

definition pool_start :: "int \<Rightarrow> string list \<Rightarrow> pool" where
  "pool_start concurrency playbooks =
     \<lparr> po_todo = playbooks, po_closed = False, po_workers = replicate (nat concurrency) Idle, po_errCh = [], po_ran = [] \<rparr>"

inductive pool_step :: "nat \<Rightarrow> (nat \<Rightarrow> string \<Rightarrow> goerr option \<Rightarrow> bool) \<Rightarrow> pool \<Rightarrow> pool \<Rightarrow> bool" for cap T where
  Hand: "i < length (po_workers s) \<Longrightarrow> po_workers s ! i = Idle \<Longrightarrow> po_todo s = p # ps \<Longrightarrow>
    pool_step cap T s (s\<lparr>po_todo := ps, po_workers := (po_workers s)[i := Busy p]\<rparr>)"
| Passed: "i < length (po_workers s) \<Longrightarrow> po_workers s ! i = Busy p \<Longrightarrow> T (worker_port i) p None \<Longrightarrow>
    pool_step cap T s (s\<lparr>po_workers := (po_workers s)[i := Idle], po_ran := po_ran s @ [(p, worker_port i, None)]\<rparr>)"
| Failed: "i < length (po_workers s) \<Longrightarrow> po_workers s ! i = Busy p \<Longrightarrow> T (worker_port i) p (Some err) \<Longrightarrow>
    pool_step cap T s
      (s\<lparr>po_workers := (po_workers s)[i := Reporting (test_failed p err)], po_ran := po_ran s @ [(p, worker_port i, Some err)]\<rparr>)"
| Report: "i < length (po_workers s) \<Longrightarrow> po_workers s ! i = Reporting err \<Longrightarrow> length (po_errCh s) < cap \<Longrightarrow>
    pool_step cap T s (s\<lparr>po_workers := (po_workers s)[i := Idle], po_errCh := po_errCh s @ [err]\<rparr>)"
| Close: "po_todo s = [] \<Longrightarrow> \<not> po_closed s \<Longrightarrow> pool_step cap T s (s\<lparr>po_closed := True\<rparr>)"
| Exit: "i < length (po_workers s) \<Longrightarrow> po_workers s ! i = Idle \<Longrightarrow> po_closed s \<Longrightarrow>
    pool_step cap T s (s\<lparr>po_workers := (po_workers s)[i := Exited]\<rparr>)"

text \<open>\<^verbatim>\<open>wg.Wait()\<close> returns.\<close>

definition pool_done :: "pool \<Rightarrow> bool" where
  "pool_done s \<longleftrightarrow> po_closed s \<and> (\<forall>w\<in>set (po_workers s). w = Exited)"

text \<open>The answer of \<open>run\<close>, from the errors in the channel and their texts.\<close>

definition pool_result :: "(goerr \<Rightarrow> string) \<Rightarrow> pool \<Rightarrow> goerr option" where
  "pool_result text s =
     (if 0 < length (po_errCh s)
      then Some (ErrMsg (''the following tests failed:'' @ [CHR 0x0A] @ join_with [CHR 0x0A] (List.map text (po_errCh s))))
      else None)"

end
