(* ===== verification/ConformanceProps.thy ===== *)
theory ConformanceProps
  imports Conformance MemFs
begin

text \<open>
  The pool runs every playbook once and comes to an end with every failure reported, containers are always removed, and
  the known hosts are rewritten line by line.
\<close>

section \<open>Bookkeeping\<close>

fun busy_with :: "worker \<Rightarrow> string option" where
  "busy_with (Busy p) = Some p" | "busy_with w = None"

fun reporting :: "worker \<Rightarrow> goerr option" where
  "reporting (Reporting e) = Some e" | "reporting w = None"

fun failure :: "string \<times> nat \<times> goerr option \<Rightarrow> goerr option" where
  "failure (p, port, r) = map_option (test_failed p) r"

fun effort :: "worker \<Rightarrow> nat" where
  "effort Idle = 1" | "effort (Busy p) = 3" | "effort (Reporting e) = 2" | "effort Exited = 0"

definition pool_effort :: "pool \<Rightarrow> nat" where
  "pool_effort s = 4 * length (po_todo s) + sum_list (map effort (po_workers s)) + (if po_closed s then 0 else 1)"

definition one :: "'a option \<Rightarrow> 'a multiset" where
  "one x = (case x of None \<Rightarrow> {#} | Some y \<Rightarrow> {#y#})"

lemma one_simps [simp]: "one None = {#}" "one (Some y) = {#y#}"
  by (simp_all add: one_def)

lemma filter_Cons: "mset (List.map_filter f (x # xs)) = one (f x) + mset (List.map_filter f xs)"
  by (cases "f x") simp_all

declare List.map_filter_simps [simp del]

lemma filter_Nil [simp]: "List.map_filter f [] = []"
  by (simp add: List.map_filter_simps)

lemma filter_update:
  "i < length ws \<Longrightarrow> mset (List.map_filter f (ws[i := w])) + one (f (ws ! i)) = mset (List.map_filter f ws) + one (f w)"
proof (induction ws arbitrary: i)
  case Nil
  then show ?case by simp
next
  case (Cons x ws)
  show ?case
  proof (cases i)
    case 0
    then show ?thesis by (simp add: filter_Cons)
  next
    case (Suc j)
    with Cons have "mset (List.map_filter f (ws[j := w])) + one (f (ws ! j)) = mset (List.map_filter f ws) + one (f w)" by simp
    with Suc show ?thesis by (simp add: filter_Cons add.assoc)
  qed
qed

lemma effort_update:
  "i < length ws \<Longrightarrow> sum_list (map effort (ws[i := w])) + effort (ws ! i) = sum_list (map effort ws) + effort w"
proof (induction ws arbitrary: i)
  case Nil
  then show ?case by simp
next
  case (Cons x ws)
  then show ?case by (cases i) auto
qed

section \<open>The pool comes to an end\<close>

text \<open>
  C38. The pool takes finitely many steps: every step of the scheduler lowers \<open>pool_effort\<close>, so no run goes on for ever,
  however the workers are interleaved and whatever the tests answer.
\<close>

theorem pool_terminates: "wfP (\<lambda>s' s. pool_step cap T s s')"
proof (rule wfp_if_convertible_to_nat)
  show "pool_effort s' < pool_effort s" if "pool_step cap T s s'" for s s'
    using that
  proof cases
    case (Hand i p ps)
    with effort_update [of i "po_workers s" "Busy p"] show ?thesis by (simp add: pool_effort_def)
  next
    case (Passed i p)
    with effort_update [of i "po_workers s" Idle] show ?thesis by (simp add: pool_effort_def)
  next
    case (Failed i p err)
    with effort_update [of i "po_workers s" "Reporting (test_failed p err)"] show ?thesis by (simp add: pool_effort_def)
  next
    case (Report i err)
    with effort_update [of i "po_workers s" Idle] show ?thesis by (simp add: pool_effort_def)
  next
    case Close
    then show ?thesis by (simp add: pool_effort_def)
  next
    case (Exit i)
    with effort_update [of i "po_workers s" Exited] show ?thesis by (simp add: pool_effort_def)
  qed
qed

section \<open>The invariant\<close>

definition pool_inv :: "nat \<Rightarrow> (nat \<Rightarrow> string \<Rightarrow> goerr option \<Rightarrow> bool) \<Rightarrow> string list \<Rightarrow> pool \<Rightarrow> bool" where
  "pool_inv n T playbooks s \<longleftrightarrow>
     length (po_workers s) = n \<and>
     mset (po_todo s) + mset (List.map_filter busy_with (po_workers s)) + mset (map fst (po_ran s)) = mset playbooks \<and>
     mset (po_errCh s) + mset (List.map_filter reporting (po_workers s)) = mset (List.map_filter failure (po_ran s)) \<and>
     (\<forall>(p, port, r)\<in>set (po_ran s). T port p r \<and> basePort \<le> port \<and> port < basePort + n) \<and>
     (po_closed s \<longrightarrow> po_todo s = []) \<and> (Exited \<in> set (po_workers s) \<longrightarrow> po_closed s)"

lemma filter_replicate: "f x = None \<Longrightarrow> List.map_filter f (replicate n x) = []"
  by (induction n) (auto simp: List.map_filter_simps)

lemma pool_inv_start: "pool_inv (nat k) T playbooks (pool_start k playbooks)"
  by (simp add: pool_inv_def pool_start_def filter_replicate)

lemma filter_snoc: "mset (List.map_filter f (xs @ [x])) = mset (List.map_filter f xs) + one (f x)"
  by (cases "f x") (simp_all add: List.map_filter_def)

lemma exited_update: "Exited \<in> set (ws[i := w]) \<Longrightarrow> w = Exited \<or> Exited \<in> set ws"
  using set_update_subset_insert [of ws i w] by auto

lemma pool_inv_step:
  assumes "pool_step cap T s s'" and inv: "pool_inv n T playbooks s"
  shows "pool_inv n T playbooks s'"
  using assms(1)
proof cases
  case (Hand i p ps)
  note up = filter_update [of i "po_workers s" _ "Busy p"]
  from Hand inv up [of busy_with] up [of reporting] show ?thesis
    by (auto simp: pool_inv_def dest!: exited_update)
next
  case (Passed i p)
  note up = filter_update [of i "po_workers s" _ Idle]
  from Passed inv up [of busy_with, symmetric] up [of reporting] show ?thesis
    by (auto simp: pool_inv_def filter_snoc worker_port_def dest!: exited_update)
next
  case (Failed i p err)
  note up = filter_update [of i "po_workers s" _ "Reporting (test_failed p err)"]
  from Failed inv up [of busy_with, symmetric] up [of reporting] show ?thesis
    by (auto simp: pool_inv_def filter_snoc worker_port_def dest!: exited_update)
next
  case (Report i err)
  note up = filter_update [of i "po_workers s" _ Idle]
  from Report inv up [of busy_with] up [of reporting, symmetric] show ?thesis
    by (auto simp: pool_inv_def dest!: exited_update)
next
  case Close
  with inv show ?thesis by (simp add: pool_inv_def)
next
  case (Exit i)
  note up = filter_update [of i "po_workers s" _ Exited]
  from Exit inv up [of busy_with] up [of reporting] show ?thesis
    by (auto simp: pool_inv_def)
qed

lemma pool_inv_reachable:
  "(pool_step cap T)\<^sup>*\<^sup>* (pool_start k playbooks) s \<Longrightarrow> pool_inv (nat k) T playbooks s"
  by (induction rule: rtranclp_induct) (auto intro: pool_inv_start pool_inv_step)

lemma filter_none: "(\<And>x. x \<in> set xs \<Longrightarrow> f x = None) \<Longrightarrow> List.map_filter f xs = []"
  by (induction xs) (auto simp: List.map_filter_simps)

lemma filter_some: "x \<in> set xs \<Longrightarrow> f x = Some y \<Longrightarrow> y \<in># mset (List.map_filter f xs)"
  by (induction xs) (auto simp: List.map_filter_simps split: option.split)

lemma filter_length: "length (List.map_filter f xs) \<le> length xs"
  by (simp add: List.map_filter_def)

text \<open>The channel for the errors has room for one error of every playbook, so a worker never waits for it.\<close>

lemma reporting_has_room:
  assumes inv: "pool_inv n T playbooks s" and "Reporting e \<in> set (po_workers s)"
  shows "length (po_errCh s) < length playbooks"
proof -
  have "0 < size (mset (List.map_filter reporting (po_workers s)))"
    using filter_some [OF assms(2), of reporting e] by (cases "List.map_filter reporting (po_workers s)") simp_all
  moreover have errs: "mset (po_errCh s) + mset (List.map_filter reporting (po_workers s)) =
      mset (List.map_filter failure (po_ran s))"
    and ran: "mset (po_todo s) + mset (List.map_filter busy_with (po_workers s)) + mset (map fst (po_ran s)) = mset playbooks"
    using inv by (simp_all add: pool_inv_def)
  have "length (po_errCh s) + length (List.map_filter reporting (po_workers s)) = length (List.map_filter failure (po_ran s))"
    using arg_cong [OF errs, of size] by simp
  moreover have "length (po_ran s) \<le> length playbooks" using arg_cong [OF ran, of size] by simp
  moreover note filter_length [of failure "po_ran s"]
  ultimately show ?thesis by (simp flip: length_greater_0_conv)
qed

lemma pool_progress:
  assumes inv: "pool_inv n T playbooks s" and "\<not> pool_done s" and "playbooks = [] \<or> 0 < n"
    and T: "\<And>port p. \<exists>r. T port p r"
  shows "\<exists>s'. pool_step (length playbooks) T s s'"
proof (cases "\<exists>w\<in>set (po_workers s). w \<noteq> Idle \<and> w \<noteq> Exited")
  case True
  then obtain i where i: "i < length (po_workers s)" "po_workers s ! i \<noteq> Idle" "po_workers s ! i \<noteq> Exited"
    by (metis in_set_conv_nth)
  show ?thesis
  proof (cases "po_workers s ! i")
    case (Busy p)
    obtain r where "T (worker_port i) p r" using T by blast
    with i(1) Busy Passed Failed show ?thesis by (cases r) blast+
  next
    case (Reporting e)
    then have "Reporting e \<in> set (po_workers s)" using i(1) by (metis nth_mem)
    with Report [OF i(1) Reporting] reporting_has_room [OF inv] show ?thesis by blast
  qed (use i in auto)
next
  case False
  then have idle: "w = Idle \<or> w = Exited" if "w \<in> set (po_workers s)" for w using that by blast
  show ?thesis
  proof (cases "po_closed s")
    case True
    then obtain w where "w \<in> set (po_workers s)" "w \<noteq> Exited" using assms(2) by (auto simp: pool_done_def)
    then obtain i where "i < length (po_workers s)" "po_workers s ! i = Idle" using idle by (metis in_set_conv_nth)
    with Exit True show ?thesis by blast
  next
    case False
    show ?thesis
    proof (cases "po_todo s")
      case Nil
      with Close False show ?thesis by blast
    next
      case (Cons p ps)
      have "playbooks \<noteq> []" using inv Cons by (auto simp: pool_inv_def)
      with assms(3) inv have "0 < length (po_workers s)" by (simp add: pool_inv_def)
      moreover have "Exited \<notin> set (po_workers s)" using inv False by (auto simp: pool_inv_def)
      ultimately have "po_workers s ! 0 = Idle" using idle by (metis nth_mem)
      with Hand [of 0] \<open>0 < length (po_workers s)\<close> Cons show ?thesis by blast
    qed
  qed
qed

text \<open>
  C10. The books of the pool balance at every moment, under every schedule: each playbook is waiting, with one worker, or has
  been run, and none is lost or run twice; each failure of a test is in the channel or with the worker that reports it;
  the channel has room for whoever reports; and it is closed only after the last playbook was handed out, and workers
  leave only then.
\<close>

theorem pool_accounts:
  assumes "(pool_step cap T)\<^sup>*\<^sup>* (pool_start k playbooks) s"
  shows "length (po_workers s) = nat k \<and>
    mset (po_todo s) + mset (List.map_filter busy_with (po_workers s)) + mset (map fst (po_ran s)) = mset playbooks \<and>
    mset (po_errCh s) + mset (List.map_filter reporting (po_workers s)) = mset (List.map_filter failure (po_ran s)) \<and>
    (\<forall>e. Reporting e \<in> set (po_workers s) \<longrightarrow> length (po_errCh s) < length playbooks) \<and>
    (po_closed s \<longrightarrow> po_todo s = []) \<and> (Exited \<in> set (po_workers s) \<longrightarrow> po_closed s)"
  using pool_inv_reachable [OF assms] reporting_has_room [OF pool_inv_reachable [OF assms]] unfolding pool_inv_def by blast

text \<open>
  C9. The pool never gets stuck before it is through: with at least one worker, or nothing to run, every state the scheduler
  can reach from the start either is final or has a next step. With \<open>pool_terminates\<close> every run therefore reaches a final
  state. A final state has run every playbook exactly once, each on the port of a worker and with an answer of its test,
  and the errors in the channel are exactly those of the tests that failed; so the program succeeds iff all tests passed.
\<close>

theorem pool_completes:
  assumes "(pool_step (length playbooks) T)\<^sup>*\<^sup>* (pool_start k playbooks) s" and "playbooks = [] \<or> 0 < k"
    and "\<forall>port p. \<exists>r. T port p r"
  shows "if \<exists>s'. pool_step (length playbooks) T s s' then \<not> pool_done s
    else pool_done s \<and> mset (map fst (po_ran s)) = mset playbooks \<and>
      (\<forall>x\<in>set (po_ran s). case x of (p, port, r) \<Rightarrow> T port p r \<and> 2222 \<le> port \<and> int port < 2222 + k) \<and>
      mset (po_errCh s) = mset (List.map_filter failure (po_ran s)) \<and>
      (pool_result text s = None \<longleftrightarrow> (\<forall>x\<in>set (po_ran s). snd (snd x) = None))"
proof (cases "\<exists>s'. pool_step (length playbooks) T s s'")
  case True
  have "\<not> pool_done s"
  proof
    assume d: "pool_done s"
    then have ex: "po_workers s ! i = Exited" if "i < length (po_workers s)" for i using that by (auto simp: pool_done_def)
    from True obtain s' where "pool_step (length playbooks) T s s'" by blast
    then show False using d by cases (use ex in \<open>fastforce simp: pool_done_def\<close>)+
  qed
  with True show ?thesis by simp
next
  case False
  note inv = pool_inv_reachable [OF assms(1)]
  have fin: "pool_done s" using pool_progress [OF inv] False assms(2,3) by (metis zero_less_nat_eq)
  then have none: "List.map_filter busy_with (po_workers s) = []" "List.map_filter reporting (po_workers s) = []" "po_todo s = []"
    using inv by (auto simp: pool_done_def pool_inv_def intro!: filter_none)
  have ran: "mset (map fst (po_ran s)) = mset playbooks" using inv none by (simp add: pool_inv_def)
  have errs: "mset (po_errCh s) = mset (List.map_filter failure (po_ran s))" using inv none by (simp add: pool_inv_def)
  have ports: "\<forall>x\<in>set (po_ran s). case x of (p, port, r) \<Rightarrow> T port p r \<and> 2222 \<le> port \<and> int port < 2222 + k"
    using inv by (fastforce simp: pool_inv_def basePort_def)
  have "pool_result text s = None \<longleftrightarrow> List.map_filter failure (po_ran s) = []"
    using errs by (auto simp: pool_result_def)
  also have "\<dots> \<longleftrightarrow> (\<forall>x\<in>set (po_ran s). snd (snd x) = None)"
  proof
    assume e: "List.map_filter failure (po_ran s) = []"
    show "\<forall>x\<in>set (po_ran s). snd (snd x) = None"
    proof (rule ballI, rule ccontr)
      fix x assume x: "x \<in> set (po_ran s)" "snd (snd x) \<noteq> None"
      then obtain p port r where "x = (p, port, Some r)" by (metis prod.collapse option.collapse)
      with filter_some [OF x(1), of failure "test_failed p r"] e show False by simp
    qed
  next
    assume "\<forall>x\<in>set (po_ran s). snd (snd x) = None"
    then show "List.map_filter failure (po_ran s) = []" by (intro filter_none) auto
  qed
  finally show ?thesis using False fin ran errs ports by simp
qed

text \<open>
  Without workers the program hangs: with a concurrency of zero or less and a playbook to run, the start is not final and
  has no next step, since nobody ever receives from the channel.
\<close>

theorem no_workers_deadlock:
  assumes "k \<le> 0" and "playbooks \<noteq> []"
  shows "\<not> pool_done (pool_start k playbooks) \<and> (\<forall>s. \<not> pool_step cap T (pool_start k playbooks) s)"
proof -
  have "\<not> pool_step cap T (pool_start k playbooks) s" for s
  proof
    assume "pool_step cap T (pool_start k playbooks) s"
    then show False using assms by cases (auto simp: pool_start_def)
  qed
  then show ?thesis by (simp add: pool_done_def pool_start_def)
qed

theorem no_workers_deadlock_witness: "\<forall>s. \<not> pool_step 1 (\<lambda>port p r. True) (pool_start 0 [''playbook-apt.yaml'']) s"
  using no_workers_deadlock [of 0 "[''playbook-apt.yaml'']"] by simp

text \<open>A run of the pool with one worker and one playbook that fails.\<close>

definition always :: "goerr option \<Rightarrow> nat \<Rightarrow> string \<Rightarrow> goerr option \<Rightarrow> bool" where
  "always r0 port p r \<longleftrightarrow> r = r0"

definition one_failed :: pool where
  "one_failed =
     \<lparr> po_todo = [], po_closed = True, po_workers = [Exited], po_errCh = [test_failed ''a'' InvalidMode],
       po_ran = [(''a'', 2222, Some InvalidMode)] \<rparr>"

lemma one_failed_run: "(pool_step 1 (always (Some InvalidMode)))\<^sup>*\<^sup>* (pool_start 1 [''a'']) one_failed"
proof -
  let ?step = "pool_step 1 (always (Some InvalidMode))"
  let ?e = "test_failed ''a'' InvalidMode"
  let ?ran = "[(''a'', 2222, Some InvalidMode)]"
  have 1: "?step (pool_start 1 [''a''])
      \<lparr> po_todo = [], po_closed = False, po_workers = [Busy ''a''], po_errCh = [], po_ran = [] \<rparr>"
    using Hand [of 0 "pool_start 1 [''a'']" "''a''" "[]"] by (simp add: pool_start_def)
  have 2: "?step \<lparr> po_todo = [], po_closed = False, po_workers = [Busy ''a''], po_errCh = [], po_ran = [] \<rparr>
      \<lparr> po_todo = [], po_closed = False, po_workers = [Reporting ?e], po_errCh = [], po_ran = ?ran \<rparr>"
    using Failed [of 0 "\<lparr> po_todo = [], po_closed = False, po_workers = [Busy ''a''], po_errCh = [], po_ran = [] \<rparr>" "''a''"
        "always (Some InvalidMode)" InvalidMode]
    by (simp add: always_def worker_port_def basePort_def)
  have 3: "?step \<lparr> po_todo = [], po_closed = False, po_workers = [Reporting ?e], po_errCh = [], po_ran = ?ran \<rparr>
      \<lparr> po_todo = [], po_closed = False, po_workers = [Idle], po_errCh = [?e], po_ran = ?ran \<rparr>"
    using Report [of 0 "\<lparr> po_todo = [], po_closed = False, po_workers = [Reporting ?e], po_errCh = [], po_ran = ?ran \<rparr>" ?e 1]
    by simp
  have 4: "?step \<lparr> po_todo = [], po_closed = False, po_workers = [Idle], po_errCh = [?e], po_ran = ?ran \<rparr>
      \<lparr> po_todo = [], po_closed = True, po_workers = [Idle], po_errCh = [?e], po_ran = ?ran \<rparr>"
    using Close [of "\<lparr> po_todo = [], po_closed = False, po_workers = [Idle], po_errCh = [?e], po_ran = ?ran \<rparr>"] by simp
  have 5: "?step \<lparr> po_todo = [], po_closed = True, po_workers = [Idle], po_errCh = [?e], po_ran = ?ran \<rparr> one_failed"
    using Exit [of 0 "\<lparr> po_todo = [], po_closed = True, po_workers = [Idle], po_errCh = [?e], po_ran = ?ran \<rparr>"]
    by (simp add: one_failed_def)
  from 1 2 3 4 5 show ?thesis by (meson converse_rtranclp_into_rtranclp rtranclp.rtrancl_refl)
qed

theorem pool_accounts_witness:
  "mset (po_todo one_failed) + mset (List.map_filter busy_with (po_workers one_failed)) + mset (map fst (po_ran one_failed)) = {#''a''#} \<and>
   mset (po_errCh one_failed) + mset (List.map_filter reporting (po_workers one_failed)) = mset (List.map_filter failure (po_ran one_failed))"
  using pool_accounts [OF one_failed_run] by simp

theorem pool_completes_witness:
  "pool_done one_failed \<and> mset (po_errCh one_failed) = {#test_failed ''a'' InvalidMode#}"
proof -
  have run: "(pool_step (length [''a'']) (always (Some InvalidMode)))\<^sup>*\<^sup>* (pool_start 1 [''a'']) one_failed"
    using one_failed_run by simp
  have "\<not> (\<exists>s'. pool_step (length [''a'']) (always (Some InvalidMode)) one_failed s')"
  proof
    assume "\<exists>s'. pool_step (length [''a'']) (always (Some InvalidMode)) one_failed s'"
    then obtain s' where "pool_step (length [''a'']) (always (Some InvalidMode)) one_failed s'" by blast
    then show False by cases (auto simp: one_failed_def)
  qed
  moreover have "\<forall>port p. \<exists>r. always (Some InvalidMode) port p r" by (simp add: always_def)
  ultimately have "pool_done one_failed \<and> mset (po_errCh one_failed) = mset (List.map_filter failure (po_ran one_failed))"
    using pool_completes [OF run, of "\<lambda>e. []"] by simp
  then show ?thesis by (simp add: one_failed_def)
qed

section \<open>Containers\<close>

lemma startContainer_ok:
  "startContainer e img port w = (Inr sha, w') \<Longrightarrow>
     \<exists>output w1. ce_exec e None ''docker'' [''run'', ''-d'', ''-p'', ''127.0.0.1:'' @ port @ '':22'', img] w = ((output, None), w1) \<and>
       sha = last (split_on (CHR 0x0A) (trim_space output)) \<and> await_ssh e (''127.0.0.1:'' @ port) 20 w1 = (True, w')"
  by (auto simp: startContainer_def Let_def split: prod.splits option.splits bool.splits)

lemma cleanup_runs:
  "\<exists>o1 w1 o2. ce_exec e None ''docker'' [''stop'', sha] w = (o1, w1) \<and>
     ce_exec e None ''docker'' [''rm'', sha] w1 = (o2, containerCleanup e sha w)"
proof -
  have run: "snd (run_command e None name args w) = snd (ce_exec e None name args w)" for name args w
    by (auto simp: run_command_def split: prod.split option.split)
  show ?thesis
    by (intro exI [of _ "fst (ce_exec e None ''docker'' [''stop'', sha] w)"] exI [of _ "snd (ce_exec e None ''docker'' [''stop'', sha] w)"]
        exI [of _ "fst (ce_exec e None ''docker'' [''rm'', sha] (snd (ce_exec e None ''docker'' [''stop'', sha] w)))"])
      (simp add: containerCleanup_def run)
qed

lemma runPlaybook_cleans:
  assumes "ce_exec e None ''docker'' [''run'', ''-d'', ''-p'', ''127.0.0.1:'' @ port @ '':22'', img] w = ((output, None), w1)"
  shows "\<exists>w2. snd (runPlaybook e img dir key playbook tarPath mode port w) =
      containerCleanup e (last (split_on (CHR 0x0A) (trim_space output))) w2 \<and>
    (await_ssh e (''127.0.0.1:'' @ port) 20 w1 = (False, w2) \<and>
       (\<exists>x. fst (runPlaybook e img dir key playbook tarPath mode port w) = Some x) \<or>
     (\<exists>w3. await_ssh e (''127.0.0.1:'' @ port) 20 w1 = (True, w3) \<and>
       run_steps (in_container e dir key playbook tarPath mode port (last (split_on (CHR 0x0A) (trim_space output)))) w3 =
         (fst (runPlaybook e img dir key playbook tarPath mode port w), w2)))"
  using assms by (auto simp: runPlaybook_def startContainer_def Let_def split: prod.splits option.splits bool.splits)

text \<open>
  C39. A container that was started is stopped and removed. If \<^verbatim>\<open>docker run\<close> fails nothing else is done. Otherwise, be it that the SSH
  server never answers, which is an error, or that any of the steps in the container fails, whose error is the one returned, the last two processes
  are \<^verbatim>\<open>docker stop\<close> and \<^verbatim>\<open>docker rm\<close> of the container whose name is the last line of the output of \<^verbatim>\<open>docker run\<close>; the first
  starts where the steps have ended, and the second whether or not the first succeeds.
\<close>

theorem container_removed:
  "case ce_exec e None ''docker'' [''run'', ''-d'', ''-p'', ''127.0.0.1:'' @ port @ '':22'', img] w of
     ((output, Some err), w1) \<Rightarrow>
       runPlaybook e img dir key playbook tarPath mode port w = (Some (Wrap ''failed to start container'' err), w1)
   | ((output, None), w1) \<Rightarrow>
       (let sha = last (split_on (CHR 0x0A) (trim_space output)) in
        \<exists>err w2 w4 stopped w5 removed.
          runPlaybook e img dir key playbook tarPath mode port w = (err, w5) \<and>
          (await_ssh e (''127.0.0.1:'' @ port) 20 w1 = (False, w2) \<and> (\<exists>x. err = Some x) \<or>
           (\<exists>w3. await_ssh e (''127.0.0.1:'' @ port) 20 w1 = (True, w3) \<and>
             run_steps (in_container e dir key playbook tarPath mode port sha) w3 = (err, w2))) \<and>
          ce_exec e None ''docker'' [''stop'', sha] w2 = (stopped, w4) \<and>
          ce_exec e None ''docker'' [''rm'', sha] w4 = (removed, w5))"
proof -
  obtain out x w1 where run:
    "ce_exec e None ''docker'' [''run'', ''-d'', ''-p'', ''127.0.0.1:'' @ port @ '':22'', img] w = ((out, x), w1)"
    by (metis prod.exhaust)
  show ?thesis
  proof (cases x)
    case (Some err)
    with run show ?thesis by (simp add: runPlaybook_def startContainer_def)
  next
    case None
    let ?sha = "last (split_on (CHR 0x0A) (trim_space out))"
    let ?run = "runPlaybook e img dir key playbook tarPath mode port w"
    from runPlaybook_cleans [OF run [unfolded None], of dir key playbook tarPath mode] obtain w2
      where clean: "snd ?run = containerCleanup e ?sha w2"
        and ends: "await_ssh e (''127.0.0.1:'' @ port) 20 w1 = (False, w2) \<and> (\<exists>x. fst ?run = Some x) \<or>
          (\<exists>w3. await_ssh e (''127.0.0.1:'' @ port) 20 w1 = (True, w3) \<and>
            run_steps (in_container e dir key playbook tarPath mode port ?sha) w3 = (fst ?run, w2))" by blast
    from cleanup_runs [of e ?sha w2] clean obtain stopped w4 removed
      where "ce_exec e None ''docker'' [''stop'', ?sha] w2 = (stopped, w4)" "ce_exec e None ''docker'' [''rm'', ?sha] w4 = (removed, snd ?run)"
      by auto
    with ends have "\<exists>err w2 w4 stopped w5 removed. ?run = (err, w5) \<and>
        (await_ssh e (''127.0.0.1:'' @ port) 20 w1 = (False, w2) \<and> (\<exists>x. err = Some x) \<or>
         (\<exists>w3. await_ssh e (''127.0.0.1:'' @ port) 20 w1 = (True, w3) \<and>
           run_steps (in_container e dir key playbook tarPath mode port ?sha) w3 = (err, w2))) \<and>
        ce_exec e None ''docker'' [''stop'', ?sha] w2 = (stopped, w4) \<and> ce_exec e None ''docker'' [''rm'', ?sha] w4 = (removed, w5)"
      by (metis prod.collapse)
    with run None show ?thesis by (simp add: Let_def)
  qed
qed

text \<open>
  The SSH server is given twenty attempts, with a pause after each that fails: the container counts as started exactly if one
  of them is answered, be it with a refusal of the keys.
\<close>

definition answered :: "'w conf_env \<Rightarrow> string \<Rightarrow> 'w \<Rightarrow> bool" where
  "answered e address w \<longleftrightarrow>
     (case fst (ce_ssh e address w) of None \<Rightarrow> True | Some msg \<Rightarrow> contains msg ''unable to authenticate'')"

definition retry :: "'w conf_env \<Rightarrow> string \<Rightarrow> 'w \<Rightarrow> 'w" where
  "retry e address w = ce_Sleep e (snd (ce_ssh e address w))"

lemma await_ssh_attempts: "fst (await_ssh e address n w) \<longleftrightarrow> (\<exists>i<n. answered e address ((retry e address ^^ i) w))"
proof (induction n arbitrary: w)
  case 0
  then show ?case by simp
next
  case (Suc n)
  have "fst (await_ssh e address (Suc n) w) \<longleftrightarrow> answered e address w \<or> fst (await_ssh e address n (retry e address w))"
    by (auto simp: answered_def retry_def split: prod.split option.split)
  also have "\<dots> \<longleftrightarrow> (\<exists>i<Suc n. answered e address ((retry e address ^^ i) w))"
    unfolding Suc.IH Ex_less_Suc2 by (simp add: funpow_Suc_right del: funpow.simps(2))
  finally show ?case .
qed

text \<open>
  Each test runs in a directory of its own, which is removed at the end on every path, and the archives are compared only
  if both the run of this program and that of Ansible have succeeded: the verdict is that of the comparison.
\<close>

theorem conformance_test_steps:
  "case ce_MkdirTemp e ''/tmp'' ''sophons-conformance'' w of
     (Inl err, w1) \<Rightarrow> runConformanceTest e img port playbook w = (Some (Wrap ''failed to create temp dir'' err), w1)
   | (Inr dir, w1) \<Rightarrow>
       (\<exists>w2. snd (runConformanceTest e img port playbook w) = snd (os_removeAll (ce_os e) dir w2) \<and>
         (fst (runConformanceTest e img port playbook w) = None \<longleftrightarrow>
          (\<exists>a b c. run_command e None ''ssh-keygen'' [''-f'', path_join [dir, ''testing''], ''-N'', []] w1 = (None, a) \<and>
             runPlaybook e img dir (path_join [dir, ''testing'']) playbook (path_join [dir, ''sophons.tar'']) ''sophons''
               (itoa (int port)) a = (None, b) \<and>
             runPlaybook e img dir (path_join [dir, ''testing'']) playbook (path_join [dir, ''ansible.tar'']) ''ansible''
               (itoa (int port)) b = (None, c) \<and>
             run_command e None ''./bin/tardiff'' [path_join [dir, ''ansible.tar''], path_join [dir, ''sophons.tar'']] c = (None, w2))))"
proof (cases "ce_MkdirTemp e ''/tmp'' ''sophons-conformance'' w")
  case (Pair x w1)
  show ?thesis
  proof (cases x)
    case (Inl err)
    with Pair show ?thesis by (simp add: runConformanceTest_def)
  next
    case (Inr dir)
    obtain err w2 where "run_steps (in_temp_dir e img port playbook dir) w1 = (err, w2)" by fastforce
    with Pair Inr show ?thesis
      by (auto simp: runConformanceTest_def in_temp_dir_def Let_def intro!: exI [of _ w2] split: prod.splits option.splits)
  qed
qed

section \<open>Known hosts\<close>

lemma has_prefix_iff: "has_prefix s p \<longleftrightarrow> (\<exists>t. s = p @ t)"
proof
  assume "has_prefix s p"
  then have "s = p @ drop (length p) s" using append_take_drop_id [of "length p" s] by (simp add: has_prefix_def)
  then show "\<exists>t. s = p @ t" by blast
qed (auto simp: has_prefix_def)

lemma split_lines:
  "\<forall>l\<in>set ls. CHR 0x0A \<notin> set l \<Longrightarrow> split_on (CHR 0x0A) (concat (map (\<lambda>l. l @ [CHR 0x0A]) ls)) = ls @ [[]]"
  by (induction ls) (auto simp: split_on_append)

definition plain_line :: "nat \<Rightarrow> string \<Rightarrow> bool" where
  "plain_line n l \<longleftrightarrow> CHR 0x0A \<notin> set l \<and> CHR 0x0D \<notin> set l \<and> length l < n"

lemma scan_written:
  assumes "list_all (plain_line 65536) ls"
  shows "scan_lines (concat (map (\<lambda>l. l @ [CHR 0x0A]) ls)) = Inr ls"
proof -
  have split: "split_on (CHR 0x0A) (concat (map (\<lambda>l. l @ [CHR 0x0A]) ls)) = ls @ [[]]"
    using assms by (intro split_lines) (auto simp: list_all_iff plain_line_def)
  have "drop_cr l = l" if "l \<in> set ls" for l
    using assms that last_in_set [of l] by (fastforce simp: drop_cr_def list_all_iff plain_line_def)
  then have "map drop_cr ls = ls" by (simp add: map_idI)
  moreover have "\<not> (\<exists>l\<in>set ls. 65536 \<le> length l)" using assms by (auto simp: list_all_iff plain_line_def)
  ultimately show ?thesis unfolding scan_lines_def Let_def split by simp
qed

lemma known_hosts_line_cases:
  "known_hosts_line port line = line \<and> \<not> has_prefix line ''127.0.0.1 '' \<or>
   (\<exists>key. line = ''127.0.0.1 '' @ key \<and> known_hosts_line port line = ''[127.0.0.1]:'' @ port @ '' '' @ key)"
  by (auto simp: known_hosts_line_def conf_host_def has_prefix_iff)

text \<open>
  \<^verbatim>\<open>ssh-keyscan\<close> leaves out the port, and the file that is written has it. Written out line by line and read again, the
  known hosts are the lines of the scan in their order, where a line for the host itself names the host and the port in the
  form SSH looks up, and every other line is the same: nothing is lost and nothing is added.
\<close>

theorem known_hosts_lines:
  assumes "list_all (plain_line 60000) lines" and "plain_line 5000 port"
  shows "scan_lines (concat (map (\<lambda>line. known_hosts_line port line @ [CHR 0x0A]) lines)) =
      Inr (map (known_hosts_line port) lines) \<and>
    (known_hosts_line port line = line \<and> \<not> has_prefix line ''127.0.0.1 '' \<or>
     (\<exists>key. line = ''127.0.0.1 '' @ key \<and> known_hosts_line port line = ''[127.0.0.1]:'' @ port @ '' '' @ key))"
proof -
  have "plain_line 65536 (known_hosts_line port l)" if "plain_line 60000 l" for l
    using known_hosts_line_cases [of port l] that assms(2) by (auto simp: plain_line_def)
  with assms(1) have "list_all (plain_line 65536) (map (known_hosts_line port) lines)" by (auto simp: list_all_iff)
  from scan_written [OF this] known_hosts_line_cases [of port line] show ?thesis by (simp add: comp_def)
qed

theorem known_hosts_lines_witness:
  "scan_lines (concat (map (\<lambda>line. known_hosts_line ''2223'' line @ [CHR 0x0A]) [''# 127.0.0.1:2223'', ''127.0.0.1 ssh-rsa AAAA''])) =
     Inr [''# 127.0.0.1:2223'', ''[127.0.0.1]:2223 ssh-rsa AAAA'']"
proof -
  have "list_all (plain_line 60000) [''# 127.0.0.1:2223'', ''127.0.0.1 ssh-rsa AAAA'']" "plain_line 5000 ''2223''"
    by (simp_all add: plain_line_def)
  moreover have "map (known_hosts_line ''2223'') [''# 127.0.0.1:2223'', ''127.0.0.1 ssh-rsa AAAA''] =
      [''# 127.0.0.1:2223'', ''[127.0.0.1]:2223 ssh-rsa AAAA'']" by code_simp
  ultimately show ?thesis using known_hosts_lines by metis
qed

section \<open>Selecting playbooks\<close>

lemma select_playbooks_spec:
  assumes "only \<noteq> []" and "select_playbooks only playbooks = Inr ps"
  shows "ps = filter (\<lambda>p. \<exists>n\<in>set (split_on (CHR '','') only). path_base p = trim_space n) playbooks \<and> ps \<noteq> []"
  using assms by (auto simp: select_playbooks_def Let_def image_iff split: if_splits)

end
