(* ===== verification/Docgen.thy ===== *)
theory Docgen
  imports Os "HOL-Library.List_Lexorder" "HOL-Library.Char_ord" "HOL-Library.AList"
begin

text \<open>
  The generator of the module pages, \<^verbatim>\<open>cmd/docgen/main.go\<close>: it walks a directory of Go files, finds the annotated structs
  and writes a page for each. The parsed files come from \<^verbatim>\<open>go/parser\<close> as a datatype with the parts of the syntax tree the
  program looks at; text of identifiers and tags is ASCII.
\<close>

section \<open>Syntax trees\<close>

record ast_field =
  af_Names :: "string list"
  af_Tag :: "string option"

datatype type_expr = StructType "ast_field list" | OtherType

datatype spec = TypeSpec string type_expr | OtherSpec

datatype tok = TypeTok | OtherTok

datatype decl = GenDecl tok "string option" "spec list" | FuncDecl

section \<open>Names and annotations\<close>

definition ascii_upper :: "char \<Rightarrow> bool" where
  "ascii_upper c \<longleftrightarrow> (let n = of_char c :: nat in 65 \<le> n \<and> n \<le> 90)"
definition ascii_lower :: "char \<Rightarrow> bool" where
  "ascii_lower c \<longleftrightarrow> (let n = of_char c :: nat in 97 \<le> n \<and> n \<le> 122)"
definition ascii_digit :: "char \<Rightarrow> bool" where
  "ascii_digit c \<longleftrightarrow> (let n = of_char c :: nat in 48 \<le> n \<and> n \<le> 57)"

text \<open>The two \<^verbatim>\<open>ReplaceAllString\<close>: matches from the left, none overlapping the one before.\<close>

fun snake_words :: "string \<Rightarrow> string" where
  "snake_words (a # b # s) =
     (if (ascii_lower a \<or> ascii_digit a) \<and> ascii_upper b then a # CHR ''_'' # b # snake_words s
      else a # snake_words (b # s))"
| "snake_words s = s"

fun snake_acronyms :: "string \<Rightarrow> string" where
  "snake_acronyms (a # b # c # s) =
     (if ascii_upper a \<and> ascii_upper b \<and> ascii_lower c then a # CHR ''_'' # b # c # snake_acronyms s
      else a # snake_acronyms (b # c # s))"
| "snake_acronyms s = s"

definition toSnakeCase :: "string \<Rightarrow> string" where
  "toSnakeCase s = to_lower (snake_acronyms (snake_words s))"

text \<open>\<^verbatim>\<open>@meta\s*(\{[\s\S]*\})\<close>: from the brace after the first annotation to the last brace of the text.\<close>

definition re_space :: "char \<Rightarrow> bool" where
  "re_space c \<longleftrightarrow> c \<in> {CHR '' '', CHR 0x09, CHR 0x0A, CHR 0x0C, CHR 0x0D}"

definition meta_at :: "string \<Rightarrow> string option" where
  "meta_at s =
     (if has_prefix s ''@meta'' then
        (let t = dropWhile re_space (drop 5 s);
             body = rev (dropWhile (\<lambda>c. c \<noteq> CHR ''}'') (rev t))
         in if t \<noteq> [] \<and> hd t = CHR ''{'' \<and> body \<noteq> [] then Some body else None)
      else None)"

fun find_meta :: "string \<Rightarrow> string option" where
  "find_meta [] = None"
| "find_meta (c # s) = (case meta_at (c # s) of Some m \<Rightarrow> Some m | None \<Rightarrow> find_meta s)"

text \<open>
  \<^verbatim>\<open>reflect.StructTag.Lookup\<close>: pairs \<^verbatim>\<open>key:"value"\<close> with blanks before them. A value ends at the first quote that
  is not escaped; none of the tags of the program has an escape, and one that had would be unquoted by \<^verbatim>\<open>strconv\<close>.
\<close>

definition key_char :: "char \<Rightarrow> bool" where
  "key_char c \<longleftrightarrow> (32::nat) < of_char c \<and> c \<noteq> CHR '':'' \<and> c \<noteq> CHR 0x22 \<and> c \<noteq> CHR 0x7F"

fun quoted_value :: "string \<Rightarrow> (string \<times> string) option" where
  "quoted_value [] = None"
| "quoted_value (c # s) =
     (if c = CHR 0x22 then Some ([], s)
      else if c = CHR 0x5C then (case s of [] \<Rightarrow> None | d # s' \<Rightarrow> map_option (map_prod (\<lambda>v. c # d # v) id) (quoted_value s'))
      else map_option (map_prod (\<lambda>v. c # v) id) (quoted_value s))"

lemma quoted_value_shorter: "quoted_value s = Some (v, r) \<Longrightarrow> length r < length s"
  by (induction s arbitrary: v r rule: quoted_value.induct) (force split: if_splits list.splits)+

function tag_lookup :: "string \<Rightarrow> string \<Rightarrow> string option" where
  "tag_lookup tag key =
     (let t = dropWhile (\<lambda>c. c = CHR '' '') tag;
          name = takeWhile key_char t;
          rest = dropWhile key_char t
      in if name = [] then None
         else (case rest of
                 c # d # s \<Rightarrow>
                   if c = CHR '':'' \<and> d = CHR 0x22 then
                     (case quoted_value s of
                        None \<Rightarrow> None
                      | Some (v, r) \<Rightarrow> if name = key then Some v else tag_lookup r key)
                   else None
               | _ \<Rightarrow> None))"
  by pat_completeness auto
termination
proof (relation "measure (\<lambda>(tag, key). length tag)", goal_cases)
  case 1
  show ?case by simp
next
  case (2 tag key t name rest c x d s v y r)
  have "length rest \<le> length tag"
    using 2(1,3) length_dropWhile_le [of key_char t] length_dropWhile_le [of "\<lambda>c. c = CHR '' ''" tag] by simp
  moreover have "length r < length s" using 2 quoted_value_shorter by blast
  moreover have "length rest = Suc (length x)" "length x = Suc (length s)" using 2 by (metis length_Cons)+
  ultimately show ?case by simp
qed

section \<open>Struct documentation\<close>

record structDoc =
  sd_Filename :: string
  sd_Filepath :: string
  sd_Name :: string
  sd_Parameters :: "(string \<times> bool) list"
  sd_Deviations :: "string list"

definition is_exported :: "string \<Rightarrow> bool" where
  "is_exported s \<longleftrightarrow> s \<noteq> [] \<and> ascii_upper (hd s)"

text \<open>The tag is a raw string in backquotes.\<close>

definition field_param :: "ast_field \<Rightarrow> (string \<times> bool) option" where
  "field_param f =
     (case af_Names f of
        [] \<Rightarrow> None
      | n # _ \<Rightarrow>
          if \<not> is_exported n then None
          else (case af_Tag f of
                  None \<Rightarrow> Some (to_lower n, False)
                | Some v \<Rightarrow>
                    (let tags = trim_set v [CHR 0x60];
                         name = (case tag_lookup tags ''yaml'' of None \<Rightarrow> to_lower n | Some y \<Rightarrow> y)
                     in Some (name, tag_lookup tags ''sophons'' = Some ''implemented''))))"

definition struct_params :: "ast_field list \<Rightarrow> (string \<times> bool) list" where
  "struct_params fs =
     fold (\<lambda>f params. case field_param f of None \<Rightarrow> params | Some (n, b) \<Rightarrow> AList.update n b params) fs []"

fun first_struct :: "spec list \<Rightarrow> (string \<times> ast_field list) option" where
  "first_struct [] = None"
| "first_struct (TypeSpec n (StructType fs) # specs) = Some (n, fs)"
| "first_struct (spec # specs) = first_struct specs"

text \<open>\<open>json\<close> decodes the annotation to its deviations.\<close>

fun fileNodeToStructDoc :: "(bytes \<Rightarrow> goerr + string list) \<Rightarrow> string \<Rightarrow> decl list \<Rightarrow> goerr + structDoc option" where
  "fileNodeToStructDoc json path [] = Inr None"
| "fileNodeToStructDoc json path (GenDecl TypeTok (Some doc) specs # decls) =
     (case find_meta doc of
        None \<Rightarrow> fileNodeToStructDoc json path decls
      | Some m \<Rightarrow>
          (case json m of
             Inl err \<Rightarrow> Inl (Wrap (''failed to parse meta in '' @ path) err)
           | Inr deviations \<Rightarrow>
               (case first_struct specs of
                  None \<Rightarrow> fileNodeToStructDoc json path decls
                | Some (n, fs) \<Rightarrow>
                    Inr (Some \<lparr> sd_Filename = path_base path, sd_Filepath = path, sd_Name = toSnakeCase n,
                                sd_Parameters = struct_params fs, sd_Deviations = deviations \<rparr>))))"
| "fileNodeToStructDoc json path (decl # decls) = fileNodeToStructDoc json path decls"

text \<open>
  The callback of the walk. \<^verbatim>\<open>return files, filepath.WalkDir(...)\<close> reads \<open>files\<close> after the call, as the compiler orders it; the
  language leaves the order open.
\<close>

definition go_file :: "string \<Rightarrow> bool" where
  "go_file name \<longleftrightarrow> \<not> has_suffix name ''_test.go'' \<and> has_suffix name ''.go''"

definition goFilesInDir :: "'w os \<Rightarrow> string \<Rightarrow> 'w \<Rightarrow> goerr + string list" where
  "goFilesInDir os dir w =
     (case walk_dir os snd
             (\<lambda>path d (files, w). (None, (if \<not> is_dir d \<and> go_file (path_base path) then files @ [path] else files, w)))
             dir ([], w) of
        (Some err, _) \<Rightarrow> Inl err
      | (None, files, _) \<Rightarrow> Inr files)"

definition extractStructDocs ::
  "'w os \<Rightarrow> (string \<Rightarrow> 'w \<Rightarrow> goerr + decl list) \<Rightarrow> (bytes \<Rightarrow> goerr + string list) \<Rightarrow> string \<Rightarrow> 'w \<Rightarrow> goerr + structDoc list" where
  "extractStructDocs os parse json dir w =
     (case goFilesInDir os dir w of
        Inl err \<Rightarrow> Inl err
      | Inr files \<Rightarrow>
          fold_err (\<lambda>structs file'.
              case parse file' w of
                Inl err \<Rightarrow> Inl err
              | Inr decls \<Rightarrow>
                  (case fileNodeToStructDoc json file' decls of
                     Inl err \<Rightarrow> Inl err
                   | Inr None \<Rightarrow> Inr structs
                   | Inr (Some sdoc) \<Rightarrow> Inr (structs @ [sdoc])))
            [] files)"

section \<open>Pages\<close>

definition nl :: string where "nl = [CHR 0x0A]"
definition check_mark :: string where "check_mark = '':white_check_mark:''"
definition cross_mark :: string where "cross_mark = '':x:''"

definition parametersEmoji :: "structDoc \<Rightarrow> string" where
  "parametersEmoji su = fold (\<lambda>(n, v) pemoji. if \<not> v then cross_mark else pemoji) (sd_Parameters su) check_mark"

definition deviationsEmoji :: "structDoc \<Rightarrow> string" where
  "deviationsEmoji su = (if 0 < length (sd_Deviations su) then cross_mark else check_mark)"

text \<open>The template ranges over the parameters in the order of their names.\<close>

definition page :: "structDoc \<Rightarrow> string" where
  "page su =
     ''# ansible.builtin.'' @ sd_Name su @ nl @ nl @ ''## Implementation'' @ nl @ nl @
     ''| Source | Parameters | Deviations |'' @ nl @ ''|--------|------------|------------|'' @ nl @
     ''| ['' @ sd_Filename su @ ''](../../'' @ sd_Filepath su @ '') | '' @ parametersEmoji su @ '' | '' @ deviationsEmoji su @ '' |'' @
     nl @ nl @ ''## Parameters'' @ nl @ nl @ ''| Name | Implemented |'' @ nl @ ''|------|-------------|'' @ nl @
     concat (List.map (\<lambda>(n, b). ''| '' @ n @ '' | '' @ (if b then '' '' @ check_mark @ '' '' else '' '' @ cross_mark @ '' '') @ '' |'' @ nl)
       (sort_key fst (sd_Parameters su))) @
     nl @ ''## Deviations'' @ nl @ nl @
     (if length (sd_Deviations su) = 0 then ''None.''
      else concat (List.map (\<lambda>d. ''* '' @ d @ nl) (sd_Deviations su))) @ nl"

fun write_pages :: "'w os \<Rightarrow> string \<Rightarrow> structDoc list \<Rightarrow> 'w \<Rightarrow> goerr option \<times> 'w" where
  "write_pages os outDir [] w = (None, w)"
| "write_pages os outDir (su # s) w =
     (case os_create os (path_join [outDir, sd_Name su @ ''.md'']) w of
        (Inl n, w1) \<Rightarrow> (Some (OsErr n), w1)
      | (Inr f, w1) \<Rightarrow>
          (case os_write os f (page su) w1 of
             (Some n, w2) \<Rightarrow> (Some (OsErr n), w2)
           | (None, w2) \<Rightarrow> write_pages os outDir s w2))"

definition docgen_main ::
  "'w os \<Rightarrow> (string \<Rightarrow> 'w \<Rightarrow> goerr + decl list) \<Rightarrow> (bytes \<Rightarrow> goerr + string list) \<Rightarrow> string list \<Rightarrow> 'w \<Rightarrow> goerr option \<times> 'w" where
  "docgen_main os parse json args w =
     (case args of
        inDir # outDir # _ \<Rightarrow>
          (case extractStructDocs os parse json inDir w of
             Inl err \<Rightarrow> (Some err, w)
           | Inr s \<Rightarrow> write_pages os outDir s w)
      | _ \<Rightarrow> (Some (Panic ''index out of range''), w))"

end
