(* ===== verification/DocgenProps.thy ===== *)
theory DocgenProps
  imports Docgen ModulesProps
begin

text \<open>
  Names of pages and of modules, what a page says of the parameters of a struct, and what it says of the structs of
  \<^verbatim>\<open>pkg/exec\<close>, which embed the message that has the parameters.
\<close>

section \<open>Names\<close>

text \<open>The annotated structs of \<^verbatim>\<open>pkg/exec\<close>.\<close>

fun struct_name :: "module_kind \<Rightarrow> string" where
  "struct_name ModApt = ''Apt''" | "struct_name ModAptRepository = ''AptRepository''"
| "struct_name ModCommand = ''Command''" | "struct_name ModCopy = ''Copy''" | "struct_name ModFile = ''File''"
| "struct_name ModGetURL = ''GetURL''" | "struct_name ModImportTasks = ''ImportTasks''"
| "struct_name ModIncludeTasks = ''IncludeTasks''" | "struct_name ModShell = ''Shell''"
| "struct_name ModTemplate = ''Template''"

lemma snake_names: "toSnakeCase (struct_name k) = ansible_name k"
  by (cases k; simp only: struct_name.simps ansible_name.simps; code_simp)

text \<open>
  The pages have the names of the modules: for every module the name made from its struct is the one it is registered under,
  so the title of the page, with the prefix of the collection, is a name a playbook can use for exactly that module.
\<close>

theorem pages_named_as_modules:
  "toSnakeCase (struct_name k) = ansible_name k \<and>
   NameRegistry registered (toSnakeCase (struct_name k)) = Some (registration k) \<and>
   NameRegistry registered (''ansible.builtin.'' @ toSnakeCase (struct_name k)) = Some (registration k)"
proof -
  have "names_module (ansible_name k) k" "names_module (''ansible.builtin.'' @ ansible_name k) k"
    by (simp_all add: names_module_def)
  then show ?thesis using registered_name unfolding snake_names by blast
qed

lemma lower_not_upper: "\<not> ascii_upper (lower_char c)"
proof -
  have "of_char (char_of (of_char c + 32 :: nat)) = (of_char c + 32 :: nat)" if "of_char c \<le> (90::nat)"
    using that by (simp add: of_char_of)
  then show ?thesis by (auto simp: ascii_upper_def lower_char_def Let_def)
qed

lemma lower_id: "\<not> ascii_upper c \<Longrightarrow> lower_char c = c"
  by (auto simp: ascii_upper_def lower_char_def Let_def)

lemma snake_no_upper:
  assumes "\<forall>c\<in>set s. \<not> ascii_upper c"
  shows "snake_words s = s" "snake_acronyms s = s" "to_lower s = s"
proof -
  show "snake_words s = s" using assms by (induction s rule: snake_words.induct) auto
  show "snake_acronyms s = s" using assms by (induction s rule: snake_acronyms.induct) auto
  show "to_lower s = s" using assms by (simp add: to_lower_def map_idI lower_id)
qed

text \<open>A name in snake case has no capital and is left alone by a second pass.\<close>

lemma snake_case_settles:
  "\<forall>c\<in>set (toSnakeCase s). \<not> ascii_upper c" "toSnakeCase (toSnakeCase s) = toSnakeCase s"
proof -
  show no: "\<forall>c\<in>set (toSnakeCase s). \<not> ascii_upper c" by (simp add: toSnakeCase_def to_lower_def lower_not_upper)
  show "toSnakeCase (toSnakeCase s) = toSnakeCase s"
    using snake_no_upper [OF no] by (simp add: toSnakeCase_def [of "toSnakeCase s"])
qed

section \<open>Parameters\<close>

lemma parametersEmoji_iff: "parametersEmoji su = (if \<forall>(n, v)\<in>set (sd_Parameters su). v then check_mark else cross_mark)"
proof -
  have "fold (\<lambda>(n, v) pemoji. if \<not> v then cross_mark else pemoji) ps e = (if \<forall>(n, v)\<in>set ps. v then e else cross_mark)"
    for ps :: "(string \<times> bool) list" and e
    by (induction ps arbitrary: e) auto
  then show ?thesis by (simp add: parametersEmoji_def)
qed

lemma struct_params_none: "\<forall>f\<in>set fs. field_param f = None \<Longrightarrow> struct_params fs = []"
proof -
  assume none: "\<forall>f\<in>set fs. field_param f = None"
  have "fold (\<lambda>f params. case field_param f of None \<Rightarrow> params | Some (n, b) \<Rightarrow> AList.update n b params) fs acc = acc" for acc
    using none by (induction fs) simp_all
  then show ?thesis by (simp add: struct_params_def)
qed

text \<open>A field that is embedded or not exported is not a parameter.\<close>

definition hidden_field :: "ast_field \<Rightarrow> bool" where
  "hidden_field f \<longleftrightarrow> (case af_Names f of [] \<Rightarrow> True | n # _ \<Rightarrow> \<not> is_exported n)"

text \<open>
  The page of a struct that only embeds its message says nothing of its parameters, and says that they are all there: a
  struct all of whose fields are embedded or unexported, as all those of \<^verbatim>\<open>pkg/exec\<close> are, has a page without parameters and
  with the mark for a complete implementation.
\<close>

theorem embedded_parameters_lost:
  assumes "find_meta doc = Some m" and "json m = Inr deviations" and "first_struct specs = Some (n, fs)"
    and "list_all hidden_field fs"
  shows "\<exists>su. fileNodeToStructDoc json path (GenDecl TypeTok (Some doc) specs # decls) = Inr (Some su) \<and>
    sd_Parameters su = [] \<and> parametersEmoji su = '':white_check_mark:''"
proof -
  have "field_param f = None" if "hidden_field f" for f
    using that by (auto simp: hidden_field_def field_param_def split: list.splits)
  with assms(4) have "struct_params fs = []" by (intro struct_params_none) (auto simp: list_all_iff)
  with assms(1-3) show ?thesis by (simp add: parametersEmoji_iff check_mark_def)
qed

text \<open>The declaration of \<^verbatim>\<open>pkg/exec/apt.go\<close>, with its three fields.\<close>

definition apt_doc :: string where
  "apt_doc = ''@meta{ \"deviations\": [] }''"

definition apt_struct :: "ast_field list" where
  "apt_struct =
     [\<lparr> af_Names = [], af_Tag = Some ''`yaml:\",inline\"`'' \<rparr>,
      \<lparr> af_Names = [''apt''], af_Tag = None \<rparr>, \<lparr> af_Names = [''aptFS''], af_Tag = None \<rparr>]"

theorem embedded_parameters_lost_witness:
  "\<exists>su. fileNodeToStructDoc (\<lambda>m. Inr []) ''pkg/exec/apt.go''
       [GenDecl TypeTok (Some apt_doc) [TypeSpec ''Apt'' (StructType apt_struct)]] = Inr (Some su) \<and>
     sd_Parameters su = [] \<and> parametersEmoji su = '':white_check_mark:''"
proof -
  have meta: "find_meta apt_doc = Some ''{ \"deviations\": [] }''" by code_simp
  have hidden: "list_all hidden_field apt_struct" by code_simp
  have first: "first_struct [TypeSpec ''Apt'' (StructType apt_struct)] = Some (''Apt'', apt_struct)" by simp
  show ?thesis by (rule embedded_parameters_lost [OF meta _ first hidden]) simp
qed

section \<open>Words of a name\<close>

text \<open>A capitalised word has at least a small letter after its capital; an acronym is all capitals.\<close>

definition capitalised :: "string \<Rightarrow> bool" where
  "capitalised w \<longleftrightarrow> (\<exists>u l r. w = u # l # r \<and> ascii_upper u \<and> ascii_lower l \<and> (\<forall>c\<in>set r. ascii_lower c \<or> ascii_digit c))"

definition acronym :: "string \<Rightarrow> bool" where
  "acronym w \<longleftrightarrow> w \<noteq> [] \<and> (\<forall>c\<in>set w. ascii_upper c)"

text \<open>Two acronyms in a row could not be told apart.\<close>

fun camel_words :: "string list \<Rightarrow> bool" where
  "camel_words [] \<longleftrightarrow> True"
| "camel_words [w] \<longleftrightarrow> capitalised w \<or> acronym w"
| "camel_words (w # v # ws) \<longleftrightarrow> (capitalised w \<or> acronym w \<and> capitalised v) \<and> camel_words (v # ws)"

lemma classes: "ascii_lower c \<Longrightarrow> \<not> ascii_upper c" "ascii_digit c \<Longrightarrow> \<not> ascii_upper c"
  by (auto simp: ascii_lower_def ascii_upper_def ascii_digit_def Let_def)

lemma capitalisedE:
  assumes "capitalised w"
  obtains u l r where "w = u # l # r" "ascii_upper u" "ascii_lower l" "\<not> ascii_upper l" "\<forall>c\<in>set r. \<not> ascii_upper c"
proof -
  from assms obtain u l r where "w = u # l # r" "ascii_upper u" "ascii_lower l" "\<forall>c\<in>set r. ascii_lower c \<or> ascii_digit c"
    by (auto simp: capitalised_def)
  then show thesis using that [of u l r] classes by blast
qed

lemma underscore [simp]: "\<not> ascii_upper CHR ''_''"
  by (simp add: ascii_upper_def Let_def)

lemma words_upper: "ascii_upper u \<Longrightarrow> snake_words (u # s) = u # snake_words s"
  by (cases s) (auto dest: classes)

lemma words_uppers: "\<forall>c\<in>set w. ascii_upper c \<Longrightarrow> snake_words (w @ s) = w @ snake_words s"
  by (induction w) (simp_all add: words_upper)

lemma words_lowers:
  assumes "\<forall>c\<in>set r. ascii_lower c \<or> ascii_digit c" "r \<noteq> []" "s \<noteq> [] \<Longrightarrow> ascii_upper (hd s)"
  shows "snake_words (r @ s) = r @ (if s = [] then [] else CHR ''_'' # snake_words s)"
  using assms
proof (induction r)
  case Nil
  then show ?case by simp
next
  case (Cons a r)
  show ?case
  proof (cases "r = []")
    case True
    with Cons.prems show ?thesis by (cases s) (auto simp: words_upper)
  next
    case False
    then obtain b r' where r: "r = b # r'" by (cases r) auto
    with Cons.prems have "\<not> ascii_upper b" by (auto dest: classes)
    with Cons r show ?thesis by simp
  qed
qed

lemma words_capitalised:
  assumes "capitalised w" "s \<noteq> [] \<Longrightarrow> ascii_upper (hd s)"
  shows "snake_words (w @ s) = w @ (if s = [] then [] else CHR ''_'' # snake_words s)"
proof -
  obtain u l r where w: "w = u # l # r" "ascii_upper u" "\<forall>c\<in>set (l # r). ascii_lower c \<or> ascii_digit c"
    using assms(1) by (auto simp: capitalised_def)
  from words_lowers [OF w(3) _ assms(2)] show ?thesis by (simp add: w(1) words_upper [OF w(2)] del: snake_words.simps)
qed

lemma acronyms_other: "\<not> ascii_upper a \<Longrightarrow> snake_acronyms (a # s) = a # snake_acronyms s"
  by (cases s rule: snake_acronyms.cases) auto

lemma acronyms_others: "\<forall>c\<in>set w. \<not> ascii_upper c \<Longrightarrow> snake_acronyms (w @ s) = w @ snake_acronyms s"
  by (induction w) (simp_all add: acronyms_other)

lemma acronyms_capitalised: "capitalised w \<Longrightarrow> snake_acronyms (w @ s) = w @ snake_acronyms s"
proof -
  assume "capitalised w"
  then obtain u l r where w: "w = u # l # r" "\<not> ascii_upper l" "\<forall>c\<in>set r. \<not> ascii_upper c"
    by (rule capitalisedE)
  then have "snake_acronyms (u # l # r @ s) = u # snake_acronyms (l # r @ s)" by (cases "r @ s") auto
  with w acronyms_others [of "l # r" s] show ?thesis by simp
qed

text \<open>An acronym loses its last capital to no word: the underscore goes before the capital of the next word.\<close>

lemma acronyms_acronym:
  assumes "acronym w" "capitalised v"
  shows "snake_acronyms (w @ v @ s) = w @ CHR ''_'' # v @ snake_acronyms s"
proof -
  obtain u l r where v: "v = u # l # r" "ascii_upper u" "ascii_lower l" "\<not> ascii_upper l" "\<forall>c\<in>set r. \<not> ascii_upper c"
    using assms(2) by (rule capitalisedE)
  have "\<forall>c\<in>set w. ascii_upper c" "w \<noteq> []" using assms(1) by (auto simp: acronym_def)
  then show ?thesis
  proof (induction w)
    case Nil
    then show ?case by simp
  next
    case (Cons a w)
    show ?case
    proof (cases w)
      case Nil
      with Cons.prems v show ?thesis using acronyms_others [of r s] by simp
    next
      case (Cons b w')
      then have "snake_acronyms (a # b # w' @ v @ s) = a # snake_acronyms (b # w' @ v @ s)"
        using Cons.prems v by (cases w') (auto dest: classes)
      with Cons.IH Cons.prems Cons show ?thesis by simp
    qed
  qed
qed

lemma acronyms_only: "\<forall>c\<in>set w. ascii_upper c \<Longrightarrow> snake_acronyms w = w"
  by (induction w rule: snake_acronyms.induct) (auto dest: classes)

text \<open>After the first pass an underscore follows every capitalised word, after the second every word.\<close>

fun first_pass :: "string list \<Rightarrow> string" where
  "first_pass [] = []"
| "first_pass [w] = w"
| "first_pass (w # v # ws) = w @ (if capitalised w then ''_'' else []) @ first_pass (v # ws)"

lemma camel_head: "camel_words (w # ws) \<Longrightarrow> concat (w # ws) \<noteq> [] \<and> ascii_upper (hd (concat (w # ws)))"
  by (cases ws) (auto simp: capitalised_def acronym_def)

lemma not_both: "acronym w \<Longrightarrow> \<not> capitalised w"
  by (auto simp: acronym_def capitalised_def dest: classes)

lemma first_pass_words: "camel_words ws \<Longrightarrow> snake_words (concat ws) = first_pass ws"
proof (induction ws rule: camel_words.induct)
  case 1
  then show ?case by simp
next
  case (2 w)
  then show ?case using words_capitalised [of w "[]"] words_uppers [of w "[]"] by (auto simp: acronym_def)
next
  case (3 w v ws)
  have h: "concat (v # ws) \<noteq> []" "ascii_upper (hd (concat (v # ws)))" using 3 camel_head [of v ws] by simp_all
  show ?case
  proof (cases "capitalised w")
    case True
    from words_capitalised [OF True, of "concat (v # ws)"] h 3 True show ?thesis by simp
  next
    case False
    with 3 have "\<forall>c\<in>set w. ascii_upper c" by (auto simp: acronym_def)
    from words_uppers [OF this, of "concat (v # ws)"] 3 False show ?thesis by simp
  qed
qed

lemma join_Cons: "join_with sep (w # v # ws) = w @ sep @ join_with sep (v # ws)"
  by simp

lemma second_pass_words: "camel_words ws \<Longrightarrow> snake_acronyms (first_pass ws) = join_with ''_'' ws"
proof (induction ws rule: camel_words.induct)
  case 1
  then show ?case by simp
next
  case (2 w)
  then show ?case using acronyms_capitalised [of w "[]"] acronyms_only [of w] by (auto simp: acronym_def)
next
  case (3 w v ws)
  show ?case
  proof (cases "capitalised w")
    case True
    with 3 acronyms_capitalised [OF True, of "''_'' @ first_pass (v # ws)"] show ?thesis
      by (simp add: acronyms_other)
  next
    case False
    with 3 have wv: "acronym w" "capitalised v" by auto
    have "\<exists>s. first_pass (v # ws) = v @ s" by (cases ws) auto
    then obtain s where s: "first_pass (v # ws) = v @ s" by blast
    with 3 acronyms_capitalised [OF wv(2), of s] have "v @ snake_acronyms s = join_with ''_'' (v # ws)" by simp
    with acronyms_acronym [OF wv, of s] s False show ?thesis by simp
  qed
qed

lemma lower_join: "to_lower (join_with ''_'' ws) = join_with ''_'' (map to_lower ws)"
proof -
  have "lower_char CHR ''_'' = CHR ''_''" by (simp add: lower_id)
  then show ?thesis by (induction ws rule: induct_list012) (simp_all add: to_lower_def)
qed

text \<open>
  C40. The name of a page is made of the words of the struct's name. If the name is put together from words, each capitalised or an
  acronym, with no acronym before another, then the two passes of regular expressions find exactly the places
  between the words: the result is the words in small letters with underscores between them.
\<close>

theorem snake_case_of_words:
  assumes "camel_words ws"
  shows "toSnakeCase (concat ws) = join_with ''_'' (map to_lower ws)"
  by (simp add: toSnakeCase_def first_pass_words [OF assms] second_pass_words [OF assms] lower_join)

theorem snake_case_of_words_witness:
  "toSnakeCase ''GetURL'' = ''get_url'' \<and> toSnakeCase ''HTTPServer2Config'' = ''http_server2_config''"
proof -
  have w: "camel_words [''Get'', ''URL'']" "camel_words [''HTTP'', ''Server2'', ''Config'']"
    by (auto simp: capitalised_def acronym_def ascii_upper_def ascii_lower_def ascii_digit_def Let_def)
  have l: "to_lower ''Get'' = ''get''" "to_lower ''URL'' = ''url''" "to_lower ''HTTP'' = ''http''" "to_lower ''Server2'' = ''server2''"
    "to_lower ''Config'' = ''config''" by code_simp+
  show ?thesis using snake_case_of_words [OF w(1)] snake_case_of_words [OF w(2)] by (simp add: l)
qed

end
