(* ===== verification/Spec2Isabelle.thy ===== *)
theory Spec2Isabelle
  imports FileEnds FileConverge FileRecurse CommandProps AptProps TransferProps EngineProps RoleProps ExecuterProps
    NestedProps DeepCopy Deploy ConformanceProps DocgenProps
begin

text \<open>
  \<^bold>\<open>sophons\<close> runs Ansible playbooks without Ansible: the \<^verbatim>\<open>dialer\<close> copies a static binary, the \<^verbatim>\<open>executer\<close>, to
  every host of an inventory over SSH, together with the inventory and an archive of the playbook's directory, and
  the executer applies the plays that address its host. This development models the Go code of both, of the modules they
  run, and of the tools beside them.

  \<^bold>\<open>How the parts interact.\<close> \<open>dialer_main\<close> (\<^verbatim>\<open>cmd/dialer\<close>) calls \<open>Execute\<close> (\<^verbatim>\<open>pkg/dialer\<close>) for one host after the other;
  its last step is a command line, which \<open>parse_flags\<close> turns into the flags of \<open>executer_main\<close> (\<^verbatim>\<open>cmd/executer\<close>).
  That unpacks the archive (\<open>Untar\<close>), finds the groups and the variables of its node (\<open>Inventory\<close>), discovers the roles
  (\<open>Role\<close>) and applies plays: roles first, then tasks. Both go through \<open>ExecuteTask\<close> (\<open>Engine\<close>), which renders a task
  (\<open>Jinja\<close>), asks its condition, loops, registers results, and calls the module behind the interface \<open>TaskContent\<close>. Which
  modules there are is a matter of the registries (\<open>Registry\<close>), filled by the \<^verbatim>\<open>init\<close> functions and read when a task file is
  decoded. Modules work on the machine through the record \<open>os\<close> and records for the package manager, processes and HTTP.

  \<^bold>\<open>Theories and sources.\<close>
  \<^item> \<open>Prelude\<close>, \<open>GoStrings\<close>, \<open>GoPath\<close>, \<open>PathFacts\<close>: errors as values, and the parts of \<^verbatim>\<open>strings\<close>, \<^verbatim>\<open>strconv\<close> and
    \<^verbatim>\<open>path/filepath\<close> that the code uses, with their laws.
  \<^item> \<open>Os\<close>: the operating system as a record of operations on a world, \<^verbatim>\<open>filepath.WalkDir\<close>, and the locale \<open>posix_os\<close>
    of the laws the modules rely on. \<open>Contents\<close> extends it to \<open>posix_files\<close> by the laws of file contents.
    \<open>MemFs\<close>: an executable file system (inodes, links, permissions, a umask) that interprets both. \<open>Trees\<close>: a file system
    seen as a tree, with the locale \<open>tree_os\<close> of what the operations do to it, interpreted on \<open>MemFs\<close> as well.
  \<^item> \<open>ModeUtil\<close>: \<^verbatim>\<open>pkg/exec/util/mode.go\<close>, \<^verbatim>\<open>util.go\<close>, \<^verbatim>\<open>pkg/proto/mode_yaml.go\<close>. \<open>Result\<close>: \<^verbatim>\<open>CommonResult\<close> of \<^verbatim>\<open>pkg/exec/task.go\<close>.
  \<^item> \<open>FileModule\<close> with \<open>FileProps\<close>, \<open>FileConverge\<close>, \<open>FileRecurse\<close>, \<open>FileEnds\<close>: \<^verbatim>\<open>pkg/exec/file.go\<close>. \<open>FileTransfer\<close> with
    \<open>TransferProps\<close>: \<^verbatim>\<open>copy.go\<close>, \<^verbatim>\<open>template.go\<close>, \<^verbatim>\<open>get_url.go\<close>. \<open>CommandModule\<close>, \<open>CommandProps\<close>: \<^verbatim>\<open>command.go\<close>, \<^verbatim>\<open>shell.go\<close>,
    \<^verbatim>\<open>command_executor.go\<close>. \<open>AptModule\<close>, \<open>AptProps\<close>: \<^verbatim>\<open>apt.go\<close>, \<^verbatim>\<open>apt_repository.go\<close>, \<^verbatim>\<open>apt_client.go\<close> and their YAML.
  \<^item> \<open>Inventory\<close>: \<^verbatim>\<open>pkg/inventory\<close>, \<^verbatim>\<open>pkg/variables\<close>. \<open>Jinja\<close>: \<^verbatim>\<open>pkg/exec/util/jinja.go\<close>. \<open>Engine\<close>, \<open>EngineProps\<close>: \<^verbatim>\<open>task.go\<close>;
    \<open>DeepCopy\<close>: its copies for loops, with pointers into a store. \<open>Role\<close>, \<open>RoleProps\<close>: \<^verbatim>\<open>pkg/role\<close>. \<open>Archive\<close>, \<open>ArchiveProps\<close>:
    \<^verbatim>\<open>pkg/util/tar.go\<close>, \<^verbatim>\<open>cmd/tardiff\<close>. \<open>Executer\<close>, \<open>ExecuterProps\<close>: \<^verbatim>\<open>cmd/executer\<close>, \<^verbatim>\<open>pkg/playbook\<close>.
  \<^item> \<open>Messages\<close>: the message structs of \<^verbatim>\<open>pkg/proto\<close> as lists of fields, which is how the reflective rendering sees them;
    \<open>Shapes\<close>: rendering keeps the type of every field. \<open>Registry\<close>: \<^verbatim>\<open>pkg/registry\<close>, the \<^verbatim>\<open>init\<close> functions, \<^verbatim>\<open>task_yaml.go\<close>,
    \<^verbatim>\<open>file_yaml.go\<close>. \<open>Modules\<close>: every module behind \<open>TaskContent\<close>, with \<^verbatim>\<open>import_tasks.go\<close> and \<^verbatim>\<open>include_tasks.go\<close>;
    \<open>ModulesProps\<close>, \<open>NestedTasks\<close>, \<open>NestedProps\<close>: their properties.
  \<^item> \<open>Dialer\<close>, \<open>DialerProps\<close>: \<^verbatim>\<open>pkg/dialer\<close>, \<^verbatim>\<open>cmd/dialer\<close>. \<open>Deploy\<close>: the dialer and the executer together.
    \<open>Conformance\<close>, \<open>ConformanceProps\<close>: \<^verbatim>\<open>cmd/conformance\<close>, whose
    goroutines are the step relation \<open>pool_step\<close>. \<open>Docgen\<close>, \<open>DocgenProps\<close>: \<^verbatim>\<open>cmd/docgen\<close>.
\<close>

text \<open>
  \<^bold>\<open>How the code is read.\<close> A Go struct is a record with the same fields under a short prefix, a function that
  returns a value and an error a function into \<open>goerr + 'a\<close>; one that changes the machine takes and returns the world. A
  panic is the error \<open>Panic\<close>, ending the process (\<^verbatim>\<open>log.Fatal\<close>) a value of \<open>exit_status\<close>. A map the code ranges over is
  a list in one order of iteration, and the properties hold for any. Ids and modes are 32-bit words; the pool of goroutines
  is an inductive relation whose steps any scheduler may take. Libraries (the template engine, YAML, the package manager,
  SSH, HTTP, \<^verbatim>\<open>net/url\<close>, the encodings of archives) are records of functions, and what the proofs need of them are named
  hypotheses or the assumptions of a locale, discharged on \<open>MemFs\<close> or on small concrete instances in the witnesses.

  \<^bold>\<open>What is shown.\<close> That \<open>file\<close> brings about what it is asked for, below a directory too; idempotence of the modules and honest reports of change
  (\<open>file\<close>, \<open>template\<close>, \<open>command\<close>), what \<open>apt\<close> installs, what each module writes and when it fails or panics; where the variables of a role come from; the meaning of symbolic modes and the round trip of octal ones; the order and the
  precedence of variables, the groups of a node, which plays run and where a run stops; loops as sequences of
  iterations; that decoding and rendering keep the type of a task; that task files end when they do not go in
  circles; that an archive carries a directory over as it was, that the dialer starts the executer on the files it has put in place,
  that the executer then reads the very playbook, and that nothing is left on the host; that the containers of the tests are
  removed; that iterations do not share contents; that the pool of tests ends with every test run once; and a number of places where the code does not do what it is meant to.

  \<^bold>\<open>Bounds.\<close> A walk of a directory has the fuel \<open>walk_fuel = path_max + 2\<close>: every level adds a byte to a path, longer
  paths are refused by the kernel (a law of \<open>posix_os\<close>), so it is never used up. The nesting of task files is bounded by
  the levels of \<open>module_ops\<close>; the relation \<open>nested\<close> describes it without a bound, both agree on every run that ends, and
  a run that ends has the same result for all levels from some number on. A file that names itself uses up every number
  of levels. Using up fuel or levels is the error \<open>Diverge\<close>, which no terminating run has.

  \<^bold>\<open>Not modelled.\<close> The logger and what is only printed (\<^verbatim>\<open>Task.String\<close>, the output of \<^verbatim>\<open>apt\<close>); the rounding of floating
  point numbers (the age of the package cache, integers of a loop above \<open>2\<^sup>5\<^sup>3\<close>); errors of closing a file; the extended
  attributes and times of archived files, and a file that shrinks while it is archived; a second writer on the same machine;
  what an error of \<^verbatim>\<open>Tar\<close> leaves in its temporary file; generated message code and the blank imports of
  \<^verbatim>\<open>tools\<close>; flag parsing of the dialer and of the conformance tests.
\<close>

end
